(* ===== verification/Prelude.thy ===== *)
theory Prelude
  imports Main "HOL-Library.Word" "HOL-Library.Char_ord"
begin

text \<open>
  Shared vocabulary of the development: Go's scalar types as they are used by the backend,
  the outcome of a Go call, the fault oracle of the database calls, and the generic facts on
  maps and lists that the component theories rest on.

  \<^item> \<open>go_time\<close> and \<open>duration\<close> count nanoseconds, as \<open>time.Duration\<close> does; a reading of the
    clock is an argument of the operation that reads it.
  \<^item> A Go \<open>map[string]V\<close> is a partial function; ranging over it with a conditional \<open>delete\<close>
    is \<open>delete_where\<close>.
  \<^item> \<open>'a outcome\<close> separates a normal return from a run-time panic.
\<close>

named_theorems inv_intros "one preservation lemma per operation of a component"
named_theorems lookup_simps "what a lookup returns after an update"
named_theorems frame_simps "what an operation leaves unchanged"

type_synonym go_time = int
type_synonym duration = int

abbreviation second :: duration where "second \<equiv> 1000000000"
abbreviation minute :: duration where "minute \<equiv> 60000000000"
abbreviation hour :: duration where "hour \<equiv> 3600000000000"

datatype 'a outcome = Ret 'a | Panic

subsection \<open>Go maps\<close>

definition delete_where :: "('v \<Rightarrow> bool) \<Rightarrow> ('k \<rightharpoonup> 'v) \<Rightarrow> ('k \<rightharpoonup> 'v)" where
  "delete_where P m = (\<lambda>k. case m k of None \<Rightarrow> None | Some v \<Rightarrow> if P v then None else Some v)"

lemma delete_where_None [simp]: "m k = None \<Longrightarrow> delete_where P m k = None"
  by (simp add: delete_where_def)

lemma delete_where_Some [simp]:
  "m k = Some v \<Longrightarrow> delete_where P m k = (if P v then None else Some v)"
  by (simp add: delete_where_def)

lemma delete_where_SomeD: "delete_where P m k = Some v \<Longrightarrow> m k = Some v \<and> \<not> P v"
  by (auto simp: delete_where_def split: option.splits if_splits)

lemma delete_where_eq_Some_iff: "delete_where P m k = Some v \<longleftrightarrow> m k = Some v \<and> \<not> P v"
  by (auto simp: delete_where_def split: option.splits)

lemma dom_delete_where: "dom (delete_where P m) \<subseteq> dom m"
  by (auto simp: delete_where_eq_Some_iff)

lemma delete_where_absent [simp]: "m k = None \<Longrightarrow> delete_where P (m(k \<mapsto> v)) =
    (if P v then delete_where P m else (delete_where P m)(k \<mapsto> v))"
  by (rule ext) (simp add: delete_where_def)

text \<open>Deleting a list of keys, as Redis \<open>DEL\<close> does.\<close>

definition remove_keys :: "'k list \<Rightarrow> ('k \<rightharpoonup> 'v) \<Rightarrow> ('k \<rightharpoonup> 'v)" where
  "remove_keys ks m = (\<lambda>k. if k \<in> set ks then None else m k)"

lemma remove_keys_apply [simp]: "remove_keys ks m k = (if k \<in> set ks then None else m k)"
  by (simp add: remove_keys_def)

subsection \<open>Lists\<close>

text \<open>The time stamps of a run never go back: Go's monotonic clock.\<close>

fun clock_sorted :: "go_time \<Rightarrow> go_time list \<Rightarrow> bool" where
  "clock_sorted t [] = True"
| "clock_sorted t (u # us) = (t \<le> u \<and> clock_sorted u us)"

lemma clock_sorted_mono: "clock_sorted t us \<Longrightarrow> t' \<le> t \<Longrightarrow> clock_sorted t' us"
  by (cases us) auto

lemma clock_sorted_ge: "clock_sorted t us \<Longrightarrow> u \<in> set us \<Longrightarrow> t \<le> u"
  by (induction us arbitrary: t) force+

lemma distinct_map_inj_eq:
  "distinct (map f xs) \<Longrightarrow> x \<in> set xs \<Longrightarrow> y \<in> set xs \<Longrightarrow> f x = f y \<Longrightarrow> x = y"
  by (auto simp: distinct_map inj_on_def)

lemma filter_by_key_length:
  "distinct (map f xs) \<Longrightarrow> length (filter (\<lambda>x. f x = k) xs) \<le> 1"
proof (induction xs)
  case Nil
  then show ?case by simp
next
  case (Cons x xs)
  then show ?case by (auto simp: filter_empty_conv image_iff)
qed

text \<open>\<open>UPDATE ... WHERE id = k\<close> on a table held as a list of rows.\<close>

definition update_rows :: "('r \<Rightarrow> bool) \<Rightarrow> ('r \<Rightarrow> 'r) \<Rightarrow> 'r list \<Rightarrow> 'r list" where
  "update_rows P f rs = map (\<lambda>r. if P r then f r else r) rs"

definition rows_affected :: "('r \<Rightarrow> bool) \<Rightarrow> 'r list \<Rightarrow> nat" where
  "rows_affected P rs = length (filter P rs)"

lemma update_rows_Nil [simp]: "update_rows P f [] = []"
  by (simp add: update_rows_def)

lemma update_rows_Cons [simp]:
  "update_rows P f (r # rs) = (if P r then f r else r) # update_rows P f rs"
  by (simp add: update_rows_def)

lemma length_update_rows [simp]: "length (update_rows P f rs) = length rs"
  by (simp add: update_rows_def)

lemma set_update_rows: "set (update_rows P f rs) = (\<lambda>r. if P r then f r else r) ` set rs"
  by (simp add: update_rows_def)

lemma map_update_rows [simp]:
  "(\<And>r. k (f r) = k r) \<Longrightarrow> map k (update_rows P f rs) = map k rs"
  by (induction rs) auto

lemma update_rows_none: "(\<And>r. r \<in> set rs \<Longrightarrow> \<not> P r) \<Longrightarrow> update_rows P f rs = rs"
  by (induction rs) auto

lemma update_rows_clears:
  "(\<And>r. P r \<Longrightarrow> \<not> P (f r)) \<Longrightarrow> r \<in> set (update_rows P f rs) \<Longrightarrow> \<not> P r"
  by (auto simp: set_update_rows split: if_splits)

lemma update_rows_keeps: "r \<in> set rs \<Longrightarrow> \<not> P r \<Longrightarrow> r \<in> set (update_rows P f rs)"
  by (force simp: set_update_rows)

lemma filter_update_rows_cleared: "(\<And>r. P r \<Longrightarrow> \<not> P (f r)) \<Longrightarrow> filter P (update_rows P f rs) = []"
  by (induction rs) auto

lemma filter_update_rows_other:
  "(\<And>r. r \<in> set rs \<Longrightarrow> P r \<Longrightarrow> \<not> Q r \<and> \<not> Q (f r)) \<Longrightarrow> filter Q (update_rows P f rs) = filter Q rs"
  by (induction rs) auto

lemma find_update_rows_other:
  "(\<And>r. Q (if P r then f r else r) = Q r) \<Longrightarrow> (\<And>r. Q r \<Longrightarrow> \<not> P r) \<Longrightarrow>
   find Q (update_rows P f rs) = find Q rs"
  by (induction rs) (auto split: if_splits)

lemma find_SomeD: "find P xs = Some x \<Longrightarrow> x \<in> set xs \<and> P x"
  by (induction xs) (auto split: if_splits)

lemma find_NoneD: "find P xs = None \<Longrightarrow> x \<in> set xs \<Longrightarrow> \<not> P x"
  by (induction xs) (auto split: if_splits)

lemma find_Some_ex: "x \<in> set xs \<Longrightarrow> P x \<Longrightarrow> \<exists>y. find P xs = Some y"
  by (induction xs) auto

lemma filter_unique_key:
  "distinct (map k xs) \<Longrightarrow> x \<in> set xs \<Longrightarrow> P x \<Longrightarrow> filter (\<lambda>y. k y = k x \<and> P y) xs = [x]"
proof (induction xs)
  case (Cons z xs)
  show ?case
  proof (cases "x = z")
    case True
    with Cons.prems have "filter (\<lambda>y. k y = k x \<and> P y) xs = []"
      unfolding filter_empty_conv by (metis distinct.simps(2) image_eqI list.simps(9) set_map)
    with True Cons.prems(3) show ?thesis by simp
  next
    case False
    with Cons.prems have "k z \<noteq> k x" by auto
    with False Cons show ?thesis by simp
  qed
qed simp

end
