(* ===== verification/GoStrings.thy ===== *)
theory GoStrings
  imports Prelude
begin

text \<open>
  The functions of Go's \<open>strings\<close> and \<open>strconv\<close> packages that the backend calls, on byte strings
  (a HOL \<open>string\<close> is the list of the bytes of a Go string, so \<open>length\<close> is Go's \<open>len\<close>).
  \<open>Split\<close> and \<open>Join\<close> take the one-byte separators the source uses. \<open>TrimSpace\<close> removes every
  Unicode white-space character, each given by its UTF-8 bytes. \<open>ToLower\<close> maps ASCII letters and
  leaves other bytes alone (Go also maps non-ASCII letters; no property depends on that).
\<close>

text \<open>Arithmetic on \<open>int64\<close> (and on \<open>int\<close>, which has 64 bits) wraps around.\<close>

definition int64 :: "int \<Rightarrow> int" where
  "int64 n = (n + 2 ^ 63) mod 2 ^ 64 - 2 ^ 63"

lemma int64_id: "- (2 ^ 63) \<le> n \<Longrightarrow> n < 2 ^ 63 \<Longrightarrow> int64 n = n"
  by (simp add: int64_def)

definition HasPrefix :: "string \<Rightarrow> string \<Rightarrow> bool" where
  "HasPrefix s p \<longleftrightarrow> take (length p) s = p"

definition TrimPrefix :: "string \<Rightarrow> string \<Rightarrow> string" where
  "TrimPrefix s p = (if HasPrefix s p then drop (length p) s else s)"

fun Index :: "string \<Rightarrow> string \<Rightarrow> nat option" where
  "Index [] p = (if p = [] then Some 0 else None)"
| "Index (c # s) p = (if HasPrefix (c # s) p then Some 0 else map_option Suc (Index s p))"

definition Contains :: "string \<Rightarrow> string \<Rightarrow> bool" where
  "Contains s p \<longleftrightarrow> Index s p \<noteq> None"

fun Split :: "char \<Rightarrow> string \<Rightarrow> string list" where
  "Split c [] = [[]]"
| "Split c (x # xs) =
     (if x = c then [] # Split c xs
      else case Split c xs of [] \<Rightarrow> [[x]] | y # ys \<Rightarrow> (x # y) # ys)"

fun Join :: "char \<Rightarrow> string list \<Rightarrow> string" where
  "Join c [] = []"
| "Join c [s] = s"
| "Join c (s # t # ts) = s @ c # Join c (t # ts)"

function delete_all :: "string \<Rightarrow> string \<Rightarrow> string" where
  "delete_all old [] = []"
| "delete_all old (c # s) =
     (if old \<noteq> [] \<and> HasPrefix (c # s) old then delete_all old (drop (length old) (c # s))
      else c # delete_all old s)"
  by pat_completeness auto
termination by (relation "measure (\<lambda>(old, s). length s)") auto

lemma HasPrefix_append [simp]: "HasPrefix (p @ s) p"
  by (simp add: HasPrefix_def)

lemma HasPrefix_iff: "HasPrefix s p \<longleftrightarrow> (\<exists>t. s = p @ t)"
  by (auto simp: HasPrefix_def) (metis append_take_drop_id)

lemma HasPrefix_Nil [simp]: "HasPrefix s []"
  by (simp add: HasPrefix_def)

lemma Index_SomeD: "Index s p = Some i \<Longrightarrow> \<exists>a b. s = a @ p @ b \<and> length a = i"
proof (induction s arbitrary: i)
  case Nil
  then show ?case by (auto split: if_splits)
next
  case (Cons c s)
  show ?case
  proof (cases "HasPrefix (c # s) p")
    case True
    with Cons.prems show ?thesis by (auto simp: HasPrefix_iff)
  next
    case False
    with Cons.prems obtain j where "Index s p = Some j" "i = Suc j" by auto
    with Cons.IH obtain a b where "s = a @ p @ b" "length a = j" by blast
    with \<open>i = Suc j\<close> have "c # s = (c # a) @ p @ b \<and> length (c # a) = i" by simp
    then show ?thesis by blast
  qed
qed

lemma Index_append: "Index (a @ p @ b) p \<noteq> None"
proof (induction a)
  case Nil
  have "HasPrefix (p @ b) p" by simp
  then show ?case by (cases "p @ b") auto
next
  case (Cons c a)
  then show ?case by auto
qed

lemma Contains_iff: "Contains s p \<longleftrightarrow> (\<exists>a b. s = a @ p @ b)"
  unfolding Contains_def using Index_SomeD Index_append by blast

lemma Split_neq_Nil [simp]: "Split c s \<noteq> []"
  by (induction s) (auto split: list.splits)

lemma Join_Cons: "xs \<noteq> [] \<Longrightarrow> Join c (s # xs) = s @ c # Join c xs"
  by (cases xs) auto

lemma Join_Split [simp]: "Join c (Split c s) = s"
proof (induction s)
  case Nil
  then show ?case by simp
next
  case (Cons x xs)
  show ?case
  proof (cases "x = c")
    case True
    with Cons show ?thesis by (simp add: Join_Cons)
  next
    case False
    obtain y ys where "Split c xs = y # ys" by (cases "Split c xs") auto
    with Cons False show ?thesis by (cases ys) auto
  qed
qed

lemma Split_no_sep: "c \<notin> set s \<Longrightarrow> Split c s = [s]"
  by (induction s) auto

lemma Split_append_sep: "c \<notin> set s \<Longrightarrow> Split c (s @ c # t) = s # Split c t"
  by (induction s) auto

lemma Split_parts_no_sep: "p \<in> set (Split c s) \<Longrightarrow> c \<notin> set p"
proof (induction s arbitrary: p)
  case Nil
  then show ?case by simp
next
  case (Cons x xs)
  obtain y ys where S: "Split c xs = y # ys" by (cases "Split c xs") auto
  with Cons.IH have "\<And>q. q \<in> set (y # ys) \<Longrightarrow> c \<notin> set q" by simp
  with Cons.prems S show ?case by (auto split: if_splits)
qed

lemma Split_Join:
  "xs \<noteq> [] \<Longrightarrow> \<forall>x\<in>set xs. c \<notin> set x \<Longrightarrow> Split c (Join c xs) = xs"
proof (induction xs rule: Join.induct)
  case (1 c)
  then show ?case by simp
next
  case (2 c s)
  then show ?case by (simp add: Split_no_sep)
next
  case (3 c s t ts)
  then show ?case by (simp add: Split_append_sep)
qed

lemma Split_two: "c \<notin> set a \<Longrightarrow> c \<notin> set b \<Longrightarrow> Split c (a @ c # b) = [a, b]"
  by (simp add: Split_append_sep Split_no_sep)

subsection \<open>White space\<close>

text \<open>The UTF-8 encodings of the characters \<open>unicode.IsSpace\<close> accepts.\<close>

definition space_runes :: "string list" where
  "space_runes =
     [[CHR 0x09], [CHR 0x0A], [CHR 0x0B], [CHR 0x0C], [CHR 0x0D], [CHR 0x20],
      [CHR 0xC2, CHR 0x85], [CHR 0xC2, CHR 0xA0], [CHR 0xE1, CHR 0x9A, CHR 0x80],
      [CHR 0xE2, CHR 0x80, CHR 0x80], [CHR 0xE2, CHR 0x80, CHR 0x81],
      [CHR 0xE2, CHR 0x80, CHR 0x82], [CHR 0xE2, CHR 0x80, CHR 0x83],
      [CHR 0xE2, CHR 0x80, CHR 0x84], [CHR 0xE2, CHR 0x80, CHR 0x85],
      [CHR 0xE2, CHR 0x80, CHR 0x86], [CHR 0xE2, CHR 0x80, CHR 0x87],
      [CHR 0xE2, CHR 0x80, CHR 0x88], [CHR 0xE2, CHR 0x80, CHR 0x89],
      [CHR 0xE2, CHR 0x80, CHR 0x8A], [CHR 0xE2, CHR 0x80, CHR 0xA8],
      [CHR 0xE2, CHR 0x80, CHR 0xA9], [CHR 0xE2, CHR 0x80, CHR 0xAF],
      [CHR 0xE2, CHR 0x81, CHR 0x9F], [CHR 0xE3, CHR 0x80, CHR 0x80]]"

function strip_left :: "string list \<Rightarrow> string \<Rightarrow> string" where
  "strip_left ws s =
     (case find (\<lambda>w. w \<noteq> [] \<and> HasPrefix s w) ws of
        None \<Rightarrow> s
      | Some w \<Rightarrow> strip_left ws (drop (length w) s))"
  by pat_completeness auto
termination
  by (relation "measure (\<lambda>(ws, s). length s)")
     (auto dest!: find_SomeD simp: HasPrefix_iff)

declare strip_left.simps [simp del]

definition TrimSpace :: "string \<Rightarrow> string" where
  "TrimSpace s = rev (strip_left (map rev space_runes) (rev (strip_left space_runes s)))"

lemma strip_left_suffix: "\<exists>a. s = a @ strip_left ws s"
proof (induction ws s rule: strip_left.induct)
  case (1 ws s)
  show ?case
  proof (cases "find (\<lambda>w. w \<noteq> [] \<and> HasPrefix s w) ws")
    case None
    then show ?thesis by (simp add: strip_left.simps [of ws s])
  next
    case (Some w)
    with "1.IH" obtain a where "drop (length w) s = a @ strip_left ws (drop (length w) s)"
      by blast
    then have "s = (take (length w) s @ a) @ strip_left ws (drop (length w) s)"
      by (metis append.assoc append_take_drop_id)
    moreover have "strip_left ws s = strip_left ws (drop (length w) s)"
      using Some by (subst strip_left.simps) simp
    ultimately show ?thesis by metis
  qed
qed

lemma strip_left_stops: "w \<in> set ws \<Longrightarrow> w \<noteq> [] \<Longrightarrow> \<not> HasPrefix (strip_left ws s) w"
proof (induction ws s rule: strip_left.induct)
  case (1 ws s)
  show ?case
  proof (cases "find (\<lambda>w. w \<noteq> [] \<and> HasPrefix s w) ws")
    case None
    with "1.prems" show ?thesis
      by (subst strip_left.simps) (auto dest: find_NoneD)
  next
    case (Some v)
    with "1" show ?thesis by (subst strip_left.simps) simp
  qed
qed

lemma strip_left_id: "(\<And>w. w \<in> set ws \<Longrightarrow> w \<noteq> [] \<Longrightarrow> \<not> HasPrefix s w) \<Longrightarrow> strip_left ws s = s"
  by (subst strip_left.simps) (auto split: option.splits dest!: find_SomeD)

lemma length_strip_left: "length (strip_left ws s) \<le> length s"
  using strip_left_suffix [of s ws] by (metis length_append le_add2)

lemma length_TrimSpace: "length (TrimSpace s) \<le> length s"
  unfolding TrimSpace_def
  by (metis length_rev length_strip_left le_trans)

lemma TrimSpace_prefix: "\<exists>b. strip_left space_runes s = TrimSpace s @ b"
proof -
  obtain a where "rev (strip_left space_runes s) = a @ strip_left (map rev space_runes) (rev (strip_left space_runes s))"
    using strip_left_suffix by blast
  then show ?thesis unfolding TrimSpace_def by (metis rev_append rev_rev_ident)
qed

lemma TrimSpace_no_leading:
  assumes "w \<in> set space_runes" and "w \<noteq> []"
  shows "\<not> HasPrefix (TrimSpace s) w"
proof
  assume "HasPrefix (TrimSpace s) w"
  moreover obtain b where "strip_left space_runes s = TrimSpace s @ b"
    using TrimSpace_prefix by blast
  ultimately have "HasPrefix (strip_left space_runes s) w" by (auto simp: HasPrefix_iff)
  with strip_left_stops [OF assms] show False by blast
qed

lemma TrimSpace_idem [simp]: "TrimSpace (TrimSpace s) = TrimSpace s"
proof -
  have l: "strip_left space_runes (TrimSpace s) = TrimSpace s"
    by (rule strip_left_id) (rule TrimSpace_no_leading)
  have "strip_left (map rev space_runes) (rev (TrimSpace s)) = rev (TrimSpace s)"
    unfolding TrimSpace_def rev_rev_ident
    by (rule strip_left_id) (rule strip_left_stops)
  with l show ?thesis by (simp add: TrimSpace_def [of "TrimSpace s"])
qed

lemma TrimSpace_Nil [simp]: "TrimSpace [] = []"
  using length_TrimSpace [of "[]"] by simp

subsection \<open>Numbers and case\<close>

definition lower_char :: "char \<Rightarrow> char" where
  "lower_char c = (if CHR ''A'' \<le> c \<and> c \<le> CHR ''Z'' then char_of (of_char c + (32 :: nat)) else c)"

definition ToLower :: "string \<Rightarrow> string" where
  "ToLower = map lower_char"

fun show_nat :: "nat \<Rightarrow> string" where
  "show_nat n = (if n < 10 then [char_of (48 + n)] else show_nat (n div 10) @ [char_of (48 + n mod 10)])"

declare show_nat.simps [simp del]

definition Itoa :: "int \<Rightarrow> string" where
  "Itoa n = (if n < 0 then CHR ''-'' # show_nat (nat (- n)) else show_nat (nat n))"

definition is_digit :: "char \<Rightarrow> bool" where
  "is_digit c \<longleftrightarrow> CHR ''0'' \<le> c \<and> c \<le> CHR ''9''"

definition digits_value :: "string \<Rightarrow> int" where
  "digits_value s = foldl (\<lambda>n c. 10 * n + (int (of_char c) - 48)) 0 s"

text \<open>\<open>strconv.Atoi\<close>: an optional sign, at least one digit, and a value that fits 64 bits.\<close>

definition Atoi :: "string \<Rightarrow> int option" where
  "Atoi s =
     (let neg = (s \<noteq> [] \<and> hd s = CHR ''-'');
          ds = (if s \<noteq> [] \<and> (hd s = CHR ''-'' \<or> hd s = CHR ''+'') then tl s else s)
      in if ds = [] \<or> \<not> list_all is_digit ds then None
         else let v = (if neg then - digits_value ds else digits_value ds)
              in if - (2 ^ 63) \<le> v \<and> v < 2 ^ 63 then Some v else None)"


lemma show_nat_neq_Nil [simp]: "show_nat n \<noteq> ''''"
  by (subst show_nat.simps) simp

lemma digits_value_append [simp]:
  "digits_value (s @ [c]) = 10 * digits_value s + (int (of_char c) - 48)"
  by (simp add: digits_value_def)

lemma digits_value_Nil [simp]: "digits_value '''' = 0"
  by (simp add: digits_value_def)

lemma digits_value_show_nat: "digits_value (show_nat n) = int n"
proof (induction n rule: less_induct)
  case (less n)
  show ?case
  proof (cases "n < 10")
    case True
    then have "show_nat n = '''' @ [char_of (48 + n)]" by (subst show_nat.simps) simp
    with True show ?thesis by (simp only: digits_value_append) simp
  next
    case False
    then have "show_nat n = show_nat (n div 10) @ [char_of (48 + n mod 10)]"
      by (subst show_nat.simps) simp
    moreover have "10 * int (n div 10) + int (n mod 10) = int n" by presburger
    ultimately show ?thesis using False less.IH [of "n div 10"] by simp
  qed
qed

lemma show_nat_inj: "show_nat m = show_nat n \<Longrightarrow> m = n"
  by (metis digits_value_show_nat of_nat_eq_iff)

lemma show_nat_digits: "c \<in> set (show_nat n) \<Longrightarrow> is_digit c"
proof (induction n rule: less_induct)
  case (less n)
  have d: "k < 10 \<Longrightarrow> is_digit (char_of (48 + k))" for k :: nat
    by (simp add: is_digit_def less_eq_char_def)
  show ?case
  proof (cases "n < 10")
    case True
    then have "show_nat n = [char_of (48 + n)]" by (subst show_nat.simps) simp
    with True less.prems d show ?thesis by simp
  next
    case False
    then have "show_nat n = show_nat (n div 10) @ [char_of (48 + n mod 10)]"
      by (subst show_nat.simps) simp
    with False less.prems less.IH [of "n div 10"] d [of "n mod 10"] show ?thesis by auto
  qed
qed

lemma Atoi_Itoa: assumes "0 \<le> n" "n < 2 ^ 63" shows "Atoi (Itoa n) = Some n"
proof -
  let ?s = "show_nat (nat n)"
  have digits: "list_all is_digit ?s" by (simp add: list_all_iff show_nat_digits)
  moreover have "\<not> is_digit CHR ''-''" "\<not> is_digit CHR ''+''" by code_simp+
  ultimately have sign: "hd ?s \<noteq> CHR ''-'' \<and> hd ?s \<noteq> CHR ''+''"
    by (metis hd_in_set list_all_iff show_nat_neq_Nil)
  have "Itoa n = ?s" using assms by (simp add: Itoa_def)
  with sign digits assms show ?thesis by (simp add: Atoi_def Let_def digits_value_show_nat)
qed

lemma Itoa_inj: "0 \<le> m \<Longrightarrow> 0 \<le> n \<Longrightarrow> Itoa m = Itoa n \<Longrightarrow> m = n"
  by (auto simp: Itoa_def dest: show_nat_inj)

lemma Itoa_nonneg_digits: "0 \<le> n \<Longrightarrow> c \<in> set (Itoa n) \<Longrightarrow> is_digit c"
  by (auto simp: Itoa_def dest: show_nat_digits)

lemma sep_append_inj:
  "c \<notin> set b \<Longrightarrow> c \<notin> set b' \<Longrightarrow> a @ c # b = a' @ c # b' \<Longrightarrow> a = a' \<and> b = b'"
  by (auto simp: append_eq_append_conv2 append_eq_Cons_conv Cons_eq_append_conv)

subsection \<open>UTF-8\<close>

definition byte_in :: "nat \<Rightarrow> nat \<Rightarrow> char \<Rightarrow> bool" where
  "byte_in lo hi c \<longleftrightarrow> lo \<le> of_char c \<and> of_char c \<le> hi"

text \<open>The number of bytes of the first rune, one for an invalid byte: \<open>utf8.DecodeRuneInString\<close>.\<close>

definition rune_width :: "string \<Rightarrow> nat" where
  "rune_width s =
     (case s of
        [] \<Rightarrow> 0
      | c # cs \<Rightarrow>
          if byte_in 0xC2 0xDF c \<and> cs \<noteq> [] \<and> byte_in 0x80 0xBF (hd cs) then 2
          else if byte_in 0xE0 0xEF c \<and> 2 \<le> length cs \<and>
            byte_in (if c = CHR 0xE0 then 0xA0 else 0x80) (if c = CHR 0xED then 0x9F else 0xBF) (cs ! 0) \<and>
            byte_in 0x80 0xBF (cs ! 1) then 3
          else if byte_in 0xF0 0xF4 c \<and> 3 \<le> length cs \<and>
            byte_in (if c = CHR 0xF0 then 0x90 else 0x80) (if c = CHR 0xF4 then 0x8F else 0xBF) (cs ! 0) \<and>
            byte_in 0x80 0xBF (cs ! 1) \<and> byte_in 0x80 0xBF (cs ! 2) then 4
          else 1)"

text \<open>The indices that \<open>for i := range s\<close> visits: the first byte of every rune.\<close>

function rune_starts :: "nat \<Rightarrow> string \<Rightarrow> nat list" where
  "rune_starts i [] = []"
| "rune_starts i (c # s) =
     i # rune_starts (i + rune_width (c # s)) (drop (rune_width (c # s) - 1) s)"
  by pat_completeness auto
termination by (relation "measure (\<lambda>(i, s). length s)") auto

definition ascii :: "string \<Rightarrow> bool" where
  "ascii s \<longleftrightarrow> (\<forall>c\<in>set s. of_char c < (128 :: nat))"

lemma ascii_simps [simp]:
  "ascii []" "ascii (c # s) \<longleftrightarrow> of_char c < (128 :: nat) \<and> ascii s"
  "ascii (s @ t) \<longleftrightarrow> ascii s \<and> ascii t"
  by (auto simp: ascii_def)

lemma rune_width_ascii: "of_char c < (128 :: nat) \<Longrightarrow> rune_width (c # s) = 1"
  by (simp add: rune_width_def byte_in_def)

lemma rune_starts_ascii: "ascii s \<Longrightarrow> rune_starts i s = [i..<i + length s]"
  by (induction s arbitrary: i) (simp_all add: rune_width_ascii upt_rec)

text \<open>\<open>%x\<close> of a byte slice.\<close>

definition hex_digit :: "nat \<Rightarrow> char" where
  "hex_digit n = (if n < 10 then char_of (48 + n) else char_of (87 + n))"

definition hex_of :: "string \<Rightarrow> string" where
  "hex_of s = concat (map (\<lambda>c. [hex_digit (of_char c div 16), hex_digit (of_char c mod 16)]) s)"

lemma hex_digit_ascii: "n < 16 \<Longrightarrow> of_char (hex_digit n) < (128 :: nat)"
  by (simp add: hex_digit_def)

lemma byte_div_16: "of_char c div 16 < (16 :: nat)"
proof -
  have "of_char c < (256 :: nat)" by simp
  then have "of_char c < 16 * (16 :: nat)" by simp
  then show ?thesis by (rule less_mult_imp_div_less)
qed

lemma ascii_hex_of: "ascii (hex_of s)"
  by (induction s) (simp_all add: hex_of_def hex_digit_ascii byte_div_16)

end
