(* ===== verification/Http.thy ===== *)
theory Http
  imports GoStrings
begin

text \<open>
  The parts of \<open>net/http\<close>, \<open>context\<close>, \<open>encoding/json\<close> and \<open>net\<close> that the handlers and the
  middleware use.

  \<^item> A response writer keeps the headers under construction, the status once it is written and
    the headers as they were then: what is set after \<open>WriteHeader\<close> does not reach the client.
    Its field \<open>gz\<close> is the buffer of the \<open>gzipResponseWriter\<close> of \<open>middleware/chain.go\<close> while a
    handler runs under one; the two cases of \<open>write_header\<close> and \<open>write_body\<close> are the methods of
    the plain writer and of that wrapper.
  \<^item> A request carries its decoded JSON body (\<open>None\<close> is a \<open>Decode\<close> error), its query and path
    values (absent ones read as the empty string) and its context values.
  \<^item> A handler is a function from a request and a pair of writer and server state to the way it
    ended and the new pair; a middleware is a function on handlers.
\<close>

datatype json =
    JNull
  | JBool bool
  | JNum int
  | JStr string
  | JList "json list"
  | JObj "(string \<times> json) list"

datatype payload = Text string | Json json | Gzip "payload list"

record rwriter =
  hdrs :: "string \<rightharpoonup> string"
  wrote :: "nat option"
  sent :: "string \<rightharpoonup> string"
  out :: "payload list"
  gz :: "payload list option"

definition new_writer :: rwriter where
  "new_writer = \<lparr>hdrs = Map.empty, wrote = None, sent = Map.empty, out = [], gz = None\<rparr>"

definition header_set :: "string \<Rightarrow> string \<Rightarrow> rwriter \<Rightarrow> rwriter" where
  "header_set k v w = w\<lparr>hdrs := (hdrs w)(k \<mapsto> v)\<rparr>"

definition header_del :: "string \<Rightarrow> rwriter \<Rightarrow> rwriter" where
  "header_del k w = w\<lparr>hdrs := (hdrs w)(k := None)\<rparr>"

definition write_header :: "nat \<Rightarrow> rwriter \<Rightarrow> rwriter" where
  "write_header code w =
     (case wrote w of
        Some _ \<Rightarrow> w
      | None \<Rightarrow>
          let h = (if gz w = None \<or> code = 204 \<or> code = 304 then hdrs w
                   else (hdrs w)(''Content-Length'' := None, ''Content-Encoding'' \<mapsto> ''gzip''))
          in w\<lparr>hdrs := h, wrote := Some code, sent := h\<rparr>)"

definition write_body :: "payload \<Rightarrow> rwriter \<Rightarrow> rwriter" where
  "write_body p w =
     (let w' = write_header 200 w
      in case gz w' of
           Some buf \<Rightarrow> w'\<lparr>gz := Some (buf @ [p])\<rparr>
         | None \<Rightarrow> if wrote w' = Some 204 \<or> wrote w' = Some 304 then w'
                   else w'\<lparr>out := out w' @ [p]\<rparr>)"

definition http_error :: "string \<Rightarrow> nat \<Rightarrow> rwriter \<Rightarrow> rwriter" where
  "http_error msg code w =
     write_body (Text (msg @ [CHR 0x0A]))
       (write_header code
         (header_set ''X-Content-Type-Options'' ''nosniff''
           (header_set ''Content-Type'' ''text/plain; charset=utf-8''
             (header_del ''Content-Length'' w))))"

lemma wrote_simps [simp]:
  "wrote (header_set k v w) = wrote w"
  "wrote (header_del k w) = wrote w"
  "wrote (write_header c w) = (case wrote w of None \<Rightarrow> Some c | Some d \<Rightarrow> Some d)"
  "wrote (write_body p w) = (case wrote w of None \<Rightarrow> Some 200 | Some d \<Rightarrow> Some d)"
  by (auto simp: header_set_def header_del_def write_header_def write_body_def Let_def
      split: option.splits)

lemma wrote_http_error [simp]:
  "wrote (http_error m c w) = (case wrote w of None \<Rightarrow> Some c | Some d \<Rightarrow> Some d)"
  by (simp add: http_error_def split: option.splits)

lemma hdrs_simps [simp]:
  "hdrs (header_set k v w) = (hdrs w)(k \<mapsto> v)"
  "hdrs (header_del k w) = (hdrs w)(k := None)"
  "gz w = None \<Longrightarrow> hdrs (write_header c w) = hdrs w"
  "gz w = None \<Longrightarrow> hdrs (write_body p w) = hdrs w"
  by (auto simp: header_set_def header_del_def write_header_def write_body_def Let_def
      split: option.splits)

lemma sent_simps [simp]:
  "sent (header_set k v w) = sent w"
  "sent (header_del k w) = sent w"
  "gz w = None \<Longrightarrow> sent (write_header c w) = (if wrote w = None then hdrs w else sent w)"
  "gz w = None \<Longrightarrow> sent (write_body p w) = (if wrote w = None then hdrs w else sent w)"
  by (auto simp: header_set_def header_del_def write_header_def write_body_def Let_def
      split: option.splits)

lemma out_simps [simp]:
  "out (header_set k v w) = out w"
  "out (header_del k w) = out w"
  "out (write_header c w) = out w"
  by (auto simp: header_set_def header_del_def write_header_def Let_def split: option.splits)

lemma gz_simps [simp]:
  "gz (header_set k v w) = gz w"
  "gz (header_del k w) = gz w"
  "gz (write_header c w) = gz w"
  "gz w = None \<Longrightarrow> gz (write_body p w) = None"
  by (auto simp: header_set_def header_del_def write_header_def write_body_def Let_def
      split: option.splits)

lemma out_write_body [simp]:
  "gz w = None \<Longrightarrow> wrote w \<noteq> Some 204 \<Longrightarrow> wrote w \<noteq> Some 304 \<Longrightarrow>
   out (write_body p w) = out w @ [p]"
  by (auto simp: write_body_def write_header_def Let_def split: option.splits)

lemma new_writer_simps [simp]:
  "hdrs new_writer = Map.empty" "wrote new_writer = None" "sent new_writer = Map.empty"
  "out new_writer = []" "gz new_writer = None"
  by (simp_all add: new_writer_def)

subsection \<open>Requests and handlers\<close>

text \<open>What the middleware stores under a context key (\<open>middleware.RequestContext\<close> is in
  \<open>middleware/context.go\<close>).\<close>

record request_context =
  rc_RequestID :: string
  rc_UserID :: string
  rc_IPAddress :: string
  rc_UserAgent :: string
  rc_Method :: string
  rc_Path :: string
  rc_StatusCode :: int

datatype ctx_value = CtxStr string | CtxTime go_time | CtxReq request_context

record 'b request =
  meth :: string
  path :: string
  remote_addr :: string
  req_hdr :: "string \<Rightarrow> string"
  query :: "string \<Rightarrow> string"
  path_value :: "string \<Rightarrow> string"
  ctx :: "string \<rightharpoonup> ctx_value"
  req_body :: "'b option"

definition with_value :: "string \<Rightarrow> ctx_value \<Rightarrow> 'b request \<Rightarrow> 'b request" where
  "with_value k v r = r\<lparr>ctx := (ctx r)(k \<mapsto> v)\<rparr>"

text \<open>The type assertion \<open>ctx.Value(k).(string)\<close>.\<close>

definition ctx_string :: "string \<Rightarrow> 'b request \<Rightarrow> string option" where
  "ctx_string k r = (case ctx r k of Some (CtxStr s) \<Rightarrow> Some s | _ \<Rightarrow> None)"

datatype completion = Returned | Panicked

type_synonym ('b, 's) handler = "'b request \<Rightarrow> rwriter \<times> 's \<Rightarrow> completion \<times> rwriter \<times> 's"

definition respond :: "rwriter \<Rightarrow> 's \<Rightarrow> completion \<times> rwriter \<times> 's" where
  "respond w s = (Returned, w, s)"

text \<open>\<open>net.SplitHostPort\<close>, of which the callers use the host and whether there was an error.\<close>

definition last_index :: "char \<Rightarrow> string \<Rightarrow> nat option" where
  "last_index c s = map_option (\<lambda>i. length s - 1 - i) (Index (rev s) [c])"

definition split_host :: "string \<Rightarrow> string option" where
  "split_host hp =
     (case last_index CHR '':'' hp of
        None \<Rightarrow> None
      | Some i \<Rightarrow>
          if hd hp = CHR ''['' then
            (case Index hp '']'' of
               None \<Rightarrow> None
             | Some e \<Rightarrow>
                 if e + 1 = i \<and> CHR ''['' \<notin> set (drop 1 hp) \<and> CHR '']'' \<notin> set (drop (e + 1) hp)
                 then Some (take (e - 1) (drop 1 hp)) else None)
          else if CHR '':'' \<in> set (take i hp) \<or> CHR ''['' \<in> set hp \<or> CHR '']'' \<in> set hp then None
          else Some (take i hp))"

lemma split_host_examples:
  "split_host ''10.0.0.1:5123'' = Some ''10.0.0.1''"
  "split_host ''[::1]:80'' = Some ''::1''"
  "split_host ''10.0.0.1'' = None"
  "split_host ''::1'' = None"
  by code_simp+

end
