(* ===== verification/Database.thy ===== *)
theory Database
  imports Http
begin

text \<open>
  The PostgreSQL tables the backend queries, and the pieces its query functions are made of. A
  table is the list of its rows; a statement of the source becomes a function on these lists, with
  \<open>WHERE\<close> as \<open>filter\<close>, \<open>ORDER BY\<close> as a stable sort (SQL leaves the order of equal keys open; here
  they stay in table order) and \<open>LIMIT\<close>/\<open>OFFSET\<close> as \<open>take\<close>/\<open>drop\<close>. The columns of each row are the
  fields of the structs in \<open>models/models.go\<close> and the columns the queries name. Foreign keys
  that cascade (\<open>migrations/002\<close> to \<open>005\<close>, \<open>010\<close>, \<open>011\<close>, \<open>014\<close>, \<open>016\<close>, \<open>020\<close>), the two clean-up triggers
  of \<open>migrations/025\<close> and the triggers of \<open>migrations/040\<close> that maintain \<open>user_project_access\<close> are
  part of the statements that set them off. Row-level security does not apply to the role the
  backend connects with. The trigger of \<open>migrations/024\<close> that logs a soft deletion is not modelled (where it
  is installed, its \<open>NOT NULL\<close> column \<open>deleted_by\<close> makes the statement fail, which \<open>fails\<close> covers). Time stamps keep the nanoseconds of their Go values.

  \<open>dbenv\<close> is what a call meets: whether a statement fails, given its name and arguments, the clock
  of the database, the identifiers it generates, whether the error that the driver returns for
  an empty result equals \<open>sql.ErrNoRows\<close> under \<open>==\<close>, and whether the table of \<open>migrations/040\<close> exists
  (the server starts even when a migration has failed).
\<close>

record user_row =
  u_id :: string
  u_email :: string
  u_username :: string
  u_avatar :: "string option"
  u_role :: "string option"
  u_privacy :: "json option"
  u_created :: go_time
  u_updated :: go_time
  u_deleted :: "go_time option"

record project_row =
  p_id :: string
  p_user :: string
  p_name :: string
  p_description :: string
  p_is_private :: bool
  p_cover :: "string option"
  p_genre :: string
  p_release :: "go_time option"
  p_created :: go_time
  p_updated :: go_time
  p_deleted :: "go_time option"

record track_row =
  t_id :: string
  t_project :: string
  t_user :: string
  t_name :: string
  t_duration :: int
  t_created :: go_time
  t_updated :: go_time
  t_deleted :: "go_time option"

record version_row =
  v_id :: string
  v_track :: string
  v_number :: int
  v_key :: string
  v_size :: int
  v_checksum :: string
  v_created :: go_time
  v_deleted :: "go_time option"

record share_row =
  ps_id :: string
  ps_project :: string
  ps_by :: string
  ps_with :: "string option"
  ps_token :: string
  ps_expires :: "go_time option"
  ps_revoked :: "go_time option"
  ps_created :: go_time

record collaborator_row =
  c_id :: string
  c_project :: string
  c_user :: string
  c_role :: string
  c_invited :: go_time
  c_joined :: "go_time option"
  c_deleted :: "go_time option"

record job_row =
  j_id :: string
  j_type :: string
  j_data :: json
  j_status :: string
  j_attempts :: int
  j_max :: int
  j_result :: "json option"
  j_error :: "string option"
  j_created :: go_time
  j_updated :: go_time
  j_started :: "go_time option"
  j_completed :: "go_time option"

record audit_event =
  ae_resource_id :: string
  ae_changes :: json
  ae_ip :: string
  ae_agent :: string
  ae_status :: string
  ae_error :: string

text \<open>The columns of \<open>migrations/030\<close> are \<open>NULL\<close> in the rows of the older insert: \<open>al_event\<close> is \<open>None\<close>.\<close>

record audit_row =
  al_id :: string
  al_user :: "string option"
  al_action :: string
  al_resource :: string
  al_details :: json
  al_created :: go_time
  al_event :: "audit_event option"

record image_row =
  i_id :: string
  i_user :: string
  i_key :: string
  i_mime :: string
  i_size :: int
  i_alt :: string
  i_created :: go_time

record like_row =
  lk_id :: string
  lk_user :: string
  lk_track :: string
  lk_created :: go_time

record comment_row =
  cm_id :: string
  cm_user :: string
  cm_version :: string
  cm_content :: string
  cm_timestamp :: "int option"
  cm_created :: go_time
  cm_updated :: go_time

record follow_row =
  fo_id :: string
  fo_follower :: string
  fo_following :: string
  fo_created :: go_time

record notification_row =
  n_id :: string
  n_user :: string
  n_actor :: "string option"
  n_type :: string
  n_track :: "string option"
  n_project :: "string option"
  n_comment :: "string option"
  n_content :: string
  n_read :: bool
  n_created :: go_time

record link_row =
  sl_id :: string
  sl_project :: string
  sl_creator :: string
  sl_hash :: string
  sl_level :: string
  sl_public :: bool
  sl_protected :: bool
  sl_password :: string
  sl_expires :: "go_time option"
  sl_revoked :: "go_time option"
  sl_created :: go_time
  sl_updated :: go_time

record access_row =
  ua_user :: string
  ua_project :: string
  ua_type :: string

record track_access_row =
  ta_user :: string
  ta_track :: string
  ta_project :: string

record subscription_row =
  sb_user :: string
  sb_premium :: bool
  sb_tier :: string
  sb_quota_mb :: int
  sb_used_mb :: int
  sb_customer :: "string option"
  sb_subscription :: "string option"
  sb_purchase :: "go_time option"
  sb_canceled :: "go_time option"
  sb_created :: go_time
  sb_updated :: go_time

record offline_row =
  od_id :: string
  od_user :: string
  od_version :: string
  od_track :: string
  od_project :: string
  od_size :: int
  od_key :: string
  od_status :: string
  od_title :: string
  od_artist :: string
  od_project_name :: string
  od_duration :: int
  od_last_played :: "go_time option"
  od_created :: go_time
  od_updated :: go_time
  od_expires :: "go_time option"

record device_row =
  dt_user :: string
  dt_token :: string
  dt_platform :: string
  dt_active :: bool
  dt_last_used :: go_time

record prefs_row =
  np_id :: string
  np_user :: string
  np_push :: bool
  np_likes :: bool
  np_comments :: bool
  np_follows :: bool
  np_shares :: bool
  np_mentions :: bool
  np_quiet :: bool
  np_quiet_start :: string
  np_quiet_end :: string
  np_bundle :: bool
  np_created :: go_time
  np_updated :: go_time

record play_row =
  pl_id :: string
  pl_version :: string
  pl_listener :: "string option"
  pl_track :: string
  pl_project :: string
  pl_duration :: "int option"
  pl_started :: go_time
  pl_ended :: "go_time option"
  pl_device :: string

record database =
  users :: "user_row list"
  projects :: "project_row list"
  tracks :: "track_row list"
  versions :: "version_row list"
  shares :: "share_row list"
  collaborators :: "collaborator_row list"
  background_jobs :: "job_row list"
  audit_logs :: "audit_row list"
  images :: "image_row list"
  likes :: "like_row list"
  comments :: "comment_row list"
  follows :: "follow_row list"
  notifications :: "notification_row list"
  share_links :: "link_row list"
  user_project_access :: "access_row list"
  user_track_access :: "track_access_row list"
  subscriptions :: "subscription_row list"
  offline_downloads :: "offline_row list"
  device_tokens :: "device_row list"
  notification_preferences :: "prefs_row list"
  play_history :: "play_row list"
  uuid_count :: nat

definition empty_db :: database where
  "empty_db = \<lparr>users = [], projects = [], tracks = [], versions = [], shares = [],
     collaborators = [], background_jobs = [], audit_logs = [], images = [], likes = [],
     comments = [], follows = [], notifications = [], share_links = [], user_project_access = [],
     user_track_access = [], subscriptions = [], offline_downloads = [], device_tokens = [],
     notification_preferences = [], play_history = [], uuid_count = 0\<rparr>"

record dbenv =
  fails :: "string \<Rightarrow> string list \<Rightarrow> bool"
  db_now :: go_time
  gen_uuid :: "nat \<Rightarrow> string"
  norows_equal :: bool
  has_access_table :: bool

datatype db_error = NoRows | Fault | Conflict

type_synonym 'a db_result = "db_error + 'a"

text \<open>The test \<open>err == sql.ErrNoRows\<close>.\<close>

definition is_sql_no_rows :: "dbenv \<Rightarrow> db_error \<Rightarrow> bool" where
  "is_sql_no_rows env e \<longleftrightarrow> e = NoRows \<and> norows_equal env"

definition query_row :: "dbenv \<Rightarrow> string \<Rightarrow> string list \<Rightarrow> 'r list \<Rightarrow> 'r db_result" where
  "query_row env call args rows =
     (if fails env call args then Inl Fault
      else case rows of [] \<Rightarrow> Inl NoRows | r # _ \<Rightarrow> Inr r)"

definition query_all :: "dbenv \<Rightarrow> string \<Rightarrow> string list \<Rightarrow> 'r list \<Rightarrow> 'r list db_result" where
  "query_all env call args rows = (if fails env call args then Inl Fault else Inr rows)"

definition exec_stmt ::
  "dbenv \<Rightarrow> string \<Rightarrow> string list \<Rightarrow> (database \<Rightarrow> database) \<Rightarrow> database \<Rightarrow> unit db_result \<times> database" where
  "exec_stmt env call args f d = (if fails env call args then (Inl Fault, d) else (Inr (), f d))"

text \<open>\<open>INSERT ... ON CONFLICT DO NOTHING\<close> on \<open>user_project_access\<close>, as its triggers do.\<close>

definition grant_access :: "dbenv \<Rightarrow> string \<Rightarrow> string \<Rightarrow> string \<Rightarrow> database \<Rightarrow> database" where
  "grant_access env userID projectID access_type d =
     (let a = \<lparr>ua_user = userID, ua_project = projectID, ua_type = access_type\<rparr>
      in if \<not> has_access_table env \<or> a \<in> set (user_project_access d) then d
         else d\<lparr>user_project_access := user_project_access d @ [a]\<rparr>)"

definition order_desc :: "('r \<Rightarrow> int) \<Rightarrow> 'r list \<Rightarrow> 'r list" where
  "order_desc f rows = sort_key (\<lambda>r. - f r) rows"

definition order_asc :: "('r \<Rightarrow> int) \<Rightarrow> 'r list \<Rightarrow> 'r list" where
  "order_asc f rows = sort_key f rows"

text \<open>PostgreSQL refuses a negative \<open>LIMIT\<close> or \<open>OFFSET\<close>.\<close>

definition query_page ::
  "dbenv \<Rightarrow> string \<Rightarrow> string list \<Rightarrow> int \<Rightarrow> int \<Rightarrow> 'r list \<Rightarrow> 'r list db_result" where
  "query_page env call args lim offset rows =
     (if fails env call args \<or> lim < 0 \<or> offset < 0 then Inl Fault
      else Inr (take (nat lim) (drop (nat offset) rows)))"

lemma grant_access_frame [simp]:
  "users (grant_access env u p t d) = users d"
  "projects (grant_access env u p t d) = projects d"
  "tracks (grant_access env u p t d) = tracks d"
  "versions (grant_access env u p t d) = versions d"
  "shares (grant_access env u p t d) = shares d"
  "collaborators (grant_access env u p t d) = collaborators d"
  by (simp_all add: grant_access_def Let_def)

lemma grant_access_set:
  "has_access_table env \<Longrightarrow> set (user_project_access (grant_access env u p t d)) =
     insert \<lparr>ua_user = u, ua_project = p, ua_type = t\<rparr> (set (user_project_access d))"
  by (auto simp: grant_access_def Let_def)

lemma set_order_desc [simp]: "set (order_desc f rows) = set rows"
  by (simp add: order_desc_def)

lemma set_order_asc [simp]: "set (order_asc f rows) = set rows"
  by (simp add: order_asc_def)

lemma distinct_order_asc [simp]: "distinct (map g (order_asc f rows)) \<longleftrightarrow> distinct (map g rows)"
  unfolding order_asc_def distinct_map
  by (simp add: distinct_sort)

lemma query_row_InrD: "query_row env call args rows = Inr r \<Longrightarrow> r \<in> set rows"
  by (auto simp: query_row_def split: if_splits list.splits)

lemma query_all_InrD: "query_all env call args rows = Inr rs \<Longrightarrow> rs = rows"
  by (auto simp: query_all_def split: if_splits)

lemma query_page_InrD:
  "query_page env call args l off rows = Inr rs \<Longrightarrow>
   set rs \<subseteq> set rows \<and> int (length rs) \<le> l"
  by (auto simp: query_page_def dest: in_set_takeD in_set_dropD split: if_splits)

end
