(* ===== verification/JobQueue.thy ===== *)
theory JobQueue
  imports Database
begin

text \<open>
  The queue in the table \<open>background_jobs\<close>: the statements of \<open>db/queries_access.go\<close> on it, and the
  queue as a state machine of several workers. \<open>ClaimPendingJobs\<close> is a transaction: its locking
  select and its commit are two steps of the machine, between which other workers run; the rows a
  worker has selected are the locks that \<open>SKIP LOCKED\<close> makes the others pass over.
\<close>

subsection \<open>The statements\<close>

definition claimable :: "job_row \<Rightarrow> bool" where
  "claimable j \<longleftrightarrow> j_status j = ''pending'' \<and> j_attempts j < j_max j"

definition GetPendingJobs :: "dbenv \<Rightarrow> int \<Rightarrow> database \<Rightarrow> job_row list db_result" where
  "GetPendingJobs env limit d =
     query_page env ''GetPendingJobs'' [] limit 0
       (order_asc j_created (filter claimable (background_jobs d)))"

text \<open>The select of \<open>ClaimPendingJobs\<close> and its update.\<close>

definition claim_ids :: "string set \<Rightarrow> int \<Rightarrow> job_row list \<Rightarrow> string list" where
  "claim_ids locked limit js =
     (let limit = (if limit \<le> 0 then 10 else limit)
      in map j_id (take (nat limit)
           (filter (\<lambda>j. claimable j \<and> j_id j \<notin> locked) (order_asc j_created js))))"

definition claim_rows :: "go_time \<Rightarrow> string list \<Rightarrow> job_row list \<Rightarrow> job_row list" where
  "claim_rows now ids js =
     update_rows (\<lambda>j. j_id j \<in> set ids)
       (\<lambda>j. j\<lparr>j_status := ''processing'', j_started := Some now, j_updated := now\<rparr>) js"

definition ClaimPendingJobs ::
  "dbenv \<Rightarrow> string set \<Rightarrow> int \<Rightarrow> database \<Rightarrow> job_row list db_result \<times> database" where
  "ClaimPendingJobs env locked limit d =
     (if fails env ''ClaimPendingJobs/Begin'' [] then (Inl Fault, d)
      else if fails env ''ClaimPendingJobs/Query'' [] then (Inl Fault, d)
      else let ids = claim_ids locked limit (background_jobs d);
               js = claim_rows (db_now env) ids (background_jobs d)
        in if fails env ''ClaimPendingJobs/Commit'' [] then (Inl Fault, d)
           else (Inr (filter (\<lambda>j. j_id j \<in> set ids) js), d\<lparr>background_jobs := js\<rparr>))"

definition new_job :: "string \<Rightarrow> string \<Rightarrow> json \<Rightarrow> int \<Rightarrow> go_time \<Rightarrow> job_row" where
  "new_job i ty dat mx now = \<lparr>j_id = i, j_type = ty, j_data = dat, j_status = ''pending'', j_attempts = 0,
     j_max = mx, j_result = None, j_error = None, j_created = now, j_updated = now,
     j_started = None, j_completed = None\<rparr>"

definition CreateBackgroundJob ::
  "dbenv \<Rightarrow> string \<Rightarrow> json \<Rightarrow> int \<Rightarrow> database \<Rightarrow> string db_result \<times> database" where
  "CreateBackgroundJob env jobType dat maxAttempts d =
     (let maxAttempts = (if maxAttempts \<le> 0 then 3 else maxAttempts);
          i = gen_uuid env (uuid_count d)
      in if fails env ''CreateBackgroundJob'' [jobType] then (Inl Fault, d)
         else (Inr i, d\<lparr>background_jobs := background_jobs d @
                          [new_job i jobType dat maxAttempts (db_now env)],
                        uuid_count := uuid_count d + 1\<rparr>))"

definition complete_rows :: "go_time \<Rightarrow> string \<Rightarrow> json option \<Rightarrow> job_row list \<Rightarrow> job_row list" where
  "complete_rows now jobID result js =
     update_rows (\<lambda>j. j_id j = jobID)
       (\<lambda>j. j\<lparr>j_status := ''completed'', j_result := result, j_completed := Some now\<rparr>) js"

definition MarkJobCompleted ::
  "dbenv \<Rightarrow> string \<Rightarrow> json option \<Rightarrow> database \<Rightarrow> unit db_result \<times> database" where
  "MarkJobCompleted env jobID result =
     exec_stmt env ''MarkJobCompleted'' [jobID]
       (\<lambda>d. d\<lparr>background_jobs := complete_rows (db_now env) jobID result (background_jobs d)\<rparr>)"

definition fail_rows :: "string \<Rightarrow> string \<Rightarrow> job_row list \<Rightarrow> job_row list" where
  "fail_rows jobID errorMsg js =
     update_rows (\<lambda>j. j_id j = jobID)
       (\<lambda>j. j\<lparr>j_status := (if j_attempts j + 1 \<ge> j_max j then ''failed'' else ''pending''),
             j_attempts := j_attempts j + 1, j_error := Some errorMsg, j_started := None\<rparr>) js"

definition MarkJobFailed :: "dbenv \<Rightarrow> string \<Rightarrow> string \<Rightarrow> database \<Rightarrow> unit db_result \<times> database" where
  "MarkJobFailed env jobID errorMsg =
     exec_stmt env ''MarkJobFailed'' [jobID]
       (\<lambda>d. d\<lparr>background_jobs := fail_rows jobID errorMsg (background_jobs d)\<rparr>)"

definition UpdateJobStatus ::
  "dbenv \<Rightarrow> string \<Rightarrow> string \<Rightarrow> json option \<Rightarrow> string \<Rightarrow> database \<Rightarrow> unit db_result \<times> database" where
  "UpdateJobStatus env jobID status result errorMsg =
     exec_stmt env ''UpdateJobStatus'' [jobID]
       (\<lambda>d. d\<lparr>background_jobs := update_rows (\<lambda>j. j_id j = jobID)
          (\<lambda>j. j\<lparr>j_status := status, j_result := (if result = None then j_result j else result),
                j_error := (if errorMsg = '''' then j_error j else Some errorMsg),
                j_updated := db_now env\<rparr>) (background_jobs d)\<rparr>)"

lemma claim_ids_set:
  "i \<in> set (claim_ids locked limit js) \<Longrightarrow> \<exists>j\<in>set js. j_id j = i \<and> claimable j \<and> i \<notin> locked"
  by (auto simp: claim_ids_def Let_def dest!: in_set_takeD split: if_splits)

lemma job_ids_kept [simp]:
  "map j_id (claim_rows now ids js) = map j_id js"
  "map j_id (complete_rows now i res js) = map j_id js"
  "map j_id (fail_rows i err js) = map j_id js"
  by (simp_all add: claim_rows_def complete_rows_def fail_rows_def)

subsection \<open>Workers\<close>

text \<open>\<open>held\<close>: selected and locked, not committed; \<open>running\<close>: claimed and not yet marked; \<open>runs\<close>: how
  often a job has been handed to a worker.\<close>

record queue =
  q_jobs :: "job_row list"
  held :: "nat \<Rightarrow> string set"
  running :: "nat \<Rightarrow> string set"
  runs :: "string \<Rightarrow> int"

inductive queue_step :: "queue \<Rightarrow> queue \<Rightarrow> bool" where
  select: "held s w = {} \<Longrightarrow> ids = claim_ids (\<Union>(range (held s))) limit (q_jobs s) \<Longrightarrow>
    queue_step s (s\<lparr>held := (held s)(w := set ids)\<rparr>)"
| commit: "set ids = held s w \<Longrightarrow>
    queue_step s (s\<lparr>q_jobs := claim_rows now ids (q_jobs s), held := (held s)(w := {}),
      running := (running s)(w := running s w \<union> held s w),
      runs := (\<lambda>i. if i \<in> held s w then runs s i + 1 else runs s i)\<rparr>)"
| rollback: "queue_step s (s\<lparr>held := (held s)(w := {})\<rparr>)"
| completed: "i \<in> running s w \<Longrightarrow>
    queue_step s (s\<lparr>q_jobs := complete_rows now i res (q_jobs s),
      running := (running s)(w := running s w - {i})\<rparr>)"
| failed: "i \<in> running s w \<Longrightarrow>
    queue_step s (s\<lparr>q_jobs := fail_rows i err (q_jobs s),
      running := (running s)(w := running s w - {i})\<rparr>)"
| lost: "i \<in> running s w \<Longrightarrow>
    queue_step s (s\<lparr>running := (running s)(w := running s w - {i})\<rparr>)"
| create: "i \<notin> j_id ` set (q_jobs s) \<Longrightarrow> 0 < mx \<Longrightarrow>
    queue_step s (s\<lparr>q_jobs := q_jobs s @ [new_job i ty dat mx now], runs := (runs s)(i := 0)\<rparr>)"

inductive queue_reachable :: "queue \<Rightarrow> bool" where
  start: "queue_reachable \<lparr>q_jobs = [], held = \<lambda>w. {}, running = \<lambda>w. {}, runs = \<lambda>i. 0\<rparr>"
| step: "queue_reachable s \<Longrightarrow> queue_step s s' \<Longrightarrow> queue_reachable s'"

definition job_ok :: "int \<Rightarrow> job_row \<Rightarrow> bool" where
  "job_ok n j \<longleftrightarrow> 0 \<le> j_attempts j \<and> 0 < j_max j \<and>
     (j_status j = ''pending'' \<and> j_attempts j < j_max j \<and> n = j_attempts j \<or>
      j_status j = ''processing'' \<and> j_attempts j < j_max j \<and> n = j_attempts j + 1 \<or>
      j_status j = ''completed'' \<and> j_attempts j < j_max j \<and> n = j_attempts j + 1 \<or>
      j_status j = ''failed'' \<and> j_attempts j = j_max j \<and> n = j_max j)"

definition disjoint_by :: "(nat \<Rightarrow> string set) \<Rightarrow> bool" where
  "disjoint_by f \<longleftrightarrow> (\<forall>w w'. w \<noteq> w' \<longrightarrow> f w \<inter> f w' = {})"

definition queue_inv :: "queue \<Rightarrow> bool" where
  "queue_inv s \<longleftrightarrow>
     distinct (map j_id (q_jobs s)) \<and>
     (\<forall>j\<in>set (q_jobs s). job_ok (runs s (j_id j)) j) \<and>
     disjoint_by (held s) \<and> disjoint_by (running s) \<and>
     (\<forall>w. \<forall>i\<in>held s w. \<exists>j\<in>set (q_jobs s). j_id j = i \<and> j_status j = ''pending'') \<and>
     (\<forall>w. \<forall>i\<in>running s w. \<exists>j\<in>set (q_jobs s). j_id j = i \<and> j_status j = ''processing'')"

lemma queue_invD:
  assumes "queue_inv s"
  shows "distinct (map j_id (q_jobs s))" "j \<in> set (q_jobs s) \<Longrightarrow> job_ok (runs s (j_id j)) j"
    "disjoint_by (held s)" "disjoint_by (running s)"
    "i \<in> held s w \<Longrightarrow> \<exists>j\<in>set (q_jobs s). j_id j = i \<and> j_status j = ''pending''"
    "i \<in> running s w \<Longrightarrow> \<exists>j\<in>set (q_jobs s). j_id j = i \<and> j_status j = ''processing''"
  using assms unfolding queue_inv_def by blast+

lemma kept_row:
  "\<exists>j\<in>set js. j_id j = i \<and> P j \<Longrightarrow> \<not> Q i \<Longrightarrow>
   \<exists>j\<in>set (update_rows (\<lambda>j. Q (j_id j)) f js). j_id j = i \<and> P j"
  by (force simp: set_update_rows)

lemma disjoint_by_upd:
  "disjoint_by f \<Longrightarrow> (\<And>w'. w' \<noteq> w \<Longrightarrow> A \<inter> f w' = {}) \<Longrightarrow> disjoint_by (f(w := A))"
  unfolding disjoint_by_def by (auto simp: Int_commute)

lemma disjoint_by_sub: "disjoint_by f \<Longrightarrow> A \<subseteq> f w \<Longrightarrow> disjoint_by (f(w := A))"
  by (rule disjoint_by_upd) (auto simp: disjoint_by_def)

lemma status_unique:
  assumes "queue_inv s" "j \<in> set (q_jobs s)" "j' \<in> set (q_jobs s)" "j_id j = j_id j'"
  shows "j = j'"
  using distinct_map_inj_eq [OF queue_invD(1) [OF assms(1)] assms(2,3,4)] .

lemma held_not_running:
  assumes inv: "queue_inv s" and h: "i \<in> held s w"
  shows "i \<notin> running s w'"
proof
  assume "i \<in> running s w'"
  then obtain j where j: "j \<in> set (q_jobs s)" "j_id j = i" "j_status j = ''processing''"
    using queue_invD(6) [OF inv] by blast
  obtain k where k: "k \<in> set (q_jobs s)" "j_id k = i" "j_status k = ''pending''"
    using queue_invD(5) [OF inv h] by blast
  from status_unique [OF inv j(1) k(1)] j k show False by simp
qed

lemma inv_select [inv_intros]:
  assumes inv: "queue_inv s" and "held s w = {}"
    and ids: "ids = claim_ids (\<Union>(range (held s))) limit (q_jobs s)"
  shows "queue_inv (s\<lparr>held := (held s)(w := set ids)\<rparr>)"
proof -
  have "disjoint_by ((held s)(w := set ids))"
    by (rule disjoint_by_upd [OF queue_invD(3) [OF inv]]) (use claim_ids_set ids in blast)
  moreover have "\<exists>j\<in>set (q_jobs s). j_id j = i \<and> j_status j = ''pending''" if "i \<in> set ids" for i
    using claim_ids_set [of i "\<Union>(range (held s))" limit "q_jobs s"] that ids
    by (auto simp: claimable_def)
  ultimately show ?thesis
    using inv by (simp add: queue_inv_def)
qed

lemma inv_commit [inv_intros]:
  assumes inv: "queue_inv s" and ids: "set ids = held s w"
  shows "queue_inv (s\<lparr>q_jobs := claim_rows now ids (q_jobs s), held := (held s)(w := {}),
      running := (running s)(w := running s w \<union> held s w),
      runs := (\<lambda>i. if i \<in> held s w then runs s i + 1 else runs s i)\<rparr>)"
    (is "queue_inv ?s")
proof -
  let ?R = "\<lambda>i. if i \<in> held s w then runs s i + 1 else runs s i"
  have ok: "job_ok (?R (j_id j)) j" if j: "j \<in> set (claim_rows now ids (q_jobs s))" for j
  proof -
    from j obtain k where k: "k \<in> set (q_jobs s)"
      "j = (if j_id k \<in> set ids then k\<lparr>j_status := ''processing'', j_started := Some now, j_updated := now\<rparr> else k)"
      by (auto simp: claim_rows_def set_update_rows)
    show ?thesis
    proof (cases "j_id k \<in> held s w")
      case True
      then obtain k' where "k' \<in> set (q_jobs s)" "j_id k' = j_id k" "j_status k' = ''pending''"
        using queue_invD(5) [OF inv] by blast
      with status_unique [OF inv] k(1) have "j_status k = ''pending''" by metis
      with True k queue_invD(2) [OF inv k(1)] ids show ?thesis by (simp add: job_ok_def)
    next
      case False
      with k queue_invD(2) [OF inv k(1)] ids show ?thesis by simp
    qed
  qed
  have h: "disjoint_by ((held s)(w := {}))"
    by (rule disjoint_by_sub [OF queue_invD(3) [OF inv]]) simp
  have r: "disjoint_by ((running s)(w := running s w \<union> held s w))"
    by (rule disjoint_by_upd [OF queue_invD(4) [OF inv]])
       (use queue_invD(4) [OF inv] held_not_running [OF inv] in \<open>auto simp: disjoint_by_def\<close>)
  have held: "\<exists>j\<in>set (claim_rows now ids (q_jobs s)). j_id j = i \<and> j_status j = ''pending''"
    if "i \<in> held s w'" "w' \<noteq> w" for i w'
    unfolding claim_rows_def
    by (rule kept_row) (use queue_invD(3,5) [OF inv] that ids in \<open>auto simp: disjoint_by_def\<close>)
  have run1: "\<exists>j\<in>set (claim_rows now ids (q_jobs s)). j_id j = i \<and> j_status j = ''processing''"
    if i: "i \<in> held s w" for i
  proof -
    obtain j where j: "j \<in> set (q_jobs s)" "j_id j = i" using queue_invD(5) [OF inv i] by blast
    let ?j = "j\<lparr>j_status := ''processing'', j_started := Some now, j_updated := now\<rparr>"
    have "?j \<in> set (claim_rows now ids (q_jobs s))"
      unfolding claim_rows_def set_update_rows by (rule image_eqI [of _ _ j]) (use j i ids in auto)
    then show ?thesis using j(2) by (intro bexI [of _ ?j]) simp_all
  qed
  have run2: "\<exists>j\<in>set (claim_rows now ids (q_jobs s)). j_id j = i \<and> j_status j = ''processing''"
    if "i \<in> running s w'" for i w'
    unfolding claim_rows_def
    by (rule kept_row) (use queue_invD(6) [OF inv that] held_not_running [OF inv] that ids in auto)
  show ?thesis
    unfolding queue_inv_def
    using queue_invD(1) [OF inv] ok h r held run1 run2 by auto
qed


text \<open>Marking a running job changes its own row only, and takes it from its worker.\<close>

lemma inv_mark:
  assumes inv: "queue_inv s" and run: "i \<in> running s w"
    and f: "\<And>j. j_id (f j) = j_id j"
    and ok: "\<And>j n. job_ok n j \<Longrightarrow> j_status j = ''processing'' \<Longrightarrow> job_ok n (f j)"
  shows "queue_inv (s\<lparr>q_jobs := update_rows (\<lambda>j. j_id j = i) f (q_jobs s),
      running := (running s)(w := running s w - {i})\<rparr>)"
proof -
  let ?js = "update_rows (\<lambda>j. j_id j = i) f (q_jobs s)"
  obtain r where r: "r \<in> set (q_jobs s)" "j_id r = i" "j_status r = ''processing''"
    using queue_invD(6) [OF inv run] by blast
  have "job_ok (runs s (j_id j)) j" if j: "j \<in> set ?js" for j
  proof -
    from j obtain k where k: "k \<in> set (q_jobs s)" "j = (if j_id k = i then f k else k)"
      by (auto simp: set_update_rows)
    show ?thesis
    proof (cases "j_id k = i")
      case True
      with status_unique [OF inv k(1) r(1)] r(2) have "k = r" by simp
      with ok [OF queue_invD(2) [OF inv k(1)]] r k True show ?thesis by (simp add: f)
    next
      case False
      with k queue_invD(2) [OF inv k(1)] show ?thesis by simp
    qed
  qed
  moreover have "disjoint_by ((running s)(w := running s w - {i}))"
    by (rule disjoint_by_sub [OF queue_invD(4) [OF inv]]) blast
  moreover have "\<exists>j\<in>set ?js. j_id j = i' \<and> j_status j = ''pending''" if "i' \<in> held s w'" for i' w'
    by (rule kept_row [OF queue_invD(5) [OF inv that]])
       (use held_not_running [OF inv that, of w] run in auto)
  moreover have "\<exists>j\<in>set ?js. j_id j = i' \<and> j_status j = ''processing''"
    if "i' \<in> ((running s)(w := running s w - {i})) w'" for i' w'
    by (rule kept_row [OF queue_invD(6) [OF inv, of i' w']])
       (use that run queue_invD(4) [OF inv] in \<open>auto simp: disjoint_by_def split: if_splits\<close>)
  moreover have "distinct (map j_id ?js)" using queue_invD(1) [OF inv] by (simp add: f)
  ultimately show ?thesis
    using queue_invD(3) [OF inv] unfolding queue_inv_def by simp
qed

lemma inv_complete [inv_intros]:
  "queue_inv s \<Longrightarrow> i \<in> running s w \<Longrightarrow>
   queue_inv (s\<lparr>q_jobs := complete_rows now i res (q_jobs s),
     running := (running s)(w := running s w - {i})\<rparr>)"
  unfolding complete_rows_def by (rule inv_mark) (auto simp: job_ok_def)

lemma inv_fail [inv_intros]:
  "queue_inv s \<Longrightarrow> i \<in> running s w \<Longrightarrow>
   queue_inv (s\<lparr>q_jobs := fail_rows i err (q_jobs s),
     running := (running s)(w := running s w - {i})\<rparr>)"
  unfolding fail_rows_def by (rule inv_mark) (auto simp: job_ok_def)

lemma inv_lost [inv_intros]:
  assumes inv: "queue_inv s"
  shows "queue_inv (s\<lparr>running := (running s)(w := running s w - {i})\<rparr>)"
  using inv disjoint_by_sub [OF queue_invD(4) [OF inv], of "running s w - {i}" w]
  unfolding queue_inv_def by (simp, blast)

lemma inv_rollback [inv_intros]:
  assumes inv: "queue_inv s" shows "queue_inv (s\<lparr>held := (held s)(w := {})\<rparr>)"
  using inv disjoint_by_sub [OF queue_invD(3) [OF inv], of "{}" w]
  unfolding queue_inv_def by simp

lemma inv_create [inv_intros]:
  assumes inv: "queue_inv s" and new: "i \<notin> j_id ` set (q_jobs s)" and "0 < mx"
  shows "queue_inv (s\<lparr>q_jobs := q_jobs s @ [new_job i ty dat mx now], runs := (runs s)(i := 0)\<rparr>)"
proof -
  have "job_ok (((runs s)(i := 0)) (j_id j)) j" if "j \<in> set (q_jobs s @ [new_job i ty dat mx now])" for j
    using that queue_invD(2) [OF inv, of j] new assms(3) by (auto simp: new_job_def job_ok_def)
  moreover have "distinct (map j_id (q_jobs s @ [new_job i ty dat mx now]))"
    using queue_invD(1) [OF inv] new by (auto simp: new_job_def)
  moreover have "\<exists>j\<in>set (q_jobs s @ [new_job i ty dat mx now]). j_id j = k \<and> j_status j = st"
    if "\<exists>j\<in>set (q_jobs s). j_id j = k \<and> j_status j = st" for k st
    using that by auto
  ultimately show ?thesis
    using queue_invD(3,4,5,6) [OF inv] unfolding queue_inv_def by simp
qed

lemma queue_reachable_inv: "queue_reachable s \<Longrightarrow> queue_inv s"
proof (induction rule: queue_reachable.induct)
  case start
  then show ?case by (simp add: queue_inv_def disjoint_by_def)
next
  case (step s s')
  from step.hyps(2) step.IH show ?case
    by (cases rule: queue_step.cases) (simp_all add: inv_intros)
qed

text \<open>C1: however the claims, commits, roll-backs and results of the workers interleave, a job is in
  the hands of at most one worker, it is handed out at most \<open>max_attempts\<close> times in all, and it is
  marked failed exactly when its attempts are used up.\<close>

theorem queue_exclusive_and_bounded:
  assumes "queue_reachable s"
  shows "(\<forall>w w'. w \<noteq> w' \<longrightarrow> (held s w \<union> running s w) \<inter> (held s w' \<union> running s w') = {}) \<and>
    (\<forall>j\<in>set (q_jobs s). runs s (j_id j) \<le> j_max j \<and> 0 \<le> j_attempts j \<and> j_attempts j \<le> j_max j \<and>
       (j_status j = ''failed'' \<longleftrightarrow> j_attempts j = j_max j))"
proof -
  have inv: "queue_inv s" using assms by (rule queue_reachable_inv)
  have "(held s w \<union> running s w) \<inter> (held s w' \<union> running s w') = {}" if "w \<noteq> w'" for w w'
    using that queue_invD(3,4) [OF inv] held_not_running [OF inv]
    unfolding disjoint_by_def by blast
  moreover have "runs s (j_id j) \<le> j_max j \<and> 0 \<le> j_attempts j \<and> j_attempts j \<le> j_max j \<and>
       (j_status j = ''failed'' \<longleftrightarrow> j_attempts j = j_max j)" if "j \<in> set (q_jobs s)" for j
    using queue_invD(2) [OF inv that] by (auto simp: job_ok_def)
  ultimately show ?thesis by blast
qed


theorem queue_exclusive_and_bounded_witness:
  "\<exists>s. queue_reachable s \<and> running s 0 = {''job''} \<and> runs s ''job'' = 1 \<and>
     (\<forall>w. w \<noteq> 0 \<longrightarrow> running s w \<inter> {''job''} = {})"
proof -
  let ?j = "new_job ''job'' ''cleanup_r2_file'' JNull 3 0"
  let ?s0 = "\<lparr>q_jobs = [], held = \<lambda>w. {}, running = \<lambda>w. {}, runs = \<lambda>i. 0\<rparr>"
  let ?s1 = "?s0\<lparr>q_jobs := q_jobs ?s0 @ [?j], runs := (runs ?s0)(''job'' := 0)\<rparr>"
  let ?s2 = "?s1\<lparr>held := (held ?s1)(0 := set [''job''])\<rparr>"
  let ?s3 = "?s2\<lparr>q_jobs := claim_rows 1 [''job''] (q_jobs ?s2), held := (held ?s2)(0 := {}),
      running := (running ?s2)(0 := running ?s2 0 \<union> held ?s2 0),
      runs := (\<lambda>i. if i \<in> held ?s2 0 then runs ?s2 i + 1 else runs ?s2 i)\<rparr>"
  have "queue_step ?s0 ?s1" by (rule queue_step.create) simp_all
  then have 1: "queue_reachable ?s1" by (rule queue_reachable.step [OF queue_reachable.start])
  have ids: "[''job''] = claim_ids (\<Union>(range (held ?s1))) 10 (q_jobs ?s1)"
    by (simp add: claim_ids_def order_asc_def claimable_def new_job_def)
  have "queue_step ?s1 ?s2" by (rule queue_step.select [OF _ ids]) simp
  then have 2: "queue_reachable ?s2" by (rule queue_reachable.step [OF 1])
  have "queue_step ?s2 ?s3" by (rule queue_step.commit) simp
  then have 3: "queue_reachable ?s3" by (rule queue_reachable.step [OF 2])
  from queue_exclusive_and_bounded [OF 3] 3 show ?thesis by (intro exI [of _ ?s3]) simp
qed

lemma sorted_take_closed:
  assumes "sorted (map f xs)" "x \<in> set (take n xs)" "y \<in> set xs" "f y < f x"
  shows "y \<in> set (take n xs)"
proof (rule ccontr)
  assume "y \<notin> set (take n xs)"
  with assms(3) have "y \<in> set (drop n xs)" by (metis Un_iff append_take_drop_id set_append)
  moreover have "sorted (map f (take n xs) @ map f (drop n xs))"
    using assms(1) by (metis append_take_drop_id map_append)
  ultimately have "f x \<le> f y" using assms(2) by (auto simp: sorted_append)
  with assms(4) show False by simp
qed

lemma ClaimPendingJobs_InrD:
  assumes "ClaimPendingJobs env locked limit d = (Inr js, d')"
  shows "js = filter (\<lambda>j. j_id j \<in> set (claim_ids locked limit (background_jobs d)))
           (claim_rows (db_now env) (claim_ids locked limit (background_jobs d)) (background_jobs d))"
    and "background_jobs d' = claim_rows (db_now env) (claim_ids locked limit (background_jobs d)) (background_jobs d)"
    and "j_id ` set js = set (claim_ids locked limit (background_jobs d))"
proof -
  let ?ids = "claim_ids locked limit (background_jobs d)"
  let ?js = "claim_rows (db_now env) ?ids (background_jobs d)"
  show js: "js = filter (\<lambda>j. j_id j \<in> set ?ids) ?js" and "background_jobs d' = ?js"
    using assms by (auto simp: ClaimPendingJobs_def Let_def split: if_splits)
  have "set ?ids \<subseteq> j_id ` set (background_jobs d)" by (auto dest: claim_ids_set)
  moreover have "j_id ` set ?js = j_id ` set (background_jobs d)" by (metis job_ids_kept(1) set_map)
  ultimately show "j_id ` set js = set ?ids" by (auto simp: js)
qed

lemma claim_ids_oldest:
  assumes dist: "distinct (map j_id js)" and k: "k \<in> set js" "claimable k" "j_id k \<notin> locked"
    and l: "l \<in> set js" "j_id l \<in> set (claim_ids locked limit js)" "j_created k < j_created l"
  shows "j_id k \<in> set (claim_ids locked limit js)"
proof -
  define n where "n = nat (if limit \<le> 0 then 10 else limit)"
  define xs where "xs = filter (\<lambda>j. claimable j \<and> j_id j \<notin> locked) (order_asc j_created js)"
  have ids: "claim_ids locked limit js = map j_id (take n xs)"
    by (simp add: claim_ids_def xs_def n_def Let_def)
  obtain m where m: "m \<in> set (take n xs)" "j_id m = j_id l" using l(2) by (auto simp: ids)
  then have "m \<in> set js" by (auto simp: xs_def dest: in_set_takeD)
  with distinct_map_inj_eq [OF dist _ l(1)] m have "l \<in> set (take n xs)" by metis
  moreover have "sorted (map j_created xs)"
    unfolding xs_def order_asc_def by (rule sorted_filter) simp
  moreover have "k \<in> set xs" using k by (simp add: xs_def)
  ultimately have "k \<in> set (take n xs)"
    using sorted_take_closed [of j_created xs l n k] l(3) by simp
  then show ?thesis by (simp add: ids)
qed

text \<open>A successful claim hands out at most the limit (ten, if the limit is not positive), only
  jobs that were pending with attempts left and that no other transaction had locked, the oldest
  of these first; it marks exactly them as processing and leaves every other row as it was.\<close>

theorem ClaimPendingJobs_oldest_first:
  assumes dist: "distinct (map j_id (background_jobs d))"
    and claim: "ClaimPendingJobs env locked limit d = (Inr js, d')"
  shows "int (length js) \<le> (if limit \<le> 0 then 10 else limit) \<and>
    (\<forall>j\<in>set js. j_status j = ''processing'' \<and>
       (\<exists>k\<in>set (background_jobs d). j_id k = j_id j \<and> claimable k \<and> j_id k \<notin> locked)) \<and>
    (\<forall>k\<in>set (background_jobs d). j_id k \<notin> j_id ` set js \<longrightarrow> k \<in> set (background_jobs d')) \<and>
    (\<forall>k\<in>set (background_jobs d). \<forall>l\<in>set (background_jobs d).
       claimable k \<and> j_id k \<notin> locked \<and> j_id l \<in> j_id ` set js \<and> j_created k < j_created l \<longrightarrow>
       j_id k \<in> j_id ` set js)"
proof -
  let ?ids = "claim_ids locked limit (background_jobs d)"
  note js = ClaimPendingJobs_InrD [OF claim]
  have dj: "distinct (map j_id js)"
    unfolding js(1) using dist by (intro distinct_map_filter) simp
  have "length js = card (set ?ids)"
    using dj js(3) by (metis distinct_card length_map set_map)
  also have "\<dots> \<le> length ?ids" by (rule card_length)
  also have "\<dots> \<le> nat (if limit \<le> 0 then 10 else limit)" by (simp add: claim_ids_def Let_def)
  finally have 1: "int (length js) \<le> (if limit \<le> 0 then 10 else limit)"
    by (simp split: if_splits)
  have 2: "j_status j = ''processing'' \<and>
       (\<exists>k\<in>set (background_jobs d). j_id k = j_id j \<and> claimable k \<and> j_id k \<notin> locked)" if j: "j \<in> set js" for j
  proof -
    from j have "j_id j \<in> set ?ids" "j \<in> set (claim_rows (db_now env) ?ids (background_jobs d))"
      by (auto simp: js(1))
    then show ?thesis
      using claim_ids_set [of "j_id j" locked limit "background_jobs d"]
      by (fastforce simp: claim_rows_def set_update_rows split: if_splits)
  qed
  have 3: "k \<in> set (background_jobs d')" if "k \<in> set (background_jobs d)" "j_id k \<notin> j_id ` set js" for k
    unfolding js(2) claim_rows_def using that js(3) by (intro update_rows_keeps) simp_all
  show ?thesis
    by (intro conjI ballI impI)
       (use 1 in simp, rule conjunct1 [OF 2], assumption, rule conjunct2 [OF 2], assumption,
        rule 3, assumption, assumption, unfold js(3), elim conjE, rule claim_ids_oldest [OF dist], assumption+)
qed

theorem ClaimPendingJobs_oldest_first_witness:
  "\<exists>js d'. ClaimPendingJobs \<lparr>fails = \<lambda>c a. False, db_now = 9, gen_uuid = \<lambda>n. '''', norows_equal = False, has_access_table = True\<rparr>
      {} 1 (empty_db\<lparr>background_jobs := [new_job ''b'' ''t'' JNull 3 5, new_job ''a'' ''t'' JNull 3 1]\<rparr>) =
    (Inr js, d') \<and> int (length js) \<le> 1"
proof -
  let ?e = "\<lparr>fails = \<lambda>c a. False, db_now = 9, gen_uuid = \<lambda>n. '''', norows_equal = False, has_access_table = True\<rparr>"
  let ?d = "empty_db\<lparr>background_jobs := [new_job ''b'' ''t'' JNull 3 5, new_job ''a'' ''t'' JNull 3 1]\<rparr>"
  have "\<exists>js d'. ClaimPendingJobs ?e {} 1 ?d = (Inr js, d')"
    by (simp add: ClaimPendingJobs_def Let_def)
  then obtain js d' where c: "ClaimPendingJobs ?e {} 1 ?d = (Inr js, d')" by blast
  have "distinct (map j_id (background_jobs ?d))" by (simp add: new_job_def)
  from ClaimPendingJobs_oldest_first [OF this c] c show ?thesis by simp
qed

end
