(* ===== verification/Projects.thy ===== *)
theory Projects
  imports JobQueue
begin

text \<open>
  \<open>db/queries.go\<close> and \<open>db/queries_phase2.go\<close>: users, projects, tracks, track versions, shares and
  roles. A query that scans a nullable column into a Go string fails on \<open>NULL\<close>. Inserts respect
  the primary keys, foreign keys and unique constraints of the migrations (\<open>Conflict\<close>).
\<close>

subsection \<open>Users\<close>

definition scan_user :: "user_row \<Rightarrow> user_row db_result" where
  "scan_user u = (if u_avatar u = None then Inl Fault else Inr u)"

definition GetUserByID :: "dbenv \<Rightarrow> string \<Rightarrow> database \<Rightarrow> user_row option db_result" where
  "GetUserByID env userID d =
     (case query_row env ''GetUserByID'' [userID] (filter (\<lambda>u. u_id u = userID) (users d)) of
        Inl e \<Rightarrow> if is_sql_no_rows env e then Inr None else Inl e
      | Inr u \<Rightarrow> (case scan_user u of Inl e \<Rightarrow> Inl e | Inr u \<Rightarrow> Inr (Some u)))"

definition GetUserByEmail :: "dbenv \<Rightarrow> string \<Rightarrow> database \<Rightarrow> user_row db_result" where
  "GetUserByEmail env email d =
     (case query_row env ''GetUserByEmail'' [email]
             (filter (\<lambda>u. u_email u = email \<and> u_deleted u = None) (users d)) of
        Inl e \<Rightarrow> Inl e | Inr u \<Rightarrow> scan_user u)"

text \<open>The defaults of the columns that the inserts leave out (\<open>migrations/030\<close> and \<open>042\<close>).\<close>

definition default_privacy :: json where
  "default_privacy = JObj [(''share_profile'', JBool True), (''show_in_search'', JBool True),
     (''allow_collaboration_requests'', JBool True)]"

definition CreateUser :: "dbenv \<Rightarrow> user_row \<Rightarrow> database \<Rightarrow> user_row db_result \<times> database" where
  "CreateUser env user d =
     (let user = user\<lparr>u_role := Some ''user'', u_privacy := Some default_privacy, u_deleted := None\<rparr>
      in if fails env ''CreateUser'' [u_id user] then (Inl Fault, d)
         else if \<exists>u\<in>set (users d). u_id u = u_id user \<or> u_email u = u_email user then (Inl Conflict, d)
         else (Inr user, d\<lparr>users := users d @ [user]\<rparr>))"

definition auth_email :: "string \<Rightarrow> string \<Rightarrow> string" where
  "auth_email userID email =
     (let normalizedEmail = TrimSpace (ToLower email)
      in if normalizedEmail = '''' then userID @ ''@auth.local'' else normalizedEmail)"

definition auth_username :: "string \<Rightarrow> string" where
  "auth_username email =
     (let username = (case Index email ''@'' of Some at \<Rightarrow> if at > 0 then take at email else email
                      | None \<Rightarrow> email);
          username = TrimSpace username;
          username = (if username = '''' then ''user'' else username)
      in if length username > 32 then take 32 username else username)"

text \<open>An insert that collides on \<open>id\<close> updates the address instead; one that collides on another
  user's address violates the unique constraint.\<close>

definition EnsureAuthUser :: "dbenv \<Rightarrow> string \<Rightarrow> string \<Rightarrow> database \<Rightarrow> unit db_result \<times> database" where
  "EnsureAuthUser env userID email d =
     (if TrimSpace userID = '''' then (Inl Fault, d)
      else let e = auth_email userID email; now = db_now env
        in if fails env ''EnsureAuthUser'' [userID] then (Inl Fault, d)
           else if \<exists>u\<in>set (users d). u_id u \<noteq> userID \<and> u_email u = e then (Inl Conflict, d)
           else if \<exists>u\<in>set (users d). u_id u = userID then
             (Inr (), d\<lparr>users := update_rows (\<lambda>u. u_id u = userID)
                                  (\<lambda>u. u\<lparr>u_email := e, u_updated := now\<rparr>) (users d)\<rparr>)
           else (Inr (), d\<lparr>users := users d @ [\<lparr>u_id = userID, u_email = e, u_username = auth_username e,
                   u_avatar = None, u_role = Some ''user'', u_privacy = Some default_privacy, u_created = now, u_updated = now,
                   u_deleted = None\<rparr>]\<rparr>))"

subsection \<open>Projects\<close>

definition active_share :: "share_row \<Rightarrow> string \<Rightarrow> string \<Rightarrow> bool" where
  "active_share ps projectID userID \<longleftrightarrow>
     ps_project ps = projectID \<and> ps_with ps = Some userID \<and> ps_revoked ps = None"

definition shared_with :: "database \<Rightarrow> string \<Rightarrow> string \<Rightarrow> bool" where
  "shared_with d projectID userID \<longleftrightarrow> list_ex (\<lambda>ps. active_share ps projectID userID) (shares d)"

definition GetProjectByID :: "dbenv \<Rightarrow> string \<Rightarrow> string \<Rightarrow> database \<Rightarrow> project_row db_result" where
  "GetProjectByID env projectID userID d =
     query_row env ''GetProjectByID'' [projectID, userID]
       (filter (\<lambda>p. p_id p = projectID \<and> p_deleted p = None \<and>
          (p_user p = userID \<or> shared_with d (p_id p) userID)) (projects d))"

text \<open>Every share counts here, revoked or not.\<close>

definition GetUserProjects :: "dbenv \<Rightarrow> string \<Rightarrow> database \<Rightarrow> project_row list db_result" where
  "GetUserProjects env userID d =
     query_all env ''GetUserProjects'' [userID]
       (order_desc p_updated (filter (\<lambda>p. p_deleted p = None \<and>
          (p_user p = userID \<or> list_ex (\<lambda>ps. ps_project ps = p_id p \<and> ps_with ps = Some userID) (shares d)))
          (projects d)))"

definition getUserOwnedProjectsPaginated ::
  "dbenv \<Rightarrow> string \<Rightarrow> int \<Rightarrow> int \<Rightarrow> database \<Rightarrow> (project_row list \<times> int) db_result" where
  "getUserOwnedProjectsPaginated env userID limit offset d =
     (let owned = filter (\<lambda>p. p_user p = userID \<and> p_deleted p = None) (projects d)
      in if fails env ''getUserOwnedProjectsPaginated/Count'' [userID] then Inl Fault
         else case query_page env ''getUserOwnedProjectsPaginated'' [userID] limit offset
                     (order_desc p_updated owned) of
                Inl e \<Rightarrow> Inl e | Inr ps \<Rightarrow> Inr (ps, int (length owned)))"

definition CreateProject :: "dbenv \<Rightarrow> project_row \<Rightarrow> database \<Rightarrow> project_row db_result \<times> database" where
  "CreateProject env p d =
     (let p = p\<lparr>p_is_private := True, p_cover := None, p_genre := '''', p_release := None, p_deleted := None\<rparr>
      in if fails env ''CreateProject'' [p_id p] then (Inl Fault, d)
         else if (\<exists>q\<in>set (projects d). p_id q = p_id p) \<or> \<not> (\<exists>u\<in>set (users d). u_id u = p_user p)
         then (Inl Conflict, d)
         else (Inr p, grant_access env (p_user p) (p_id p) ''owner'' (d\<lparr>projects := projects d @ [p]\<rparr>)))"

definition UpdateProjectPrivacy ::
  "dbenv \<Rightarrow> string \<Rightarrow> bool \<Rightarrow> string \<Rightarrow> go_time option \<Rightarrow> database \<Rightarrow> unit db_result \<times> database" where
  "UpdateProjectPrivacy env projectID isPrivate genre releaseDate =
     exec_stmt env ''UpdateProjectPrivacy'' [projectID]
       (\<lambda>d. d\<lparr>projects := update_rows (\<lambda>p. p_id p = projectID)
          (\<lambda>p. p\<lparr>p_is_private := isPrivate, p_genre := (if genre = '''' then p_genre p else genre),
                p_release := releaseDate, p_updated := db_now env\<rparr>) (projects d)\<rparr>)"

text \<open>\<open>queue_cleanup\<close> inserts one clean-up job per file, as the triggers of \<open>migrations/025\<close> do.\<close>

definition version_cleanup :: "version_row \<Rightarrow> json" where
  "version_cleanup v = JObj [(''r2_object_key'', JStr (v_key v)), (''file_size'', JNum (v_size v)),
     (''track_id'', JStr (v_track v))]"

definition image_cleanup :: "image_row \<Rightarrow> json" where
  "image_cleanup i = JObj [(''r2_object_key'', JStr (i_key i)), (''file_size'', JNum (i_size i)),
     (''image_id'', JStr (i_id i))]"

fun queue_cleanup :: "dbenv \<Rightarrow> json list \<Rightarrow> database \<Rightarrow> database" where
  "queue_cleanup env [] d = d"
| "queue_cleanup env (f # fs) d =
     queue_cleanup env fs
       (d\<lparr>background_jobs := background_jobs d @
            [new_job (gen_uuid env (uuid_count d)) ''cleanup_r2_file'' f 3 (db_now env)],
          uuid_count := uuid_count d + 1\<rparr>)"

definition project_versions :: "database \<Rightarrow> string \<Rightarrow> version_row list" where
  "project_versions d projectID =
     filter (\<lambda>v. list_ex (\<lambda>t. t_id t = v_track v \<and> t_project t = projectID) (tracks d)) (versions d)"

definition cover_files :: "database \<Rightarrow> string option \<Rightarrow> json list" where
  "cover_files d c =
     (case c of None \<Rightarrow> [] | Some img \<Rightarrow> map image_cleanup (filter (\<lambda>i. i_id i = img) (images d)))"

text \<open>The soft delete sets off the trigger on \<open>projects\<close>: the clean-up of the files is queued at once.\<close>

definition DeleteProject :: "dbenv \<Rightarrow> string \<Rightarrow> string \<Rightarrow> database \<Rightarrow> bool db_result \<times> database" where
  "DeleteProject env projectID userID d =
     (let hit = (\<lambda>p. p_id p = projectID \<and> p_user p = userID \<and> p_deleted p = None);
          hits = filter hit (projects d);
          now = db_now env;
          d1 = d\<lparr>projects := update_rows hit (\<lambda>p. p\<lparr>p_deleted := Some now, p_updated := now\<rparr>) (projects d)\<rparr>;
          files = concat (map (\<lambda>p. map version_cleanup (project_versions d (p_id p)) @
                                   cover_files d (p_cover p)) hits)
      in if fails env ''DeleteProject/Begin'' [] \<or> fails env ''DeleteProject/SetConfig'' [userID] \<or>
            fails env ''DeleteProject/Update'' [projectID] \<or> fails env ''DeleteProject/Commit'' [] then (Inl Fault, d)
         else (Inr (hits \<noteq> []), queue_cleanup env files d1))"

definition GetSoftDeletedProjects :: "dbenv \<Rightarrow> duration \<Rightarrow> database \<Rightarrow> project_row list db_result" where
  "GetSoftDeletedProjects env olderThan d =
     query_all env ''GetSoftDeletedProjects'' []
       (filter (\<lambda>p. case p_deleted p of None \<Rightarrow> False
                    | Some t \<Rightarrow> t < db_now env - (olderThan div second) * second) (projects d))"

definition GetAllProjectTrackVersions :: "dbenv \<Rightarrow> string \<Rightarrow> database \<Rightarrow> version_row list db_result" where
  "GetAllProjectTrackVersions env projectID d =
     query_all env ''GetAllProjectTrackVersions'' [projectID] (project_versions d projectID)"

definition LogR2CleanupFailure :: "dbenv \<Rightarrow> string \<Rightarrow> string \<Rightarrow> database \<Rightarrow> unit db_result \<times> database" where
  "LogR2CleanupFailure env r2ObjectKey errorMessage =
     exec_stmt env ''LogR2CleanupFailure'' [r2ObjectKey]
       (\<lambda>d. d\<lparr>audit_logs := audit_logs d @ [\<lparr>al_id = gen_uuid env (uuid_count d), al_user = None,
               al_action = ''r2_cleanup_failure'', al_resource = r2ObjectKey,
               al_details = JObj [(''error'', JStr errorMessage)], al_created = db_now env, al_event = None\<rparr>],
            uuid_count := uuid_count d + 1\<rparr>)"

text \<open>The delete cascades to tracks, versions, shares, collaborators, likes, comments, share links and
  offline downloads, but not to the access table, clears the references of notifications, and each deleted version queues
  the clean-up of its file.\<close>

definition clear_reference :: "(string \<Rightarrow> bool) \<Rightarrow> string option \<Rightarrow> string option" where
  "clear_reference gone x = (case x of None \<Rightarrow> None | Some i \<Rightarrow> if gone i then None else Some i)"

definition delete_project_rows :: "string \<Rightarrow> database \<Rightarrow> database" where
  "delete_project_rows projectID d =
     (let vs = project_versions d projectID
      in d\<lparr>projects := filter (\<lambda>p. p_id p \<noteq> projectID) (projects d),
           tracks := filter (\<lambda>t. t_project t \<noteq> projectID) (tracks d),
           versions := filter (\<lambda>v. v \<notin> set vs) (versions d),
           shares := filter (\<lambda>ps. ps_project ps \<noteq> projectID) (shares d),
           collaborators := filter (\<lambda>c. c_project c \<noteq> projectID) (collaborators d),
           likes := filter (\<lambda>l. \<not> list_ex (\<lambda>t. t_id t = lk_track l \<and> t_project t = projectID) (tracks d)) (likes d),
           comments := filter (\<lambda>c. \<not> list_ex (\<lambda>v. v_id v = cm_version c) vs) (comments d),
           share_links := filter (\<lambda>l. sl_project l \<noteq> projectID) (share_links d),
           offline_downloads := filter (\<lambda>od. od_project od \<noteq> projectID) (offline_downloads d),
           play_history := filter (\<lambda>h. pl_project h \<noteq> projectID) (play_history d),
           notifications := map (\<lambda>n. n\<lparr>n_project := clear_reference (\<lambda>i. i = projectID) (n_project n),
             n_track := clear_reference (\<lambda>i. list_ex (\<lambda>t. t_id t = i \<and> t_project t = projectID) (tracks d)) (n_track n),
             n_comment := clear_reference (\<lambda>i. list_ex (\<lambda>c. cm_id c = i \<and> list_ex (\<lambda>v. v_id v = cm_version c) vs)
               (comments d)) (n_comment n)\<rparr>) (notifications d)\<rparr>)"

definition HardDeleteProject :: "dbenv \<Rightarrow> string \<Rightarrow> database \<Rightarrow> unit db_result \<times> database" where
  "HardDeleteProject env projectID =
     exec_stmt env ''HardDeleteProject'' [projectID]
       (\<lambda>d. if \<not> (\<exists>p\<in>set (projects d). p_id p = projectID) then d
            else queue_cleanup env (map version_cleanup (project_versions d projectID))
                   (delete_project_rows projectID d))"

subsection \<open>Tracks and versions\<close>

definition live_tracks :: "database \<Rightarrow> string \<Rightarrow> track_row list" where
  "live_tracks d projectID = filter (\<lambda>t. t_project t = projectID \<and> t_deleted t = None) (tracks d)"

definition GetProjectTracks :: "dbenv \<Rightarrow> string \<Rightarrow> database \<Rightarrow> track_row list db_result" where
  "GetProjectTracks env projectID d =
     query_all env ''GetProjectTracks'' [projectID] (order_desc t_created (live_tracks d projectID))"

definition GetProjectTracksPaginated ::
  "dbenv \<Rightarrow> string \<Rightarrow> int \<Rightarrow> int \<Rightarrow> database \<Rightarrow> (track_row list \<times> int) db_result" where
  "GetProjectTracksPaginated env projectID limit offset d =
     (if fails env ''GetProjectTracksPaginated/Count'' [projectID] then Inl Fault
      else case query_page env ''GetProjectTracksPaginated'' [projectID] limit offset
                  (order_desc t_created (live_tracks d projectID)) of
             Inl e \<Rightarrow> Inl e | Inr ts \<Rightarrow> Inr (ts, int (length (live_tracks d projectID))))"

definition CreateTrack :: "dbenv \<Rightarrow> track_row \<Rightarrow> database \<Rightarrow> track_row db_result \<times> database" where
  "CreateTrack env t d =
     (let t = t\<lparr>t_deleted := None\<rparr>
      in if fails env ''CreateTrack'' [t_id t] then (Inl Fault, d)
         else if (\<exists>s\<in>set (tracks d). t_id s = t_id t) \<or> \<not> (\<exists>p\<in>set (projects d). p_id p = t_project t) \<or>
            \<not> (\<exists>u\<in>set (users d). u_id u = t_user t) then (Inl Conflict, d)
         else (Inr t, d\<lparr>tracks := tracks d @ [t]\<rparr>))"

definition DeleteTrack :: "dbenv \<Rightarrow> string \<Rightarrow> database \<Rightarrow> bool db_result \<times> database" where
  "DeleteTrack env trackID d =
     (let hit = (\<lambda>t. t_id t = trackID \<and> t_deleted t = None);
          now = db_now env;
          d1 = d\<lparr>tracks := update_rows hit (\<lambda>t. t\<lparr>t_deleted := Some now, t_updated := now\<rparr>) (tracks d)\<rparr>;
          d2 = d1\<lparr>versions := update_rows (\<lambda>v. v_track v = trackID \<and> v_deleted v = None)
                    (\<lambda>v. v\<lparr>v_deleted := Some now\<rparr>) (versions d1)\<rparr>
      in if fails env ''DeleteTrack/Begin'' [] \<or> fails env ''DeleteTrack/Tracks'' [trackID] then (Inl Fault, d)
         else if rows_affected hit (tracks d) = 0 then (Inr False, d)
         else if fails env ''DeleteTrack/Versions'' [trackID] \<or> fails env ''DeleteTrack/Commit'' []
         then (Inl Fault, d)
         else (Inr True, d2))"

definition live_versions :: "database \<Rightarrow> string \<Rightarrow> version_row list" where
  "live_versions d trackID = filter (\<lambda>v. v_track v = trackID \<and> v_deleted v = None) (versions d)"

definition GetTrackVersions :: "dbenv \<Rightarrow> string \<Rightarrow> database \<Rightarrow> version_row list db_result" where
  "GetTrackVersions env trackID d =
     query_all env ''GetTrackVersions'' [trackID] (order_desc v_number (live_versions d trackID))"

definition GetTrackVersionsPaginated ::
  "dbenv \<Rightarrow> string \<Rightarrow> int \<Rightarrow> int \<Rightarrow> database \<Rightarrow> (version_row list \<times> int) db_result" where
  "GetTrackVersionsPaginated env trackID limit offset d =
     (if fails env ''GetTrackVersionsPaginated/Count'' [trackID] then Inl Fault
      else case query_page env ''GetTrackVersionsPaginated'' [trackID] limit offset
                  (order_desc v_number (live_versions d trackID)) of
             Inl e \<Rightarrow> Inl e | Inr vs \<Rightarrow> Inr (vs, int (length (live_versions d trackID))))"

definition GetTrackByID :: "dbenv \<Rightarrow> string \<Rightarrow> database \<Rightarrow> track_row option db_result" where
  "GetTrackByID env trackID d =
     (case query_row env ''GetTrackByID'' [trackID]
             (filter (\<lambda>t. t_id t = trackID \<and> t_deleted t = None) (tracks d)) of
        Inl e \<Rightarrow> if is_sql_no_rows env e then Inr None else Inl e
      | Inr t \<Rightarrow> Inr (Some t))"

text \<open>Deleted versions count here.\<close>

definition GetLatestTrackVersionNumber :: "dbenv \<Rightarrow> string \<Rightarrow> database \<Rightarrow> int db_result" where
  "GetLatestTrackVersionNumber env trackID d =
     (if fails env ''GetLatestTrackVersionNumber'' [trackID] then Inl Fault
      else let ns = map v_number (filter (\<lambda>v. v_track v = trackID) (versions d))
        in Inr (if ns = [] then 0 else Max (set ns)))"

definition GetLatestTrackVersion :: "dbenv \<Rightarrow> string \<Rightarrow> database \<Rightarrow> version_row option db_result" where
  "GetLatestTrackVersion env trackID d =
     (case query_row env ''GetLatestTrackVersion'' [trackID] (order_desc v_number (live_versions d trackID)) of
        Inl e \<Rightarrow> if is_sql_no_rows env e then Inr None else Inl e
      | Inr v \<Rightarrow> Inr (Some v))"

definition CreateTrackVersion :: "dbenv \<Rightarrow> version_row \<Rightarrow> database \<Rightarrow> version_row db_result \<times> database" where
  "CreateTrackVersion env v d =
     (let v = v\<lparr>v_key := '''', v_size := 0, v_checksum := '''', v_deleted := None\<rparr>
      in if fails env ''CreateTrackVersion'' [v_id v] then (Inl Fault, d)
         else if (\<exists>u\<in>set (versions d). v_id u = v_id v \<or> (v_track u = v_track v \<and> v_number u = v_number v)) \<or>
            \<not> (\<exists>t\<in>set (tracks d). t_id t = v_track v) then (Inl Conflict, d)
         else (Inr v, d\<lparr>versions := versions d @ [v]\<rparr>))"

definition UpdateTrackVersionAfterUpload ::
  "dbenv \<Rightarrow> string \<Rightarrow> string \<Rightarrow> string \<Rightarrow> int \<Rightarrow> database \<Rightarrow> unit db_result \<times> database" where
  "UpdateTrackVersionAfterUpload env versionID r2Key checksum fileSize d =
     (if fails env ''UpdateTrackVersionAfterUpload'' [versionID] then (Inl Fault, d)
      else if \<not> (\<exists>v\<in>set (versions d). v_id v = versionID) then (Inl NoRows, d)
      else (Inr (), d\<lparr>versions := update_rows (\<lambda>v. v_id v = versionID)
              (\<lambda>v. v\<lparr>v_key := r2Key, v_size := fileSize, v_checksum := checksum\<rparr>) (versions d)\<rparr>))"

definition GetTrackVersionByNumber :: "dbenv \<Rightarrow> string \<Rightarrow> int \<Rightarrow> database \<Rightarrow> version_row db_result" where
  "GetTrackVersionByNumber env trackID versionNumber d =
     query_row env ''GetTrackVersionByNumber'' [trackID]
       (filter (\<lambda>v. v_track v = trackID \<and> v_number v = versionNumber) (versions d))"

definition UpdateTrackActiveVersion ::
  "dbenv \<Rightarrow> go_time \<Rightarrow> string \<Rightarrow> string \<Rightarrow> int \<Rightarrow> string \<Rightarrow> database \<Rightarrow> unit db_result \<times> database" where
  "UpdateTrackActiveVersion env now trackID r2ObjectKey fileSize checksum d =
     (if fails env ''UpdateTrackActiveVersion'' [trackID] then (Inl Fault, d)
      else if \<not> (\<exists>t\<in>set (tracks d). t_id t = trackID) then (Inl NoRows, d)
      else (Inr (), d\<lparr>tracks := update_rows (\<lambda>t. t_id t = trackID) (\<lambda>t. t\<lparr>t_updated := now\<rparr>) (tracks d)\<rparr>))"


subsection \<open>Shares and roles\<close>

definition CreateProjectShare :: "dbenv \<Rightarrow> share_row \<Rightarrow> database \<Rightarrow> share_row db_result \<times> database" where
  "CreateProjectShare env s d =
     (let s = s\<lparr>ps_revoked := None\<rparr>
      in if fails env ''CreateProjectShare'' [ps_id s] then (Inl Fault, d)
         else if (\<exists>q\<in>set (shares d). ps_id q = ps_id s \<or> ps_token q = ps_token s) \<or>
            \<not> (\<exists>p\<in>set (projects d). p_id p = ps_project s) \<or>
            has_access_table env \<and> ps_with s = None then (Inl Conflict, d)
         else (Inr s, case ps_with s of
                        None \<Rightarrow> d\<lparr>shares := shares d @ [s]\<rparr>
                      | Some u \<Rightarrow> grant_access env u (ps_project s) ''shared'' (d\<lparr>shares := shares d @ [s]\<rparr>)))"

text \<open>The trigger on a new share refuses one without a user. The look-up by token checks the expiry
  and not the revocation.\<close>

definition GetShareByToken :: "dbenv \<Rightarrow> string \<Rightarrow> database \<Rightarrow> share_row db_result" where
  "GetShareByToken env token d =
     query_row env ''GetShareByToken'' [token]
       (filter (\<lambda>s. ps_token s = token \<and>
          (case ps_expires s of None \<Rightarrow> True | Some t \<Rightarrow> t > db_now env)) (shares d))"

definition AddCollaborator :: "dbenv \<Rightarrow> collaborator_row \<Rightarrow> database \<Rightarrow> unit db_result \<times> database" where
  "AddCollaborator env c d =
     (let same = (\<lambda>q. c_project q = c_project c \<and> c_user q = c_user c)
      in if fails env ''AddCollaborator'' [c_id c] then (Inl Fault, d)
         else if \<not> (\<exists>p\<in>set (projects d). p_id p = c_project c) \<or> \<not> (\<exists>u\<in>set (users d). u_id u = c_user c) \<or>
            (\<exists>q\<in>set (collaborators d). c_id q = c_id c \<and> \<not> same q) then (Inl Conflict, d)
         else if \<exists>q\<in>set (collaborators d). same q then
           (Inr (), d\<lparr>collaborators := update_rows same
              (\<lambda>q. q\<lparr>c_role := c_role c, c_invited := c_invited c\<rparr>) (collaborators d)\<rparr>)
         else (Inr (), grant_access env (c_user c) (c_project c) ''collaborator''
                (d\<lparr>collaborators := collaborators d @ [c\<lparr>c_deleted := None\<rparr>]\<rparr>)))"

definition collaborator :: "database \<Rightarrow> string \<Rightarrow> string \<Rightarrow> collaborator_row option" where
  "collaborator d projectID userID =
     find (\<lambda>c. c_project c = projectID \<and> c_user c = userID \<and> c_deleted c = None) (collaborators d)"

definition GetUserRoleOptimized :: "dbenv \<Rightarrow> string \<Rightarrow> string \<Rightarrow> database \<Rightarrow> string db_result" where
  "GetUserRoleOptimized env projectID userID d =
     (case query_row env ''GetUserRoleOptimized'' [projectID, userID]
             (map (\<lambda>p. if p_user p = userID then ''owner''
                  else case collaborator d (p_id p) userID of
                         Some c \<Rightarrow> c_role c
                       | None \<Rightarrow> if shared_with d (p_id p) userID then ''viewer'' else ''denied'')
               (filter (\<lambda>p. p_id p = projectID) (projects d))) of
        Inl e \<Rightarrow> if is_sql_no_rows env e then Inr ''denied'' else Inl e
      | Inr role \<Rightarrow> Inr role)"

text \<open>Only the version itself must be undeleted, not its track or project.\<close>

definition GetTrackVersionWithAccess ::
  "dbenv \<Rightarrow> string \<Rightarrow> string \<Rightarrow> string \<Rightarrow> database \<Rightarrow> version_row option db_result" where
  "GetTrackVersionWithAccess env trackID versionID userID d =
     (case query_row env ''GetTrackVersionWithAccess'' [trackID, versionID, userID]
             (filter (\<lambda>v. v_id v = versionID \<and> v_track v = trackID \<and> v_deleted v = None \<and>
                list_ex (\<lambda>t. t_id t = trackID \<and> list_ex (\<lambda>p. p_id p = t_project t \<and>
                  (p_user p = userID \<or> shared_with d (p_id p) userID \<or>
                   list_ex (\<lambda>c. c_project c = p_id p \<and> c_user c = userID \<and> c_deleted c = None) (collaborators d)))
                  (projects d)) (tracks d)) (versions d)) of
        Inl e \<Rightarrow> if is_sql_no_rows env e then Inr None else Inl e
      | Inr v \<Rightarrow> Inr (Some v))"

subsection \<open>Frame lemmas\<close>

lemma queue_cleanup_frame [frame_simps]:
  "projects (queue_cleanup env fs d) = projects d"
  "tracks (queue_cleanup env fs d) = tracks d"
  "versions (queue_cleanup env fs d) = versions d"
  "shares (queue_cleanup env fs d) = shares d"
  "collaborators (queue_cleanup env fs d) = collaborators d"
  "users (queue_cleanup env fs d) = users d"
  by (induction env fs d rule: queue_cleanup.induct) simp_all

lemma queue_cleanup_keeps: "j \<in> set (background_jobs d) \<Longrightarrow> j \<in> set (background_jobs (queue_cleanup env fs d))"
  by (induction env fs d rule: queue_cleanup.induct) simp_all

lemma queue_cleanup_has:
  "f \<in> set fs \<Longrightarrow> \<exists>j\<in>set (background_jobs (queue_cleanup env fs d)).
     j_type j = ''cleanup_r2_file'' \<and> j_data j = f \<and> claimable j"
proof (induction env fs d rule: queue_cleanup.induct)
  case (1 env d)
  then show ?case by simp
next
  case (2 env g fs d)
  let ?j = "new_job (gen_uuid env (uuid_count d)) ''cleanup_r2_file'' g 3 (db_now env)"
  show ?case
  proof (cases "f = g")
    case True
    have "?j \<in> set (background_jobs (queue_cleanup env (g # fs) d))"
      by (simp add: queue_cleanup_keeps)
    moreover have "j_type ?j = ''cleanup_r2_file'' \<and> j_data ?j = f \<and> claimable ?j"
      by (simp add: new_job_def claimable_def True)
    ultimately show ?thesis by blast
  next
    case False
    with 2 show ?thesis by simp
  qed
qed


subsection \<open>Deletion\<close>

abbreviation hits :: "string \<Rightarrow> string \<Rightarrow> project_row \<Rightarrow> bool" where
  "hits projectID userID p \<equiv> p_id p = projectID \<and> p_user p = userID \<and> p_deleted p = None"

abbreviation soft_deleted :: "dbenv \<Rightarrow> string \<Rightarrow> string \<Rightarrow> project_row list \<Rightarrow> project_row list" where
  "soft_deleted env projectID userID \<equiv>
     update_rows (hits projectID userID) (\<lambda>p. p\<lparr>p_deleted := Some (db_now env), p_updated := db_now env\<rparr>)"

abbreviation files_of :: "database \<Rightarrow> string \<Rightarrow> string \<Rightarrow> json list" where
  "files_of d projectID userID \<equiv>
     concat (map (\<lambda>p. map version_cleanup (project_versions d (p_id p)) @ cover_files d (p_cover p))
       (filter (hits projectID userID) (projects d)))"

lemma DeleteProject_cases:
  assumes del: "DeleteProject env projectID userID d = (res, d')"
  obtains (fault) e where "res = Inl e" "d' = d"
    | (none) "res = Inr False" "filter (hits projectID userID) (projects d) = []" "d' = d"
    | (ok) q where "res = Inr True" "q \<in> set (projects d)" "hits projectID userID q"
        "d' = queue_cleanup env (files_of d projectID userID)
           (d\<lparr>projects := soft_deleted env projectID userID (projects d)\<rparr>)"
proof (cases "fails env ''DeleteProject/Begin'' [] \<or> fails env ''DeleteProject/SetConfig'' [userID] \<or>
    fails env ''DeleteProject/Update'' [projectID] \<or> fails env ''DeleteProject/Commit'' []")
  case True
  with del have "res = Inl Fault \<and> d' = d" by (simp add: DeleteProject_def Let_def)
  with fault show thesis by blast
next
  case False
  with del have r: "res = Inr (filter (hits projectID userID) (projects d) \<noteq> [])"
      "d' = queue_cleanup env (files_of d projectID userID)
         (d\<lparr>projects := soft_deleted env projectID userID (projects d)\<rparr>)"
    unfolding DeleteProject_def Let_def by (metis (no_types, lifting) prod.inject)+
  show thesis
  proof (cases "filter (hits projectID userID) (projects d) = []")
    case True
    then have "soft_deleted env projectID userID (projects d) = projects d"
      by (intro update_rows_none) (auto simp: filter_empty_conv)
    with r True none show thesis by simp
  next
    case False
    then obtain q where "q \<in> set (projects d)" "hits projectID userID q" by (auto simp: filter_empty_conv)
    with r False ok show thesis by simp
  qed
qed

lemma soft_deleted_gone:
  assumes "distinct (map p_id ps)" and "q \<in> set ps" and "hits projectID userID q"
    and "p \<in> set (soft_deleted env projectID userID ps)" and "p_id p = projectID"
  shows "p_deleted p \<noteq> None"
proof -
  obtain p0 where p0: "p0 \<in> set ps" "p = (if hits projectID userID p0
      then p0\<lparr>p_deleted := Some (db_now env), p_updated := db_now env\<rparr> else p0)"
    using assms(4) unfolding set_update_rows by blast
  then have "p_id p0 = p_id q" using assms(3,5) by (simp split: if_splits)
  from distinct_map_inj_eq [OF assms(1) p0(1) assms(2) this] assms(3) p0(2) show ?thesis by simp
qed

text \<open>C18: deleting a project is atomic, hides it from everyone and cannot be repeated; it leaves other
  projects alone, and it queues at once, claimable by the job processor, the removal of the stored
  file of every version: nothing waits for the thirty days of the clean-up job.\<close>

theorem DeleteProject_effect:
  assumes del: "DeleteProject env projectID userID d = (res, d')" and dist: "distinct (map p_id (projects d))"
  shows "case res of
      Inl e \<Rightarrow> d' = d
    | Inr False \<Rightarrow> projects d' = projects d \<and> background_jobs d' = background_jobs d
    | Inr True \<Rightarrow>
        (\<forall>env' u p. GetProjectByID env' projectID u d' \<noteq> Inr p) \<and>
        (\<forall>env' b d''. DeleteProject env' projectID userID d' = (Inr b, d'') \<longrightarrow> \<not> b) \<and>
        (\<forall>p\<in>set (projects d). p_id p \<noteq> projectID \<longrightarrow> p \<in> set (projects d')) \<and>
        (\<forall>v\<in>set (project_versions d projectID). \<exists>j\<in>set (background_jobs d').
           j_type j = ''cleanup_r2_file'' \<and> j_data j = version_cleanup v \<and> claimable j)"
proof -
  show ?thesis
  using del
  proof (cases rule: DeleteProject_cases)
    case (ok q)
    have ps: "projects d' = soft_deleted env projectID userID (projects d)" using ok(4) by (simp add: frame_simps)
    have hidden: "GetProjectByID env' projectID u d' \<noteq> Inr p" for env' u p
    proof
      assume "GetProjectByID env' projectID u d' = Inr p"
      from query_row_InrD [OF this [unfolded GetProjectByID_def]] soft_deleted_gone [OF dist ok(2,3), of p env]
      show False unfolding ps by simp
    qed
    have empty: "filter (hits projectID userID) (projects d') = []"
      unfolding ps by (rule filter_update_rows_cleared) simp
    have again: "\<not> b" if "DeleteProject env' projectID userID d' = (Inr b, d'')" for env' b d''
      using that by (simp add: DeleteProject_def Let_def empty split: if_splits)
    have others: "p \<in> set (projects d')" if "p \<in> set (projects d)" "p_id p \<noteq> projectID" for p
      unfolding ps by (rule update_rows_keeps) (use that in simp_all)
    have jobs: "\<exists>j\<in>set (background_jobs d'). j_type j = ''cleanup_r2_file'' \<and>
        j_data j = version_cleanup v \<and> claimable j" if "v \<in> set (project_versions d projectID)" for v
    proof -
      have "version_cleanup v \<in> set (files_of d projectID userID)" using that ok(2,3) by force
      with queue_cleanup_has [OF this] ok(4) show ?thesis by simp
    qed
    show ?thesis unfolding ok(1) sum.case bool.case
      by (intro conjI allI impI ballI) (fact hidden, erule again, rule others, assumption+, erule jobs)
  qed simp_all
qed

text \<open>Deleting a track is all or nothing: on a fault nothing has changed; otherwise the track and
  every version of it are hidden, and no row of another track is touched.\<close>

theorem DeleteTrack_atomic:
  assumes "DeleteTrack env trackID d = (res, d')"
  shows "case res of
      Inl e \<Rightarrow> d' = d
    | Inr False \<Rightarrow> d' = d
    | Inr True \<Rightarrow> (\<forall>env' t. GetTrackByID env' trackID d' \<noteq> Inr (Some t)) \<and>
        (\<forall>env' vs. GetTrackVersions env' trackID d' = Inr vs \<longrightarrow> vs = []) \<and>
        (\<forall>v\<in>set (versions d). v_track v \<noteq> trackID \<longrightarrow> v \<in> set (versions d')) \<and>
        (\<forall>t\<in>set (tracks d). t_id t \<noteq> trackID \<longrightarrow> t \<in> set (tracks d'))"
proof -
  let ?hit = "\<lambda>t. t_id t = trackID \<and> t_deleted t = None"
  let ?ts = "update_rows ?hit (\<lambda>t. t\<lparr>t_deleted := Some (db_now env), t_updated := db_now env\<rparr>) (tracks d)"
  let ?vs = "update_rows (\<lambda>v. v_track v = trackID \<and> v_deleted v = None)
      (\<lambda>v. v\<lparr>v_deleted := Some (db_now env)\<rparr>) (versions d)"
  consider (same) "res \<noteq> Inr True" "d' = d" | (ok) "res = Inr True" "d' = d\<lparr>tracks := ?ts, versions := ?vs\<rparr>"
    using assms by (auto simp: DeleteTrack_def Let_def split: if_splits)
  then show ?thesis
  proof cases
    case same
    then show ?thesis by (auto split: sum.split bool.split)
  next
    case ok
    have tv: "tracks d' = ?ts" "versions d' = ?vs" using ok(2) by simp_all
    have none: "filter ?hit (tracks d') = []"
      unfolding tv by (rule filter_update_rows_cleared) simp
    have "GetTrackByID env' trackID d' \<noteq> Inr (Some t)" for env' t
      unfolding GetTrackByID_def none by (simp add: query_row_def)
    moreover have "live_versions d' trackID = []"
      unfolding live_versions_def tv by (rule filter_update_rows_cleared) simp
    then have "vs = []" if "GetTrackVersions env' trackID d' = Inr vs" for env' vs
      using that by (simp add: GetTrackVersions_def order_desc_def query_all_def split: if_splits)
    moreover have "v \<in> set (versions d')" if "v \<in> set (versions d)" "v_track v \<noteq> trackID" for v
      unfolding tv by (rule update_rows_keeps) (use that in simp_all)
    moreover have "t \<in> set (tracks d')" if "t \<in> set (tracks d)" "t_id t \<noteq> trackID" for t
      unfolding tv by (rule update_rows_keeps) (use that in simp_all)
    ultimately show ?thesis unfolding ok(1) by simp
  qed
qed


definition calm_env :: dbenv where
  "calm_env = \<lparr>fails = \<lambda>c a. False, db_now = 100, gen_uuid = \<lambda>n. ''job'' @ show_nat n, norows_equal = False,
     has_access_table = True\<rparr>"

definition sample_db :: database where
  "sample_db = empty_db\<lparr>
     users := [\<lparr>u_id = ''u'', u_email = ''u@x'', u_username = ''u'', u_avatar = Some ''a'', u_role = None, u_privacy = None,
       u_created = 0, u_updated = 0, u_deleted = None\<rparr>],
     projects := [\<lparr>p_id = ''p'', p_user = ''u'', p_name = ''n'', p_description = '''', p_is_private = True,
       p_cover = None, p_genre = '''', p_release = None, p_created = 0, p_updated = 0, p_deleted = None\<rparr>],
     tracks := [\<lparr>t_id = ''t'', t_project = ''p'', t_user = ''u'', t_name = ''n'', t_duration = 0,
       t_created = 0, t_updated = 0, t_deleted = None\<rparr>],
     versions := [\<lparr>v_id = ''v'', v_track = ''t'', v_number = 1, v_key = ''tracks/u/v1'', v_size = 5,
       v_checksum = ''c'', v_created = 0, v_deleted = None\<rparr>]\<rparr>"

theorem DeleteProject_effect_witness:
  "\<exists>d'. DeleteProject calm_env ''p'' ''u'' sample_db = (Inr True, d') \<and>
     (\<forall>env' u p. GetProjectByID env' ''p'' u d' \<noteq> Inr p) \<and>
     (\<exists>j\<in>set (background_jobs d'). claimable j)"
proof -
  have "fst (DeleteProject calm_env ''p'' ''u'' sample_db) = Inr True"
    by (simp add: DeleteProject_def Let_def calm_env_def sample_db_def)
  then obtain d' where d: "DeleteProject calm_env ''p'' ''u'' sample_db = (Inr True, d')"
    by (metis prod.collapse)
  have dist: "distinct (map p_id (projects sample_db))" by (simp add: sample_db_def)
  have "project_versions sample_db ''p'' \<noteq> []" by (simp add: project_versions_def sample_db_def)
  then obtain v where "v \<in> set (project_versions sample_db ''p'')"
    by (meson list.set_sel(1))
  with DeleteProject_effect [OF d dist] d show ?thesis by fastforce
qed

theorem DeleteTrack_atomic_witness:
  "\<exists>d'. DeleteTrack calm_env ''t'' sample_db = (Inr True, d') \<and>
     (\<forall>env' t. GetTrackByID env' ''t'' d' \<noteq> Inr (Some t))"
proof -
  have "fst (DeleteTrack calm_env ''t'' sample_db) = Inr True"
    by (simp add: DeleteTrack_def Let_def calm_env_def sample_db_def rows_affected_def)
  then obtain d' where d: "DeleteTrack calm_env ''t'' sample_db = (Inr True, d')"
    by (metis prod.collapse)
  from DeleteTrack_atomic [OF d] d show ?thesis by auto
qed

subsection \<open>Version numbers\<close>

text \<open>The number after the latest is free, even when versions have been deleted: creating a
  version of an existing track under it and a new identifier succeeds unless the statement fails,
  and makes it the latest.\<close>

theorem next_version_number_free:
  assumes "GetLatestTrackVersionNumber env trackID d = Inr n"
    and "v_track v = trackID" and "v_number v = n + 1" and "\<exists>t\<in>set (tracks d). t_id t = trackID"
    and "\<forall>u\<in>set (versions d). v_id u \<noteq> v_id v" and "\<not> fails env ''CreateTrackVersion'' [v_id v]"
    and "\<forall>u\<in>set (versions d). 0 \<le> v_number u"
  shows "\<exists>row d'. CreateTrackVersion env v d = (Inr row, d') \<and>
    GetLatestTrackVersionNumber env trackID d' = Inr (n + 1) \<and>
    (\<forall>u\<in>set (versions d). u \<in> set (versions d'))"
proof -
  let ?ns = "map v_number (filter (\<lambda>u. v_track u = trackID) (versions d))"
  have n: "n = (if ?ns = [] then 0 else Max (set ?ns))" and f: "\<not> fails env ''GetLatestTrackVersionNumber'' [trackID]"
    using assms(1) by (auto simp: GetLatestTrackVersionNumber_def Let_def split: if_splits)
  have le: "v_number u \<le> n" if u: "u \<in> set (versions d)" "v_track u = trackID" for u
  proof -
    have "v_number u \<in> set ?ns" using u by auto
    then have "?ns \<noteq> []" by (cases ?ns) simp_all
    moreover from \<open>v_number u \<in> set ?ns\<close> have "v_number u \<le> Max (set ?ns)" by (intro Max_ge) simp_all
    ultimately show ?thesis using n by simp
  qed
  then have free: "\<not> (\<exists>u\<in>set (versions d). v_id u = v_id v \<or> (v_track u = v_track v \<and> v_number u = v_number v))"
    using assms(2,3,5) by force
  let ?v = "v\<lparr>v_key := '''', v_size := 0, v_checksum := '''', v_deleted := None\<rparr>"
  have c: "CreateTrackVersion env v d = (Inr ?v, d\<lparr>versions := versions d @ [?v]\<rparr>)"
    using free assms(2,4,6) by (simp add: CreateTrackVersion_def Let_def)
  have "Max (set (?ns @ [n + 1])) = n + 1"
    by (rule Max_eqI) (use le in force)+
  then have "GetLatestTrackVersionNumber env trackID (d\<lparr>versions := versions d @ [?v]\<rparr>) = Inr (n + 1)"
    using f assms(2,3) by (simp add: GetLatestTrackVersionNumber_def Let_def)
  with c show ?thesis by auto
qed

theorem next_version_number_free_witness:
  "\<exists>row d'. CreateTrackVersion calm_env \<lparr>v_id = ''w'', v_track = ''t'', v_number = 1 + 1, v_key = '''', v_size = 0,
       v_checksum = '''', v_created = 0, v_deleted = None\<rparr> sample_db = (Inr row, d') \<and>
     GetLatestTrackVersionNumber calm_env ''t'' d' = Inr (1 + 1)"
proof -
  have "GetLatestTrackVersionNumber calm_env ''t'' sample_db = Inr 1"
    by (simp add: GetLatestTrackVersionNumber_def calm_env_def sample_db_def Let_def)
  from next_version_number_free [OF this, of "\<lparr>v_id = ''w'', v_track = ''t'', v_number = 1 + 1, v_key = '''',
      v_size = 0, v_checksum = '''', v_created = 0, v_deleted = None\<rparr>"]
  show ?thesis by (auto simp: sample_db_def calm_env_def)
qed

subsection \<open>Pages\<close>

lemma pages_concat:
  "0 < l \<Longrightarrow> concat (map (\<lambda>i. take l (drop (i * l) xs)) [0..<n]) = take (n * l) xs"
proof (induction n)
  case 0
  then show ?case by simp
next
  case (Suc n)
  have "take (Suc n * l) xs = take (n * l + l) xs" by (simp add: add.commute)
  with Suc show ?case unfolding take_add by simp
qed

text \<open>Reading the tracks of a project page by page, with any positive page size, gives the same
  list as reading them at once, each page with the same total, which is its length.\<close>

theorem track_pages_complete:
  assumes "0 < l" and "length (live_tracks d projectID) \<le> n * l"
    and "\<And>c a. \<not> fails env c a"
  shows "GetProjectTracks env projectID d = Inr (concat (map (\<lambda>i.
      case GetProjectTracksPaginated env projectID (int l) (int (i * l)) d of
        Inr (page, n_all) \<Rightarrow> if n_all = int (length (live_tracks d projectID)) then page else []
      | Inl e \<Rightarrow> []) [0..<n]))"
proof -
  let ?xs = "order_desc t_created (live_tracks d projectID)"
  have "GetProjectTracksPaginated env projectID (int l) (int (i * l)) d =
      Inr (take l (drop (i * l) ?xs), int (length (live_tracks d projectID)))" for i
    using assms(3) zero_le_mult_iff [of "int i" "int l"]
    by (simp add: GetProjectTracksPaginated_def query_page_def nat_mult_distrib not_less)
  moreover have "length ?xs \<le> n * l" using assms(2) by (simp add: order_desc_def)
  ultimately show ?thesis
    using pages_concat [OF assms(1), of ?xs n] assms(3)
    by (simp add: GetProjectTracks_def query_all_def)
qed

theorem track_pages_complete_witness:
  "GetProjectTracks calm_env ''p'' sample_db = Inr (concat (map (\<lambda>i.
      case GetProjectTracksPaginated calm_env ''p'' (int 1) (int (i * 1)) sample_db of
        Inr (page, n_all) \<Rightarrow> if n_all = int (length (live_tracks sample_db ''p'')) then page else []
      | Inl e \<Rightarrow> []) [0..<2]))"
  by (rule track_pages_complete) (simp_all add: live_tracks_def sample_db_def calm_env_def)


subsection \<open>Signed-in users\<close>

definition users_ok :: "database \<Rightarrow> bool" where
  "users_ok d \<longleftrightarrow> distinct (map u_id (users d)) \<and> distinct (map u_email (users d))"

lemma distinct_emails_update:
  "distinct (map u_id us) \<Longrightarrow> distinct (map u_email us) \<Longrightarrow>
   (\<And>u. u \<in> set us \<Longrightarrow> u_id u \<noteq> i \<Longrightarrow> u_email u \<noteq> e) \<Longrightarrow>
   distinct (map u_email (update_rows (\<lambda>u. u_id u = i) (\<lambda>u. u\<lparr>u_email := e, u_updated := t\<rparr>) us))"
proof (induction us)
  case Nil
  then show ?case by simp
next
  case (Cons r us)
  show ?case
  proof (cases "u_id r = i")
    case True
    have rest: "u_id u \<noteq> i" if "u \<in> set us" for u
    proof -
      have "u_id u \<in> set (map u_id us)" using that by simp
      then show ?thesis using Cons.prems(1) True by auto
    qed
    then have "update_rows (\<lambda>u. u_id u = i) (\<lambda>u. u\<lparr>u_email := e, u_updated := t\<rparr>) us = us"
      by (intro update_rows_none) auto
    moreover have "e \<noteq> u_email u" if "u \<in> set us" for u
      using Cons.prems(3) [of u] rest [OF that] that by auto
    then have "e \<notin> u_email ` set us" by auto
    ultimately show ?thesis using True Cons.prems by simp
  next
    case False
    have "u_email r \<noteq> e" using Cons.prems(3) False by simp
    then have "u_email r \<notin> u_email ` set (update_rows (\<lambda>u. u_id u = i)
        (\<lambda>u. u\<lparr>u_email := e, u_updated := t\<rparr>) us)"
      using Cons.prems(2) by (force simp: set_update_rows)
    with Cons False show ?thesis by simp
  qed
qed

text \<open>\<open>EnsureAuthUser\<close> keeps identifiers and addresses unique and leaves exactly one row for the
  user, and doing it again changes nothing but the time of the update.\<close>

theorem EnsureAuthUser_unique:
  assumes "users_ok d" and "EnsureAuthUser env userID email d = (Inr (), d')"
  shows "users_ok d' \<and> (\<exists>!u. u \<in> set (users d') \<and> u_id u = userID) \<and>
    (\<forall>u\<in>set (users d'). u_id u = userID \<longrightarrow> u_email u = auth_email userID email) \<and>
    (\<not> fails env' ''EnsureAuthUser'' [userID] \<longrightarrow>
       (\<exists>d''. EnsureAuthUser env' userID email d' = (Inr (), d'') \<and>
          map u_id (users d'') = map u_id (users d') \<and> map u_email (users d'') = map u_email (users d')))"
proof -
  let ?e = "auth_email userID email" and ?now = "db_now env"
  have n: "TrimSpace userID \<noteq> ''''" and free: "\<forall>u\<in>set (users d). u_id u \<noteq> userID \<longrightarrow> u_email u \<noteq> ?e"
    using assms(2) by (auto simp: EnsureAuthUser_def Let_def split: if_splits)
  let ?upd = "update_rows (\<lambda>u. u_id u = userID) (\<lambda>u. u\<lparr>u_email := ?e, u_updated := ?now\<rparr>) (users d)"
  let ?new = "\<lparr>u_id = userID, u_email = ?e, u_username = auth_username ?e, u_avatar = None,
      u_role = Some ''user'', u_privacy = Some default_privacy, u_created = ?now, u_updated = ?now, u_deleted = None\<rparr>"
  consider (upd) "\<exists>u\<in>set (users d). u_id u = userID" "users d' = ?upd"
    | (new) "\<forall>u\<in>set (users d). u_id u \<noteq> userID" "users d' = users d @ [?new]"
    using assms(2) by (auto simp: EnsureAuthUser_def Let_def split: if_splits)
  then have main: "users_ok d' \<and> (\<exists>u\<in>set (users d'). u_id u = userID) \<and>
      (\<forall>u\<in>set (users d'). (u_id u = userID) = (u_email u = ?e))"
  proof cases
    case upd
    have ids: "map u_id ?upd = map u_id (users d)" by simp
    have "distinct (map u_email ?upd)"
      using assms(1) free by (intro distinct_emails_update) (auto simp: users_ok_def)
    moreover have "\<forall>u\<in>set ?upd. (u_id u = userID) = (u_email u = ?e)"
      using free by (auto simp: set_update_rows)
    moreover have "userID \<in> set (map u_id ?upd)" unfolding ids using upd(1) by auto
    then have "\<exists>u\<in>set ?upd. u_id u = userID" by (simp only: set_map image_iff bex_simps eq_commute)
    moreover have "distinct (map u_id ?upd)" unfolding ids using assms(1) by (simp add: users_ok_def)
    ultimately show ?thesis unfolding users_ok_def upd(2) by (intro conjI)
  next
    case new
    then show ?thesis using assms(1) free by (auto simp: users_ok_def)
  qed
  then have one: "\<exists>!u. u \<in> set (users d') \<and> u_id u = userID"
    by (auto simp: users_ok_def dest: distinct_map_inj_eq)
  have again: "\<exists>d''. EnsureAuthUser env' userID email d' = (Inr (), d'') \<and>
      map u_id (users d'') = map u_id (users d') \<and> map u_email (users d'') = map u_email (users d')"
    if "\<not> fails env' ''EnsureAuthUser'' [userID]"
  proof -
    have "map u_email (update_rows (\<lambda>u. u_id u = userID) (\<lambda>u. u\<lparr>u_email := ?e, u_updated := t\<rparr>) (users d')) =
        map u_email (users d')" for t
      using main by (auto simp: update_rows_def)
    then show ?thesis
      using that n main by (auto simp: EnsureAuthUser_def Let_def)
  qed
  from main one again show ?thesis by blast
qed

theorem EnsureAuthUser_unique_witness:
  "\<exists>d'. EnsureAuthUser calm_env ''w'' ''W@X'' sample_db = (Inr (), d') \<and> users_ok d'"
proof -
  have "auth_email ''w'' ''W@X'' = ''w@x''" "TrimSpace ''w'' \<noteq> ''''" by code_simp+
  then have "fst (EnsureAuthUser calm_env ''w'' ''W@X'' sample_db) = Inr ()"
    by (simp add: EnsureAuthUser_def Let_def calm_env_def sample_db_def)
  then obtain d' where d: "EnsureAuthUser calm_env ''w'' ''W@X'' sample_db = (Inr (), d')"
    by (metis prod.collapse)
  have "users_ok sample_db" by (simp add: users_ok_def sample_db_def)
  from EnsureAuthUser_unique [OF this d, of calm_env] d show ?thesis by blast
qed

text \<open>The row that \<open>EnsureAuthUser\<close> creates has no avatar, and no read of that user succeeds:
  \<open>GetUserByID\<close> scans the \<open>NULL\<close> into a Go string.\<close>

theorem auth_user_unreadable:
  assumes "EnsureAuthUser env userID email d = (Inr (), d')" and "\<forall>u\<in>set (users d). u_id u \<noteq> userID"
  shows "GetUserByID env' userID d' = Inl Fault"
proof -
  have "users d' = users d @ [\<lparr>u_id = userID, u_email = auth_email userID email,
      u_username = auth_username (auth_email userID email), u_avatar = None,
      u_role = Some ''user'', u_privacy = Some default_privacy,
      u_created = db_now env, u_updated = db_now env, u_deleted = None\<rparr>]"
    using assms by (auto simp: EnsureAuthUser_def Let_def split: if_splits)
  moreover have "filter (\<lambda>u. u_id u = userID) (users d) = []"
    using assms(2) by (simp add: filter_empty_conv)
  ultimately show ?thesis
    by (simp add: GetUserByID_def query_row_def scan_user_def is_sql_no_rows_def)
qed

theorem auth_user_unreadable_witness:
  "\<exists>d'. EnsureAuthUser calm_env ''w'' ''W@X'' sample_db = (Inr (), d') \<and>
     GetUserByID calm_env ''w'' d' = Inl Fault"
proof -
  have "auth_email ''w'' ''W@X'' = ''w@x''" "TrimSpace ''w'' \<noteq> ''''" by code_simp+
  then have "fst (EnsureAuthUser calm_env ''w'' ''W@X'' sample_db) = Inr ()"
    by (simp add: EnsureAuthUser_def Let_def calm_env_def sample_db_def)
  then obtain d' where d: "EnsureAuthUser calm_env ''w'' ''W@X'' sample_db = (Inr (), d')"
    by (metis prod.collapse)
  have "\<forall>u\<in>set (users sample_db). u_id u \<noteq> ''w''" by (simp add: sample_db_def)
  from auth_user_unreadable [OF d this] d show ?thesis by blast
qed

end
