(* ===== verification/Storage.thy ===== *)
theory Storage
  imports GoStrings
begin

text \<open>
  \<open>storage/r2.go\<close>, the R2 client, and the cache of presigned URLs it uses,
  \<open>cache/presigned_url_cache.go\<close>. The object store behind the S3 API is a service: it is the
  record \<open>s3\<close> of its calls over a state of any type, each with whether it succeeded. SHA-256 is an
  argument. One reading of the clock serves a call of the client, which only signs locally between
  the reads.
\<close>

subsection \<open>The cache of presigned URLs\<close>

record cache_entry =
  ce_URL :: string
  ce_ExpiresAt :: go_time

record url_cache =
  uc_cache :: "string \<rightharpoonup> cache_entry"
  uc_ttl :: duration

definition NewPresignedURLCache :: "duration \<Rightarrow> url_cache" where
  "NewPresignedURLCache ttl = \<lparr>uc_cache = Map.empty, uc_ttl = ttl\<rparr>"

definition uc_Get :: "go_time \<Rightarrow> string \<Rightarrow> url_cache \<Rightarrow> string option" where
  "uc_Get now objectKey c =
     (case uc_cache c objectKey of
        None \<Rightarrow> None
      | Some entry \<Rightarrow> if now > ce_ExpiresAt entry then None else Some (ce_URL entry))"

definition uc_Set :: "go_time \<Rightarrow> string \<Rightarrow> string \<Rightarrow> url_cache \<Rightarrow> url_cache" where
  "uc_Set now objectKey url c =
     c\<lparr>uc_cache := (uc_cache c)(objectKey \<mapsto> \<lparr>ce_URL = url, ce_ExpiresAt = now + uc_ttl c\<rparr>)\<rparr>"

definition uc_Clear :: "url_cache \<Rightarrow> url_cache" where
  "uc_Clear c = c\<lparr>uc_cache := Map.empty\<rparr>"

definition uc_cleanupExpired :: "go_time \<Rightarrow> url_cache \<Rightarrow> url_cache" where
  "uc_cleanupExpired now c =
     c\<lparr>uc_cache := delete_where (\<lambda>entry. now > ce_ExpiresAt entry) (uc_cache c)\<rparr>"

subsection \<open>The client\<close>

record 'o s3 =
  s3_delete :: "string \<Rightarrow> 'o \<Rightarrow> bool \<times> 'o"
  s3_delete_many :: "string list \<Rightarrow> 'o \<Rightarrow> bool \<times> 'o"
  s3_put :: "string \<Rightarrow> string \<Rightarrow> string \<Rightarrow> string \<Rightarrow> 'o \<Rightarrow> bool \<times> 'o"
  s3_get :: "string \<Rightarrow> 'o \<Rightarrow> string option"
  s3_list :: "string \<Rightarrow> int \<Rightarrow> 'o \<Rightarrow> string list option"
  s3_presign :: "string \<Rightarrow> duration \<Rightarrow> go_time \<Rightarrow> string option"

record 'o r2_client =
  objects :: 'o
  presigned :: url_cache
  presignCacheHits :: "64 word"
  presignCacheMisses :: "64 word"
  uploadedBytes :: "64 word"
  deleteOps :: "64 word"
  batchDeleteOps :: "64 word"
  deletedObjects :: "64 word"

record upload_result =
  ur_Key :: string
  ur_FileSize :: int
  ur_Checksum :: string
  ur_URL :: string

definition NewR2Client :: "'o \<Rightarrow> 'o r2_client" where
  "NewR2Client obs = \<lparr>objects = obs, presigned = NewPresignedURLCache (4 * minute),
     presignCacheHits = 0, presignCacheMisses = 0, uploadedBytes = 0, deleteOps = 0,
     batchDeleteOps = 0, deletedObjects = 0\<rparr>"

text \<open>The metadata is an argument of the upload, so its checksum is that of what has been read
  before the upload starts: nothing.\<close>

definition UploadFile ::
  "'o s3 \<Rightarrow> (string \<Rightarrow> string) \<Rightarrow> string \<Rightarrow> string \<Rightarrow> string \<Rightarrow> string \<Rightarrow> string \<Rightarrow> 'o r2_client \<Rightarrow>
   upload_result option \<times> 'o r2_client" where
  "UploadFile s sha256 endpoint bucket objectKey content contentType rc =
     (let contentType = (if contentType = '''' then ''application/octet-stream'' else contentType)
      in case s3_put s objectKey content contentType (hex_of (sha256 '''')) (objects rc) of
           (False, obs) \<Rightarrow> (None, rc\<lparr>objects := obs\<rparr>)
         | (True, obs) \<Rightarrow>
             (Some \<lparr>ur_Key = objectKey, ur_FileSize = int (length content),
                    ur_Checksum = hex_of (sha256 content),
                    ur_URL = endpoint @ ''/'' @ bucket @ ''/'' @ objectKey\<rparr>,
              rc\<lparr>objects := obs, uploadedBytes := uploadedBytes rc + word_of_nat (length content)\<rparr>))"

text \<open>\<open>int(expiresIn.Seconds())\<close> truncates towards zero.\<close>

definition url_cache_key :: "string \<Rightarrow> duration \<Rightarrow> string" where
  "url_cache_key objectKey expiresIn =
     objectKey @ ''|'' @ Itoa (if expiresIn < 0 then - (- expiresIn div second) else expiresIn div second)"

definition GenerateSignedURL ::
  "'o s3 \<Rightarrow> go_time \<Rightarrow> string \<Rightarrow> duration \<Rightarrow> 'o r2_client \<Rightarrow> string option \<times> 'o r2_client" where
  "GenerateSignedURL s now objectKey expiresIn rc =
     (let cacheKey = url_cache_key objectKey expiresIn
      in case uc_Get now cacheKey (presigned rc) of
           Some cachedURL \<Rightarrow> (Some cachedURL, rc\<lparr>presignCacheHits := presignCacheHits rc + 1\<rparr>)
         | None \<Rightarrow>
             let rc = rc\<lparr>presignCacheMisses := presignCacheMisses rc + 1\<rparr>
             in case s3_presign s objectKey expiresIn now of
                  None \<Rightarrow> (None, rc)
                | Some url \<Rightarrow> (Some url, rc\<lparr>presigned := uc_Set now cacheKey url (presigned rc)\<rparr>))"

definition DeleteFile :: "'o s3 \<Rightarrow> string \<Rightarrow> 'o r2_client \<Rightarrow> bool \<times> 'o r2_client" where
  "DeleteFile s objectKey rc =
     (case s3_delete s objectKey (objects rc) of
        (False, obs) \<Rightarrow> (False, rc\<lparr>objects := obs\<rparr>)
      | (True, obs) \<Rightarrow> (True, rc\<lparr>objects := obs, deleteOps := deleteOps rc + 1,
                                deletedObjects := deletedObjects rc + 1\<rparr>))"

definition DeleteFilesBatch :: "'o s3 \<Rightarrow> string list \<Rightarrow> 'o r2_client \<Rightarrow> bool \<times> 'o r2_client" where
  "DeleteFilesBatch s objectKeys rc =
     (let keys = filter (\<lambda>key. key \<noteq> '''') objectKeys
      in if keys = [] then (True, rc)
         else case s3_delete_many s keys (objects rc) of
                (False, obs) \<Rightarrow> (False, rc\<lparr>objects := obs\<rparr>)
              | (True, obs) \<Rightarrow>
                  (True, rc\<lparr>objects := obs, batchDeleteOps := batchDeleteOps rc + 1,
                            deletedObjects := deletedObjects rc + word_of_nat (length keys)\<rparr>))"

definition DownloadFileToWriter :: "'o s3 \<Rightarrow> string \<Rightarrow> 'o r2_client \<Rightarrow> string option" where
  "DownloadFileToWriter s objectKey rc = s3_get s objectKey (objects rc)"

definition ListFiles :: "'o s3 \<Rightarrow> string \<Rightarrow> int \<Rightarrow> 'o r2_client \<Rightarrow> string list option" where
  "ListFiles s prefix maxKeys rc = s3_list s prefix maxKeys (objects rc)"

subsection \<open>File names\<close>

text \<open>The loop from the end of the name: the extension starts at the last dot, unless a slash comes
  first.\<close>

fun extension_rev :: "string \<Rightarrow> string \<Rightarrow> string" where
  "extension_rev acc [] = ''''"
| "extension_rev acc (c # cs) =
     (if c = CHR ''.'' then c # acc else if c = CHR ''/'' then '''' else extension_rev (c # acc) cs)"

definition extension :: "string \<Rightarrow> string" where
  "extension filename = extension_rev '''' (rev filename)"

datatype file_error = FileTooLarge int | UnsupportedFormat string

definition ValidateAudioFile :: "string \<Rightarrow> int \<Rightarrow> file_error option" where
  "ValidateAudioFile filename fileSize =
     (if fileSize > 500 * 1024 * 1024 then Some (FileTooLarge fileSize)
      else let ext = extension filename
        in if ext = '''' \<or> ext \<notin> {''.wav'', ''.mp3'', ''.aiff'', ''.flac'', ''.aac'', ''.m4a'', ''.ogg''}
           then Some (UnsupportedFormat ext) else None)"

definition ValidateImageFile :: "string \<Rightarrow> int \<Rightarrow> file_error option" where
  "ValidateImageFile filename fileSize =
     (if fileSize > 5 * 1024 * 1024 then Some (FileTooLarge fileSize)
      else let ext = extension filename
        in if ext = '''' \<or> ext \<notin> {''.jpg'', ''.jpeg'', ''.png'', ''.webp'', ''.gif''}
           then Some (UnsupportedFormat ext) else None)"

definition audio_error_text :: "file_error \<Rightarrow> string" where
  "audio_error_text e =
     (case e of FileTooLarge n \<Rightarrow> ''file too large: max 500MB, got '' @ Itoa n @ '' bytes''
      | UnsupportedFormat ext \<Rightarrow> ''unsupported audio format: '' @ ext)"

definition image_error_text :: "file_error \<Rightarrow> string" where
  "image_error_text e =
     (case e of FileTooLarge n \<Rightarrow> ''image too large: max 5MB, got '' @ Itoa n @ '' bytes''
      | UnsupportedFormat ext \<Rightarrow> ''unsupported image format: '' @ ext)"

subsection \<open>How long a served URL lasts\<close>

text \<open>The law of the signing library: a URL is for the object asked for and valid from the moment of
  signing for the time asked for.\<close>

definition presigns :: "'o s3 \<Rightarrow> (string \<Rightarrow> string) \<Rightarrow> (string \<Rightarrow> go_time) \<Rightarrow> bool" where
  "presigns s object_of valid_until \<longleftrightarrow>
     (\<forall>k d t u. s3_presign s k d t = Some u \<longrightarrow> object_of u = k \<and> valid_until u = t + d)"

definition whole :: "duration \<Rightarrow> bool" where
  "whole d \<longleftrightarrow> 0 \<le> d \<and> second dvd d"

definition urls_ok :: "(string \<Rightarrow> string) \<Rightarrow> (string \<Rightarrow> go_time) \<Rightarrow> url_cache \<Rightarrow> bool" where
  "urls_ok object_of valid_until c \<longleftrightarrow>
     (\<forall>ck e. uc_cache c ck = Some e \<longrightarrow>
        (\<exists>k d. whole d \<and> ck = url_cache_key k d \<and> object_of (ce_URL e) = k \<and>
               valid_until (ce_URL e) = ce_ExpiresAt e - uc_ttl c + d))"

lemma url_cache_key_inj:
  assumes "whole d" "whole d'" "url_cache_key k d = url_cache_key k' d'"
  shows "k = k' \<and> d = d'"
proof -
  have n: "CHR ''|'' \<notin> set (Itoa x)" if "0 \<le> x" for x
    using Itoa_nonneg_digits [OF that] by (force simp: is_digit_def less_eq_char_def)
  have "k = k' \<and> Itoa (d div second) = Itoa (d' div second)"
    using assms n [of "d div second"] n [of "d' div second"]
      sep_append_inj [of "CHR ''|''" "Itoa (d div second)" "Itoa (d' div second)" k k']
    by (auto simp: url_cache_key_def whole_def)
  moreover from this have "d div second = d' div second"
    using assms(1,2) by (intro Itoa_inj) (auto simp: whole_def)
  ultimately show ?thesis using assms(1,2) by (auto simp: whole_def)
qed

lemma urls_ok_new [inv_intros]: "urls_ok ob vu (presigned (NewR2Client obs))"
  by (simp add: urls_ok_def NewR2Client_def NewPresignedURLCache_def)

lemma urls_ok_cleanup [inv_intros]: "urls_ok ob vu c \<Longrightarrow> urls_ok ob vu (uc_cleanupExpired now c)"
  by (force simp: urls_ok_def uc_cleanupExpired_def dest: delete_where_SomeD)

text \<open>A signed URL is for the object asked for, and at least the time asked for minus the four
  minutes of the cache remains on it when it is served; the cache keeps that promise for the next
  call.\<close>

theorem signed_url_lifetime:
  assumes law: "presigns s object_of valid_until" and inv: "urls_ok object_of valid_until (presigned rc)"
    and d: "whole d" and ttl: "0 \<le> uc_ttl (presigned rc)"
    and gen: "GenerateSignedURL s now k d rc = (Some u, rc')"
  shows "object_of u = k \<and> now + d - uc_ttl (presigned rc) \<le> valid_until u \<and>
    urls_ok object_of valid_until (presigned rc') \<and> uc_ttl (presigned rc') = uc_ttl (presigned rc)"
proof (cases "uc_Get now (url_cache_key k d) (presigned rc)")
  case None
  with gen law ttl have "object_of u = k \<and> valid_until u = now + d"
    by (auto simp: GenerateSignedURL_def presigns_def Let_def split: option.splits)
  moreover have "presigned rc' = uc_Set now (url_cache_key k d) u (presigned rc)"
    using gen None by (auto simp: GenerateSignedURL_def Let_def split: option.splits)
  moreover have "urls_ok object_of valid_until (uc_Set now (url_cache_key k d) u (presigned rc))"
    using inv d calculation(1) by (auto simp: urls_ok_def uc_Set_def)
  ultimately show ?thesis using ttl by (simp add: uc_Set_def)
next
  case (Some url)
  then have u: "u = url" "presigned rc' = presigned rc"
    using gen by (auto simp: GenerateSignedURL_def Let_def)
  from Some obtain e where e: "uc_cache (presigned rc) (url_cache_key k d) = Some e"
    "ce_URL e = url" "now \<le> ce_ExpiresAt e"
    by (auto simp: uc_Get_def split: option.splits if_splits)
  obtain k' d' where "whole d'" "url_cache_key k d = url_cache_key k' d'" "object_of url = k'"
    "valid_until url = ce_ExpiresAt e - uc_ttl (presigned rc) + d'"
    using inv e unfolding urls_ok_def by blast
  moreover from this have "k = k' \<and> d = d'" using url_cache_key_inj d by blast
  ultimately show ?thesis using u e inv by auto
qed

text \<open>With the 60 seconds that the play endpoint asks for, the four-minute cache serves a URL
  that has expired: every call up to four minutes after the first gets the first URL.\<close>

theorem short_url_served_expired:
  assumes "presigns s object_of valid_until" and "presigned rc = NewPresignedURLCache (4 * minute)"
    and "s3_presign s k (60 * second) t = Some u" and "t + 60 * second < now" and "now \<le> t + 4 * minute"
  shows "fst (GenerateSignedURL s now k (60 * second)
           (snd (GenerateSignedURL s t k (60 * second) rc))) = Some u \<and> valid_until u < now"
  using assms
  by (simp add: GenerateSignedURL_def Let_def uc_Get_def uc_Set_def NewPresignedURLCache_def presigns_def)


definition sample_s3 :: "unit s3" where
  "sample_s3 = \<lparr>s3_delete = \<lambda>k u. (True, u), s3_delete_many = \<lambda>ks u. (True, u),
     s3_put = \<lambda>k c ty m u. (True, u), s3_get = \<lambda>k u. None, s3_list = \<lambda>p n u. None,
     s3_presign = \<lambda>k d t. if k = ''k'' \<and> d = 60 * second \<and> t = 0 then Some ''u'' else None\<rparr>"

theorem signed_url_lifetime_witness:
  "\<exists>u rc'. GenerateSignedURL sample_s3 0 ''k'' (60 * second) (NewR2Client ()) = (Some u, rc') \<and>
     60 * second - 4 * minute \<le> 60 * second"
proof -
  have law: "presigns sample_s3 (\<lambda>u. ''k'') (\<lambda>u. 60 * second)"
    by (simp add: presigns_def sample_s3_def)
  obtain rc' where g: "GenerateSignedURL sample_s3 0 ''k'' (60 * second) (NewR2Client ()) = (Some ''u'', rc')"
    by (simp add: GenerateSignedURL_def Let_def uc_Get_def sample_s3_def NewR2Client_def
        NewPresignedURLCache_def)
  from signed_url_lifetime [OF law urls_ok_new _ _ g] show ?thesis
    using g by (auto simp: whole_def NewR2Client_def NewPresignedURLCache_def)
qed

theorem short_url_served_expired_witness:
  "fst (GenerateSignedURL sample_s3 (2 * minute) ''k'' (60 * second)
     (snd (GenerateSignedURL sample_s3 0 ''k'' (60 * second) (NewR2Client ())))) = Some ''u''"
  by (rule conjunct1 [OF short_url_served_expired [of sample_s3 "\<lambda>u. ''k''" "\<lambda>u. 60 * second"]])
     (simp_all add: presigns_def sample_s3_def NewR2Client_def)

end
