(* ===== verification/Jobs.thy ===== *)
theory Jobs
  imports Projects Storage
begin

text \<open>
  The background work of \<open>jobs/processor.go\<close> and \<open>jobs/r2_cleanup.go\<close>: the job processor with its
  polling loop and pool of workers, the three kinds of job, and the periodic removal of deleted
  projects.

  \<open>host\<close> is what a job meets outside the program: whether \<open>ffmpeg\<close> is installed, the temporary
  files, the program \<open>ffmpeg\<close> itself as a function from its options and input to its output, the
  clock, and the text of the error that a failing call gives. The budget guard of \<open>finops\<close> is an
  argument of the processor. A JSON number is an integer here; Go reads it as a \<open>float64\<close>, which is
  exact up to \<open>2 ^ 53\<close>.
\<close>

subsection \<open>The kinds of job\<close>

record host =
  has_ffmpeg :: bool
  temp_files :: "string \<Rightarrow> bool"
  ffmpeg :: "string list \<Rightarrow> string \<Rightarrow> string option"
  host_now :: go_time
  why :: "string \<Rightarrow> string"

text \<open>\<open>data["k"].(string)\<close> after \<open>json.Unmarshal\<close> into a map: \<open>null\<close> gives the empty map, anything but
  an object an error.\<close>

fun json_object :: "json \<Rightarrow> (string \<rightharpoonup> json) option" where
  "json_object (JObj fs) = Some (map_of (rev fs))"
| "json_object JNull = Some Map.empty"
| "json_object _ = None"

definition json_str :: "(string \<rightharpoonup> json) \<Rightarrow> string \<Rightarrow> string option" where
  "json_str m k = (case m k of Some (JStr s) \<Rightarrow> Some s | _ \<Rightarrow> None)"

type_synonym job_result = "string + json"

definition cleanupR2File ::
  "'o s3 \<Rightarrow> host \<Rightarrow> json \<Rightarrow> 'o r2_client \<Rightarrow> job_result \<times> 'o r2_client" where
  "cleanupR2File s h jobData rc =
     (case json_object jobData of
        None \<Rightarrow> (Inl (''failed to parse job data: '' @ why h ''json''), rc)
      | Some data \<Rightarrow>
          (case json_str data ''r2_object_key'' of
             None \<Rightarrow> (Inl ''missing r2_object_key in job data'', rc)
           | Some key \<Rightarrow>
               if key = '''' then (Inl ''missing r2_object_key in job data'', rc)
               else if length key < 10 \<or> length key > 1024 then (Inl ''invalid r2_object_key length'', rc)
               else case DeleteFile s key rc of
                      (False, rc) \<Rightarrow> (Inl (''failed to delete file from R2: '' @ why h ''delete''), rc)
                    | (True, rc) \<Rightarrow>
                        (Inr (JObj [(''deleted_at'', JNum (host_now h div second)),
                                    (''file_size_bytes'', JNum (case data ''file_size'' of
                                       Some (JNum n) \<Rightarrow> n | _ \<Rightarrow> 0)),
                                    (''r2_object_key'', JStr key)]), rc)))"

text \<open>\<open>convertVideoToAudio\<close> and \<open>generateWaveform\<close> differ in the names of their fields, the options
  of \<open>ffmpeg\<close> and the place of the result. The text of an error of these calls is \<open>why\<close> with the
  name of the call, which stands for the fixed prefix of the source and the text that follows it.\<close>

record transcoding =
  src_field :: string
  src_result :: string
  key_result :: string
  in_file :: string
  out_file :: string
  options :: "string list"
  out_prefix :: string
  out_ext :: string
  out_type :: string

definition transcode ::
  "transcoding \<Rightarrow> 'o s3 \<Rightarrow> (string \<Rightarrow> string) \<Rightarrow> string \<Rightarrow> string \<Rightarrow> host \<Rightarrow> json \<Rightarrow> 'o r2_client \<Rightarrow>
   job_result \<times> 'o r2_client" where
  "transcode tc s sha256 endpoint bucket h jobData rc =
     (case json_object jobData of
        None \<Rightarrow> (Inl (''failed to parse job data: '' @ why h ''json''), rc)
      | Some data \<Rightarrow>
          (case json_str data (src_field tc) of
             None \<Rightarrow> (Inl (''missing '' @ src_field tc @ '' in job data''), rc)
           | Some srcKey \<Rightarrow>
               (case json_str data ''track_version_id'' of
                  None \<Rightarrow> (Inl ''missing track_version_id in job data'', rc)
                | Some tv \<Rightarrow>
                    let tv = TrimSpace tv
                    in if tv = '''' then (Inl ''track_version_id is empty'', rc)
                       else if \<not> has_ffmpeg h then (Inl (''ffmpeg not available on host: '' @ why h ''ffmpeg''), rc)
                       else if \<not> temp_files h ''dir'' then (Inl (why h ''dir''), rc)
                       else if \<not> temp_files h (in_file tc) then (Inl (why h (in_file tc)), rc)
                       else case DownloadFileToWriter s srcKey rc of
                              None \<Rightarrow> (Inl (why h ''download''), rc)
                            | Some input \<Rightarrow>
                                if \<not> temp_files h ''close'' then (Inl (why h ''close''), rc)
                                else (case ffmpeg h (options tc) input of
                                        None \<Rightarrow> (Inl (why h ''convert''), rc)
                                      | Some output \<Rightarrow>
                                          if \<not> temp_files h (out_file tc) then (Inl (why h (out_file tc)), rc)
                                          else let key = out_prefix tc @ tv @ ''/'' @ Itoa (host_now h div second) @ out_ext tc
                                            in case UploadFile s sha256 endpoint bucket key output (out_type tc) rc of
                                                 (None, rc) \<Rightarrow> (Inl (why h ''upload''), rc)
                                               | (Some ur, rc) \<Rightarrow>
                                                   (Inr (JObj [(''status'', JStr ''completed''),
                                                      (''track_version_id'', JStr tv),
                                                      (src_result tc, JStr srcKey),
                                                      (key_result tc, JStr (ur_Key ur)),
                                                      (''file_size_bytes'', JNum (ur_FileSize ur)),
                                                      (''checksum'', JStr (ur_Checksum ur))]), rc)))))"

definition convertVideoToAudio where
  "convertVideoToAudio = transcode \<lparr>src_field = ''video_r2_key'', src_result = ''source_video_key'',
     key_result = ''converted_audio_key'', in_file = ''input_video'', out_file = ''output_audio.mp3'',
     options = [''-vn'', ''-acodec'', ''libmp3lame'', ''-b:a'', ''192k''],
     out_prefix = ''processed/audio/'', out_ext = ''.mp3'', out_type = ''audio/mpeg''\<rparr>"

definition generateWaveform where
  "generateWaveform = transcode \<lparr>src_field = ''audio_r2_key'', src_result = ''source_audio_key'',
     key_result = ''waveform_image_key'', in_file = ''input_audio'', out_file = ''waveform.png'',
     options = [''-filter_complex'', ''aformat=channel_layouts=mono,showwavespic=s=1200x300:colors=white'',
       ''-frames:v'', ''1''],
     out_prefix = ''processed/waveforms/'', out_ext = ''.png'', out_type = ''image/png''\<rparr>"

definition isExpensiveFinOpsJob :: "string \<Rightarrow> bool" where
  "isExpensiveFinOpsJob jobType \<longleftrightarrow> jobType = ''convert_video_to_audio'' \<or> jobType = ''generate_waveform''"

text \<open>The guard answers \<open>None\<close> when it failed, \<open>Some None\<close> to go on and \<open>Some (Some result)\<close> to skip the
  job, with the result that is then stored.\<close>

record 'o processor =
  store :: "'o s3"
  sha256 :: "string \<Rightarrow> string"
  endpoint :: string
  bucket :: string
  host :: host
  guard :: "database \<Rightarrow> json option option"
  workerConcurrency :: int
  batchSize :: int

definition NewJobProcessor ::
  "'o s3 \<Rightarrow> (string \<Rightarrow> string) \<Rightarrow> string \<Rightarrow> string \<Rightarrow> host \<Rightarrow> (database \<Rightarrow> json option option) \<Rightarrow>
   int \<Rightarrow> int \<Rightarrow> 'o processor" where
  "NewJobProcessor s sha ep bk h g concurrency batch =
     \<lparr>store = s, sha256 = sha, endpoint = ep, bucket = bk, host = h, guard = g,
      workerConcurrency = (if concurrency \<le> 0 then 1 else concurrency),
      batchSize = (if batch \<le> 0 then 10 else batch)\<rparr>"

definition run_job ::
  "'o processor \<Rightarrow> job_row \<Rightarrow> database \<Rightarrow> 'o r2_client \<Rightarrow> job_result \<times> 'o r2_client" where
  "run_job jp job d rc =
     (if isExpensiveFinOpsJob (j_type job) \<and> (\<exists>r. guard jp d = Some (Some r))
      then (Inr (the (the (guard jp d))), rc)
      else if j_type job = ''cleanup_r2_file'' then cleanupR2File (store jp) (host jp) (j_data job) rc
      else if j_type job = ''convert_video_to_audio'' then
        convertVideoToAudio (store jp) (sha256 jp) (endpoint jp) (bucket jp) (host jp) (j_data job) rc
      else if j_type job = ''generate_waveform'' then
        generateWaveform (store jp) (sha256 jp) (endpoint jp) (bucket jp) (host jp) (j_data job) rc
      else (Inl (''unknown job type: '' @ j_type job), rc))"

definition mark_job :: "dbenv \<Rightarrow> string \<Rightarrow> job_result \<Rightarrow> database \<Rightarrow> unit db_result \<times> database" where
  "mark_job env jobID res d =
     (case res of Inl err \<Rightarrow> MarkJobFailed env jobID err d
      | Inr r \<Rightarrow> MarkJobCompleted env jobID (Some r) d)"

definition processJob ::
  "'o processor \<Rightarrow> dbenv \<Rightarrow> job_row \<Rightarrow> database \<Rightarrow> 'o r2_client \<Rightarrow>
   unit db_result \<times> database \<times> 'o r2_client" where
  "processJob jp env job d rc =
     (let (res, rc') = run_job jp job d rc; (r, d') = mark_job env (j_id job) res d in (r, d', rc'))"

definition EnqueueJob ::
  "dbenv \<Rightarrow> string \<Rightarrow> json \<Rightarrow> database \<Rightarrow> string db_result \<times> database" where
  "EnqueueJob env jobType dat d =
     (let jobType = TrimSpace jobType
      in if jobType = '''' then (Inl Fault, d)
         else CreateBackgroundJob env jobType (if dat = JNull then JObj [] else dat) 3 d)"

definition EnqueueCleanup :: "dbenv \<Rightarrow> string \<Rightarrow> database \<Rightarrow> string db_result \<times> database" where
  "EnqueueCleanup env r2ObjectKey =
     EnqueueJob env ''cleanup_r2_file'' (JObj [(''r2_object_key'', JStr r2ObjectKey)])"

definition EnqueueVideoConversion :: "dbenv \<Rightarrow> string \<Rightarrow> string \<Rightarrow> database \<Rightarrow> string db_result \<times> database" where
  "EnqueueVideoConversion env videoR2Key trackVersionID =
     EnqueueJob env ''convert_video_to_audio''
       (JObj [(''video_r2_key'', JStr videoR2Key), (''track_version_id'', JStr trackVersionID)])"

definition EnqueueWaveformGeneration :: "dbenv \<Rightarrow> string \<Rightarrow> string \<Rightarrow> database \<Rightarrow> string db_result \<times> database" where
  "EnqueueWaveformGeneration env audioR2Key trackVersionID =
     EnqueueJob env ''generate_waveform''
       (JObj [(''audio_r2_key'', JStr audioR2Key), (''track_version_id'', JStr trackVersionID)])"


subsection \<open>The pool of workers\<close>

text \<open>\<open>processBatch\<close> after the claim: the workers take jobs from a closed channel in order; \<open>busy\<close> are
  the jobs taken, \<open>worked\<close> those whose work is done, \<open>unmarked\<close> those whose result could not be
  stored. The work of a job changes the object store at most once and is one step; marking is
  another, with a clock and faults of its own.\<close>

record 'o pool =
  todo :: "job_row list"
  busy :: "job_row list"
  worked :: "(string \<times> job_result) list"
  unmarked :: "string list"
  pool_db :: database
  pool_r2 :: "'o r2_client"

definition workers :: "'o processor \<Rightarrow> job_row list \<Rightarrow> nat" where
  "workers jp jobs =
     (if int (length jobs) < workerConcurrency jp then length jobs else nat (workerConcurrency jp))"

inductive pool_step :: "'o processor \<Rightarrow> nat \<Rightarrow> 'o pool \<Rightarrow> 'o pool \<Rightarrow> bool" for jp n where
  take: "todo s = j # js \<Longrightarrow> length (busy s) + length (worked s) < n \<Longrightarrow>
    pool_step jp n s (s\<lparr>todo := js, busy := busy s @ [j]\<rparr>)"
| work: "busy s = xs @ j # ys \<Longrightarrow> run_job jp j (pool_db s) (pool_r2 s) = (res, rc) \<Longrightarrow>
    pool_step jp n s (s\<lparr>busy := xs @ ys, worked := worked s @ [(j_id j, res)], pool_r2 := rc\<rparr>)"
| mark: "worked s = xs @ (i, res) # ys \<Longrightarrow> mark_job env i res (pool_db s) = (Inr (), d) \<Longrightarrow>
    pool_step jp n s (s\<lparr>worked := xs @ ys, pool_db := d\<rparr>)"
| mark_fault: "worked s = xs @ (i, res) # ys \<Longrightarrow> mark_job env i res (pool_db s) = (Inl e, d) \<Longrightarrow>
    pool_step jp n s (s\<lparr>worked := xs @ ys, unmarked := i # unmarked s, pool_db := d\<rparr>)"

definition start_pool :: "job_row list \<Rightarrow> database \<Rightarrow> 'o r2_client \<Rightarrow> 'o pool" where
  "start_pool jobs d rc =
     \<lparr>todo = jobs, busy = [], worked = [], unmarked = [], pool_db = d, pool_r2 = rc\<rparr>"

definition pool_done :: "'o pool \<Rightarrow> bool" where
  "pool_done s \<longleftrightarrow> todo s = [] \<and> busy s = [] \<and> worked s = []"

text \<open>\<open>processBatch\<close> as one run of the pool with a single worker at a time, which is what one worker
  does: the number of jobs claimed and the new state.\<close>

fun process_all ::
  "'o processor \<Rightarrow> dbenv \<Rightarrow> job_row list \<Rightarrow> database \<Rightarrow> 'o r2_client \<Rightarrow> database \<times> 'o r2_client" where
  "process_all jp env [] d rc = (d, rc)"
| "process_all jp env (j # js) d rc =
     (case processJob jp env j d rc of (_, d', rc') \<Rightarrow> process_all jp env js d' rc')"

definition processBatch ::
  "'o processor \<Rightarrow> dbenv \<Rightarrow> database \<Rightarrow> 'o r2_client \<Rightarrow> (db_error + int) \<times> database \<times> 'o r2_client" where
  "processBatch jp env d rc =
     (case ClaimPendingJobs env {} (batchSize jp) d of
        (Inl e, d) \<Rightarrow> (Inl e, d, rc)
      | (Inr jobs, d) \<Rightarrow>
          (case process_all jp env jobs d rc of (d, rc) \<Rightarrow> (Inr (int (length jobs)), d, rc)))"

subsection \<open>Polling\<close>

text \<open>One turn of the loop of \<open>ProcessPendingJobs\<close>: how long it sleeps and the next \<open>idleSleep\<close>, given
  what \<open>processBatch\<close> returned. A stop of the context ends the list of turns.\<close>

definition maxIdleSleep :: duration where "maxIdleSleep = 60 * second"

definition poll :: "duration \<Rightarrow> db_error + int \<Rightarrow> duration \<times> duration" where
  "poll idleSleep r =
     (case r of
        Inl _ \<Rightarrow> (idleSleep, idleSleep)
      | Inr n \<Rightarrow>
          if n = 0 then
            (idleSleep,
             if idleSleep < maxIdleSleep
             then (let idleSleep = idleSleep * 2
                   in if idleSleep > maxIdleSleep then maxIdleSleep else idleSleep)
             else idleSleep)
          else (0, 5 * second))"

fun poll_loop :: "duration \<Rightarrow> (db_error + int) list \<Rightarrow> duration list" where
  "poll_loop idleSleep [] = []"
| "poll_loop idleSleep (r # rs) = fst (poll idleSleep r) # poll_loop (snd (poll idleSleep r)) rs"

definition ProcessPendingJobs :: "(db_error + int) list \<Rightarrow> duration list" where
  "ProcessPendingJobs rs = poll_loop (5 * second) rs"

subsection \<open>Removal of deleted projects\<close>

record 'o cleanup =
  cl_db :: database
  cl_r2 :: "'o r2_client"
  deletedCount :: int
  errorCount :: int

fun log_failures :: "dbenv \<Rightarrow> string \<Rightarrow> string list \<Rightarrow> 'o cleanup \<Rightarrow> 'o cleanup" where
  "log_failures env err [] st = st"
| "log_failures env err (k # ks) st =
     log_failures env err ks
       (st\<lparr>cl_db := snd (LogR2CleanupFailure env k err (cl_db st)), errorCount := errorCount st + 1\<rparr>)"

definition flushBatch :: "'o s3 \<Rightarrow> host \<Rightarrow> dbenv \<Rightarrow> string list \<Rightarrow> 'o cleanup \<Rightarrow> 'o cleanup" where
  "flushBatch s h env keys st =
     (if keys = [] then st
      else case DeleteFilesBatch s keys (cl_r2 st) of
             (False, rc) \<Rightarrow> log_failures env (why h ''batch'') keys (st\<lparr>cl_r2 := rc\<rparr>)
           | (True, rc) \<Rightarrow> st\<lparr>cl_r2 := rc, deletedCount := deletedCount st + int (length keys)\<rparr>)"

fun flush_versions ::
  "'o s3 \<Rightarrow> host \<Rightarrow> dbenv \<Rightarrow> string list \<Rightarrow> version_row list \<Rightarrow> 'o cleanup \<Rightarrow> 'o cleanup" where
  "flush_versions s h env batch [] st = flushBatch s h env batch st"
| "flush_versions s h env batch (v # vs) st =
     (if v_key v = '''' then flush_versions s h env batch vs st
      else let batch = batch @ [v_key v]
        in if length batch \<ge> 100 then flush_versions s h env [] vs (flushBatch s h env batch st)
           else flush_versions s h env batch vs st)"

definition clean_project :: "'o s3 \<Rightarrow> host \<Rightarrow> dbenv \<Rightarrow> string \<Rightarrow> 'o cleanup \<Rightarrow> 'o cleanup" where
  "clean_project s h env projID st =
     (case GetAllProjectTrackVersions env projID (cl_db st) of
        Inl _ \<Rightarrow> st\<lparr>errorCount := errorCount st + 1\<rparr>
      | Inr vs \<Rightarrow>
          let st = flush_versions s h env [] vs st
          in case HardDeleteProject env projID (cl_db st) of
               (Inl _, d) \<Rightarrow> st\<lparr>cl_db := d, errorCount := errorCount st + 1\<rparr>
             | (Inr _, d) \<Rightarrow> st\<lparr>cl_db := d\<rparr>)"

definition processCleanup ::
  "'o s3 \<Rightarrow> host \<Rightarrow> dbenv \<Rightarrow> database \<Rightarrow> 'o r2_client \<Rightarrow> 'o cleanup" where
  "processCleanup s h env d rc =
     (let st = \<lparr>cl_db = d, cl_r2 = rc, deletedCount = 0, errorCount = 0\<rparr>
      in case GetSoftDeletedProjects env (30 * 24 * hour) d of
           Inl _ \<Rightarrow> st
         | Inr ps \<Rightarrow> fold (\<lambda>p. clean_project s h env (p_id p)) ps st)"


subsection \<open>The back-off of the polling loop\<close>

lemma poll_loop_bounds:
  "5 * second \<le> d \<Longrightarrow> d \<le> maxIdleSleep \<Longrightarrow>
   list_all2 (\<lambda>r t. if (\<exists>n. r = Inr n \<and> n \<noteq> 0) then t = 0 else 5 * second \<le> t \<and> t \<le> maxIdleSleep)
     rs (poll_loop d rs)"
proof (induction rs arbitrary: d)
  case Nil
  then show ?case by simp
next
  case (Cons r rs)
  have "5 * second \<le> snd (poll d r) \<and> snd (poll d r) \<le> maxIdleSleep"
    using Cons.prems by (auto simp: poll_def maxIdleSleep_def Let_def split: sum.splits)
  with Cons show ?case by (auto simp: poll_def split: sum.splits)
qed

lemma poll_loop_append:
  "\<exists>d'. poll_loop d (xs @ ys) = poll_loop d xs @ poll_loop d' ys"
  by (induction xs arbitrary: d) auto

lemma length_poll_loop [simp]: "length (poll_loop d xs) = length xs"
  by (induction xs arbitrary: d) auto

lemma poll_loop_idle:
  "d = min maxIdleSleep (5 * second * 2 ^ i) \<Longrightarrow>
   poll_loop d (replicate k (Inr 0)) = map (\<lambda>j. min maxIdleSleep (5 * second * 2 ^ (i + j))) [0..<k]"
proof (induction k arbitrary: d i)
  case 0
  then show ?case by simp
next
  case (Suc k)
  have "snd (poll d (Inr 0)) = min maxIdleSleep (5 * second * 2 ^ Suc i)"
    using Suc.prems by (auto simp: poll_def maxIdleSleep_def Let_def min_def)
  then have "poll_loop (snd (poll d (Inr 0))) (replicate k (Inr 0)) =
      map (\<lambda>j. min maxIdleSleep (5 * second * 2 ^ (Suc i + j))) [0..<k]"
    by (rule Suc.IH)
  moreover have "poll_loop d (replicate (Suc k) (Inr 0)) =
      d # poll_loop (snd (poll d (Inr 0))) (replicate k (Inr 0))"
    by (simp add: poll_def)
  moreover have "[0..<Suc k] = 0 # map Suc [0..<k]"
    by (simp add: map_Suc_upt upt_conv_Cons del: upt_Suc)
  ultimately show ?case using Suc.prems by (simp del: upt_Suc replicate.simps)
qed

text \<open>The processor sleeps between 5 and 60 seconds after every turn without work and not at all
  after work; from the last work on, its i-th idle sleep is 5 seconds doubled i times, at most 60.\<close>

theorem idle_backoff:
  "list_all2 (\<lambda>r t. if (\<exists>n. r = Inr n \<and> n \<noteq> 0) then t = 0 else 5 * second \<le> t \<and> t \<le> 60 * second)
     rs (ProcessPendingJobs rs) \<and>
   drop (Suc (length before)) (ProcessPendingJobs (before @ Inr (1 + int m) # replicate k (Inr 0))) =
     map (\<lambda>i. min (60 * second) (5 * second * 2 ^ i)) [0..<k]"
proof
  show "list_all2 (\<lambda>r t. if (\<exists>n. r = Inr n \<and> n \<noteq> 0) then t = 0 else 5 * second \<le> t \<and> t \<le> 60 * second)
     rs (ProcessPendingJobs rs)"
    using poll_loop_bounds [of "5 * second" rs] unfolding ProcessPendingJobs_def maxIdleSleep_def by simp
  obtain d' where d': "ProcessPendingJobs (before @ Inr (1 + int m) # replicate k (Inr 0)) =
      poll_loop (5 * second) before @ poll_loop d' (Inr (1 + int m) # replicate k (Inr 0))"
    using poll_loop_append unfolding ProcessPendingJobs_def by blast
  have "snd (poll d' (Inr (1 + int m))) = 5 * second" by (simp add: poll_def)
  then show "drop (Suc (length before)) (ProcessPendingJobs (before @ Inr (1 + int m) # replicate k (Inr 0))) =
     map (\<lambda>i. min (60 * second) (5 * second * 2 ^ i)) [0..<k]"
    unfolding d' using poll_loop_idle [of "5 * second" 0 k] by (simp add: maxIdleSleep_def)
qed

subsection \<open>Batches\<close>

text \<open>The reference: a list cut into pieces of \<open>n\<close>.\<close>

function chunks :: "nat \<Rightarrow> 'a list \<Rightarrow> 'a list list" where
  "chunks n xs = (if xs = [] \<or> n = 0 then [] else take n xs # chunks n (drop n xs))"
  by pat_completeness auto
termination by (relation "measure (\<lambda>(n, xs). length xs)") auto

declare chunks.simps [simp del]

lemma chunks_concat: "0 < n \<Longrightarrow> concat (chunks n xs) = xs"
  by (induction n xs rule: chunks.induct) (subst chunks.simps, auto)

lemma chunks_length: "c \<in> set (chunks n xs) \<Longrightarrow> c \<noteq> [] \<and> length c \<le> n"
  by (induction n xs rule: chunks.induct) (subst (asm) (2) chunks.simps, auto split: if_splits)

lemma chunks_full: "length b = n \<Longrightarrow> 0 < n \<Longrightarrow> chunks n (b @ xs) = b # chunks n xs"
  by (subst chunks.simps) auto

lemma chunks_short: "length b < n \<Longrightarrow> chunks n b = (if b = [] then [] else [b])"
  by (subst chunks.simps) (simp add: chunks.simps)

lemma flush_versions_chunks:
  "length b < 100 \<Longrightarrow>
   flush_versions s h env b vs st =
     fold (flushBatch s h env) (chunks 100 (b @ filter (\<lambda>k. k \<noteq> '''') (map v_key vs))) st"
proof (induction vs arbitrary: b st)
  case Nil
  then show ?case by (simp add: chunks_short flushBatch_def)
next
  case (Cons v vs)
  show ?case
  proof (cases "v_key v = ''''")
    case True
    with Cons show ?thesis by simp
  next
    case key: False
    show ?thesis
    proof (cases "length (b @ [v_key v]) \<ge> 100")
      case True
      with Cons.prems have "length (b @ [v_key v]) = 100" by simp
      with key True show ?thesis
        using Cons.IH [of "[]"] chunks_full [of "b @ [v_key v]" 100] by simp
    next
      case False
      with key show ?thesis using Cons.IH [of "b @ [v_key v]"] by simp
    qed
  qed
qed

text \<open>Whatever the object store answers, the clean-up of a project hands it the keys of all uploaded
  versions, in order and once each, in batches of one to a hundred keys.\<close>

theorem cleanup_batches:
  "flush_versions s h env [] vs st =
     fold (flushBatch s h env) (chunks 100 (filter (\<lambda>k. k \<noteq> '''') (map v_key vs))) st \<and>
   concat (chunks 100 (filter (\<lambda>k. k \<noteq> '''') (map v_key vs))) = filter (\<lambda>k. k \<noteq> '''') (map v_key vs) \<and>
   list_all (\<lambda>b. b \<noteq> [] \<and> length b \<le> 100) (chunks 100 (filter (\<lambda>k. k \<noteq> '''') (map v_key vs)))"
  using chunks_length by (auto simp: flush_versions_chunks chunks_concat list_all_iff dest: chunks_length)


subsection \<open>The removal of a project\<close>

lemma log_failures_frame:
  "projects (cl_db (log_failures env err ks st)) = projects (cl_db st)"
  "tracks (cl_db (log_failures env err ks st)) = tracks (cl_db st)"
  "versions (cl_db (log_failures env err ks st)) = versions (cl_db st)"
  "background_jobs (cl_db (log_failures env err ks st)) = background_jobs (cl_db st)"
  by (induction env err ks st rule: log_failures.induct)
     (simp_all add: LogR2CleanupFailure_def exec_stmt_def)

lemma flushBatch_frame:
  "projects (cl_db (flushBatch s h env ks st)) = projects (cl_db st)"
  "tracks (cl_db (flushBatch s h env ks st)) = tracks (cl_db st)"
  "versions (cl_db (flushBatch s h env ks st)) = versions (cl_db st)"
  "background_jobs (cl_db (flushBatch s h env ks st)) = background_jobs (cl_db st)"
  by (auto simp: flushBatch_def log_failures_frame split: prod.splits bool.splits)

lemma flush_versions_frame [frame_simps]:
  "projects (cl_db (flush_versions s h env b vs st)) = projects (cl_db st)"
  "tracks (cl_db (flush_versions s h env b vs st)) = tracks (cl_db st)"
  "versions (cl_db (flush_versions s h env b vs st)) = versions (cl_db st)"
  "background_jobs (cl_db (flush_versions s h env b vs st)) = background_jobs (cl_db st)"
  by (induction s h env b vs st rule: flush_versions.induct)
     (simp_all add: flushBatch_frame Let_def)

definition cleanup_queued :: "database \<Rightarrow> version_row \<Rightarrow> bool" where
  "cleanup_queued d v \<longleftrightarrow> (\<exists>j\<in>set (background_jobs d).
     j_type j = ''cleanup_r2_file'' \<and> j_data j = version_cleanup v)"

lemma HardDeleteProject_tables:
  assumes "\<not> fails env ''HardDeleteProject'' [i]" and "\<exists>p\<in>set (projects d). p_id p = i"
  defines "d' \<equiv> snd (HardDeleteProject env i d)"
  shows "fst (HardDeleteProject env i d) = Inr ()"
    and "projects d' = filter (\<lambda>p. p_id p \<noteq> i) (projects d)"
    and "tracks d' = filter (\<lambda>t. t_project t \<noteq> i) (tracks d)"
    and "versions d' = filter (\<lambda>v. v \<notin> set (project_versions d i)) (versions d)"
    and "cleanup_queued d v \<or> v \<in> set (project_versions d i) \<Longrightarrow> cleanup_queued d' v"
proof -
  have d': "HardDeleteProject env i d = (Inr (), queue_cleanup env (map version_cleanup (project_versions d i))
      (delete_project_rows i d))"
    unfolding HardDeleteProject_def exec_stmt_def Let_def if_not_P [OF assms(1)]
    using assms(2) by (subst if_not_P) auto
  show "fst (HardDeleteProject env i d) = Inr ()"
    "projects d' = filter (\<lambda>p. p_id p \<noteq> i) (projects d)"
    "tracks d' = filter (\<lambda>t. t_project t \<noteq> i) (tracks d)"
    "versions d' = filter (\<lambda>v. v \<notin> set (project_versions d i)) (versions d)"
    by (simp_all add: d'_def d' frame_simps delete_project_rows_def Let_def)
  show "cleanup_queued d' v" if "cleanup_queued d v \<or> v \<in> set (project_versions d i)"
    using that
  proof
    assume "cleanup_queued d v"
    then show ?thesis unfolding cleanup_queued_def d'_def d' snd_conv
      by (force intro!: queue_cleanup_keeps simp: delete_project_rows_def Let_def)
  next
    assume "v \<in> set (project_versions d i)"
    then have "version_cleanup v \<in> set (map version_cleanup (project_versions d i))" by simp
    from queue_cleanup_has [OF this] show ?thesis
      unfolding cleanup_queued_def d'_def d' snd_conv by blast
  qed
qed


lemma cleanup_queued_jobs: "background_jobs d = background_jobs d' \<Longrightarrow> cleanup_queued d = cleanup_queued d'"
  by (rule ext) (simp add: cleanup_queued_def)

lemma project_versions_cong:
  "tracks d = tracks d' \<Longrightarrow> versions d = versions d' \<Longrightarrow> project_versions d = project_versions d'"
  by (rule ext) (simp add: project_versions_def)

definition purges :: "dbenv \<Rightarrow> bool" where
  "purges env \<longleftrightarrow> (\<forall>i. \<not> fails env ''GetAllProjectTrackVersions'' [i] \<and> \<not> fails env ''HardDeleteProject'' [i])"

lemma clean_project_tables:
  fixes s :: "'o s3" and h :: host
  assumes env: "purges env" and p: "\<exists>p\<in>set (projects (cl_db st)). p_id p = i"
  defines "d \<equiv> cl_db st" and "d' \<equiv> cl_db (clean_project s h env i st)"
  shows "projects d' = filter (\<lambda>p. p_id p \<noteq> i) (projects d)"
    and "tracks d' = filter (\<lambda>t. t_project t \<noteq> i) (tracks d)"
    and "versions d' = filter (\<lambda>v. v \<notin> set (project_versions d i)) (versions d)"
    and "cleanup_queued d v \<or> v \<in> set (project_versions d i) \<Longrightarrow> cleanup_queued d' v"
proof -
  let ?d = "cl_db (flush_versions s h env [] (project_versions d i) st)"
  have f: "\<not> fails env ''HardDeleteProject'' [i]" "\<not> fails env ''GetAllProjectTrackVersions'' [i]"
    using env by (simp_all add: purges_def)
  have q: "\<exists>p\<in>set (projects ?d). p_id p = i" using p by (simp add: frame_simps)
  have d': "d' = snd (HardDeleteProject env i ?d)"
    using f(2) HardDeleteProject_tables(1) [OF f(1) q]
    by (auto simp: d'_def d_def clean_project_def GetAllProjectTrackVersions_def query_all_def Let_def
        split: prod.splits sum.splits)
  have same: "projects ?d = projects d" "tracks ?d = tracks d" "versions ?d = versions d"
    by (simp_all add: frame_simps d_def)
  have same2: "project_versions ?d = project_versions d" "cleanup_queued ?d = cleanup_queued d"
    by (intro project_versions_cong cleanup_queued_jobs; simp add: frame_simps d_def)+
  note t = HardDeleteProject_tables [OF f(1) q, folded d', unfolded same same2]
  show "projects d' = filter (\<lambda>p. p_id p \<noteq> i) (projects d)"
    "tracks d' = filter (\<lambda>t. t_project t \<noteq> i) (tracks d)"
    "versions d' = filter (\<lambda>v. v \<notin> set (project_versions d i)) (versions d)"
    by (fact t)+
  show "cleanup_queued d v \<or> v \<in> set (project_versions d i) \<Longrightarrow> cleanup_queued d' v" by (fact t(5))
qed

lemma project_versions_kept:
  assumes "distinct (map t_id (tracks d))" and "i \<noteq> k" and "v \<in> set (project_versions d k)"
    and "tracks d' = filter (\<lambda>t. t_project t \<noteq> i) (tracks d)"
    and "versions d' = filter (\<lambda>v. v \<notin> set (project_versions d i)) (versions d)"
  shows "v \<in> set (project_versions d' k)"
proof -
  obtain t where t: "t \<in> set (tracks d)" "t_id t = v_track v" "t_project t = k"
    using assms(3) by (auto simp: project_versions_def list_ex_iff)
  have "v \<notin> set (project_versions d i)"
  proof
    assume "v \<in> set (project_versions d i)"
    then obtain u where u: "u \<in> set (tracks d)" "t_id u = v_track v" "t_project u = i"
      by (auto simp: project_versions_def list_ex_iff)
    then show False using distinct_map_inj_eq [OF assms(1) t(1) u(1)] t assms(2) by simp
  qed
  then show ?thesis using assms t by (auto simp: project_versions_def list_ex_iff)
qed

lemma clean_projects:
  fixes s :: "'o s3" and h :: host
  assumes "purges env" and "distinct (map p_id ps)" and "set ps \<subseteq> set (projects (cl_db st))"
    and "distinct (map t_id (tracks (cl_db st)))"
  defines "d' \<equiv> cl_db (fold (\<lambda>p. clean_project s h env (p_id p)) ps st)"
  shows "projects d' = filter (\<lambda>p. p_id p \<notin> p_id ` set ps) (projects (cl_db st)) \<and>
    set (versions d') \<subseteq> set (versions (cl_db st)) \<and>
    (\<forall>v. cleanup_queued (cl_db st) v \<longrightarrow> cleanup_queued d' v) \<and>
    (\<forall>p\<in>set ps. \<forall>v\<in>set (project_versions (cl_db st) (p_id p)). cleanup_queued d' v \<and> v \<notin> set (versions d'))"
  using assms(2-4) unfolding d'_def
proof (induction ps arbitrary: st)
  case Nil
  then show ?case by simp
next
  case (Cons p ps)
  let ?st = "clean_project s h env (p_id p) st"
  have ex: "\<exists>q\<in>set (projects (cl_db st)). p_id q = p_id p" using Cons.prems(2) by auto
  note t = clean_project_tables [OF assms(1) ex, where s = s and h = h]
  have "distinct (map t_id (tracks (cl_db ?st)))" using Cons.prems(3) by (simp add: t distinct_map_filter)
  moreover have "set ps \<subseteq> set (projects (cl_db ?st))"
    using Cons.prems(1,2) by (auto simp: t image_iff)
  ultimately have IH: "projects (cl_db (fold (\<lambda>p. clean_project s h env (p_id p)) ps ?st)) =
        filter (\<lambda>q. p_id q \<notin> p_id ` set ps) (projects (cl_db ?st))"
      "set (versions (cl_db (fold (\<lambda>p. clean_project s h env (p_id p)) ps ?st))) \<subseteq> set (versions (cl_db ?st))"
      "\<And>v. cleanup_queued (cl_db ?st) v \<Longrightarrow> cleanup_queued (cl_db (fold (\<lambda>p. clean_project s h env (p_id p)) ps ?st)) v"
      "\<And>q v. q \<in> set ps \<Longrightarrow> v \<in> set (project_versions (cl_db ?st) (p_id q)) \<Longrightarrow>
         cleanup_queued (cl_db (fold (\<lambda>p. clean_project s h env (p_id p)) ps ?st)) v \<and>
         v \<notin> set (versions (cl_db (fold (\<lambda>p. clean_project s h env (p_id p)) ps ?st)))"
    using Cons.IH [of ?st] Cons.prems(1) by auto
  have "cleanup_queued (cl_db (fold (\<lambda>p. clean_project s h env (p_id p)) (p # ps) st)) v \<and>
      v \<notin> set (versions (cl_db (fold (\<lambda>p. clean_project s h env (p_id p)) (p # ps) st)))"
    if "q \<in> set (p # ps)" "v \<in> set (project_versions (cl_db st) (p_id q))" for q v
  proof (cases "q = p")
    case True
    then have "cleanup_queued (cl_db ?st) v" "v \<notin> set (versions (cl_db ?st))"
      using that t(4) [of v] by (auto simp: t(3))
    then show ?thesis using IH(2,3) by auto
  next
    case False
    then have "q \<in> set ps" "p_id p \<noteq> p_id q" using that(1) Cons.prems(1) by (auto simp: image_iff)
    then show ?thesis
      using IH(4) project_versions_kept [OF Cons.prems(3) _ that(2) t(2,3)] by simp
  qed
  moreover have "\<And>v. cleanup_queued (cl_db st) v \<Longrightarrow> cleanup_queued (cl_db ?st) v" using t(4) by blast
  moreover have "set (versions (cl_db ?st)) \<subseteq> set (versions (cl_db st))" by (auto simp: t(3))
  ultimately show ?case using IH(1-3) by (auto simp: t(1) intro!: filter_cong)
qed


definition long_deleted :: "dbenv \<Rightarrow> project_row \<Rightarrow> bool" where
  "long_deleted env p \<longleftrightarrow> (case p_deleted p of None \<Rightarrow> False | Some t \<Rightarrow> t < db_now env - 30 * 24 * hour)"

lemma GetSoftDeletedProjects_30_days:
  "GetSoftDeletedProjects env (30 * 24 * hour) d =
     (if fails env ''GetSoftDeletedProjects'' [] then Inl Fault else Inr (filter (long_deleted env) (projects d)))"
proof -
  have "(30 * 24 * hour) div second * second = 30 * 24 * hour" by simp
  then show ?thesis
    by (simp only: GetSoftDeletedProjects_def query_all_def long_deleted_def [abs_def])
qed


definition sample_host :: host where
  "sample_host = \<lparr>has_ffmpeg = True, temp_files = \<lambda>f. True, ffmpeg = \<lambda>opts input. Some input, host_now = 0,
     why = \<lambda>c. c\<rparr>"

definition failing_s3 :: "unit s3" where
  "failing_s3 = sample_s3\<lparr>s3_delete_many := \<lambda>ks u. (False, u)\<rparr>"


subsection \<open>Runs of the pool\<close>

definition pool_size :: "'o pool \<Rightarrow> nat" where
  "pool_size s = 3 * length (todo s) + 2 * length (busy s) + length (worked s)"

lemma pool_step_size: "pool_step jp n s s' \<Longrightarrow> pool_size s = Suc (pool_size s')"
  by (induction rule: pool_step.induct) (simp_all add: pool_size_def)

lemma pool_run_size: "(pool_step jp n ^^ k) s s' \<Longrightarrow> pool_size s = k + pool_size s'"
  by (induction k arbitrary: s') (auto dest!: pool_step_size)

lemma pool_progress:
  assumes "0 < n" and "\<not> pool_done s"
  shows "\<exists>s'. pool_step jp n s s'"
proof -
  consider j xs where "busy s = [] @ j # xs" | i res xs where "worked s = [] @ (i, res) # xs"
    | "busy s = []" "worked s = []" "todo s \<noteq> []"
    using assms(2) by (cases "busy s"; cases "worked s"; fastforce simp: pool_done_def)
  then show ?thesis
  proof cases
    case 1
    obtain res rc where "run_job jp j (pool_db s) (pool_r2 s) = (res, rc)" by fastforce
    from pool_step.work [OF 1 this] show ?thesis by blast
  next
    case 2
    obtain r d where m: "mark_job calm_env i res (pool_db s) = (r, d)" by fastforce
    show ?thesis
    proof (cases r)
      case (Inl e)
      with m have "mark_job calm_env i res (pool_db s) = (Inl e, d)" by simp
      from pool_step.mark_fault [OF 2 this] show ?thesis by blast
    next
      case (Inr u)
      with m have "mark_job calm_env i res (pool_db s) = (Inr (), d)" by simp
      from pool_step.mark [OF 2 this] show ?thesis by blast
    qed
  next
    case 3
    then obtain j js where "todo s = j # js" by (auto simp: neq_Nil_conv)
    from pool_step.take [OF this, of n jp] 3 assms(1) show ?thesis by auto
  qed
qed

lemma pool_width: "pool_step jp n s s' \<Longrightarrow> length (busy s) + length (worked s) \<le> n \<Longrightarrow>
    length (busy s') + length (worked s') \<le> n"
  by (induction rule: pool_step.induct) simp_all

lemma start_pool_size [simp]: "pool_size (start_pool jobs d rc) = 3 * length jobs"
  by (simp add: pool_size_def start_pool_def)



definition sample_processor :: "unit processor" where
  "sample_processor = NewJobProcessor sample_s3 (\<lambda>x. x) ''e'' ''b'' sample_host (\<lambda>d. Some None) 2 0"


definition settled :: "job_row \<Rightarrow> job_row \<Rightarrow> bool" where
  "settled j row \<longleftrightarrow> j_id row = j_id j \<and> j_max row = j_max j \<and>
     (j_status row = ''completed'' \<and> j_attempts row = j_attempts j \<or>
      j_attempts row = j_attempts j + 1 \<and>
        j_status row = (if j_attempts j + 1 \<ge> j_max j then ''failed'' else ''pending''))"

definition pool_ids :: "'o pool \<Rightarrow> string list" where
  "pool_ids s = map j_id (todo s) @ map j_id (busy s) @ map fst (worked s) @ unmarked s"

definition pool_inv :: "string set \<Rightarrow> job_row list \<Rightarrow> 'o pool \<Rightarrow> bool" where
  "pool_inv I rows s \<longleftrightarrow> distinct (pool_ids s) \<and> set (pool_ids s) \<subseteq> I \<and>
     map j_id (background_jobs (pool_db s)) = map j_id rows \<and>
     (\<forall>r\<in>set rows. if j_id r \<in> I - set (pool_ids s)
        then \<exists>r'\<in>set (background_jobs (pool_db s)). settled r r'
        else r \<in> set (background_jobs (pool_db s)))"

lemma pool_inv_same:
  assumes "pool_inv I rows s" and "set (pool_ids s') = set (pool_ids s)" and "distinct (pool_ids s')"
    and "pool_db s' = pool_db s"
  shows "pool_inv I rows s'"
  using assms by (simp add: pool_inv_def)

lemma mark_job_rows:
  assumes "mark_job env i res d = (Inr (), d')"
  obtains f where "background_jobs d' = update_rows (\<lambda>j. j_id j = i) f (background_jobs d)"
    "\<And>j. settled j (f j)"
proof (cases res)
  case (Inl err)
  let ?f = "\<lambda>j. j\<lparr>j_status := (if j_attempts j + 1 \<ge> j_max j then ''failed'' else ''pending''),
      j_attempts := j_attempts j + 1, j_error := Some err, j_started := None\<rparr>"
  have "background_jobs d' = update_rows (\<lambda>j. j_id j = i) ?f (background_jobs d)"
    using assms Inl by (auto simp: mark_job_def MarkJobFailed_def exec_stmt_def fail_rows_def split: if_splits)
  moreover have "\<And>j. settled j (?f j)" by (simp add: settled_def)
  ultimately show thesis by (rule that)
next
  case (Inr r)
  let ?f = "\<lambda>j. j\<lparr>j_status := ''completed'', j_result := Some r, j_completed := Some (db_now env)\<rparr>"
  have "background_jobs d' = update_rows (\<lambda>j. j_id j = i) ?f (background_jobs d)"
    using assms Inr by (auto simp: mark_job_def MarkJobCompleted_def exec_stmt_def complete_rows_def split: if_splits)
  moreover have "\<And>j. settled j (?f j)" by (simp add: settled_def)
  ultimately show thesis by (rule that)
qed

lemma mark_job_fault: "mark_job env i res d = (Inl e, d') \<Longrightarrow> d' = d"
  by (auto simp: mark_job_def MarkJobFailed_def MarkJobCompleted_def exec_stmt_def split: sum.splits if_splits)

lemma settled_id: "settled j r \<Longrightarrow> j_id r = j_id j"
  by (simp add: settled_def)

lemma pool_inv_mark:
  assumes inv: "pool_inv I rows s" and w: "worked s = xs @ (i, res) # ys"
    and m: "mark_job env i res (pool_db s) = (Inr (), d)" and dist: "distinct (map j_id rows)"
  shows "pool_inv I rows (s\<lparr>worked := xs @ ys, pool_db := d\<rparr>)"
proof -
  let ?s = "s\<lparr>worked := xs @ ys, pool_db := d\<rparr>" and ?js = "background_jobs (pool_db s)"
  obtain f where f: "background_jobs d = update_rows (\<lambda>j. j_id j = i) f ?js" "\<And>j. settled j (f j)"
    using mark_job_rows [OF m] by blast
  have ids: "set (pool_ids ?s) = set (pool_ids s) - {i}" "distinct (pool_ids ?s)" "i \<in> set (pool_ids s)"
    using inv w by (auto simp: pool_inv_def pool_ids_def)
  have row: "if j_id r \<in> I - set (pool_ids ?s) then \<exists>r'\<in>set (background_jobs d). settled r r'
      else r \<in> set (background_jobs d)" if r: "r \<in> set rows" for r
  proof (cases "j_id r = i")
    case True
    have "r \<in> set ?js" using inv r True ids(3) by (auto simp: pool_inv_def)
    then have "f r \<in> set (background_jobs d)" using True by (force simp: f(1) set_update_rows)
    moreover have "j_id r \<in> I" using inv ids(3) True by (auto simp: pool_inv_def)
    ultimately show ?thesis using f(2) [of r] True ids(1) by auto
  next
    case False
    then have same: "(j_id r \<in> I - set (pool_ids ?s)) = (j_id r \<in> I - set (pool_ids s))" using ids(1) by auto
    have inv_r: "if j_id r \<in> I - set (pool_ids s) then \<exists>r'\<in>set ?js. settled r r' else r \<in> set ?js"
      using inv r unfolding pool_inv_def by blast
    have keep: "r' \<in> set (background_jobs d)" if "r' \<in> set ?js" "j_id r' = j_id r" for r'
      unfolding f(1) using that False by (intro update_rows_keeps) auto
    show ?thesis
    proof (cases "j_id r \<in> I - set (pool_ids s)")
      case True
      with inv_r obtain r' where "r' \<in> set ?js" "settled r r'" by auto
      then show ?thesis using keep settled_id same True by auto
    next
      case out: False
      with inv_r have "r \<in> set ?js" by simp
      then show ?thesis using keep same out by auto
    qed
  qed
  have "map j_id (background_jobs d) = map j_id ?js"
    unfolding f(1) by (rule map_update_rows) (simp add: settled_id [OF f(2)])
  then show ?thesis using inv row ids by (simp add: pool_inv_def) blast
qed

lemma pool_inv_step:
  assumes "pool_step jp n s s'" and "pool_inv I rows s" and "distinct (map j_id rows)"
  shows "pool_inv I rows s'"
  using assms(1)
proof cases
  case (take j js)
  then show ?thesis using assms(2) by (intro pool_inv_same [OF assms(2)]) (auto simp: pool_inv_def pool_ids_def)
next
  case (work xs j ys res rc)
  then show ?thesis using assms(2) by (intro pool_inv_same [OF assms(2)]) (auto simp: pool_inv_def pool_ids_def)
next
  case (mark xs i res ys env d)
  then show ?thesis using pool_inv_mark [OF assms(2) mark(2,3) assms(3)] by simp
next
  case (mark_fault xs i res ys env e d)
  then show ?thesis using assms(2) mark_job_fault [OF mark_fault(3)]
    by (intro pool_inv_same [OF assms(2)]) (auto simp: pool_inv_def pool_ids_def)
qed


lemma ClaimPendingJobs_rows:
  assumes "ClaimPendingJobs env locked limit d = (Inr jobs, d1)" and "distinct (map j_id (background_jobs d))"
  shows "distinct (map j_id (background_jobs d1))" and "distinct (map j_id jobs)"
    and "set jobs \<subseteq> set (background_jobs d1)"
    and "\<And>r. r \<in> set (background_jobs d1) \<Longrightarrow> r \<in> set jobs \<longleftrightarrow> j_id r \<in> j_id ` set jobs"
proof -
  let ?ids = "claim_ids locked limit (background_jobs d)"
  have d1: "background_jobs d1 = claim_rows (db_now env) ?ids (background_jobs d)"
    "jobs = filter (\<lambda>j. j_id j \<in> set ?ids) (background_jobs d1)"
    using assms(1) by (auto simp: ClaimPendingJobs_def Let_def split: if_splits)
  show "distinct (map j_id (background_jobs d1))" unfolding d1(1) using assms(2) by simp
  then show "distinct (map j_id jobs)" unfolding d1(2) by (rule distinct_map_filter)
  show "set jobs \<subseteq> set (background_jobs d1)" unfolding d1(2) by auto
  show "r \<in> set jobs \<longleftrightarrow> j_id r \<in> j_id ` set jobs" if "r \<in> set (background_jobs d1)" for r
    using that unfolding d1(2) by auto
qed

lemma pool_inv_run:
  "(pool_step jp n)\<^sup>*\<^sup>* s s' \<Longrightarrow> pool_inv I rows s \<Longrightarrow> distinct (map j_id rows) \<Longrightarrow> pool_inv I rows s'"
  by (induction rule: rtranclp_induct) (blast intro: pool_inv_step)+

text \<open>C5: when a batch has ended, in whatever order its workers ran, every claimed job is settled:
  completed, or one attempt older and pending again, or failed when that was its last; only a job
  whose marking failed is still as it was claimed, in processing. No other job has changed.\<close>

theorem batch_settles:
  assumes claim: "ClaimPendingJobs env locked limit d = (Inr jobs, d1)"
    and dist: "distinct (map j_id (background_jobs d))"
    and run: "(pool_step jp n)\<^sup>*\<^sup>* (start_pool jobs d1 rc) s" and fin: "pool_done s"
  shows "(\<forall>j\<in>set jobs. if j_id j \<in> set (unmarked s) then j \<in> set (background_jobs (pool_db s))
            else \<exists>r\<in>set (background_jobs (pool_db s)). settled j r) \<and>
    (\<forall>r\<in>set (background_jobs d1). r \<notin> set jobs \<longrightarrow> r \<in> set (background_jobs (pool_db s))) \<and>
    map j_id (background_jobs (pool_db s)) = map j_id (background_jobs d1)"
proof -
  let ?I = "j_id ` set jobs" and ?rows = "background_jobs d1"
  note c = ClaimPendingJobs_rows [OF claim dist]
  have start: "pool_ids (start_pool jobs d1 rc) = map j_id jobs"
    "pool_db (start_pool jobs d1 rc) = d1" by (simp_all add: pool_ids_def start_pool_def)
  have "pool_inv ?I ?rows (start_pool jobs d1 rc)" using c(2) by (simp add: pool_inv_def start)
  from pool_inv_run [OF run this c(1)] have inv: "pool_inv ?I ?rows s" .
  have ids: "pool_ids s = unmarked s" using fin by (simp add: pool_ids_def pool_done_def)
  have rows: "if j_id r \<in> ?I - set (unmarked s) then \<exists>r'\<in>set (background_jobs (pool_db s)). settled r r'
      else r \<in> set (background_jobs (pool_db s))" if "r \<in> set ?rows" for r
    using inv that unfolding pool_inv_def ids by blast
  have "if j_id j \<in> set (unmarked s) then j \<in> set (background_jobs (pool_db s))
      else \<exists>r\<in>set (background_jobs (pool_db s)). settled j r" if "j \<in> set jobs" for j
    using rows [of j] c(3) that by auto
  moreover have "r \<in> set (background_jobs (pool_db s))" if "r \<in> set ?rows" "r \<notin> set jobs" for r
    using rows [OF that(1)] c(4) [OF that(1)] that(2) by auto
  moreover have "map j_id (background_jobs (pool_db s)) = map j_id ?rows"
    using inv by (simp add: pool_inv_def)
  ultimately show ?thesis by blast
qed

text \<open>A batch with one worker is a run of the pool.\<close>

lemma processJob_run:
  assumes "processJob jp env j d rc = (r, d', rc')"
  shows "\<exists>un'. (pool_step jp (Suc n))\<^sup>*\<^sup>*
      \<lparr>todo = j # js, busy = [], worked = [], unmarked = un, pool_db = d, pool_r2 = rc\<rparr>
      \<lparr>todo = js, busy = [], worked = [], unmarked = un', pool_db = d', pool_r2 = rc'\<rparr>"
proof -
  obtain res where res: "run_job jp j d rc = (res, rc')" "mark_job env (j_id j) res d = (r, d')"
    using assms by (auto simp: processJob_def split: prod.splits)
  let ?s0 = "\<lparr>todo = j # js, busy = [], worked = [], unmarked = un, pool_db = d, pool_r2 = rc\<rparr>"
  let ?s1 = "\<lparr>todo = js, busy = [j], worked = [], unmarked = un, pool_db = d, pool_r2 = rc\<rparr>"
  let ?s2 = "\<lparr>todo = js, busy = [], worked = [(j_id j, res)], unmarked = un, pool_db = d, pool_r2 = rc'\<rparr>"
  have "pool_step jp (Suc n) ?s0 ?s1" using pool_step.take [of ?s0 j js "Suc n" jp] by simp
  moreover have "pool_step jp (Suc n) ?s1 ?s2" using pool_step.work [of ?s1 "[]" j "[]" jp res rc' "Suc n"] res(1) by simp
  moreover have "\<exists>un'. pool_step jp (Suc n) ?s2
      \<lparr>todo = js, busy = [], worked = [], unmarked = un', pool_db = d', pool_r2 = rc'\<rparr>"
  proof (cases r)
    case (Inl e)
    then show ?thesis using pool_step.mark_fault [of ?s2 "[]" "j_id j" res "[]" env e d' jp "Suc n"] res(2) by auto
  next
    case (Inr u)
    then show ?thesis using pool_step.mark [of ?s2 "[]" "j_id j" res "[]" env d' jp "Suc n"] res(2) by auto
  qed
  ultimately show ?thesis by (meson converse_rtranclp_into_rtranclp rtranclp.rtrancl_refl)
qed

lemma process_all_run:
  "\<exists>un'. (pool_step jp (Suc n))\<^sup>*\<^sup>*
      \<lparr>todo = js, busy = [], worked = [], unmarked = un, pool_db = d, pool_r2 = rc\<rparr>
      \<lparr>todo = [], busy = [], worked = [], unmarked = un', pool_db = fst (process_all jp env js d rc),
       pool_r2 = snd (process_all jp env js d rc)\<rparr>"
proof (induction jp env js d rc arbitrary: un rule: process_all.induct)
  case (1 jp env d rc)
  then show ?case by auto
next
  case (2 jp env j js d rc)
  obtain r d' rc' where p: "processJob jp env j d rc = (r, d', rc')" by (metis prod_cases3)
  from processJob_run [OF p] obtain un1 where "(pool_step jp (Suc n))\<^sup>*\<^sup>*
      \<lparr>todo = j # js, busy = [], worked = [], unmarked = un, pool_db = d, pool_r2 = rc\<rparr>
      \<lparr>todo = js, busy = [], worked = [], unmarked = un1, pool_db = d', pool_r2 = rc'\<rparr>" by blast
  with 2 [OF p [symmetric] refl, of un1] p show ?case by (auto intro: rtranclp_trans)
qed

text \<open>The sequential batch is one of the runs of the pool, so that what holds of every run holds of
  it: it returns the number of claimed jobs and leaves each of them settled or unmarked.\<close>

theorem processBatch_refines_pool:
  assumes "processBatch jp env d rc = (Inr k, d', rc')"
  shows "\<exists>jobs d1 s. ClaimPendingJobs env {} (batchSize jp) d = (Inr jobs, d1) \<and> k = int (length jobs) \<and>
    (pool_step jp 1)\<^sup>*\<^sup>* (start_pool jobs d1 rc) s \<and> pool_done s \<and> pool_db s = d' \<and> pool_r2 s = rc'"
proof -
  obtain jobs d1 where c: "ClaimPendingJobs env {} (batchSize jp) d = (Inr jobs, d1)"
    "k = int (length jobs)" "process_all jp env jobs d1 rc = (d', rc')"
    using assms by (auto simp: processBatch_def split: prod.splits sum.splits)
  obtain un where "(pool_step jp 1)\<^sup>*\<^sup>* (start_pool jobs d1 rc)
      \<lparr>todo = [], busy = [], worked = [], unmarked = un, pool_db = d', pool_r2 = rc'\<rparr>"
    using process_all_run [of jp 0 jobs "[]" d1 rc env] c(3) by (auto simp: start_pool_def)
  with c show ?thesis by (auto simp: pool_done_def)
qed


definition job_db :: database where
  "job_db = empty_db\<lparr>background_jobs := [new_job ''j'' ''cleanup_r2_file''
     (JObj [(''r2_object_key'', JStr ''tracks/a.mp3'')]) 3 0]\<rparr>"

lemma job_db_claim:
  "\<exists>d. ClaimPendingJobs calm_env {} 10 job_db =
     (Inr [(new_job ''j'' ''cleanup_r2_file'' (JObj [(''r2_object_key'', JStr ''tracks/a.mp3'')]) 3 0)
        \<lparr>j_status := ''processing'', j_started := Some (db_now calm_env), j_updated := db_now calm_env\<rparr>], d)"
  by (simp add: ClaimPendingJobs_def job_db_def calm_env_def claim_ids_def claim_rows_def order_asc_def
      claimable_def new_job_def)

theorem batch_settles_witness:
  "\<exists>jobs d1 (s :: unit pool). jobs \<noteq> [] \<and> ClaimPendingJobs calm_env {} 10 job_db = (Inr jobs, d1) \<and>
     (\<forall>j\<in>set jobs. if j_id j \<in> set (unmarked s) then j \<in> set (background_jobs (pool_db s))
        else \<exists>r\<in>set (background_jobs (pool_db s)). settled j r)"
proof -
  obtain jobs d1 where c: "jobs \<noteq> []" "ClaimPendingJobs calm_env {} 10 job_db = (Inr jobs, d1)"
    using job_db_claim by blast
  obtain s where s: "(pool_step sample_processor 1)\<^sup>*\<^sup>* (start_pool jobs d1 (NewR2Client ())) s" "pool_done s"
    using process_all_run [of sample_processor 0 jobs "[]" d1 "NewR2Client ()" calm_env]
    by (auto simp: start_pool_def pool_done_def)
  have d: "distinct (map j_id (background_jobs job_db))" by (simp add: job_db_def)
  show ?thesis
    by (rule exI [of _ jobs], rule exI [of _ d1], rule exI [of _ s])
       (intro conjI c conjunct1 [OF batch_settles [OF c(2) d s]])
qed

theorem processBatch_refines_pool_witness:
  "\<exists>k d' rc'. processBatch sample_processor calm_env job_db (NewR2Client ()) = (Inr k, d', rc') \<and>
     (\<exists>jobs d1 s. k = int (length jobs) \<and>
        (pool_step sample_processor 1)\<^sup>*\<^sup>* (start_pool jobs d1 (NewR2Client ())) s \<and> pool_done s)"
proof -
  have "batchSize sample_processor = 10" by (simp add: sample_processor_def NewJobProcessor_def)
  then obtain k d' rc' where "processBatch sample_processor calm_env job_db (NewR2Client ()) = (Inr k, d', rc')"
    using job_db_claim by (fastforce simp: processBatch_def split: prod.splits)
  from processBatch_refines_pool [OF this] this show ?thesis by blast
qed

end
