(* ===== verification/Events.thy ===== *)
theory Events
  imports Http
begin

text \<open>
  \<open>events/event_store.go\<close>: the in-memory event store, the project aggregate rebuilt from events, the
  subscribers, the projections and the snapshots; and \<open>cqrs/commands_queries.go\<close>, the command and query
  handlers with their read model. Counters that count events in memory are integers. \<open>fmt\<close> on a value
  that is neither a string nor absent and \<open>Time.String\<close> are arguments.

  \<open>publishEvent\<close> starts a goroutine that runs the handlers of the event one after another. The step
  relation \<open>publish_step\<close> interleaves these goroutines; a handler is one step, since the projection
  handler holds its mutex throughout.
\<close>

subsection \<open>Events\<close>

record base_event =
  be_Type :: string
  be_AggregateID :: string
  be_Version :: int
  be_Timestamp :: go_time
  be_UserID :: string
  be_Data :: "string \<rightharpoonup> json"

datatype event =
    ProjectCreated (base: base_event) string string bool
  | ProjectUpdated (base: base_event) string string bool
  | ProjectDeleted (base: base_event) string
  | TrackUploaded (base: base_event) string string int int string
  | PlayRecorded (base: base_event) string string int
  | CommentAdded (base: base_event) string string string
  | ProjectShared (base: base_event) string string "string list"

abbreviation EventType :: "event \<Rightarrow> string" where "EventType e \<equiv> be_Type (base e)"
abbreviation AggregateID :: "event \<Rightarrow> string" where "AggregateID e \<equiv> be_AggregateID (base e)"

subsection \<open>The store\<close>

text \<open>A handler takes an event and the state of the subscribers; whether it returned an error is only
  logged.\<close>

type_synonym 's event_handler = "event \<Rightarrow> 's \<Rightarrow> bool \<times> 's"

record 's event_store =
  es_events :: "event list"
  es_subscribers :: "string \<Rightarrow> 's event_handler list"

definition NewEventStore :: "'s event_store" where
  "NewEventStore = \<lparr>es_events = [], es_subscribers = \<lambda>t. []\<rparr>"

definition Subscribe :: "string \<Rightarrow> 's event_handler \<Rightarrow> 's event_store \<Rightarrow> 's event_store" where
  "Subscribe eventType handler es =
     es\<lparr>es_subscribers := (es_subscribers es)(eventType := es_subscribers es eventType @ [handler])\<rparr>"

text \<open>The goroutine of \<open>publishEvent\<close>: the event and the handlers it has still to run.\<close>

type_synonym 's publication = "event \<times> 's event_handler list"

definition publishEvent :: "'s event_store \<Rightarrow> event \<Rightarrow> 's publication" where
  "publishEvent es e = (e, es_subscribers es (EventType e))"

definition AppendEvent :: "event \<Rightarrow> 's event_store \<Rightarrow> 's publication \<times> 's event_store" where
  "AppendEvent e es =
     (let es = es\<lparr>es_events := es_events es @ [e]\<rparr> in (publishEvent es e, es))"

definition GetEvents :: "string \<Rightarrow> 's event_store \<Rightarrow> event list" where
  "GetEvents aggregateID es = filter (\<lambda>e. AggregateID e = aggregateID) (es_events es)"

fun events_since :: "string \<Rightarrow> int \<Rightarrow> int \<Rightarrow> event list \<Rightarrow> event list" where
  "events_since aggregateID version count [] = []"
| "events_since aggregateID version count (e # es) =
     (if AggregateID e = aggregateID then
        (if count \<ge> version then e # events_since aggregateID version (count + 1) es
         else events_since aggregateID version (count + 1) es)
      else events_since aggregateID version count es)"

definition GetEventsSince :: "string \<Rightarrow> int \<Rightarrow> 's event_store \<Rightarrow> event list" where
  "GetEventsSince aggregateID version es = events_since aggregateID version 0 (es_events es)"

definition GetAllEvents :: "'s event_store \<Rightarrow> event list" where
  "GetAllEvents es = es_events es"

definition ReplayAll :: "'s event_store \<Rightarrow> 's publication list" where
  "ReplayAll es = map (publishEvent es) (GetAllEvents es)"

definition ReplayAggregate :: "string \<Rightarrow> 's event_store \<Rightarrow> 's publication list" where
  "ReplayAggregate aggregateID es = map (publishEvent es) (GetEvents aggregateID es)"

subsection \<open>The project aggregate\<close>

record aggregate =
  pa_ID :: string
  pa_Name :: string
  pa_Description :: string
  pa_IsPrivate :: bool
  pa_OwnerID :: string
  pa_Version :: int
  pa_CreatedAt :: go_time
  pa_UpdatedAt :: go_time
  pa_Events :: "event list"

definition applyEvent :: "event \<Rightarrow> aggregate \<Rightarrow> aggregate" where
  "applyEvent event pa =
     (case event of
        ProjectCreated b name desc priv \<Rightarrow>
          pa\<lparr>pa_ID := be_AggregateID b, pa_Name := name, pa_Description := desc, pa_IsPrivate := priv,
             pa_OwnerID := be_UserID b, pa_CreatedAt := be_Timestamp b, pa_UpdatedAt := be_Timestamp b,
             pa_Version := pa_Version pa + 1\<rparr>
      | ProjectUpdated b name desc priv \<Rightarrow>
          pa\<lparr>pa_Name := name, pa_Description := desc, pa_IsPrivate := priv, pa_UpdatedAt := be_Timestamp b,
             pa_Version := pa_Version pa + 1\<rparr>
      | ProjectDeleted b _ \<Rightarrow> pa\<lparr>pa_UpdatedAt := be_Timestamp b\<rparr>
      | _ \<Rightarrow> pa)"

text \<open>The zero value; the zero \<open>time.Time\<close> is an argument.\<close>

definition NewProjectAggregate :: "go_time \<Rightarrow> event list \<Rightarrow> aggregate" where
  "NewProjectAggregate zero events =
     fold applyEvent events \<lparr>pa_ID = '''', pa_Name = '''', pa_Description = '''', pa_IsPrivate = False,
       pa_OwnerID = '''', pa_Version = 0, pa_CreatedAt = zero, pa_UpdatedAt = zero, pa_Events = events\<rparr>"

subsection \<open>Projections\<close>

definition fmt_s :: "(json \<Rightarrow> string) \<Rightarrow> json option \<Rightarrow> string" where
  "fmt_s fmt v = (case v of None \<Rightarrow> ''%!s(<nil>)'' | Some (JStr s) \<Rightarrow> s | Some j \<Rightarrow> fmt j)"

definition json_value :: "json option \<Rightarrow> json" where
  "json_value v = (case v of None \<Rightarrow> JNull | Some j \<Rightarrow> j)"

text \<open>The entry that an event writes, if any.\<close>

definition projection_of :: "(json \<Rightarrow> string) \<Rightarrow> event \<Rightarrow> (string \<times> json) option" where
  "projection_of fmt event =
     (case event of
        ProjectCreated b name desc priv \<Rightarrow>
          Some (be_Type b @ '':'' @ be_AggregateID b, JObj [(''id'', JStr (be_AggregateID b)), (''name'', JStr name),
            (''description'', JStr desc), (''is_private'', JBool priv), (''owner_id'', JStr (be_UserID b)),
            (''created_at'', JNum (be_Timestamp b))])
      | ProjectUpdated b name desc priv \<Rightarrow>
          Some (be_Type b @ '':'' @ be_AggregateID b, JObj [(''id'', JStr (be_AggregateID b)), (''name'', JStr name),
            (''description'', JStr desc), (''is_private'', JBool priv), (''updated_at'', JNum (be_Timestamp b))])
      | TrackUploaded b _ name sz _ _ \<Rightarrow>
          Some (''tracks:'' @ fmt_s fmt (be_Data b ''project_id''),
            JObj [(''track_id'', JStr (be_AggregateID b)), (''project_id'', json_value (be_Data b ''project_id'')),
              (''name'', JStr name), (''file_size'', JNum sz), (''uploaded_at'', JNum (be_Timestamp b))])
      | PlayRecorded b _ _ _ \<Rightarrow>
          Some (''plays:'' @ fmt_s fmt (be_Data b ''project_id''),
            JObj [(''project_id'', json_value (be_Data b ''project_id'')),
              (''listener_user_id'', json_value (be_Data b ''listener_user_id'')),
              (''duration_listened'', json_value (be_Data b ''duration_listened'')),
              (''played_at'', JNum (be_Timestamp b))])
      | _ \<Rightarrow> None)"

definition Handle :: "(json \<Rightarrow> string) \<Rightarrow> (string \<rightharpoonup> json) event_handler" where
  "Handle fmt event cache =
     (True, case projection_of fmt event of None \<Rightarrow> cache | Some (k, v) \<Rightarrow> cache(k \<mapsto> v))"

definition GetProjection :: "string \<Rightarrow> (string \<rightharpoonup> json) \<Rightarrow> json option" where
  "GetProjection key cache = cache key"

subsection \<open>Snapshots\<close>

record snapshot =
  sn_AggregateID :: string
  sn_Version :: int
  sn_State :: "(string \<times> json) list"
  sn_CreatedAt :: go_time

text \<open>A state that is not a map is stored as the \<open>nil\<close> map.\<close>

definition CreateSnapshot ::
  "go_time \<Rightarrow> string \<Rightarrow> int \<Rightarrow> json \<Rightarrow> (string \<rightharpoonup> snapshot) \<Rightarrow> (string \<rightharpoonup> snapshot)" where
  "CreateSnapshot t aggregateID version state ss =
     ss(aggregateID \<mapsto> \<lparr>sn_AggregateID = aggregateID, sn_Version = version,
        sn_State = (case state of JObj fs \<Rightarrow> fs | _ \<Rightarrow> []), sn_CreatedAt = t\<rparr>)"

definition GetSnapshot :: "string \<Rightarrow> (string \<rightharpoonup> snapshot) \<Rightarrow> snapshot option" where
  "GetSnapshot aggregateID ss = ss aggregateID"

subsection \<open>Reading and resuming\<close>

lemma events_since_drop:
  "events_since a v c es = drop (nat (v - c)) (filter (\<lambda>e. AggregateID e = a) es)"
proof (induction a v c es rule: events_since.induct)
  case (2 a v c e es)
  have "nat (v - c) = Suc (nat (v - (c + 1)))" if "c < v" using that by simp
  with 2 show ?case by (cases "c < v") auto
qed simp

definition versioned :: "event \<Rightarrow> bool" where
  "versioned e \<longleftrightarrow> (case e of ProjectCreated _ _ _ _ \<Rightarrow> True | ProjectUpdated _ _ _ _ \<Rightarrow> True | _ \<Rightarrow> False)"

lemma applyEvent_version: "pa_Version (applyEvent e pa) = pa_Version pa + (if versioned e then 1 else 0)"
  by (cases e) (simp_all add: applyEvent_def versioned_def)

lemma applyEvent_events: "applyEvent e (pa\<lparr>pa_Events := es\<rparr>) = (applyEvent e pa)\<lparr>pa_Events := es\<rparr>"
  by (cases e) (simp_all add: applyEvent_def)

lemma fold_applyEvent_version:
  "pa_Version (fold applyEvent es pa) = pa_Version pa + int (length (filter versioned es))"
  by (induction es arbitrary: pa) (simp_all add: applyEvent_version)

lemma fold_applyEvent_events:
  "fold applyEvent es (pa\<lparr>pa_Events := xs\<rparr>) = (fold applyEvent es pa)\<lparr>pa_Events := xs\<rparr>"
  by (induction es arbitrary: pa) (simp_all add: applyEvent_events)

text \<open>An aggregate rebuilt from the events of a project and brought up to date later with
  \<open>GetEventsSince\<close> its own version is the one rebuilt from all events, provided that the project had only
  been created and updated when it was rebuilt; the store only ever grows.\<close>

theorem resume_from_version:
  assumes "\<forall>e\<in>set (GetEvents a es). versioned e"
    and "es' = fold (\<lambda>e es. snd (AppendEvent e es)) later es"
    and "pa = NewProjectAggregate zero (GetEvents a es)"
  shows "take (length (es_events es)) (es_events es') = es_events es \<and>
     (fold applyEvent (GetEventsSince a (pa_Version pa) es') pa)\<lparr>pa_Events := GetEvents a es'\<rparr> =
     NewProjectAggregate zero (GetEvents a es')"
proof -
  have all: "es_events es' = es_events es @ later"
    unfolding assms(2) by (induction later arbitrary: es) (simp_all add: AppendEvent_def Let_def)
  have v: "pa_Version pa = int (length (GetEvents a es))"
    using assms(1) by (simp add: assms(3) NewProjectAggregate_def fold_applyEvent_version filter_True)
  have new: "GetEvents a es' = GetEvents a es @ filter (\<lambda>e. AggregateID e = a) later"
    by (simp add: GetEvents_def all)
  have "GetEventsSince a (pa_Version pa) es' = filter (\<lambda>e. AggregateID e = a) later"
    using new by (simp add: GetEventsSince_def events_since_drop v GetEvents_def [symmetric])
  then show ?thesis
    by (simp add: all assms(3) NewProjectAggregate_def new fold_applyEvent_events [symmetric])
qed

subsection \<open>Publishing\<close>

inductive publish_step :: "'s publication list \<times> 's \<Rightarrow> 's publication list \<times> 's \<Rightarrow> bool" where
  run_handler: "publish_step (xs @ (e, h # hs) # ys, s) (xs @ (e, hs) # ys, snd (h e s))"

definition handlers_left :: "'s publication list \<Rightarrow> nat" where
  "handlers_left ps = sum_list (map (\<lambda>(e, hs). length hs) ps)"

lemma publish_step_left:
  "publish_step c c' \<Longrightarrow> handlers_left (fst c) = Suc (handlers_left (fst c'))"
  by (induction rule: publish_step.induct) (simp add: handlers_left_def)

lemma publish_progress:
  assumes "handlers_left ps \<noteq> 0" shows "\<exists>c. publish_step (ps, s) c"
proof -
  have "\<exists>p\<in>set ps. snd p \<noteq> []"
  proof (rule ccontr)
    assume "\<not> ?thesis"
    then have "map (\<lambda>(e, hs). length hs) ps = map (\<lambda>p. 0) ps" by (auto simp: split_beta)
    then have "handlers_left ps = 0" by (simp add: handlers_left_def sum_list_triv)
    with assms show False by simp
  qed
  then obtain e hs where "(e, hs) \<in> set ps" "hs \<noteq> []" by force
  then obtain xs ys h t where "ps = xs @ (e, h # t) # ys" by (metis split_list neq_Nil_conv)
  then show ?thesis using run_handler [of xs e h t ys s] by auto
qed

lemma publish_stuck: "handlers_left ps = 0 \<Longrightarrow> \<not> publish_step (ps, s) c"
  using publish_step_left by fastforce

text \<open>With the projection as only subscriber, the cache holds for each key what a finished event wrote.\<close>

definition projected :: "(json \<Rightarrow> string) \<Rightarrow> (string \<rightharpoonup> json) \<Rightarrow> (string \<rightharpoonup> json) publication list \<times> (string \<rightharpoonup> json) \<Rightarrow> bool" where
  "projected fmt cache0 c \<longleftrightarrow>
     (\<forall>(e, hs)\<in>set (fst c). hs \<in> {[], [Handle fmt]}) \<and>
     (\<forall>k. snd c k = cache0 k \<and> (\<forall>e v. (e, []) \<in> set (fst c) \<longrightarrow> projection_of fmt e \<noteq> Some (k, v)) \<or>
          (\<exists>e v. (e, []) \<in> set (fst c) \<and> projection_of fmt e = Some (k, v) \<and> snd c k = Some v))"

lemma projected_step:
  assumes "publish_step c c'" "projected fmt cache0 c"
  shows "map fst (fst c') = map fst (fst c) \<and> projected fmt cache0 c'"
  using assms
proof (induction rule: publish_step.induct)
  case (run_handler xs e h hs ys s)
  have h: "h = Handle fmt" "hs = []" using run_handler by (auto simp: projected_def)
  have fin: "(e', []) \<in> set (xs @ (e, []) # ys) \<longleftrightarrow> e' = e \<or> (e', []) \<in> set (xs @ (e, [h]) # ys)" for e'
    by auto
  have "s' k = cache0 k \<and> (\<forall>e' v. (e', []) \<in> set (xs @ (e, []) # ys) \<longrightarrow> projection_of fmt e' \<noteq> Some (k, v)) \<or>
      (\<exists>e' v. (e', []) \<in> set (xs @ (e, []) # ys) \<and> projection_of fmt e' = Some (k, v) \<and> s' k = Some v)"
    if s': "s' = snd (Handle fmt e s)" for k s'
  proof (cases "\<exists>v. projection_of fmt e = Some (k, v)")
    case True
    then show ?thesis by (auto simp: s' Handle_def)
  next
    case False
    then have "s' k = s k" by (auto simp: s' Handle_def split: option.splits)
    moreover have "s k = cache0 k \<and> (\<forall>e' v. (e', []) \<in> set (xs @ (e, [h]) # ys) \<longrightarrow> projection_of fmt e' \<noteq> Some (k, v)) \<or>
        (\<exists>e' v. (e', []) \<in> set (xs @ (e, [h]) # ys) \<and> projection_of fmt e' = Some (k, v) \<and> s k = Some v)"
      using run_handler unfolding projected_def h by simp
    ultimately show ?thesis using False unfolding fin by metis
  qed
  then show ?case using run_handler unfolding projected_def h by auto
qed

lemma projected_run:
  assumes "(publish_step ^^ n) c c'" "projected fmt cache0 c"
  shows "map fst (fst c') = map fst (fst c) \<and> projected fmt cache0 c' \<and>
    handlers_left (fst c) = handlers_left (fst c') + n"
  using assms
proof (induction n arbitrary: c')
  case 0
  then show ?case by simp
next
  case (Suc n)
  then obtain c1 where c1: "(publish_step ^^ n) c c1" "publish_step c1 c'" by auto
  note ih = Suc.IH [OF c1(1) Suc.prems(2)]
  with projected_step [OF c1(2), of fmt cache0] publish_step_left [OF c1(2)] show ?case by simp
qed

definition subscribed :: "(json \<Rightarrow> string) \<Rightarrow> (string \<rightharpoonup> json) event_store \<Rightarrow> bool" where
  "subscribed fmt es \<longleftrightarrow> (\<forall>e\<in>set (es_events es). es_subscribers es (EventType e) = [Handle fmt])"

text \<open>C21: a replay of the store always comes to an end: however its goroutines interleave, it can go on
  until each event has been handled, which it has after exactly as many steps as there are events; then
  every event that has a projection has its key in the cache, and what the cache holds under a key was
  written by an event of the store with this key, or was there before when no event has it.\<close>

theorem replay_completes:
  assumes "subscribed fmt es" and "(publish_step ^^ n) (ReplayAll es, cache) (ps, cache')"
  shows "n \<le> length (es_events es) \<and>
     (n < length (es_events es) \<longrightarrow> (\<exists>c. publish_step (ps, cache') c)) \<and>
     (n = length (es_events es) \<longrightarrow> (\<forall>c. \<not> publish_step (ps, cache') c) \<and>
        (\<forall>k. (if \<exists>e\<in>set (es_events es). \<exists>v. projection_of fmt e = Some (k, v)
             then \<exists>e\<in>set (es_events es). \<exists>v. projection_of fmt e = Some (k, v) \<and> cache' k = Some v
             else cache' k = cache k)))"
proof -
  have ps0: "ReplayAll es = map (\<lambda>e. (e, [Handle fmt])) (es_events es)"
    using assms(1) by (simp add: ReplayAll_def GetAllEvents_def publishEvent_def subscribed_def)
  have left: "handlers_left (ReplayAll es) = length (es_events es)"
    by (simp add: ps0 handlers_left_def comp_def sum_list_triv)
  have init: "projected fmt cache (ReplayAll es, cache)" by (auto simp: projected_def ps0)
  from projected_run [OF assms(2) init] have run: "map fst ps = es_events es" "projected fmt cache (ps, cache')"
      "length (es_events es) = handlers_left ps + n"
    using left by (simp_all add: ps0 comp_def)
  have fin: "(e, []) \<in> set ps" if "n = length (es_events es)" "e \<in> set (es_events es)" for e
  proof -
    have "e \<in> fst ` set ps" using that(2) unfolding run(1) [symmetric] by simp
    then obtain hs where hs: "(e, hs) \<in> set ps" by force
    have "handlers_left ps = 0" using run(3) that(1) by simp
    with hs have "hs = []" by (auto simp: handlers_left_def)
    with hs show ?thesis by simp
  qed
  have events: "e \<in> set (es_events es)" if "(e, hs) \<in> set ps" for e hs
    using that unfolding run(1) [symmetric] by force
  have "if \<exists>e\<in>set (es_events es). \<exists>v. projection_of fmt e = Some (k, v)
      then \<exists>e\<in>set (es_events es). \<exists>v. projection_of fmt e = Some (k, v) \<and> cache' k = Some v
      else cache' k = cache k" if "n = length (es_events es)" for k
  proof -
    have cases: "cache' k = cache k \<and> (\<forall>e v. (e, []) \<in> set ps \<longrightarrow> projection_of fmt e \<noteq> Some (k, v)) \<or>
        (\<exists>e v. (e, []) \<in> set ps \<and> projection_of fmt e = Some (k, v) \<and> cache' k = Some v)"
      using run(2) unfolding projected_def by simp
    show ?thesis
    proof (cases "\<exists>e\<in>set (es_events es). \<exists>v. projection_of fmt e = Some (k, v)")
      case True
      with fin [OF that] cases obtain e v where "(e, []) \<in> set ps" "projection_of fmt e = Some (k, v)" "cache' k = Some v"
        by blast
      with events True show ?thesis by auto
    next
      case False
      with cases events have "cache' k = cache k" by blast
      with False show ?thesis by simp
    qed
  qed
  moreover have "\<forall>c. \<not> publish_step (ps, cache') c" if "n = length (es_events es)"
    using publish_stuck [of ps cache'] run(3) that by simp
  moreover have "\<exists>c. publish_step (ps, cache') c" if "n < length (es_events es)"
    using publish_progress [of ps cache'] run(3) that by simp
  ultimately show ?thesis using run(3) by simp
qed

text \<open>The goroutines of two updates of one project may run in either order, so the older one may stay.\<close>

lemma projection_goes_back:
  assumes "projection_of fmt e1 = Some (k, v1)" "projection_of fmt e2 = Some (k, v2)"
  shows "\<exists>ps cache'. publish_step\<^sup>*\<^sup>* ([(e1, [Handle fmt]), (e2, [Handle fmt])], cache) (ps, cache') \<and>
     handlers_left ps = 0 \<and> cache' k = Some v1"
proof -
  let ?c1 = "snd (Handle fmt e2 cache)"
  have "publish_step ([(e1, [Handle fmt])] @ (e2, Handle fmt # []) # [], cache) ([(e1, [Handle fmt])] @ (e2, []) # [], ?c1)"
    by (rule run_handler)
  moreover have "publish_step ([] @ (e1, Handle fmt # []) # [(e2, [])], ?c1)
      ([] @ (e1, []) # [(e2, [])], snd (Handle fmt e1 ?c1))"
    by (rule run_handler)
  ultimately have "publish_step\<^sup>*\<^sup>* ([(e1, [Handle fmt]), (e2, [Handle fmt])], cache)
      ([(e1, []), (e2, [])], snd (Handle fmt e1 ?c1))"
    by simp
  then show ?thesis
    by (intro exI conjI) (assumption, auto simp: handlers_left_def Handle_def assms)
qed

definition sample_event :: "string \<Rightarrow> string \<Rightarrow> event" where
  "sample_event i name = ProjectCreated \<lparr>be_Type = ''project.created'', be_AggregateID = i, be_Version = 1,
     be_Timestamp = 5, be_UserID = ''u'', be_Data = Map.empty\<rparr> name '''' True"

definition sample_store :: "(string \<rightharpoonup> json) event_store" where
  "sample_store = \<lparr>es_events = [sample_event ''p'' ''n'', sample_event ''q'' ''m''],
     es_subscribers = \<lambda>t. [Handle (\<lambda>j. '''')]\<rparr>"

theorem replay_completes_witness:
  "\<exists>c. publish_step (ReplayAll sample_store, Map.empty) c"
  using replay_completes [of "\<lambda>j. ''''" sample_store 0 Map.empty "ReplayAll sample_store" Map.empty]
  by (simp add: subscribed_def sample_store_def)

theorem resume_from_version_witness:
  "(fold applyEvent (GetEventsSince ''p'' 1 (snd (AppendEvent (sample_event ''p'' ''z'') sample_store)))
      (NewProjectAggregate 0 (GetEvents ''p'' sample_store)))
      \<lparr>pa_Events := GetEvents ''p'' (snd (AppendEvent (sample_event ''p'' ''z'') sample_store))\<rparr> =
   NewProjectAggregate 0 (GetEvents ''p'' (snd (AppendEvent (sample_event ''p'' ''z'') sample_store)))"
proof -
  have events: "GetEvents ''p'' sample_store = [sample_event ''p'' ''n'']"
    by (simp add: GetEvents_def sample_store_def sample_event_def)
  have "pa_Version (NewProjectAggregate 0 (GetEvents ''p'' sample_store)) = 1"
    by (simp add: events NewProjectAggregate_def applyEvent_version versioned_def sample_event_def)
  moreover have "\<forall>e\<in>set (GetEvents ''p'' sample_store). versioned e"
    by (simp add: events versioned_def sample_event_def)
  ultimately show ?thesis
    using resume_from_version [of "''p''" sample_store _ "[sample_event ''p'' ''z'']" _ 0, OF _ refl refl] by simp
qed

subsection \<open>Commands\<close>

datatype command =
    CreateProjectCommand string string string string bool
  | UpdateProjectCommand string string string bool
  | DeleteProjectCommand string string
  | UploadTrackCommand string string string int int string
  | RecordPlayCommand string string int
  | ShareProjectCommand string string "string list"
  | OtherCommand string

fun CommandType :: "command \<Rightarrow> string" where
  "CommandType (CreateProjectCommand projectID ownerID name desc priv) = ''CreateProject''"
| "CommandType (UpdateProjectCommand projectID name desc priv) = ''UpdateProject''"
| "CommandType (DeleteProjectCommand projectID reason) = ''DeleteProject''"
| "CommandType (UploadTrackCommand trackID projectID name sz dur key) = ''UploadTrack''"
| "CommandType (RecordPlayCommand projectID listener dur) = ''RecordPlay''"
| "CommandType (ShareProjectCommand projectID sharedWith perms) = ''ShareProject''"
| "CommandType (OtherCommand t) = t"

record command_result =
  cr_Success :: bool
  cr_Error :: string
  cr_Data :: "(string \<times> json) list"

definition succeeded :: "(string \<times> json) list \<Rightarrow> command_result" where
  "succeeded data = \<lparr>cr_Success = True, cr_Error = '''', cr_Data = data\<rparr>"

definition failed_with :: "string \<Rightarrow> command_result" where
  "failed_with e = \<lparr>cr_Success = False, cr_Error = e, cr_Data = []\<rparr>"

definition HandleCommand :: "(go_time \<Rightarrow> string) \<Rightarrow> go_time \<Rightarrow> command \<Rightarrow> command_result" where
  "HandleCommand time_text t cmd =
     (case cmd of
        CreateProjectCommand projectID ownerID name desc priv \<Rightarrow>
          if name = '''' then failed_with ''name required''
          else succeeded [(''project_id'', JStr projectID), (''created_at'', JStr (time_text t))]
      | UpdateProjectCommand projectID name desc priv \<Rightarrow> succeeded [(''updated_at'', JStr (time_text t))]
      | DeleteProjectCommand projectID reason \<Rightarrow> succeeded [(''deleted_at'', JStr (time_text t))]
      | UploadTrackCommand trackID projectID name sz dur key \<Rightarrow> succeeded [(''track_id'', JStr trackID)]
      | RecordPlayCommand projectID listener dur \<Rightarrow> succeeded []
      | ShareProjectCommand projectID sharedWith perms \<Rightarrow>
          succeeded [(''expires_at'', JStr (time_text (t + 30 * 24 * hour)))]
      | OtherCommand _ \<Rightarrow> failed_with ''unknown command type'')"

subsection \<open>Queries\<close>

datatype read_query =
    GetProjectQuery string
  | ListProjectsQuery string int int
  | GetProjectAnalyticsQuery string string
  | GetUserPlayHistoryQuery string int int
  | SearchProjectsQuery string int int
  | OtherQuery string

text \<open>The read model is the cache of the handler; a key bound to \<open>nil\<close> counts as absent.\<close>

definition handleGetProject :: "string \<Rightarrow> (string \<rightharpoonup> json) \<Rightarrow> json \<times> (string \<rightharpoonup> json)" where
  "handleGetProject projectID cache =
     (let cacheKey = ''project:'' @ projectID;
          project = JObj [(''id'', JStr projectID), (''name'', JStr ''Summer Vibes''), (''track_count'', JNum 5),
            (''plays'', JNum 1250), (''followers'', JNum 42)]
      in case cache cacheKey of
           Some cached \<Rightarrow> if cached = JNull then (project, cache(cacheKey \<mapsto> project)) else (cached, cache)
         | None \<Rightarrow> (project, cache(cacheKey \<mapsto> project)))"

definition HandleQuery :: "go_time \<Rightarrow> read_query \<Rightarrow> (string \<rightharpoonup> json) \<Rightarrow> (string + json) \<times> (string \<rightharpoonup> json)" where
  "HandleQuery t q cache =
     (case q of
        GetProjectQuery projectID \<Rightarrow> (case handleGetProject projectID cache of (j, cache) \<Rightarrow> (Inr j, cache))
      | ListProjectsQuery ownerID limit offset \<Rightarrow>
          (Inr (JList [JObj [(''id'', JStr ''proj1''), (''name'', JStr ''Project 1''), (''track_count'', JNum 5)],
             JObj [(''id'', JStr ''proj2''), (''name'', JStr ''Project 2''), (''track_count'', JNum 3)]]), cache)
      | GetProjectAnalyticsQuery projectID period \<Rightarrow>
          (Inr (JObj [(''project_id'', JStr projectID), (''total_plays'', JNum 1250), (''unique_listeners'', JNum 125),
             (''avg_duration'', JNum 180), (''top_referrer'', JStr ''search''), (''period'', JStr period)]), cache)
      | GetUserPlayHistoryQuery userID limit offset \<Rightarrow>
          (Inr (JList [JObj [(''project_id'', JStr ''proj1''), (''played_at'', JNum (t - 24 * hour)),
             (''duration'', JNum 180)]]), cache)
      | SearchProjectsQuery text limit offset \<Rightarrow>
          (Inr (JList [JObj [(''id'', JStr ''proj_search_1''), (''name'', JStr (text @ '' - Result 1''))]]), cache)
      | OtherQuery _ \<Rightarrow> (Inl ''unknown query type'', cache))"

definition SyncReadModel :: "(string \<rightharpoonup> json) \<Rightarrow> (string \<rightharpoonup> json) \<Rightarrow> (string \<rightharpoonup> json)" where
  "SyncReadModel projectionData cache = cache ++ projectionData"

text \<open>What is synchronised under the key of a project is what the query reads from then on, however often,
  and a query without it settles on what it answered first.\<close>

lemma read_model_settles:
  assumes "HandleQuery t (GetProjectQuery i) cache = (Inr j, cache')"
  shows "HandleQuery t' (GetProjectQuery i) cache' = (Inr j, cache')"
    and "m (''project:'' @ i) = Some v \<Longrightarrow> v \<noteq> JNull \<Longrightarrow>
      HandleQuery t' (GetProjectQuery i) (SyncReadModel m cache') = (Inr v, SyncReadModel m cache')"
  using assms
  by (auto simp: HandleQuery_def handleGetProject_def Let_def SyncReadModel_def split: option.splits if_splits)

end
