(* ===== verification/Helpers.thy ===== *)
theory Helpers
  imports Projects Storage
begin

text \<open>
  What the handlers share: the responses and request readers of \<open>helpers/handlers.go\<close> and
  \<open>helpers/validation.go\<close>, the input checks of \<open>validation/\<close>, and the state of the server that the
  handlers work on. One reading of the clock serves a request. A time in a JSON answer is written as
  its number. \<open>uuid.Parse\<close> (package \<open>google/uuid\<close>) is the field \<open>uuid_valid\<close> of the environment and
  \<open>uuid.New\<close> a sequence of identifiers.

  The locale \<open>guarded\<close> is the interface between a handler and the routes that rely on its checks:
  a request without permission is answered with an error status and changes nothing.
\<close>

subsection \<open>The server\<close>

record 'o app =
  app_db :: database
  app_r2 :: "'o r2_client"
  app_uuids :: nat
  app_urls :: url_cache

record 'o app_env =
  dbe :: dbenv
  s3e :: "'o s3"
  sha :: "string \<Rightarrow> string"
  r2_endpoint :: string
  r2_bucket :: string
  new_uuid :: "nat \<Rightarrow> string"
  uuid_valid :: "string \<Rightarrow> bool"
  now :: go_time

subsection \<open>Responses\<close>

definition write_json :: "nat \<Rightarrow> json \<Rightarrow> rwriter \<Rightarrow> rwriter" where
  "write_json status j w =
     write_body (Json j) (write_header status (header_set ''Content-Type'' ''application/json'' w))"

definition write_error :: "nat \<Rightarrow> string \<Rightarrow> rwriter \<Rightarrow> rwriter" where
  "write_error status message = write_json status (JObj [(''error'', JStr message)])"

definition WriteBadRequest :: "string \<Rightarrow> rwriter \<Rightarrow> rwriter" where
  "WriteBadRequest message = write_error 400 message"

definition WriteUnauthorized :: "rwriter \<Rightarrow> rwriter" where
  "WriteUnauthorized = write_error 401 ''unauthorized''"

definition WriteForbidden :: "string \<Rightarrow> rwriter \<Rightarrow> rwriter" where
  "WriteForbidden message = write_error 403 message"

definition WriteNotFound :: "string \<Rightarrow> rwriter \<Rightarrow> rwriter" where
  "WriteNotFound message = write_error 404 message"

definition WriteInternalError :: "rwriter \<Rightarrow> rwriter" where
  "WriteInternalError = write_error 500 ''internal server error''"

definition WriteNoContent :: "rwriter \<Rightarrow> rwriter" where
  "WriteNoContent = write_header 204"

lemma wrote_write_json [simp]:
  "wrote (write_json c j w) = (case wrote w of None \<Rightarrow> Some c | Some d \<Rightarrow> Some d)"
  by (simp add: write_json_def split: option.splits)

lemmas response_defs = write_error_def WriteBadRequest_def WriteUnauthorized_def WriteForbidden_def
  WriteNotFound_def WriteInternalError_def WriteNoContent_def

subsection \<open>Requests\<close>

definition GetUserID :: "'b request \<Rightarrow> string option" where
  "GetUserID r = (case ctx_string ''user_id'' r of None \<Rightarrow> None | Some u \<Rightarrow> if u = '''' then None else Some u)"

definition ExtractPaginationParams :: "'b request \<Rightarrow> int \<times> int" where
  "ExtractPaginationParams r =
     ((if query r ''limit'' = '''' then 20
       else case Atoi (query r ''limit'') of None \<Rightarrow> 20 | Some l \<Rightarrow> if l > 0 \<and> l \<le> 100 then l else 20),
      (if query r ''offset'' = '''' then 0
       else case Atoi (query r ''offset'') of None \<Rightarrow> 0 | Some off \<Rightarrow> if off \<ge> 0 then off else 0))"

text \<open>Out of range, the error returned is the \<open>nil\<close> of the parser.\<close>

definition ValidateAndParseInt :: "string \<Rightarrow> int \<Rightarrow> int \<Rightarrow> int \<times> bool" where
  "ValidateAndParseInt value mn mx =
     (case Atoi value of
        None \<Rightarrow> (0, False)
      | Some num \<Rightarrow> if num < mn \<or> num > mx then (0, True) else (num, True))"

definition ExtractPaginationParamsValidated :: "'b request \<Rightarrow> int \<times> int" where
  "ExtractPaginationParamsValidated r =
     ((if query r ''limit'' = '''' then 20
       else case ValidateAndParseInt (query r ''limit'') 1 100 of (l, True) \<Rightarrow> l | (_, False) \<Rightarrow> 20),
      (if query r ''offset'' = '''' then 0
       else case ValidateAndParseInt (query r ''offset'') 0 999999 of (off, True) \<Rightarrow> off | (_, False) \<Rightarrow> 0))"

text \<open>\<open>allowed[0]\<close> panics on an empty list: \<open>None\<close>.\<close>

definition ValidateSortField :: "string \<Rightarrow> string list \<Rightarrow> string option" where
  "ValidateSortField field allowed =
     (let field = TrimSpace field
      in if field \<in> set allowed then Some field
         else case allowed of [] \<Rightarrow> None | a # _ \<Rightarrow> Some a)"

definition ExtractSortParams :: "'b request \<Rightarrow> string \<Rightarrow> string list \<Rightarrow> (string \<times> bool) option" where
  "ExtractSortParams r defaultSort allowed =
     (let s = query r ''sort''
      in if s = '''' then Some (defaultSort, False)
         else if HasPrefix s ''-'' then map_option (\<lambda>f. (f, True)) (ValidateSortField (drop 1 s) allowed)
         else map_option (\<lambda>f. (f, False)) (ValidateSortField s allowed))"

definition SanitizeFilename :: "string \<Rightarrow> string" where
  "SanitizeFilename filename =
     (let f = delete_all ''..'' (delete_all [CHR 0x5C] (delete_all ''/'' filename))
      in if length f > 255 then take 255 f else f)"

subsection \<open>Input checks\<close>

text \<open>Each returns the text of its error, if any.\<close>

definition ValidateProjectName :: "string \<Rightarrow> string option" where
  "ValidateProjectName name =
     (let n = int (length (TrimSpace name))
      in if n < 1 \<or> n > 255 then Some (''project name must be 1-255 characters, got '' @ Itoa n) else None)"

definition ValidateDescription :: "string \<Rightarrow> string option" where
  "ValidateDescription desc =
     (let n = int (length (TrimSpace desc))
      in if n > 2000 then Some (''description must be less than 2000 characters, got '' @ Itoa n) else None)"

definition ValidateTrackName :: "string \<Rightarrow> string option" where
  "ValidateTrackName name =
     (let n = int (length (TrimSpace name))
      in if n < 1 \<or> n > 255 then Some (''track name must be 1-255 characters, got '' @ Itoa n) else None)"

definition ValidateComment :: "string \<Rightarrow> string option" where
  "ValidateComment content =
     (let n = int (length (TrimSpace content))
      in if n < 1 \<or> n > 5000 then Some (''comment must be 1-5000 characters, got '' @ Itoa n) else None)"

definition ValidateEmail :: "string \<Rightarrow> string option" where
  "ValidateEmail email =
     (let email = TrimSpace email
      in if length email < 5 \<or> length email > 255 then Some ''invalid email format''
         else if \<not> Contains email ''@'' \<or> \<not> Contains email ''.'' then Some ''invalid email format''
         else None)"

text \<open>\<open>unicode.IsUpper\<close>, \<open>IsLower\<close> and \<open>IsDigit\<close> are tables of the standard library: arguments, on the
  bytes of a rune.\<close>

definition runes_of :: "string \<Rightarrow> string list" where
  "runes_of s = map (\<lambda>i. take (rune_width (drop i s)) (drop i s)) (rune_starts 0 s)"

definition ValidatePassword ::
  "(string \<Rightarrow> bool) \<Rightarrow> (string \<Rightarrow> bool) \<Rightarrow> (string \<Rightarrow> bool) \<Rightarrow> string \<Rightarrow> string option" where
  "ValidatePassword is_upper is_lower is_digit_rune password =
     (if length password < 8 then Some ''password must be at least 8 characters''
      else if length password > 255 then Some ''password must be less than 255 characters''
      else let rs = runes_of password
        in if \<not> list_ex is_upper rs \<or> \<not> list_ex is_lower rs \<or> \<not> list_ex is_digit_rune rs
           then Some ''password must contain uppercase, lowercase, and digits'' else None)"

definition SanitizeString :: "string \<Rightarrow> string" where
  "SanitizeString s = TrimSpace s"

definition ValidateUUID :: "'o app_env \<Rightarrow> string \<Rightarrow> bool" where
  "ValidateUUID env i \<longleftrightarrow> i \<noteq> '''' \<and> uuid_valid env i"

definition ValidateTrackID :: "'o app_env \<Rightarrow> string \<Rightarrow> bool" where
  "ValidateTrackID env trackID \<longleftrightarrow> ValidateUUID env trackID"

subsection \<open>Audit\<close>

definition CreateAuditLog :: "dbenv \<Rightarrow> audit_row \<Rightarrow> database \<Rightarrow> unit db_result \<times> database" where
  "CreateAuditLog env entry d =
     (if fails env ''CreateAuditLog'' [al_action entry] then (Inl Fault, d)
      else if \<exists>a\<in>set (audit_logs d). al_id a = al_id entry then (Inl Conflict, d)
      else (Inr (), d\<lparr>audit_logs := audit_logs d @ [entry]\<rparr>))"

text \<open>\<open>LogEvent\<close> writes the entry in a goroutine of its own and drops an error; here the goroutine runs
  when it is started.\<close>

definition LogEvent :: "'o app_env \<Rightarrow> string \<Rightarrow> string \<Rightarrow> string \<Rightarrow> json \<Rightarrow> 'o app \<Rightarrow> 'o app" where
  "LogEvent env eventType userID resourceID details s =
     s\<lparr>app_uuids := app_uuids s + 1,
       app_db := snd (CreateAuditLog (dbe env) \<lparr>al_id = new_uuid env (app_uuids s), al_user = Some userID,
         al_action = eventType, al_resource = resourceID, al_details = details,
         al_created = now env, al_event = None\<rparr> (app_db s))\<rparr>"

lemma LogEvent_frame [frame_simps]:
  "users (app_db (LogEvent env e u i j s)) = users (app_db s)"
  "projects (app_db (LogEvent env e u i j s)) = projects (app_db s)"
  "tracks (app_db (LogEvent env e u i j s)) = tracks (app_db s)"
  "versions (app_db (LogEvent env e u i j s)) = versions (app_db s)"
  "shares (app_db (LogEvent env e u i j s)) = shares (app_db s)"
  "collaborators (app_db (LogEvent env e u i j s)) = collaborators (app_db s)"
  "share_links (app_db (LogEvent env e u i j s)) = share_links (app_db s)"
  "background_jobs (app_db (LogEvent env e u i j s)) = background_jobs (app_db s)"
  "app_r2 (LogEvent env e u i j s) = app_r2 s"
  "app_urls (LogEvent env e u i j s) = app_urls s"
  by (simp_all add: LogEvent_def CreateAuditLog_def)

subsection \<open>Guarded handlers\<close>

definition refused :: "completion \<times> rwriter \<times> 's \<Rightarrow> 's \<Rightarrow> bool" where
  "refused res s \<longleftrightarrow> fst res = Returned \<and> snd (snd res) = s \<and>
     (case wrote (fst (snd res)) of None \<Rightarrow> False | Some c \<Rightarrow> 400 \<le> c \<and> c < 600)"

text \<open>Serving a list of requests, each with a writer of its own.\<close>

fun serve_all :: "('b, 's) handler \<Rightarrow> 'b request list \<Rightarrow> 's \<Rightarrow> 's" where
  "serve_all h [] s = s"
| "serve_all h (r # rs) s = serve_all h rs (snd (snd (h r (new_writer, s))))"

locale guarded =
  fixes h :: "('b, 's) handler" and permitted :: "'b request \<Rightarrow> 's \<Rightarrow> bool"
  assumes refuses: "wrote w = None \<Longrightarrow> \<not> permitted r s \<Longrightarrow> refused (h r (w, s)) s"
begin

lemma change_needs_permission:
  "wrote w = None \<Longrightarrow> snd (snd (h r (w, s))) \<noteq> s \<Longrightarrow> permitted r s"
  using refuses [of w r s] by (auto simp: refused_def)

lemma success_needs_permission:
  "wrote w = None \<Longrightarrow> wrote (fst (snd (h r (w, s)))) = Some c \<Longrightarrow> c < 400 \<Longrightarrow> permitted r s"
  using refuses [of w r s] by (force simp: refused_def)

lemma unpermitted_run:
  "(\<And>r. r \<in> set rs \<Longrightarrow> \<not> permitted r s) \<Longrightarrow> serve_all h rs s = s"
proof (induction rs)
  case Nil
  then show ?case by simp
next
  case (Cons r rs)
  then have "snd (snd (h r (new_writer, s))) = s"
    using refuses [of new_writer r s] by (simp add: refused_def)
  with Cons show ?case by simp
qed

end

subsection \<open>Rows of their owners\<close>

fun serve_ops :: "('op \<Rightarrow> ('b, 's) handler) \<Rightarrow> ('op \<times> 'b request) list \<Rightarrow> 's \<Rightarrow> 's" where
  "serve_ops h [] s = s"
| "serve_ops h ((op, r) # rs) s = serve_ops h rs (snd (snd (h op r (new_writer, s))))"

text \<open>A family of handlers over a table whose rows have owners: a request that does not come from a user leaves the
  rows of that user as they are.\<close>

locale own_rows =
  fixes h :: "'op \<Rightarrow> ('b, 's) handler" and rows_of :: "string \<Rightarrow> 's \<Rightarrow> 'r list" and ok :: "'s \<Rightarrow> bool"
  assumes keeps_ok: "ok s \<Longrightarrow> ok (snd (snd (h op r (w, s))))"
    and foreign: "ok s \<Longrightarrow> ctx_string ''user_id'' r \<noteq> Some x \<Longrightarrow> rows_of x (snd (snd (h op r (w, s)))) = rows_of x s"
begin

lemma run_ok: "ok s \<Longrightarrow> ok (serve_ops h rs s)"
  by (induction rs arbitrary: s) (auto simp: keeps_ok)

lemma foreign_run:
  "ok s \<Longrightarrow> \<forall>(op, r)\<in>set rs. ctx_string ''user_id'' r \<noteq> Some x \<Longrightarrow> rows_of x (serve_ops h rs s) = rows_of x s"
proof (induction rs arbitrary: s)
  case Nil
  then show ?case by simp
next
  case (Cons a rs)
  obtain op r where a: "a = (op, r)" by (cases a)
  with Cons.prems have "rows_of x (snd (snd (h op r (new_writer, s)))) = rows_of x s"
    by (intro foreign) auto
  with a Cons show ?case by (simp add: keeps_ok)
qed

end

lemma respond_state: "snd (snd (respond w s)) = s"
  by (simp add: respond_def)

lemma answered_update:
  "app_db (snd (snd (case x of (Inl e, d) \<Rightarrow> respond (f e) (s\<lparr>app_db := d\<rparr>) | (Inr u, d) \<Rightarrow> respond (g u) (s\<lparr>app_db := d\<rparr>)))) = snd x"
  by (auto simp: respond_def split: prod.split sum.split)

lemma refused_respond:
  "wrote w = None \<Longrightarrow> 400 \<le> c \<Longrightarrow> c < 600 \<Longrightarrow> refused (respond (write_error c m w) s) s"
  by (simp add: refused_def respond_def write_error_def)

lemma refused_http_error:
  "wrote w = None \<Longrightarrow> 400 \<le> c \<Longrightarrow> c < 600 \<Longrightarrow> refused (respond (http_error m c w) s) s"
  by (simp add: refused_def respond_def)

lemma refused_responses [intro]:
  "wrote w = None \<Longrightarrow> refused (respond (WriteBadRequest m w) s) s"
  "wrote w = None \<Longrightarrow> refused (respond (WriteUnauthorized w) s) s"
  "wrote w = None \<Longrightarrow> refused (respond (WriteForbidden m w) s) s"
  "wrote w = None \<Longrightarrow> refused (respond (WriteNotFound m w) s) s"
  "wrote w = None \<Longrightarrow> refused (respond (WriteInternalError w) s) s"
  by (auto simp: response_defs intro!: refused_respond [unfolded write_error_def])

lemma Atoi_Nil [simp]: "Atoi '''' = None"
  by code_simp

text \<open>The pagination that every listing uses is always within its bounds, whatever the query; the
  validated variant of \<open>helpers/validation.go\<close> turns a limit out of range into 0 instead of the
  default.\<close>

theorem pagination_bounds:
  "1 \<le> fst (ExtractPaginationParams r) \<and> fst (ExtractPaginationParams r) \<le> 100 \<and>
   0 \<le> snd (ExtractPaginationParams r) \<and>
   (Atoi (query r ''limit'') = Some l \<and> (l < 1 \<or> l > 100) \<longrightarrow>
      fst (ExtractPaginationParams r) = 20 \<and> fst (ExtractPaginationParamsValidated r) = 0)"
proof -
  have "query r ''limit'' \<noteq> ''''" if "Atoi (query r ''limit'') = Some l"
    using that Atoi_Nil by (metis option.distinct(1))
  then show ?thesis
    by (cases "Atoi (query r ''limit'')"; cases "Atoi (query r ''offset'')")
       (auto simp: ExtractPaginationParams_def ExtractPaginationParamsValidated_def ValidateAndParseInt_def)
qed


definition plain_request :: "'b request" where
  "plain_request = \<lparr>meth = ''GET'', path = ''/'', remote_addr = ''1.2.3.4:5'', req_hdr = \<lambda>k. '''',
     query = \<lambda>k. '''', path_value = \<lambda>k. '''', ctx = Map.empty, req_body = None\<rparr>"

theorem pagination_bounds_witness:
  "fst (ExtractPaginationParams (plain_request\<lparr>query := \<lambda>k. ''500''\<rparr>)) = 20 \<and>
   fst (ExtractPaginationParamsValidated (plain_request\<lparr>query := \<lambda>k. ''500''\<rparr> :: unit request)) = 0"
proof -
  have "Atoi ''500'' = Some 500" by code_simp
  then have "Atoi (query (plain_request\<lparr>query := \<lambda>k. ''500''\<rparr> :: unit request) ''limit'') = Some 500" by simp
  with pagination_bounds [of "plain_request\<lparr>query := \<lambda>k. ''500''\<rparr> :: unit request" 500] show ?thesis
    by (simp add: ExtractPaginationParams_def)
qed

end
