(* ===== verification/TrackHandlers.thy ===== *)
theory TrackHandlers
  imports Helpers
begin

text \<open>
  \<open>handlers/tracks.go\<close> and \<open>handlers/rollback.go\<close>: listing, creation, deletion, versions, upload, play
  URLs and the rollback to an earlier version, with the queries only they use. The budget guard of
  \<open>finops\<close> is an argument of the upload: \<open>None\<close> when it fails, else whether it blocks.
\<close>

subsection \<open>Queries\<close>

definition GetTrackVersionEngagementBatch ::
  "dbenv \<Rightarrow> string \<Rightarrow> database \<Rightarrow> (int \<times> (string \<times> int) list) db_result" where
  "GetTrackVersionEngagementBatch env trackID d =
     (if fails env ''GetTrackVersionEngagementBatch/Likes'' [trackID] \<or>
         fails env ''GetTrackVersionEngagementBatch'' [trackID] then Inl Fault
      else Inr (int (length (filter (\<lambda>l. lk_track l = trackID) (likes d))),
                map (\<lambda>v. (v_id v, int (length (filter (\<lambda>c. cm_version c = v_id v) (comments d)))))
                  (live_versions d trackID)))"

definition GetUserSubscription :: "dbenv \<Rightarrow> string \<Rightarrow> database \<Rightarrow> (string \<times> int \<times> int) db_result" where
  "GetUserSubscription env userID d =
     (case query_row env ''GetUserSubscription'' [userID] (filter (\<lambda>b. sb_user b = userID) (subscriptions d)) of
        Inl e \<Rightarrow> if is_sql_no_rows env e then Inr (''free'', 1024, 0) else Inl e
      | Inr b \<Rightarrow> Inr (sb_tier b, sb_quota_mb b, sb_used_mb b))"

definition GetUserStorageUsed :: "dbenv \<Rightarrow> string \<Rightarrow> database \<Rightarrow> int db_result" where
  "GetUserStorageUsed env userID d =
     (if fails env ''GetUserStorageUsed'' [userID] then Inl Fault
      else Inr (sum_list (map v_size (filter (\<lambda>v. v_deleted v = None \<and>
             list_ex (\<lambda>t. t_id t = v_track v \<and>
               list_ex (\<lambda>p. p_id p = t_project t \<and> p_user p = userID) (projects d)) (tracks d))
             (versions d))) div (1024 * 1024)))"

text \<open>The transaction of the upload.\<close>

definition insert_version :: "dbenv \<Rightarrow> version_row \<Rightarrow> database \<Rightarrow> unit db_result \<times> database" where
  "insert_version env v d =
     (if fails env ''UploadTrackVersion/Begin'' [] \<or> fails env ''UploadTrackVersion/Insert'' [v_id v]
      then (Inl Fault, d)
      else if (\<exists>u\<in>set (versions d). v_id u = v_id v \<or> (v_track u = v_track v \<and> v_number u = v_number v)) \<or>
         \<not> (\<exists>t\<in>set (tracks d). t_id t = v_track v) then (Inl Conflict, d)
      else if fails env ''UploadTrackVersion/Commit'' [] then (Inl Fault, d)
      else (Inr (), d\<lparr>versions := versions d @ [v\<lparr>v_created := db_now env\<rparr>]\<rparr>))"

subsection \<open>Answers\<close>

definition json_time :: "go_time option \<Rightarrow> json" where
  "json_time t = (case t of None \<Rightarrow> JNull | Some t \<Rightarrow> JNum t)"

text \<open>A slice that no row was appended to is \<open>nil\<close>, encoded as \<open>null\<close>.\<close>

definition json_slice :: "('a \<Rightarrow> json) \<Rightarrow> 'a list \<Rightarrow> json" where
  "json_slice f xs = (if xs = [] then JNull else JList (map f xs))"

definition track_json :: "track_row \<Rightarrow> json" where
  "track_json t = JObj [(''ID'', JStr (t_id t)), (''ProjectID'', JStr (t_project t)), (''UserID'', JStr (t_user t)),
     (''Name'', JStr (t_name t)), (''Duration'', JNum (t_duration t)), (''CreatedAt'', JNum (t_created t)),
     (''UpdatedAt'', JNum (t_updated t)), (''DeletedAt'', json_time (t_deleted t))]"

definition version_json :: "version_row \<Rightarrow> json" where
  "version_json v = JObj [(''ID'', JStr (v_id v)), (''TrackID'', JStr (v_track v)),
     (''VersionNumber'', JNum (v_number v)), (''R2ObjectKey'', JStr (v_key v)), (''FileSize'', JNum (v_size v)),
     (''Checksum'', JStr (v_checksum v)), (''CreatedAt'', JNum (v_created v)), (''DeletedAt'', json_time (v_deleted v))]"

text \<open>\<open>int64(offset+limit) < total\<close>, with the sum at its width.\<close>

definition has_more :: "int \<Rightarrow> int \<Rightarrow> int \<Rightarrow> bool" where
  "has_more limit offset n_all \<longleftrightarrow> int64 (offset + limit) < n_all"

definition pagination_json :: "int \<Rightarrow> int \<Rightarrow> int \<Rightarrow> json" where
  "pagination_json limit offset n_all = JObj [(''limit'', JNum limit), (''offset'', JNum offset),
     (''total'', JNum n_all), (''has_more'', JBool (has_more limit offset n_all))]"

subsection \<open>Tracks\<close>

definition ListTracks :: "'o app_env \<Rightarrow> ('b, 'o app) handler" where
  "ListTracks env r = (\<lambda>(w, s).
     (case GetUserID r of
        None \<Rightarrow> respond (WriteUnauthorized w) s
      | Some userID \<Rightarrow>
          let projectID = path_value r ''project_id''; (limit, offset) = ExtractPaginationParams r
          in case GetProjectByID (dbe env) projectID userID (app_db s) of
               Inl _ \<Rightarrow> respond (WriteForbidden ''access denied'' w) s
             | Inr _ \<Rightarrow>
                 (case GetProjectTracksPaginated (dbe env) projectID limit offset (app_db s) of
                    Inl _ \<Rightarrow> respond (WriteInternalError w) s
                  | Inr (ts, n_all) \<Rightarrow>
                      respond (write_json 200 (JObj [(''data'', json_slice track_json ts),
                        (''pagination'', pagination_json limit offset n_all)]) w) s)))"

record track_body = tb_name :: string

definition CreateTrackHandler :: "'o app_env \<Rightarrow> (track_body, 'o app) handler" where
  "CreateTrackHandler env r = (\<lambda>(w, s).
     (case GetUserID r of
        None \<Rightarrow> respond (WriteUnauthorized w) s
      | Some userID \<Rightarrow>
          (case req_body r of
             None \<Rightarrow> respond (WriteBadRequest ''invalid request body'' w) s
           | Some b \<Rightarrow>
               (case ValidateTrackName (tb_name b) of
                  Some err \<Rightarrow> respond (WriteBadRequest err w) s
                | None \<Rightarrow>
                    let track = \<lparr>t_id = new_uuid env (app_uuids s), t_project = path_value r ''project_id'',
                          t_user = userID, t_name = tb_name b, t_duration = 0, t_created = now env,
                          t_updated = now env, t_deleted = None\<rparr>;
                        s = s\<lparr>app_uuids := app_uuids s + 1\<rparr>
                    in case CreateTrack (dbe env) track (app_db s) of
                         (Inl _, d) \<Rightarrow> respond (WriteInternalError w) (s\<lparr>app_db := d\<rparr>)
                       | (Inr t, d) \<Rightarrow> respond (write_json 201 (track_json t) w) (s\<lparr>app_db := d\<rparr>)))))"

definition DeleteTrackHandler :: "'o app_env \<Rightarrow> ('b, 'o app) handler" where
  "DeleteTrackHandler env r = (\<lambda>(w, s).
     (case GetUserID r of
        None \<Rightarrow> respond (WriteUnauthorized w) s
      | Some userID \<Rightarrow>
          let trackID = path_value r ''track_id''
          in if \<not> ValidateTrackID env trackID then respond (WriteBadRequest ''invalid track id'' w) s
             else case GetTrackByID (dbe env) trackID (app_db s) of
                    Inl _ \<Rightarrow> respond (WriteNotFound ''track not found'' w) s
                  | Inr None \<Rightarrow> respond (WriteNotFound ''track not found'' w) s
                  | Inr (Some track) \<Rightarrow>
                      (case GetProjectByID (dbe env) (t_project track) userID (app_db s) of
                         Inl _ \<Rightarrow> respond (WriteForbidden ''access denied'' w) s
                       | Inr _ \<Rightarrow>
                           (case DeleteTrack (dbe env) trackID (app_db s) of
                              (Inl _, d) \<Rightarrow> respond (WriteInternalError w) (s\<lparr>app_db := d\<rparr>)
                            | (Inr False, d) \<Rightarrow> respond (WriteNotFound ''track not found'' w) (s\<lparr>app_db := d\<rparr>)
                            | (Inr True, d) \<Rightarrow>
                                respond (write_json 200 (JObj [(''deleted'', JBool True),
                                  (''track_id'', JStr trackID)]) w) (s\<lparr>app_db := d\<rparr>)))))"

definition ListTrackVersions :: "'o app_env \<Rightarrow> ('b, 'o app) handler" where
  "ListTrackVersions env r = (\<lambda>(w, s).
     (case GetUserID r of
        None \<Rightarrow> respond (WriteUnauthorized w) s
      | Some userID \<Rightarrow>
          let trackID = path_value r ''track_id''
          in if \<not> ValidateTrackID env trackID then respond (WriteBadRequest ''invalid track id'' w) s
             else case GetTrackByID (dbe env) trackID (app_db s) of
                    Inl _ \<Rightarrow> respond (WriteNotFound ''track not found'' w) s
                  | Inr None \<Rightarrow> respond (WriteNotFound ''track not found'' w) s
                  | Inr (Some track) \<Rightarrow>
                      (case GetProjectByID (dbe env) (t_project track) userID (app_db s) of
                         Inl _ \<Rightarrow> respond (WriteForbidden ''access denied'' w) s
                       | Inr _ \<Rightarrow>
                           (case GetTrackVersions (dbe env) trackID (app_db s) of
                              Inl _ \<Rightarrow> respond (WriteInternalError w) s
                            | Inr vs \<Rightarrow>
                                (case GetTrackVersionEngagementBatch (dbe env) trackID (app_db s) of
                                   Inl _ \<Rightarrow> respond (WriteInternalError w) s
                                 | Inr (track_likes, counts) \<Rightarrow>
                                     respond (write_json 200 (JObj [(''versions'', json_slice version_json vs),
                                       (''engagement'', JObj [(''track_likes'', JNum track_likes),
                                         (''comment_counts'', JObj (map (\<lambda>(i, n). (i, JNum n)) counts))])]) w) s)))))"


subsection \<open>Upload\<close>

text \<open>The multipart form: whether it parses, and the file with its name, size, content and type.\<close>

record upload_body =
  form_ok :: bool
  form_file :: "(string \<times> string \<times> string) option"

definition quota_of :: "dbenv \<Rightarrow> string \<Rightarrow> database \<Rightarrow> int \<times> int" where
  "quota_of env userID d =
     (case GetUserSubscription env userID d of
        Inl _ \<Rightarrow> (1024, case GetUserStorageUsed env userID d of Inl _ \<Rightarrow> 0 | Inr used \<Rightarrow> used)
      | Inr (tier, quota, used) \<Rightarrow> (quota, used))"

definition drop_upload :: "'o app_env \<Rightarrow> string \<Rightarrow> 'o app \<Rightarrow> 'o app" where
  "drop_upload env key s = s\<lparr>app_r2 := snd (DeleteFile (s3e env) key (app_r2 s))\<rparr>"

definition upload_key :: "'o app_env \<Rightarrow> string \<Rightarrow> string \<Rightarrow> int \<Rightarrow> 'o app \<Rightarrow> string" where
  "upload_key env userID trackID n s =
     ''tracks/'' @ userID @ ''/'' @ trackID @ ''/v'' @ Itoa n @ ''-'' @ new_uuid env (app_uuids s + 1)"

text \<open>From the version number on: the object first, then the row, and the object removed again when the
  row cannot be stored.\<close>

definition store_upload ::
  "'o app_env \<Rightarrow> string \<Rightarrow> string \<Rightarrow> string \<Rightarrow> string \<Rightarrow> int \<Rightarrow> rwriter \<Rightarrow> 'o app \<Rightarrow>
   completion \<times> rwriter \<times> 'o app" where
  "store_upload env userID trackID content contentType nextVersion w s =
     (let versionID = new_uuid env (app_uuids s);
          key = upload_key env userID trackID nextVersion s;
          s = s\<lparr>app_uuids := app_uuids s + 2\<rparr>
      in case UploadFile (s3e env) (sha env) (r2_endpoint env) (r2_bucket env) key content contentType (app_r2 s) of
           (None, rc) \<Rightarrow> respond (http_error ''failed to upload file'' 500 w) (s\<lparr>app_r2 := rc\<rparr>)
         | (Some ur, rc) \<Rightarrow>
             let s = s\<lparr>app_r2 := rc\<rparr>;
                 version = \<lparr>v_id = versionID, v_track = trackID, v_number = nextVersion, v_key = ur_Key ur,
                   v_size = ur_FileSize ur, v_checksum = ur_Checksum ur, v_created = now env, v_deleted = None\<rparr>
             in case insert_version (dbe env) version (app_db s) of
                  (Inl _, d) \<Rightarrow>
                    respond (http_error ''failed to finalize upload'' 500 w)
                      (drop_upload env (ur_Key ur) (s\<lparr>app_db := d\<rparr>))
                | (Inr _, d) \<Rightarrow> respond (write_json 201 (version_json version) w) (s\<lparr>app_db := d\<rparr>))"

definition UploadTrackVersion ::
  "'o app_env \<Rightarrow> (database \<Rightarrow> int \<Rightarrow> bool option) \<Rightarrow> (upload_body, 'o app) handler" where
  "UploadTrackVersion env upload_guard r = (\<lambda>(w, s).
     (case GetUserID r of
        None \<Rightarrow> respond (WriteUnauthorized w) s
      | Some userID \<Rightarrow>
          let trackID = path_value r ''track_id''
          in if \<not> ValidateTrackID env trackID then respond (WriteBadRequest ''invalid track id'' w) s
             else case req_body r of
               None \<Rightarrow> respond (http_error ''file too large (max 100MB)'' 413 w) s
             | Some b \<Rightarrow>
                 if \<not> form_ok b then respond (http_error ''file too large (max 100MB)'' 413 w) s
                 else (case form_file b of
                    None \<Rightarrow> respond (http_error ''missing file'' 400 w) s
                  | Some (filename, content, contentType) \<Rightarrow>
                      let size = int (length content); (quotaMB, usedMB) = quota_of (dbe env) userID (app_db s)
                      in if ValidateAudioFile filename size \<noteq> None then
                           respond (http_error (''invalid file: '' @
                             audio_error_text (the (ValidateAudioFile filename size))) 400 w) s
                         else if size div (1024 * 1024) > quotaMB - usedMB then
                           respond (http_error ''insufficient storage quota'' 402 w) s
                         else if upload_guard (app_db s) size = Some True then
                           respond (http_error ''upload temporarily blocked by budget guard'' 503 w) s
                         else case GetLatestTrackVersionNumber (dbe env) trackID (app_db s) of
                                Inl _ \<Rightarrow> respond (http_error ''failed to get version number'' 500 w) s
                              | Inr latest \<Rightarrow>
                                  store_upload env userID trackID content contentType (latest + 1) w s)))"

subsection \<open>Playing\<close>

definition GetSignedPlayURL :: "'o app_env \<Rightarrow> ('b, 'o app) handler" where
  "GetSignedPlayURL env r = (\<lambda>(w, s).
     (case GetUserID r of
        None \<Rightarrow> respond (WriteUnauthorized w) s
      | Some userID \<Rightarrow>
          let trackID = path_value r ''track_id''
          in if \<not> ValidateTrackID env trackID then respond (WriteBadRequest ''invalid track id'' w) s
             else case GetTrackByID (dbe env) trackID (app_db s) of
                    Inl _ \<Rightarrow> respond (WriteNotFound ''track not found'' w) s
                  | Inr None \<Rightarrow> respond (WriteNotFound ''track not found'' w) s
                  | Inr (Some track) \<Rightarrow>
                      (case GetProjectByID (dbe env) (t_project track) userID (app_db s) of
                         Inl _ \<Rightarrow> respond (WriteForbidden ''access denied'' w) s
                       | Inr _ \<Rightarrow>
                           (case GetLatestTrackVersion (dbe env) trackID (app_db s) of
                              Inl _ \<Rightarrow> respond (WriteNotFound ''no versions available'' w) s
                            | Inr None \<Rightarrow> respond (WriteNotFound ''no versions available'' w) s
                            | Inr (Some v) \<Rightarrow>
                                (case GenerateSignedURL (s3e env) (now env) (v_key v) (60 * second) (app_r2 s) of
                                   (None, rc) \<Rightarrow> respond (WriteInternalError w) (s\<lparr>app_r2 := rc\<rparr>)
                                 | (Some url, rc) \<Rightarrow>
                                     respond (write_json 200 (JObj [(''url'', JStr url),
                                       (''expires_in_seconds'', JNum 60), (''version'', JNum (v_number v)),
                                       (''file_size'', JNum (v_size v)), (''checksum'', JStr (v_checksum v))]) w)
                                       (s\<lparr>app_r2 := rc\<rparr>))))))"

subsection \<open>Rollback\<close>

definition no_rollback_text :: string where
  "no_rollback_text = ''you don'' @ CHR 0x27 # ''t have permission to rollback this track''"

definition no_access_text :: string where
  "no_access_text = ''you don'' @ CHR 0x27 # ''t have access to this track''"

definition rollback_to :: "'o app_env \<Rightarrow> string \<Rightarrow> string \<Rightarrow> version_row \<Rightarrow> rwriter \<Rightarrow> 'o app \<Rightarrow> completion \<times> rwriter \<times> 'o app" where
  "rollback_to env userID trackID target w s =
     (case GetLatestTrackVersion (dbe env) trackID (app_db s) of
        Inl _ \<Rightarrow> respond (WriteInternalError w) s
      | Inr None \<Rightarrow> respond (WriteInternalError w) s
      | Inr (Some cur) \<Rightarrow>
          if v_number cur = v_number target then
            respond (write_json 200 (JObj [(''message'', JStr ''already at this version''),
              (''version'', version_json cur)]) w) s
          else case UpdateTrackActiveVersion (dbe env) (now env) trackID (v_key target) (v_size target)
                      (v_checksum target) (app_db s) of
                 (Inl _, d) \<Rightarrow> respond (WriteInternalError w) (s\<lparr>app_db := d\<rparr>)
               | (Inr _, d) \<Rightarrow>
                   respond (write_json 200 (JObj [(''message'', JStr ''version rolled back successfully''),
                       (''track_id'', JStr trackID), (''version'', JNum (v_number target)),
                       (''file_size'', JNum (v_size target)), (''checksum'', JStr (v_checksum target))]) w)
                     (LogEvent env ''track_version_deleted'' userID trackID
                       (JObj [(''action'', JStr ''rollback''), (''from_version'', JNum (v_number cur)),
                         (''to_version'', JNum (v_number target)), (''rolled_back_from'', JStr (v_id cur)),
                         (''rolled_back_to'', JStr (v_id target))]) (s\<lparr>app_db := d\<rparr>)))"

definition version_info :: "string \<Rightarrow> string option \<Rightarrow> version_row \<Rightarrow> json" where
  "version_info trackID cur v =
     (case version_json v of
        JObj fs \<Rightarrow> JObj (fs @ [(''is_current'', JBool (cur = Some (v_id v))),
          (''can_rollback'', JBool (cur \<noteq> Some (v_id v))),
          (''rollback_url'', JStr (''/tracks/'' @ trackID @ ''/versions/'' @ Itoa (v_number v) @ ''/rollback''))])
      | j \<Rightarrow> j)"

definition RollbackTrackVersion :: "'o app_env \<Rightarrow> ('b, 'o app) handler" where
  "RollbackTrackVersion env r = (\<lambda>(w, s).
     (case GetUserID r of
        None \<Rightarrow> respond (WriteUnauthorized w) s
      | Some userID \<Rightarrow>
          let trackID = path_value r ''track_id''; d = app_db s
          in case Atoi (path_value r ''version_number'') of
               None \<Rightarrow> respond (WriteBadRequest ''invalid version number'' w) s
             | Some target \<Rightarrow>
                 if target \<le> 0 then respond (WriteBadRequest ''invalid version number'' w) s
                 else case GetTrackVersionByNumber (dbe env) trackID target d of
                        Inl _ \<Rightarrow> respond (WriteNotFound ''track version not found'' w) s
                      | Inr targetVersion \<Rightarrow>
                          (case GetTrackByID (dbe env) trackID d of
                             Inl _ \<Rightarrow> respond (WriteNotFound ''track not found'' w) s
                           | Inr None \<Rightarrow> respond (WriteNotFound ''track not found'' w) s
                           | Inr (Some track) \<Rightarrow>
                               (case GetProjectByID (dbe env) (t_project track) userID d of
                                  Inl _ \<Rightarrow> respond (WriteForbidden no_rollback_text w) s
                                | Inr project \<Rightarrow>
                                    if p_user project \<noteq> userID then
                                      respond (WriteForbidden no_rollback_text w) s
                                    else rollback_to env userID trackID targetVersion w s))))"

subsection \<open>Version history\<close>

definition GetTrackVersionHistory :: "'o app_env \<Rightarrow> ('b, 'o app) handler" where
  "GetTrackVersionHistory env r = (\<lambda>(w, s).
     (case GetUserID r of
        None \<Rightarrow> respond (WriteUnauthorized w) s
      | Some userID \<Rightarrow>
          let trackID = path_value r ''track_id''; d = app_db s
          in case GetTrackByID (dbe env) trackID d of
               Inl _ \<Rightarrow> respond (WriteNotFound ''track not found'' w) s
             | Inr None \<Rightarrow> respond (WriteNotFound ''track not found'' w) s
             | Inr (Some track) \<Rightarrow>
                 (case GetProjectByID (dbe env) (t_project track) userID d of
                    Inl _ \<Rightarrow> respond (WriteForbidden no_access_text w) s
                  | Inr _ \<Rightarrow>
                      (case GetTrackVersions (dbe env) trackID d of
                         Inl _ \<Rightarrow> respond (WriteInternalError w) s
                       | Inr vs \<Rightarrow>
                           let cur = (case GetLatestTrackVersion (dbe env) trackID d of
                                        Inr (Some v) \<Rightarrow> Some (v_id v) | _ \<Rightarrow> None)
                           in respond (write_json 200 (JObj [(''track_id'', JStr trackID),
                                (''versions'', JList (map (version_info trackID cur) vs)),
                                (''current'', case cur of None \<Rightarrow> JNull | Some i \<Rightarrow> JStr i),
                                (''total'', JNum (int (length vs)))]) w) s))))"


subsection \<open>Who may use the handlers\<close>

definition member :: "database \<Rightarrow> string \<Rightarrow> string \<Rightarrow> bool" where
  "member d projectID userID \<longleftrightarrow> (\<exists>p\<in>set (projects d). p_id p = projectID \<and> p_deleted p = None \<and>
     (p_user p = userID \<or> shared_with d projectID userID))"

definition track_member :: "database \<Rightarrow> string \<Rightarrow> string \<Rightarrow> bool" where
  "track_member d trackID userID \<longleftrightarrow>
     (\<exists>t\<in>set (tracks d). t_id t = trackID \<and> t_deleted t = None \<and> member d (t_project t) userID)"

definition owns :: "database \<Rightarrow> string \<Rightarrow> string \<Rightarrow> bool" where
  "owns d projectID userID \<longleftrightarrow>
     (\<exists>p\<in>set (projects d). p_id p = projectID \<and> p_deleted p = None \<and> p_user p = userID)"

definition in_project :: "'b request \<Rightarrow> 'o app \<Rightarrow> bool" where
  "in_project r s \<longleftrightarrow> (\<exists>u. GetUserID r = Some u \<and> member (app_db s) (path_value r ''project_id'') u)"

definition in_track :: "'b request \<Rightarrow> 'o app \<Rightarrow> bool" where
  "in_track r s \<longleftrightarrow> (\<exists>u. GetUserID r = Some u \<and> track_member (app_db s) (path_value r ''track_id'') u)"

definition owns_track :: "'b request \<Rightarrow> 'o app \<Rightarrow> bool" where
  "owns_track r s \<longleftrightarrow> (\<exists>u. GetUserID r = Some u \<and> (\<exists>t\<in>set (tracks (app_db s)).
     t_id t = path_value r ''track_id'' \<and> t_deleted t = None \<and> owns (app_db s) (t_project t) u))"

lemma GetProjectByID_InrD:
  assumes "GetProjectByID env projectID userID d = Inr p"
  shows "p \<in> set (projects d)" "p_id p = projectID" "p_deleted p = None" "member d projectID userID"
  using query_row_InrD [OF assms [unfolded GetProjectByID_def]] by (auto simp: member_def)

lemma GetTrackByID_SomeD:
  assumes "GetTrackByID env trackID d = Inr (Some t)"
  shows "t \<in> set (tracks d) \<and> t_id t = trackID \<and> t_deleted t = None"
proof -
  have "query_row env ''GetTrackByID'' [trackID]
      (filter (\<lambda>t. t_id t = trackID \<and> t_deleted t = None) (tracks d)) = Inr t"
    using assms by (simp add: GetTrackByID_def split: sum.splits if_splits)
  from query_row_InrD [OF this] show ?thesis by simp
qed

text \<open>What a handler finds out before it goes on, as one case distinction.\<close>

lemma track_access_cases [consumes 0, case_names no_track error outsider insider]:
  obtains (no_track) "GetTrackByID env trackID d = Inr None"
    | (error) e where "GetTrackByID env trackID d = Inl e"
    | (outsider) t e where "GetTrackByID env trackID d = Inr (Some t)" "GetProjectByID env (t_project t) u d = Inl e"
    | (insider) t p where "GetTrackByID env trackID d = Inr (Some t)" "GetProjectByID env (t_project t) u d = Inr p"
        "track_member d trackID u"
proof (cases "GetTrackByID env trackID d")
  case (Inl e)
  with error show thesis by blast
next
  case (Inr x)
  show thesis
  proof (cases x)
    case None
    with Inr no_track show thesis by blast
  next
    case (Some t)
    with Inr have t: "GetTrackByID env trackID d = Inr (Some t)" by simp
    show thesis
    proof (cases "GetProjectByID env (t_project t) u d")
      case (Inl e)
      with t outsider show thesis by blast
    next
      case (Inr p)
      with t GetTrackByID_SomeD [OF t] GetProjectByID_InrD(4) [OF Inr] have "track_member d trackID u"
        by (auto simp: track_member_def)
      with t Inr insider show thesis by blast
    qed
  qed
qed

interpretation list_tracks: guarded "ListTracks env :: ('b, 'o app) handler" in_project for env
proof
  fix w :: rwriter and r :: "'b request" and s :: "'o app"
  assume w: "wrote w = None" and no: "\<not> in_project r s"
  show "refused (ListTracks env r (w, s)) s"
  proof (cases "GetUserID r")
    case None
    with w show ?thesis by (auto simp: ListTracks_def)
  next
    case (Some u)
    have "\<exists>e. GetProjectByID (dbe env) (path_value r ''project_id'') u (app_db s) = Inl e"
      using no Some GetProjectByID_InrD(4) [of "dbe env" "path_value r ''project_id''" u "app_db s"]
      by (cases "GetProjectByID (dbe env) (path_value r ''project_id'') u (app_db s)") (auto simp: in_project_def)
    with Some w show ?thesis by (auto simp: ListTracks_def Let_def split: prod.splits)
  qed
qed

lemma guarded_by_track:
  fixes h :: "('b, 'o app) handler"
  assumes "\<And>w r s. wrote w = None \<Longrightarrow> GetUserID r = None \<Longrightarrow> refused (h r (w, s)) s"
    and "\<And>w r s u. wrote w = None \<Longrightarrow> GetUserID r = Some u \<Longrightarrow>
       (GetTrackByID (dbe env) (path_value r ''track_id'') (app_db s) = Inr None \<or>
        (\<exists>e. GetTrackByID (dbe env) (path_value r ''track_id'') (app_db s) = Inl e) \<or>
        (\<exists>t e. GetTrackByID (dbe env) (path_value r ''track_id'') (app_db s) = Inr (Some t) \<and>
           GetProjectByID (dbe env) (t_project t) u (app_db s) = Inl e)) \<Longrightarrow>
       refused (h r (w, s)) s"
  shows "guarded h in_track"
proof
  fix w :: rwriter and r :: "'b request" and s :: "'o app"
  assume w: "wrote w = None" and no: "\<not> in_track r s"
  show "refused (h r (w, s)) s"
  proof (cases "GetUserID r")
    case None
    with w assms(1) show ?thesis by blast
  next
    case (Some u)
    show ?thesis
      by (rule track_access_cases [where env = "dbe env" and trackID = "path_value r ''track_id''"
            and d = "app_db s" and u = u])
         (use assms(2) [OF w Some] no Some in \<open>auto simp: in_track_def\<close>)
  qed
qed


interpretation delete_track: guarded "DeleteTrackHandler env :: ('b, 'o app) handler" in_track for env
  by (rule guarded_by_track [where env = env]) (auto simp: DeleteTrackHandler_def Let_def)

interpretation list_versions: guarded "ListTrackVersions env :: ('b, 'o app) handler" in_track for env
  by (rule guarded_by_track [where env = env]) (auto simp: ListTrackVersions_def Let_def)

interpretation play_url: guarded "GetSignedPlayURL env :: ('b, 'o app) handler" in_track for env
  by (rule guarded_by_track [where env = env]) (auto simp: GetSignedPlayURL_def Let_def)

interpretation version_history: guarded "GetTrackVersionHistory env :: ('b, 'o app) handler" in_track for env
  by (rule guarded_by_track [where env = env]) (auto simp: GetTrackVersionHistory_def Let_def)

interpretation rollback: guarded "RollbackTrackVersion env :: ('b, 'o app) handler" owns_track for env
proof
  fix w :: rwriter and r :: "'b request" and s :: "'o app"
  assume w: "wrote w = None" and no: "\<not> owns_track r s"
  show "refused (RollbackTrackVersion env r (w, s)) s"
  proof (cases "GetUserID r")
    case None
    with w show ?thesis by (auto simp: RollbackTrackVersion_def)
  next
    case (Some u)
    have "p_user p \<noteq> u" if t: "GetTrackByID (dbe env) (path_value r ''track_id'') (app_db s) = Inr (Some t)"
      and p: "GetProjectByID (dbe env) (t_project t) u (app_db s) = Inr p" for t p
      using no Some GetTrackByID_SomeD [OF t] GetProjectByID_InrD [OF p]
      unfolding owns_track_def owns_def by metis
    with Some w show ?thesis
      by (auto simp: RollbackTrackVersion_def Let_def split: option.splits sum.splits)
  qed
qed

text \<open>The handlers of this theory that read or change what belongs to a project.\<close>

definition track_routes :: "'o app_env \<Rightarrow> ('b, 'o app) handler list" where
  "track_routes env = [ListTracks env, DeleteTrackHandler env, ListTrackVersions env, GetSignedPlayURL env,
     GetTrackVersionHistory env, RollbackTrackVersion env]"



definition sample_env :: "unit app_env" where
  "sample_env = \<lparr>dbe = calm_env, s3e = sample_s3\<lparr>s3_presign := \<lambda>k d t. Some (''https://r2/'' @ k)\<rparr>, sha = \<lambda>x. x,
     r2_endpoint = ''e'', r2_bucket = ''b'', new_uuid = \<lambda>n. ''id'' @ show_nat n, uuid_valid = \<lambda>i. True, now = 200\<rparr>"

definition sample_app :: "unit app" where
  "sample_app = \<lparr>app_db = sample_db, app_r2 = NewR2Client (), app_uuids = 0,
     app_urls = NewPresignedURLCache (12 * minute)\<rparr>"

definition as_user :: "string \<Rightarrow> (string \<Rightarrow> string) \<Rightarrow> 'b request" where
  "as_user u pv = plain_request\<lparr>ctx := [''user_id'' \<mapsto> CtxStr u], path_value := pv\<rparr>"

lemma as_user_simps [simp]:
  "u \<noteq> '''' \<Longrightarrow> GetUserID (as_user u pv) = Some u" "path_value (as_user u pv) = pv" "req_body (as_user u pv) = None"
  "GetUserID ((as_user u pv)\<lparr>req_body := b\<rparr>) = GetUserID (as_user u pv)"
  by (simp_all add: GetUserID_def as_user_def ctx_string_def plain_request_def)


subsection \<open>Uploads\<close>

text \<open>The law of the object store: after a successful put the key is there, after a successful delete it is
  not, and neither touches another key.\<close>

definition store_law :: "'o s3 \<Rightarrow> (string \<Rightarrow> 'o \<Rightarrow> bool) \<Rightarrow> bool" where
  "store_law s stored \<longleftrightarrow>
     (\<forall>k c ty m obs ok obs'. s3_put s k c ty m obs = (ok, obs') \<longrightarrow>
        (ok \<longrightarrow> stored k obs') \<and> (\<forall>k'. k' \<noteq> k \<longrightarrow> stored k' obs' = stored k' obs)) \<and>
     (\<forall>k obs ok obs'. s3_delete s k obs = (ok, obs') \<longrightarrow>
        (ok \<longrightarrow> \<not> stored k obs') \<and> (\<forall>k'. k' \<noteq> k \<longrightarrow> stored k' obs' = stored k' obs))"

lemma insert_version_cases:
  assumes "insert_version env v d = (res, d')"
  obtains e where "res = Inl e" "d' = d"
    | "res = Inr ()" "d' = d\<lparr>versions := versions d @ [v\<lparr>v_created := db_now env\<rparr>]\<rparr>"
        "\<exists>t\<in>set (tracks d). t_id t = v_track v"
  using assms by (auto simp: insert_version_def split: if_splits)

lemma UploadFile_failed:
  assumes "s3_put s3 key content (if ty = '''' then ''application/octet-stream'' else ty) (hex_of (h '''')) (objects rc)
    = (False, obs)"
  shows "UploadFile s3 h ep bk key content ty rc = (None, rc\<lparr>objects := obs\<rparr>)"
  using assms by (simp add: UploadFile_def Let_def)

lemma UploadFile_done:
  assumes "s3_put s3 key content (if ty = '''' then ''application/octet-stream'' else ty) (hex_of (h '''')) (objects rc)
    = (True, obs)"
  obtains ur rc' where "UploadFile s3 h ep bk key content ty rc = (Some ur, rc')" "ur_Key ur = key"
    "ur_FileSize ur = int (length content)" "ur_Checksum ur = hex_of (h content)" "objects rc' = obs"
  using assms by (simp add: UploadFile_def Let_def)

lemma latest_after_insert:
  assumes n: "GetLatestTrackVersionNumber env trackID d = Inr n" and v: "v_track v = trackID" "v_number v = n + 1"
  shows "GetLatestTrackVersionNumber env trackID (d\<lparr>versions := versions d @ [v]\<rparr>) = Inr (n + 1)"
proof -
  let ?ns = "map v_number (filter (\<lambda>u. v_track u = trackID) (versions d))"
  have le: "n = (if ?ns = [] then 0 else Max (set ?ns))" "\<not> fails env ''GetLatestTrackVersionNumber'' [trackID]"
    using n by (auto simp: GetLatestTrackVersionNumber_def Let_def split: if_splits)
  have "\<forall>x\<in>set ?ns. x \<le> n"
  proof
    fix x assume x: "x \<in> set ?ns"
    then have "?ns \<noteq> []" by (metis empty_iff list.set(1))
    with le(1) x show "x \<le> n" by (metis List.finite_set Max_ge)
  qed
  then have "Max (insert (n + 1) (set ?ns)) = n + 1" by (intro Max_eqI) force+
  with le(2) v show ?thesis by (simp add: GetLatestTrackVersionNumber_def Let_def)
qed

lemma store_upload_atomic:
  assumes law: "store_law (s3e env) stored" and w: "wrote w = None"
    and fresh: "\<not> stored key (objects (app_r2 s))"
    and key: "key = upload_key env u trackID (n + 1) s"
    and latest: "GetLatestTrackVersionNumber (dbe env) trackID (app_db s) = Inr n"
    and del: "\<forall>k obs. fst (s3_delete (s3e env) k obs)"
    and up: "store_upload env u trackID content ty (n + 1) w s = (res, w', s')"
  shows "(wrote w' = Some 201 \<and> stored key (objects (app_r2 s')) \<and>
            GetLatestTrackVersionNumber (dbe env) trackID (app_db s') = Inr (n + 1) \<and>
            (\<exists>v. app_db s' = (app_db s)\<lparr>versions := versions (app_db s) @ [v]\<rparr> \<and> v_track v = trackID \<and>
               v_number v = n + 1 \<and> v_key v = key \<and> v_size v = int (length content) \<and>
               v_checksum v = hex_of (sha env content))) \<or>
         (wrote w' = Some 500 \<and> app_db s' = app_db s \<and>
            (\<not> stored key (objects (app_r2 s')) \<or>
             (\<exists>obs. s3_put (s3e env) key content (if ty = '''' then ''application/octet-stream'' else ty)
               (hex_of (sha env '''')) (objects (app_r2 s)) = (False, obs))))"
proof -
  obtain ok obs where put: "s3_put (s3e env) key content (if ty = '''' then ''application/octet-stream'' else ty)
      (hex_of (sha env '''')) (objects (app_r2 s)) = (ok, obs)" by fastforce
  show ?thesis
  proof (cases ok)
    case False
    with put have put': "s3_put (s3e env) key content (if ty = '''' then ''application/octet-stream'' else ty)
      (hex_of (sha env '''')) (objects (app_r2 s)) = (False, obs)" by simp
    have "wrote w' = Some 500 \<and> app_db s' = app_db s"
      using up w unfolding store_upload_def key [symmetric] Let_def
      by (simp add: UploadFile_failed [where h = "sha env", OF put'] respond_def) (auto simp: w)
    with put' show ?thesis by blast
  next
    case True
    with put have put': "s3_put (s3e env) key content (if ty = '''' then ''application/octet-stream'' else ty)
      (hex_of (sha env '''')) (objects (app_r2 s)) = (True, obs)" by simp
    obtain ur rc where ur: "UploadFile (s3e env) (sha env) (r2_endpoint env) (r2_bucket env) key content ty (app_r2 s)
        = (Some ur, rc)" "ur_Key ur = key" "ur_FileSize ur = int (length content)"
        "ur_Checksum ur = hex_of (sha env content)" "objects rc = obs"
      by (rule UploadFile_done [where h = "sha env", OF put'])
    have stored: "stored key obs" using law put' by (auto simp: store_law_def)
    define v where "v = \<lparr>v_id = new_uuid env (app_uuids s), v_track = trackID, v_number = n + 1, v_key = key,
        v_size = int (length content), v_checksum = hex_of (sha env content), v_created = now env, v_deleted = None\<rparr>"
    obtain r d where ins: "insert_version (dbe env) v (app_db s) = (r, d)" by fastforce
    from ins show ?thesis
    proof (cases rule: insert_version_cases)
      case (1 e)
      have "\<not> stored key (snd (s3_delete (s3e env) key obs))"
        using law del by (metis prod.collapse store_law_def)
      then have "\<not> stored key (objects (snd (DeleteFile (s3e env) key rc)))"
        using ur(5) by (auto simp: DeleteFile_def split: prod.splits bool.splits)
      with up ins 1 w ur show ?thesis unfolding store_upload_def key [symmetric] Let_def
        by (auto simp: v_def respond_def drop_upload_def)
    next
      case 2
      have "wrote w' = Some 201 \<and> app_db s' = d \<and> app_r2 s' = rc"
        using up ins 2(1) w ur unfolding store_upload_def key [symmetric] Let_def
        by (auto simp: v_def respond_def)
      moreover have "GetLatestTrackVersionNumber (dbe env) trackID d = Inr (n + 1)"
        unfolding 2(2) by (rule latest_after_insert [OF latest]) (simp_all add: v_def)
      ultimately show ?thesis using stored ur(5) 2(2)
        by (intro disjI1 conjI exI [of _ "v\<lparr>v_created := db_now (dbe env)\<rparr>"]) (simp_all add: v_def)
    qed
  qed
qed


text \<open>A store that is the list of its keys.\<close>

definition list_s3 :: "string list s3" where
  "list_s3 = \<lparr>s3_delete = \<lambda>k ks. (True, filter (\<lambda>x. x \<noteq> k) ks), s3_delete_many = \<lambda>ks u. (True, u),
     s3_put = \<lambda>k c ty m ks. (True, k # ks), s3_get = \<lambda>k ks. None, s3_list = \<lambda>p n ks. None,
     s3_presign = \<lambda>k d t. None\<rparr>"

definition list_env :: "string list app_env" where
  "list_env = \<lparr>dbe = calm_env, s3e = list_s3, sha = \<lambda>x. x, r2_endpoint = ''e'', r2_bucket = ''b'',
     new_uuid = \<lambda>n. ''id'' @ show_nat n, uuid_valid = \<lambda>i. True, now = 200\<rparr>"

definition list_app :: "string list app" where
  "list_app = \<lparr>app_db = sample_db, app_r2 = NewR2Client [], app_uuids = 0,
     app_urls = NewPresignedURLCache (12 * minute)\<rparr>"

definition upload_request :: "upload_body request" where
  "upload_request = (as_user ''u'' (\<lambda>k. ''t''))\<lparr>req_body :=
     Some \<lparr>form_ok = True, form_file = Some (''song.mp3'', ''abc'', ''audio/mpeg'')\<rparr>\<rparr>"


subsection \<open>What a rollback does\<close>

lemma UpdateTrackActiveVersion_versions:
  "versions (snd (UpdateTrackActiveVersion env t trackID k n c d)) = versions d"
  by (auto simp: UpdateTrackActiveVersion_def Let_def split: option.splits if_splits)

lemma rollback_to_versions:
  "versions (app_db (snd (snd (rollback_to env u trackID v w s)))) = versions (app_db s) \<and>
   app_r2 (snd (snd (rollback_to env u trackID v w s))) = app_r2 s"
  using UpdateTrackActiveVersion_versions [of "dbe env" "now env" trackID "v_key v" "v_size v" "v_checksum v" "app_db s"]
  by (auto simp: rollback_to_def respond_def frame_simps split: sum.splits option.splits prod.splits)

text \<open>A rollback, also one answered with success, leaves the version history and what is played as
  they were: the latest version of every track, the version numbers and the stored objects are those of
  before; \<open>UpdateTrackActiveVersion\<close> stores nothing but the time.\<close>

theorem rollback_keeps_latest:
  "case RollbackTrackVersion env r (w, s) of (res, w', s') \<Rightarrow>
     versions (app_db s') = versions (app_db s) \<and> app_r2 s' = app_r2 s \<and>
     GetLatestTrackVersion e trackID (app_db s') = GetLatestTrackVersion e trackID (app_db s) \<and>
     GetLatestTrackVersionNumber e trackID (app_db s') = GetLatestTrackVersionNumber e trackID (app_db s)"
proof -
  obtain res w' s' where run: "RollbackTrackVersion env r (w, s) = (res, w', s')" by (metis prod_cases3)
  have "s' = s \<or> (\<exists>u t v. rollback_to env u t v w s = (res, w', s'))"
    using run by (auto simp: RollbackTrackVersion_def Let_def respond_def split: option.splits sum.splits if_splits)
  then have same: "versions (app_db s') = versions (app_db s) \<and> app_r2 s' = app_r2 s"
    using rollback_to_versions by (metis snd_conv)
  then show ?thesis
    by (simp add: run GetLatestTrackVersion_def GetLatestTrackVersionNumber_def live_versions_def)
qed

end
