(* ===== verification/Base64.thy ===== *)
theory Base64
  imports GoStrings
begin

text \<open>
  Go's \<open>encoding/base64\<close> as the backend uses it: \<open>StdEncoding\<close> and \<open>URLEncoding\<close> (padded) and
  \<open>RawURLEncoding\<close> (no padding). Decoding skips line breaks and ignores the unused low bits of a
  last partial group, as Go's non-strict decoders do; the round trip holds for every byte string.
\<close>

definition std_alphabet :: string where
  "std_alphabet = ''ABCDEFGHIJKLMNOPQRSTUVWXYZabcdefghijklmnopqrstuvwxyz0123456789+/''"

definition url_alphabet :: string where
  "url_alphabet = ''ABCDEFGHIJKLMNOPQRSTUVWXYZabcdefghijklmnopqrstuvwxyz0123456789-_''"

fun sextets :: "nat list \<Rightarrow> nat list" where
  "sextets (x # y # z # bs) =
     (x div 4) # ((x mod 4) * 16 + y div 16) # ((y mod 16) * 4 + z div 64) # (z mod 64) # sextets bs"
| "sextets [x, y] = [x div 4, (x mod 4) * 16 + y div 16, (y mod 16) * 4]"
| "sextets [x] = [x div 4, (x mod 4) * 16]"
| "sextets [] = []"

fun octets :: "nat list \<Rightarrow> nat list option" where
  "octets (a # b # c # d # vs) =
     map_option (\<lambda>bs. (a * 4 + b div 16) # ((b mod 16) * 16 + c div 4) # ((c mod 4) * 64 + d) # bs)
       (octets vs)"
| "octets [a, b, c] = Some [a * 4 + b div 16, (b mod 16) * 16 + c div 4]"
| "octets [a, b] = Some [a * 4 + b div 16]"
| "octets [a] = None"
| "octets [] = Some []"

definition bytes_of :: "string \<Rightarrow> nat list" where
  "bytes_of s = map of_char s"

definition encode_raw :: "string \<Rightarrow> string \<Rightarrow> string" where
  "encode_raw alphabet s = map (\<lambda>v. alphabet ! v) (sextets (bytes_of s))"

definition encode_padded :: "string \<Rightarrow> string \<Rightarrow> string" where
  "encode_padded alphabet s =
     (let e = encode_raw alphabet s
      in e @ replicate (if length e mod 4 = 0 then 0 else 4 - length e mod 4) CHR ''='')"

fun sextet_values :: "string \<Rightarrow> string \<Rightarrow> nat list option" where
  "sextet_values alphabet [] = Some []"
| "sextet_values alphabet (c # s) =
     (case Index alphabet [c] of None \<Rightarrow> None | Some v \<Rightarrow> map_option ((#) v) (sextet_values alphabet s))"

definition decode_values :: "string \<Rightarrow> string \<Rightarrow> string option" where
  "decode_values alphabet s =
     (case sextet_values alphabet s of None \<Rightarrow> None | Some vs \<Rightarrow> map_option (map char_of) (octets vs))"

definition skip_breaks :: "string \<Rightarrow> string" where
  "skip_breaks s = filter (\<lambda>c. c \<noteq> CHR 0x0A \<and> c \<noteq> CHR 0x0D) s"

definition decode_raw :: "string \<Rightarrow> string \<Rightarrow> string option" where
  "decode_raw alphabet s = decode_values alphabet (skip_breaks s)"

definition decode_padded :: "string \<Rightarrow> string \<Rightarrow> string option" where
  "decode_padded alphabet s =
     (let t = skip_breaks s;
          body = takeWhile (\<lambda>c. c \<noteq> CHR ''='') t;
          pad = dropWhile (\<lambda>c. c \<noteq> CHR ''='') t
      in if (length body mod 4 = 0 \<and> pad = '''') \<or> (length body mod 4 = 2 \<and> pad = ''=='') \<or>
            (length body mod 4 = 3 \<and> pad = ''='')
         then decode_values alphabet body else None)"

lemma octet_parts:
  fixes x y z :: nat
  assumes "y < 256" "z < 256"
  shows "x div 4 * 4 + (x mod 4 * 16 + y div 16) div 16 = x"
    and "(x mod 4 * 16 + y div 16) mod 16 * 16 + (y mod 16 * 4 + z div 64) div 4 = y"
    and "(y mod 16 * 4 + z div 64) mod 4 * 64 + z mod 64 = z"
proof -
  have y: "y div 16 < 16" using assms by simp
  have z: "z div 64 < 4" using assms by simp
  show "x div 4 * 4 + (x mod 4 * 16 + y div 16) div 16 = x" using y by simp
  show "(x mod 4 * 16 + y div 16) mod 16 * 16 + (y mod 16 * 4 + z div 64) div 4 = y"
    using y z by simp
  show "(y mod 16 * 4 + z div 64) mod 4 * 64 + z mod 64 = z" using z by simp
qed

lemma octets_sextets: "\<forall>b\<in>set bs. b < 256 \<Longrightarrow> octets (sextets bs) = Some bs"
proof (induction bs rule: sextets.induct)
  case (1 x y z bs)
  then show ?case using octet_parts(1,2) [of y z x] octet_parts(3) [of y z] by simp
next
  case (2 x y)
  then show ?case using octet_parts(1,2) [of y 0 x] octet_parts(3) [of y 0] by simp
next
  case (3 x)
  then show ?case using octet_parts(1) [of 0 0 x] by simp
next
  case 4
  then show ?case by simp
qed

lemma sextets_bound: "\<forall>b\<in>set bs. b < 256 \<Longrightarrow> v \<in> set (sextets bs) \<Longrightarrow> v < 64"
  by (induction bs rule: sextets.induct) auto

lemma length_sextets: "length (sextets bs) = (4 * length bs + 2) div 3"
  by (induction bs rule: sextets.induct) auto

lemma bytes_of_bound: "b \<in> set (bytes_of s) \<Longrightarrow> b < 256"
  by (auto simp: bytes_of_def)

lemma map_char_bytes [simp]: "map char_of (bytes_of s) = s"
  by (simp add: bytes_of_def o_def)

text \<open>What the round trip needs of an alphabet.\<close>

definition good_alphabet :: "string \<Rightarrow> bool" where
  "good_alphabet a \<longleftrightarrow>
     (\<forall>v\<in>set [0..<64]. Index a [a ! v] = Some v \<and> a ! v \<noteq> CHR ''='' \<and> a ! v \<noteq> CHR 0x0A \<and> a ! v \<noteq> CHR 0x0D)"

lemma good_alphabets: "good_alphabet std_alphabet" "good_alphabet url_alphabet"
  by code_simp+

lemma sextet_values_encode:
  "good_alphabet a \<Longrightarrow> \<forall>v\<in>set vs. v < 64 \<Longrightarrow> sextet_values a (map (\<lambda>v. a ! v) vs) = Some vs"
  by (induction vs) (auto simp: good_alphabet_def)

lemma decode_values_encode:
  assumes "good_alphabet a" shows "decode_values a (encode_raw a s) = Some s"
proof -
  have "\<forall>b\<in>set (bytes_of s). b < 256" using bytes_of_bound by blast
  then show ?thesis
    using sextet_values_encode [OF assms, of "sextets (bytes_of s)"] sextets_bound octets_sextets
    by (simp add: decode_values_def encode_raw_def)
qed

lemma encode_raw_chars:
  assumes "good_alphabet a" "c \<in> set (encode_raw a s)"
  shows "c \<noteq> CHR ''='' \<and> c \<noteq> CHR 0x0A \<and> c \<noteq> CHR 0x0D"
proof -
  from assms(2) obtain v where v: "v \<in> set (sextets (bytes_of s))" "c = a ! v"
    by (auto simp: encode_raw_def)
  with sextets_bound bytes_of_bound have "v < 64" by blast
  with assms(1) v show ?thesis by (auto simp: good_alphabet_def)
qed

lemma decode_raw_encode: "good_alphabet a \<Longrightarrow> decode_raw a (encode_raw a s) = Some s"
proof -
  assume a: "good_alphabet a"
  have "skip_breaks (encode_raw a s) = encode_raw a s"
    unfolding skip_breaks_def by (rule filter_True) (use encode_raw_chars [OF a] in blast)
  then show ?thesis by (simp add: decode_raw_def decode_values_encode [OF a])
qed

lemma encode_raw_mod4: "length (encode_raw a s) mod 4 \<noteq> 1"
  unfolding encode_raw_def length_map length_sextets by presburger

lemma while_replicate:
  "takeWhile (\<lambda>x. x \<noteq> c) (replicate n c) = []"
  "dropWhile (\<lambda>x. x \<noteq> c) (replicate n c) = replicate n c"
  by (cases n; simp)+

lemma padding_cases:
  fixes n :: nat
  assumes "n mod 4 \<noteq> 1"
  defines "p \<equiv> replicate (if n mod 4 = 0 then 0 else 4 - n mod 4) CHR ''=''"
  shows "(n mod 4 = 0 \<and> p = '''') \<or> (n mod 4 = 2 \<and> p = ''=='') \<or> (n mod 4 = 3 \<and> p = ''='')"
proof -
  have "n mod 4 = 0 \<or> n mod 4 = 2 \<or> n mod 4 = 3" using assms(1) by presburger
  then show ?thesis
  proof (elim disjE)
    assume "n mod 4 = 2"
    then have "p = replicate 2 CHR ''=''" unfolding p_def by simp
    with \<open>n mod 4 = 2\<close> show ?thesis by (simp add: numeral_2_eq_2)
  next
    assume "n mod 4 = 3"
    then have "p = replicate (Suc 0) CHR ''=''" unfolding p_def by simp
    with \<open>n mod 4 = 3\<close> show ?thesis by simp
  qed (simp add: p_def)
qed

lemma decode_padded_encode: "good_alphabet a \<Longrightarrow> decode_padded a (encode_padded a s) = Some s"
proof -
  assume a: "good_alphabet a"
  define e where "e = encode_raw a s"
  define p where "p = replicate (if length e mod 4 = 0 then 0 else 4 - length e mod 4) CHR ''=''"
  have c: "\<forall>x\<in>set e. x \<noteq> CHR ''='' \<and> x \<noteq> CHR 0x0A \<and> x \<noteq> CHR 0x0D"
    unfolding e_def using encode_raw_chars [OF a] by blast
  have pe: "\<forall>x\<in>set p. x = CHR ''=''" by (auto simp: p_def)
  have "skip_breaks (e @ p) = e @ p"
    unfolding skip_breaks_def
  proof (rule filter_True, rule ballI)
    fix x assume "x \<in> set (e @ p)"
    then consider "x \<in> set e" | "x = CHR ''=''" using pe by auto
    then show "x \<noteq> CHR 0x0A \<and> x \<noteq> CHR 0x0D" by cases (use c in blast, simp)
  qed
  moreover have "takeWhile (\<lambda>c. c \<noteq> CHR ''='') (e @ p) = e"
    using c by (subst takeWhile_append2) (simp_all add: p_def while_replicate)
  moreover have "dropWhile (\<lambda>c. c \<noteq> CHR ''='') (e @ p) = p"
    using c by (subst dropWhile_append2) (simp_all add: p_def while_replicate)
  moreover have "length e mod 4 \<noteq> 1" unfolding e_def by (rule encode_raw_mod4)
  from padding_cases [OF this] have "(length e mod 4 = 0 \<and> p = '''') \<or>
      (length e mod 4 = 2 \<and> p = ''=='') \<or> (length e mod 4 = 3 \<and> p = ''='')"
    unfolding p_def .
  moreover have "encode_padded a s = e @ p"
    by (simp only: encode_padded_def Let_def e_def p_def)
  ultimately show ?thesis
    using decode_values_encode [OF a, of s] unfolding decode_padded_def Let_def e_def [symmetric]
    by presburger
qed

end
