(* ===== verification/ShareLinks.thy ===== *)
theory ShareLinks
  imports TrackHandlers Base64
begin

text \<open>
  \<open>handlers/shares.go\<close>: making, opening, revoking and replacing the share links of a project, with
  their queries in \<open>db/queries_phase2.go\<close>. \<open>bcrypt\<close>, HMAC-SHA-256, \<open>encoding/json\<close> on the token
  payload, the random source, the calendar of \<open>AddDate\<close> and the environment variables are the fields
  of \<open>share_env\<close>. The header that the handler sets on the request for later middleware has no reader.
\<close>

record 'o share_env =
  ae :: "'o app_env"
  bcrypt_hash :: "string \<Rightarrow> string option"
  bcrypt_match :: "string \<Rightarrow> string \<Rightarrow> bool"
  hmac :: "string \<Rightarrow> string \<Rightarrow> string"
  marshal :: "string \<Rightarrow> int \<Rightarrow> string"
  unmarshal :: "string \<Rightarrow> (string \<times> int) option"
  random_bytes :: "nat \<Rightarrow> string option"
  add_days :: "go_time \<Rightarrow> int \<Rightarrow> go_time"
  getenv :: "string \<Rightarrow> string"

subsection \<open>Queries\<close>

definition InsertShareLink :: "dbenv \<Rightarrow> link_row \<Rightarrow> database \<Rightarrow> unit db_result \<times> database" where
  "InsertShareLink env l d =
     (if fails env ''CreateShareLink'' [sl_id l] then (Inl Fault, d)
      else if (\<exists>q\<in>set (share_links d). sl_id q = sl_id l \<or> sl_hash q = sl_hash l) \<or> length (sl_hash l) > 32 \<or>
         \<not> (\<exists>p\<in>set (projects d). p_id p = sl_project l) \<or> \<not> (\<exists>u\<in>set (users d). u_id u = sl_creator l)
      then (Inl Conflict, d)
      else (Inr (), d\<lparr>share_links := share_links d @ [l]\<rparr>))"

definition GetShareLinkByHash :: "dbenv \<Rightarrow> string \<Rightarrow> database \<Rightarrow> link_row db_result" where
  "GetShareLinkByHash env hash d =
     query_row env ''GetShareLinkByHash'' [hash] (filter (\<lambda>l. sl_hash l = hash) (share_links d))"

definition RevokeLink :: "dbenv \<Rightarrow> string \<Rightarrow> database \<Rightarrow> unit db_result \<times> database" where
  "RevokeLink env hash =
     exec_stmt env ''RevokeShareLink'' [hash]
       (\<lambda>d. d\<lparr>share_links := update_rows (\<lambda>l. sl_hash l = hash)
          (\<lambda>l. l\<lparr>sl_revoked := Some (db_now env), sl_updated := db_now env\<rparr>) (share_links d)\<rparr>)"

subsection \<open>Access tokens\<close>

definition getShareSigningKey :: "'o share_env \<Rightarrow> string" where
  "getShareSigningKey env =
     (let k = TrimSpace (getenv env ''SHARE_LINK_SIGNING_KEY''); k' = TrimSpace (getenv env ''SUPABASE_SECRET_KEY'')
      in if k \<noteq> '''' then k else if k' \<noteq> '''' then k' else ''purptape-share-link-fallback-key'')"

definition extractShareAccessToken :: "'b request \<Rightarrow> string" where
  "extractShareAccessToken r =
     (let token = TrimSpace (req_hdr r ''X-Share-Access-Token''); authHeader = TrimSpace (req_hdr r ''Authorization'')
      in if token \<noteq> '''' then token
         else if HasPrefix authHeader ''Bearer '' then TrimSpace (TrimPrefix authHeader ''Bearer '')
         else '''')"

definition token_signature :: "'o share_env \<Rightarrow> string \<Rightarrow> string \<Rightarrow> string" where
  "token_signature env key payloadEnc = encode_raw url_alphabet (hmac env key payloadEnc)"

definition generateShareAccessToken ::
  "'o share_env \<Rightarrow> go_time \<Rightarrow> string \<Rightarrow> duration \<Rightarrow> string \<Rightarrow> string \<times> go_time" where
  "generateShareAccessToken env t shareHash ttl signingKey =
     (let expiresAt = t + ttl;
          payloadEnc = encode_raw url_alphabet (marshal env shareHash (expiresAt div second))
      in (payloadEnc @ ''.'' @ token_signature env signingKey payloadEnc, expiresAt))"

definition verifyShareAccessToken :: "'o share_env \<Rightarrow> go_time \<Rightarrow> string \<Rightarrow> string \<Rightarrow> string \<Rightarrow> bool" where
  "verifyShareAccessToken env t token expectedShareHash signingKey =
     (case Split CHR ''.'' token of
        [payloadEnc, providedSig] \<Rightarrow>
          if token_signature env signingKey payloadEnc \<noteq> providedSig then False
          else (case decode_raw url_alphabet payloadEnc of
                  None \<Rightarrow> False
                | Some payload \<Rightarrow>
                    (case unmarshal env payload of
                       None \<Rightarrow> False
                     | Some (hash, exp) \<Rightarrow> hash = expectedShareHash \<and> t div second \<le> exp))
      | _ \<Rightarrow> False)"

text \<open>24 random bytes; without them, the first 32 characters of an identifier.\<close>

definition generateShareHash :: "'o share_env \<Rightarrow> nat \<Rightarrow> string" where
  "generateShareHash env n =
     (case random_bytes env n of
        None \<Rightarrow> take 32 (new_uuid (ae env) n)
      | Some randomBytes \<Rightarrow>
          let hash = encode_padded url_alphabet randomBytes
          in if length hash > 32 then take 32 hash else hash)"

subsection \<open>Handlers\<close>

definition project_json :: "project_row \<Rightarrow> json" where
  "project_json p = JObj [(''ID'', JStr (p_id p)), (''UserID'', JStr (p_user p)), (''Name'', JStr (p_name p)),
     (''Description'', JStr (p_description p)), (''DescriptionFull'', JStr ''''), (''IsPrivate'', JBool False),
     (''IsCollaborative'', JBool False), (''CoverImageID'', JNull), (''Genre'', JStr ''''), (''ReleaseDate'', JNull),
     (''PlayCount'', JNum 0), (''LikeCount'', JNum 0), (''CreatedAt'', JNum (p_created p)),
     (''UpdatedAt'', JNum (p_updated p)), (''DeletedAt'', JNull)]"

record link_body =
  lb_access :: string
  lb_public :: bool
  lb_protected :: bool
  lb_password :: string
  lb_days :: "int option"

definition link_of :: "'o share_env \<Rightarrow> string \<Rightarrow> string \<Rightarrow> string \<Rightarrow> string \<Rightarrow> link_body \<Rightarrow> string \<Rightarrow> link_row" where
  "link_of env i projectID userID hash b passwordHash =
     \<lparr>sl_id = i, sl_project = projectID, sl_creator = userID, sl_hash = hash,
      sl_level = (if lb_access b \<in> {''viewer'', ''commenter'', ''collaborator''} then lb_access b else ''viewer''),
      sl_public = lb_public b, sl_protected = lb_protected b, sl_password = passwordHash,
      sl_expires = (case lb_days b of None \<Rightarrow> None
                    | Some n \<Rightarrow> if n > 0 then Some (add_days env (now (ae env)) n) else None),
      sl_revoked = None, sl_created = now (ae env), sl_updated = now (ae env)\<rparr>"

definition link_url :: "string \<Rightarrow> string" where
  "link_url hash = ''https://purptape.app/p/'' @ hash"

definition GenerateShareLink :: "'o share_env \<Rightarrow> (link_body, 'o app) handler" where
  "GenerateShareLink env r = (\<lambda>(w, s).
     (case GetUserID r of
        None \<Rightarrow> respond (WriteUnauthorized w) s
      | Some userID \<Rightarrow>
          let projectID = path_value r ''project_id''; e = dbe (ae env)
          in case req_body r of
               None \<Rightarrow> respond (http_error ''invalid request'' 400 w) s
             | Some b \<Rightarrow>
                 (case GetProjectByID e projectID userID (app_db s) of
                    Inl _ \<Rightarrow> respond (http_error ''forbidden'' 403 w) s
                  | Inr project \<Rightarrow>
                      if p_user project \<noteq> userID then respond (http_error ''forbidden'' 403 w) s
                      else let hash = generateShareHash env (app_uuids s);
                               pw = (if lb_protected b \<and> lb_password b \<noteq> '''' then bcrypt_hash env (lb_password b)
                                     else Some '''')
                        in case pw of
                             None \<Rightarrow> respond (http_error ''failed to hash password'' 500 w)
                                        (s\<lparr>app_uuids := app_uuids s + 1\<rparr>)
                           | Some passwordHash \<Rightarrow>
                               let l = link_of env (new_uuid (ae env) (app_uuids s + 1)) projectID userID hash b passwordHash;
                                   s = s\<lparr>app_uuids := app_uuids s + 2\<rparr>
                               in case InsertShareLink e l (app_db s) of
                                    (Inl _, d) \<Rightarrow>
                                      respond (http_error ''failed to create share link'' 500 w) (s\<lparr>app_db := d\<rparr>)
                                  | (Inr _, d) \<Rightarrow>
                                      respond (write_json 201 (JObj [(''share_link'', JObj [(''hash'', JStr hash),
                                        (''url'', JStr (link_url hash)), (''access'', JStr (sl_level l)),
                                        (''expires'', json_time (sl_expires l)),
                                        (''password'', JBool (lb_protected b))])]) w) (s\<lparr>app_db := d\<rparr>))))"

definition GetProjectByShareHash :: "'o share_env \<Rightarrow> ('b, 'o app) handler" where
  "GetProjectByShareHash env r = (\<lambda>(w, s).
     (let hash = path_value r ''share_hash''; e = dbe (ae env); t = now (ae env)
      in case GetShareLinkByHash e hash (app_db s) of
           Inl _ \<Rightarrow> respond (WriteNotFound ''share link not found'' w) s
         | Inr l \<Rightarrow>
             if sl_revoked l \<noteq> None then respond (WriteForbidden ''share link revoked'' w) s
             else if (case sl_expires l of None \<Rightarrow> False | Some x \<Rightarrow> t > x) then
               respond (WriteForbidden ''share link expired'' w) s
             else if sl_protected l \<and> (extractShareAccessToken r = '''' \<or>
                 \<not> verifyShareAccessToken env t (extractShareAccessToken r) hash (getShareSigningKey env)) then
               respond (write_error 401 ''password required'' (header_set ''X-Password-Required'' ''true'' w)) s
             else (case GetProjectByID e (sl_project l) '''' (app_db s) of
                     Inl _ \<Rightarrow> respond (WriteNotFound ''project not found'' w) s
                   | Inr p \<Rightarrow> respond (write_json 200 (project_json p) w) s)))"

definition VerifySharePassword :: "'o share_env \<Rightarrow> (string, 'o app) handler" where
  "VerifySharePassword env r = (\<lambda>(w, s).
     (let hash = path_value r ''share_hash''
      in case req_body r of
           None \<Rightarrow> respond (WriteBadRequest ''invalid request'' w) s
         | Some password \<Rightarrow>
             if password = '''' then respond (WriteBadRequest ''password required'' w) s
             else case GetShareLinkByHash (dbe (ae env)) hash (app_db s) of
                    Inl _ \<Rightarrow> respond (WriteNotFound ''share link not found'' w) s
                  | Inr l \<Rightarrow>
                      if \<not> bcrypt_match env (sl_password l) password then
                        respond (WriteForbidden ''invalid password'' w) s
                      else let (accessToken, expiresAt) = generateShareAccessToken env (now (ae env)) hash
                                 (15 * minute) (getShareSigningKey env)
                        in respond (write_json 200 (JObj [(''status'', JStr ''authenticated''),
                             (''access_token'', JStr accessToken), (''expires_at'', JNum expiresAt)]) w) s))"

definition RevokeShareLink :: "'o share_env \<Rightarrow> ('b, 'o app) handler" where
  "RevokeShareLink env r = (\<lambda>(w, s).
     (case GetUserID r of
        None \<Rightarrow> respond (WriteUnauthorized w) s
      | Some userID \<Rightarrow>
          let projectID = path_value r ''project_id''; hash = path_value r ''share_hash''; e = dbe (ae env)
          in case GetProjectByID e projectID userID (app_db s) of
               Inl _ \<Rightarrow> respond (WriteForbidden ''forbidden'' w) s
             | Inr project \<Rightarrow>
                 if p_user project \<noteq> userID then respond (WriteForbidden ''forbidden'' w) s
                 else case GetShareLinkByHash e hash (app_db s) of
                        Inl _ \<Rightarrow> respond (WriteNotFound ''share link not found'' w) s
                      | Inr l \<Rightarrow>
                          if sl_project l \<noteq> projectID \<or> sl_creator l \<noteq> userID then
                            respond (WriteNotFound ''share link not found'' w) s
                          else case RevokeLink e hash (app_db s) of
                                 (Inl _, d) \<Rightarrow> respond (WriteInternalError w) (s\<lparr>app_db := d\<rparr>)
                               | (Inr _, d) \<Rightarrow> respond (WriteNoContent w) (s\<lparr>app_db := d\<rparr>)))"

text \<open>The new link is made before the old one is revoked, and a failure to revoke is only logged.\<close>

definition fresh_link :: "'o share_env \<Rightarrow> string \<Rightarrow> string \<Rightarrow> string \<Rightarrow> link_row \<Rightarrow> link_row" where
  "fresh_link env userID newHash i l =
     l\<lparr>sl_id := i, sl_creator := userID, sl_hash := newHash, sl_revoked := None,
       sl_created := now (ae env), sl_updated := now (ae env)\<rparr>"

definition RegenerateShareHash :: "'o share_env \<Rightarrow> ('b, 'o app) handler" where
  "RegenerateShareHash env r = (\<lambda>(w, s).
     (case GetUserID r of
        None \<Rightarrow> respond (WriteUnauthorized w) s
      | Some userID \<Rightarrow>
          let projectID = path_value r ''project_id''; hash = path_value r ''share_hash''; e = dbe (ae env)
          in case GetProjectByID e projectID userID (app_db s) of
               Inl _ \<Rightarrow> respond (WriteForbidden ''forbidden'' w) s
             | Inr project \<Rightarrow>
                 if p_user project \<noteq> userID then respond (WriteForbidden ''forbidden'' w) s
                 else case GetShareLinkByHash e hash (app_db s) of
                        Inl _ \<Rightarrow> respond (WriteNotFound ''share link not found'' w) s
                      | Inr l \<Rightarrow>
                          if sl_project l \<noteq> projectID then respond (WriteNotFound ''share link not found'' w) s
                          else let newHash = generateShareHash env (app_uuids s);
                                   l' = fresh_link env userID newHash (new_uuid (ae env) (app_uuids s + 1)) l;
                                   s = s\<lparr>app_uuids := app_uuids s + 2\<rparr>
                            in case InsertShareLink e l' (app_db s) of
                                 (Inl _, d) \<Rightarrow> respond (http_error ''failed to regenerate'' 500 w) (s\<lparr>app_db := d\<rparr>)
                               | (Inr _, d) \<Rightarrow>
                                   respond (write_json 200 (JObj [(''new_hash'', JStr newHash),
                                       (''new_url'', JStr (link_url newHash)), (''old_hash'', JStr hash)]) w)
                                     (s\<lparr>app_db := snd (RevokeLink e hash d)\<rparr>)))"

subsection \<open>Who may manage links\<close>

definition owns_project :: "'b request \<Rightarrow> 'o app \<Rightarrow> bool" where
  "owns_project r s \<longleftrightarrow> (\<exists>u. GetUserID r = Some u \<and> owns (app_db s) (path_value r ''project_id'') u)"

lemma guarded_by_owner:
  fixes h :: "('b, 'o app) handler"
  assumes "\<And>w r s. wrote w = None \<Longrightarrow> GetUserID r = None \<Longrightarrow> refused (h r (w, s)) s"
    and "\<And>w r s u. wrote w = None \<Longrightarrow> GetUserID r = Some u \<Longrightarrow>
       (\<And>p. GetProjectByID e (path_value r ''project_id'') u (app_db s) = Inr p \<Longrightarrow> p_user p \<noteq> u) \<Longrightarrow>
       refused (h r (w, s)) s"
  shows "guarded h owns_project"
proof
  fix w :: rwriter and r :: "'b request" and s :: "'o app"
  assume w: "wrote w = None" and no: "\<not> owns_project r s"
  show "refused (h r (w, s)) s"
  proof (cases "GetUserID r")
    case None
    with w assms(1) show ?thesis by blast
  next
    case (Some u)
    have "p_user p \<noteq> u" if "GetProjectByID e (path_value r ''project_id'') u (app_db s) = Inr p" for p
      using no Some GetProjectByID_InrD(1-3) [OF that] by (auto simp: owns_project_def owns_def)
    with assms(2) [OF w Some] show ?thesis by blast
  qed
qed

interpretation generate_link: guarded "GenerateShareLink env :: (link_body, 'o app) handler" owns_project for env
  by (rule guarded_by_owner [where e = "dbe (ae env)"])
     (auto simp: GenerateShareLink_def Let_def intro: refused_http_error split: option.splits sum.splits)

interpretation revoke_link: guarded "RevokeShareLink env :: ('b, 'o app) handler" owns_project for env
  by (rule guarded_by_owner [where e = "dbe (ae env)"])
     (auto simp: RevokeShareLink_def Let_def split: sum.splits)

interpretation regenerate_link: guarded "RegenerateShareHash env :: ('b, 'o app) handler" owns_project for env
  by (rule guarded_by_owner [where e = "dbe (ae env)"])
     (auto simp: RegenerateShareHash_def Let_def split: sum.splits)

subsection \<open>The gate\<close>

definition link_live :: "link_row \<Rightarrow> go_time \<Rightarrow> bool" where
  "link_live l t \<longleftrightarrow> sl_revoked l = None \<and> (case sl_expires l of None \<Rightarrow> True | Some x \<Rightarrow> t \<le> x)"

definition token_opens :: "'o share_env \<Rightarrow> 'b request \<Rightarrow> bool" where
  "token_opens env r \<longleftrightarrow> verifyShareAccessToken env (now (ae env)) (extractShareAccessToken r)
     (path_value r ''share_hash'') (getShareSigningKey env)"

lemma no_empty_token [simp]: "\<not> verifyShareAccessToken env t '''' h k"
  by (simp add: verifyShareAccessToken_def)

text \<open>The user of a share link is the empty identifier, which no row carries.\<close>

definition no_empty_user :: "database \<Rightarrow> bool" where
  "no_empty_user d \<longleftrightarrow> (\<forall>p\<in>set (projects d). p_user p \<noteq> '''') \<and> (\<forall>ps\<in>set (shares d). ps_with ps \<noteq> Some '''')"

lemma no_project_for_link:
  assumes "no_empty_user d" shows "\<exists>e. GetProjectByID env projectID '''' d = Inl e"
proof (cases "GetProjectByID env projectID '''' d")
  case (Inr p)
  then have "member d projectID ''''" by (rule GetProjectByID_InrD(4))
  with assms have False
    by (auto simp: member_def no_empty_user_def shared_with_def list_ex_iff active_share_def)
  then show ?thesis ..
qed simp

lemma GetProjectByShareHash_state [simp]: "snd (snd (GetProjectByShareHash env r (w, s))) = s"
  by (auto simp: GetProjectByShareHash_def Let_def respond_def split: sum.splits)

lemma share_gate_lemma:
  assumes "wrote w = None" and "no_empty_user (app_db s)"
    and "GetShareLinkByHash (dbe (ae env)) (path_value r ''share_hash'') (app_db s) = Inr l"
  shows "wrote (fst (snd (GetProjectByShareHash env r (w, s)))) =
     Some (if \<not> link_live l (now (ae env)) then 403
           else if sl_protected l \<and> \<not> token_opens env r then 401 else 404)"
proof -
  obtain e where "GetProjectByID (dbe (ae env)) (sl_project l) '''' (app_db s) = Inl e"
    using no_project_for_link [OF assms(2)] by blast
  then show ?thesis
    using assms(1,3)
    by (cases "extractShareAccessToken r = ''''"; cases "sl_expires l")
       (auto simp: GetProjectByShareHash_def Let_def respond_def link_live_def token_opens_def response_defs)
qed

text \<open>C7: a share link is refused with 403 when it is revoked or expired and with 401 when it is protected
  and the request carries no valid access token; a request that passes all of these is answered with 404,
  because the project is looked up for the empty user.\<close>

theorem share_gate:
  assumes "wrote w = None" and "no_empty_user (app_db s)"
    and "GetShareLinkByHash (dbe (ae env)) (path_value r ''share_hash'') (app_db s) = Inr l"
  shows "wrote (fst (snd (GetProjectByShareHash env r (w, s)))) =
     Some (if \<not> link_live l (now (ae env)) then 403
           else if sl_protected l \<and> \<not> token_opens env r then 401 else 404)"
  using assms by (rule share_gate_lemma)

subsection \<open>Access tokens and passwords\<close>

lemma encode_url_chars: "set (encode_raw url_alphabet s) \<subseteq> set url_alphabet"
proof -
  have "length url_alphabet = 64" by code_simp
  moreover have "v < 64" if "v \<in> set (sextets (bytes_of s))" for v
    using that sextets_bound bytes_of_bound by blast
  ultimately show ?thesis by (auto simp: encode_raw_def intro!: nth_mem)
qed

definition token_chars :: "char set" where
  "token_chars = insert CHR ''.'' (set url_alphabet)"

lemma space_runes_not_token:
  "\<forall>w\<in>set space_runes. w \<noteq> [] \<and> hd w \<notin> token_chars \<and> hd (rev w) \<notin> token_chars"
  by code_simp

lemma TrimSpace_token: assumes "set s \<subseteq> token_chars" shows "TrimSpace s = s"
proof -
  have 1: "strip_left space_runes s = s"
    using assms space_runes_not_token by (intro strip_left_id) (auto simp: HasPrefix_iff neq_Nil_conv)
  have 2: "strip_left (map rev space_runes) (rev s) = rev s"
  proof (rule strip_left_id)
    fix w assume "w \<in> set (map rev space_runes)" "w \<noteq> []"
    then obtain v where v: "v \<in> set space_runes" "w = rev v" by auto
    then have "hd w \<notin> set s" using assms space_runes_not_token by blast
    with \<open>w \<noteq> []\<close> show "\<not> HasPrefix (rev s) w"
      by (auto simp: HasPrefix_iff neq_Nil_conv rev_eq_append_conv)
  qed
  show ?thesis by (simp add: TrimSpace_def 1 2)
qed

lemma dot_not_in_url: "CHR ''.'' \<notin> set url_alphabet"
  by code_simp

lemma token_parts:
  "Split CHR ''.'' (encode_raw url_alphabet p @ CHR ''.'' # encode_raw url_alphabet q) =
     [encode_raw url_alphabet p, encode_raw url_alphabet q]"
proof -
  have no_dot: "CHR ''.'' \<notin> set (encode_raw url_alphabet x)" for x
    using encode_url_chars dot_not_in_url by blast
  show ?thesis by (rule Split_two [OF no_dot no_dot])
qed

definition payload_law :: "'o share_env \<Rightarrow> bool" where
  "payload_law env \<longleftrightarrow> (\<forall>h x. unmarshal env (marshal env h x) = Some (h, x))"

lemma generated_token_verifies:
  assumes "payload_law env"
  shows "verifyShareAccessToken env t' (fst (generateShareAccessToken env t h ttl key)) h' key \<longleftrightarrow>
     h' = h \<and> t' div second \<le> (t + ttl) div second"
  using assms good_alphabets(2)
  by (auto simp: verifyShareAccessToken_def generateShareAccessToken_def Let_def token_signature_def
      token_parts payload_law_def decode_raw_encode)

lemma generated_token_trimmed:
  "TrimSpace (fst (generateShareAccessToken env t h ttl key)) = fst (generateShareAccessToken env t h ttl key)"
  using encode_url_chars
  by (intro TrimSpace_token) (auto simp: generateShareAccessToken_def Let_def token_signature_def token_chars_def)

lemma accepted_token_signed:
  assumes "verifyShareAccessToken env t token h key"
  shows "\<exists>p x. token = p @ ''.'' @ token_signature env key p \<and>
     unmarshal env (the (decode_raw url_alphabet p)) = Some (h, x) \<and> t div second \<le> x"
proof -
  obtain p x2 x where p: "Split CHR ''.'' token = [p, token_signature env key p]" "decode_raw url_alphabet p = Some x2"
      "unmarshal env x2 = Some (h, x)" "t div second \<le> x"
    using assms by (auto simp: verifyShareAccessToken_def split: list.splits option.splits if_splits)
  have "token = p @ ''.'' @ token_signature env key p"
    using Join_Split [of "CHR ''.''" token] unfolding p(1) by simp
  with p(2-4) show ?thesis by auto
qed

definition at_time :: "'o share_env \<Rightarrow> go_time \<Rightarrow> 'o share_env" where
  "at_time env t = env\<lparr>ae := (ae env)\<lparr>now := t\<rparr>\<rparr>"

lemma at_time_simps [simp]:
  "now (ae (at_time env t)) = t" "dbe (ae (at_time env t)) = dbe (ae env)"
  "getShareSigningKey (at_time env t) = getShareSigningKey env"
  "verifyShareAccessToken (at_time env t) = verifyShareAccessToken env"
  by (auto simp: at_time_def getShareSigningKey_def verifyShareAccessToken_def token_signature_def fun_eq_iff
      split: list.splits option.splits)

text \<open>The right password for a link is answered with an access token, and a request that carries it is
  asked for the password exactly when it is for another link or comes after the fifteen minutes, at the
  granularity of seconds.\<close>

theorem password_opens_link:
  assumes "payload_law env" and "wrote w = None" "gz w = None" and "no_empty_user (app_db s)"
    and "req_body r = Some password" "password \<noteq> ''''" and "path_value r ''share_hash'' = h"
    and "GetShareLinkByHash (dbe (ae env)) h (app_db s) = Inr l" and "bcrypt_match env (sl_password l) password"
    and "GetShareLinkByHash (dbe (ae env)) h' (app_db s) = Inr l'" "link_live l' t" "sl_protected l'"
  shows "\<exists>tok x. out (fst (snd (VerifySharePassword env r (w, s)))) =
      out w @ [Json (JObj [(''status'', JStr ''authenticated''), (''access_token'', JStr tok), (''expires_at'', JNum x)])] \<and>
     (\<forall>q :: 'b request. path_value q ''share_hash'' = h' \<and> req_hdr q ''X-Share-Access-Token'' = tok \<longrightarrow>
        (wrote (fst (snd (GetProjectByShareHash (at_time env t) q (w, s)))) = Some 401 \<longleftrightarrow>
         h' \<noteq> h \<or> t div second > (now (ae env) + 15 * minute) div second))"
proof -
  define tx where "tx = generateShareAccessToken env (now (ae env)) h (15 * minute) (getShareSigningKey env)"
  have out: "out (fst (snd (VerifySharePassword env r (w, s)))) =
      out w @ [Json (JObj [(''status'', JStr ''authenticated''), (''access_token'', JStr (fst tx)), (''expires_at'', JNum (snd tx))])]"
    using assms by (simp add: VerifySharePassword_def Let_def tx_def respond_def write_json_def split_beta)
  have "token_opens (at_time env t) q \<longleftrightarrow> h' = h \<and> t div second \<le> (now (ae env) + 15 * minute) div second"
    if q: "path_value q ''share_hash'' = h'" "req_hdr q ''X-Share-Access-Token'' = fst tx" for q :: "'b request"
  proof -
    have "fst tx \<noteq> ''''" by (simp add: tx_def generateShareAccessToken_def Let_def)
    then have "extractShareAccessToken q = fst tx"
      using q(2) generated_token_trimmed [of env _ h] by (simp add: extractShareAccessToken_def tx_def)
    with q(1) show ?thesis
      using generated_token_verifies [OF assms(1)] by (simp add: token_opens_def tx_def)
  qed
  moreover have "wrote (fst (snd (GetProjectByShareHash (at_time env t) q (w, s)))) =
      Some (if token_opens (at_time env t) q then 404 else 401)" if "path_value q ''share_hash'' = h'" for q :: "'b request"
    using share_gate_lemma [of w s "at_time env t" q l'] assms that by simp
  ultimately show ?thesis using out by (intro exI [of _ "fst tx"] exI [of _ "snd tx"]) auto
qed

subsection \<open>Replacing a link\<close>

definition same_settings :: "link_row \<Rightarrow> link_row \<Rightarrow> bool" where
  "same_settings l l' \<longleftrightarrow> sl_project l' = sl_project l \<and> sl_level l' = sl_level l \<and> sl_public l' = sl_public l \<and>
     sl_protected l' = sl_protected l \<and> sl_password l' = sl_password l \<and> sl_expires l' = sl_expires l"

lemma RevokeLink_effect:
  assumes "\<forall>c args. \<not> fails env c args"
  shows "snd (RevokeLink env hash d) = d\<lparr>share_links := update_rows (\<lambda>l. sl_hash l = hash)
     (\<lambda>l. l\<lparr>sl_revoked := Some (db_now env), sl_updated := db_now env\<rparr>) (share_links d)\<rparr>"
  using assms by (simp add: RevokeLink_def exec_stmt_def)

lemma InsertShareLink_InrD:
  assumes "InsertShareLink env l d = (Inr u, d')"
  shows "d' = d\<lparr>share_links := share_links d @ [l]\<rparr>" "\<forall>q\<in>set (share_links d). sl_hash q \<noteq> sl_hash l"
  using assms by (auto simp: InsertShareLink_def split: if_splits)

lemma regenerate_success:
  assumes "RegenerateShareHash env r (w, s) = (res, w', s')" "wrote w = None" "wrote w' = Some 200"
  obtains u l l' d where "GetUserID r = Some u" "owns (app_db s) (path_value r ''project_id'') u"
    "GetShareLinkByHash (dbe (ae env)) (path_value r ''share_hash'') (app_db s) = Inr l"
    "same_settings l l'" "sl_revoked l' = None" "sl_creator l' = u"
    "InsertShareLink (dbe (ae env)) l' (app_db s) = (Inr (), d)"
    "app_db s' = snd (RevokeLink (dbe (ae env)) (path_value r ''share_hash'') d)"
proof -
  have live: "owns (app_db s) (path_value r ''project_id'') (p_user p)"
    if "GetProjectByID (dbe (ae env)) (path_value r ''project_id'') (p_user p) (app_db s) = Inr p" for p
    using GetProjectByID_InrD(1-3) [OF that] by (auto simp: owns_def)
  have same: "same_settings l (fresh_link env u h i l)" "sl_revoked (fresh_link env u h i l) = None"
    "sl_creator (fresh_link env u h i l) = u" for l u h i
    by (simp_all add: same_settings_def fresh_link_def)
  show thesis
    using assms
    by (auto simp: RegenerateShareHash_def Let_def respond_def response_defs
        split: option.splits sum.splits if_splits prod.splits intro!: that same live)
qed

text \<open>Replacing a link leaves its owner with one that has a new hash and the same settings and is not
  revoked, revokes the one replaced, and leaves every other link as it was.\<close>

theorem regenerate_replaces:
  assumes "RegenerateShareHash env r (w, s) = (res, w', s')" and "wrote w = None" "wrote w' = Some 200"
    and works: "\<forall>c args. \<not> fails (dbe (ae env)) c args"
  shows "\<exists>l l' old. GetShareLinkByHash (dbe (ae env)) old (app_db s) = Inr l \<and> old = path_value r ''share_hash'' \<and>
     same_settings l l' \<and> GetShareLinkByHash (dbe (ae env)) (sl_hash l') (app_db s') = Inr l' \<and>
     sl_revoked l' = None \<and> sl_hash l' \<noteq> old \<and>
     (\<forall>q\<in>set (share_links (app_db s')). sl_hash q = old \<longrightarrow> sl_revoked q \<noteq> None) \<and>
     filter (\<lambda>q. sl_hash q \<notin> {old, sl_hash l'}) (share_links (app_db s')) =
     filter (\<lambda>q. sl_hash q \<notin> {old, sl_hash l'}) (share_links (app_db s))"
proof -
  let ?old = "path_value r ''share_hash''"
  obtain l l' d where l: "GetShareLinkByHash (dbe (ae env)) ?old (app_db s) = Inr l" "same_settings l l'"
      "sl_revoked l' = None" and ins: "InsertShareLink (dbe (ae env)) l' (app_db s) = (Inr (), d)"
    and s': "app_db s' = snd (RevokeLink (dbe (ae env)) ?old d)"
    using regenerate_success [OF assms(1-3)] by metis
  have mem: "l \<in> set (share_links (app_db s))" "sl_hash l = ?old"
    using query_row_InrD [OF l(1) [unfolded GetShareLinkByHash_def]] by auto
  then have ne: "sl_hash l' \<noteq> ?old" using InsertShareLink_InrD(2) [OF ins] by auto
  let ?f = "\<lambda>l :: link_row. l\<lparr>sl_revoked := Some (db_now (dbe (ae env))), sl_updated := db_now (dbe (ae env))\<rparr>"
  have links: "share_links (app_db s') = update_rows (\<lambda>l. sl_hash l = ?old) ?f (share_links (app_db s)) @ [l']"
    using ne by (simp add: s' RevokeLink_effect [OF works] InsertShareLink_InrD(1) [OF ins] update_rows_def)
  have new: "filter (\<lambda>q. sl_hash q = sl_hash l') (share_links (app_db s')) = [l']"
    using InsertShareLink_InrD(2) [OF ins] by (auto simp: links filter_empty_conv set_update_rows)
  have others: "filter (\<lambda>q. sl_hash q \<notin> {?old, sl_hash l'}) (update_rows (\<lambda>l. sl_hash l = ?old) ?f ls) =
      filter (\<lambda>q. sl_hash q \<notin> {?old, sl_hash l'}) ls" for ls
    by (induction ls) auto
  show ?thesis
  proof (intro exI conjI)
    show "GetShareLinkByHash (dbe (ae env)) (sl_hash l') (app_db s') = Inr l'"
      using works by (simp add: GetShareLinkByHash_def new query_row_def)
    show "\<forall>q\<in>set (share_links (app_db s')). sl_hash q = ?old \<longrightarrow> sl_revoked q \<noteq> None"
      using ne by (auto simp: links set_update_rows)
    show "filter (\<lambda>q. sl_hash q \<notin> {?old, sl_hash l'}) (share_links (app_db s')) =
      filter (\<lambda>q. sl_hash q \<notin> {?old, sl_hash l'}) (share_links (app_db s))"
      using others by (simp add: links)
  qed (use l ne in simp_all)
qed

subsection \<open>Samples\<close>

definition sample_marshal :: "string \<Rightarrow> int \<Rightarrow> string" where
  "sample_marshal h x = (if x < 0 then CHR ''-'' else CHR ''+'') # replicate (nat \<bar>x\<bar>) CHR ''1'' @ CHR '':'' # h"

definition sample_unmarshal :: "string \<Rightarrow> (string \<times> int) option" where
  "sample_unmarshal s =
     (let n = length (takeWhile (\<lambda>c. c = CHR ''1'') (tl s))
      in Some (drop (n + 2) s, if hd s = CHR ''-'' then - int n else int n))"

definition sample_share :: "unit share_env" where
  "sample_share = \<lparr>ae = sample_env, bcrypt_hash = \<lambda>p. Some p, bcrypt_match = \<lambda>h p. h = p, hmac = \<lambda>k m. k @ m,
     marshal = sample_marshal, unmarshal = sample_unmarshal, random_bytes = \<lambda>n. Some (show_nat n),
     add_days = \<lambda>t n. t + n * 86400 * second, getenv = \<lambda>v. ''''\<rparr>"

lemma payload_law_sample: "payload_law sample_share"
proof -
  have "takeWhile (\<lambda>c. c = CHR ''1'') (replicate n CHR ''1'' @ CHR '':'' # h) = replicate n CHR ''1''" for n h
    by (induction n) auto
  then show ?thesis
    by (simp add: payload_law_def sample_share_def sample_marshal_def sample_unmarshal_def Let_def)
qed

definition sample_link :: link_row where
  "sample_link = \<lparr>sl_id = ''l'', sl_project = ''p'', sl_creator = ''u'', sl_hash = ''h'', sl_level = ''viewer'',
     sl_public = False, sl_protected = True, sl_password = ''pw'', sl_expires = None, sl_revoked = None,
     sl_created = 0, sl_updated = 0\<rparr>"

definition shared_app :: "unit app" where
  "shared_app = sample_app\<lparr>app_db := sample_db\<lparr>share_links := [sample_link]\<rparr>\<rparr>"

lemma shared_app_link:
  "GetShareLinkByHash (dbe (ae sample_share)) ''h'' (app_db shared_app) = Inr sample_link"
  by (simp add: GetShareLinkByHash_def query_row_def sample_share_def sample_env_def calm_env_def shared_app_def
      sample_link_def)

lemma shared_app_users: "no_empty_user (app_db shared_app)"
  by (simp add: no_empty_user_def shared_app_def sample_db_def empty_db_def)

theorem share_gate_witness:
  "wrote (fst (snd (GetProjectByShareHash sample_share
     (plain_request\<lparr>path_value := \<lambda>k. ''h''\<rparr> :: unit request) (new_writer, shared_app)))) = Some 401"
proof -
  have "extractShareAccessToken (plain_request\<lparr>path_value := \<lambda>k. ''h''\<rparr> :: unit request) = ''''"
    by (simp add: extractShareAccessToken_def plain_request_def Let_def HasPrefix_def)
  then show ?thesis
    using share_gate [of new_writer shared_app sample_share "plain_request\<lparr>path_value := \<lambda>k. ''h''\<rparr> :: unit request" sample_link]
      shared_app_link shared_app_users
    by (simp add: token_opens_def link_live_def sample_link_def plain_request_def)
qed

theorem password_opens_link_witness:
  "\<exists>tok x. out (fst (snd (VerifySharePassword sample_share
        (plain_request\<lparr>path_value := \<lambda>k. ''h'', req_body := Some ''pw''\<rparr>) (new_writer, shared_app)))) =
      [Json (JObj [(''status'', JStr ''authenticated''), (''access_token'', JStr tok), (''expires_at'', JNum x)])] \<and>
     wrote (fst (snd (GetProjectByShareHash (at_time sample_share (10 * minute))
        (plain_request\<lparr>path_value := \<lambda>k. ''h'', req_hdr := \<lambda>k. tok\<rparr> :: unit request) (new_writer, shared_app)))) \<noteq> Some 401"
proof -
  let ?r = "plain_request\<lparr>path_value := \<lambda>k. ''h'', req_body := Some ''pw''\<rparr>"
  have "bcrypt_match sample_share (sl_password sample_link) ''pw''"
    by (simp add: sample_share_def sample_link_def)
  moreover have "link_live sample_link (10 * minute)" "sl_protected sample_link"
    by (simp_all add: link_live_def sample_link_def)
  ultimately obtain tok x where tok:
      "out (fst (snd (VerifySharePassword sample_share ?r (new_writer, shared_app)))) = out new_writer @
        [Json (JObj [(''status'', JStr ''authenticated''), (''access_token'', JStr tok), (''expires_at'', JNum x)])]"
      "\<forall>q :: unit request. path_value q ''share_hash'' = ''h'' \<and> req_hdr q ''X-Share-Access-Token'' = tok \<longrightarrow>
        (wrote (fst (snd (GetProjectByShareHash (at_time sample_share (10 * minute)) q (new_writer, shared_app)))) = Some 401
         \<longleftrightarrow> ''h'' \<noteq> ''h'' \<or> (10 * minute) div second > (now (ae sample_share) + 15 * minute) div second)"
    using password_opens_link [of sample_share new_writer shared_app ?r "''pw''" "''h''" sample_link "''h''" sample_link
        "10 * minute"] payload_law_sample shared_app_users shared_app_link
    by (auto simp: plain_request_def)
  have "\<not> (10 * minute) div second > (now (ae sample_share) + 15 * minute) div second"
    by (simp add: sample_share_def sample_env_def)
  with tok show ?thesis by (intro exI [of _ tok] exI [of _ x]) (simp add: plain_request_def)
qed

definition manage_request :: "unit request" where
  "manage_request = as_user ''u'' (\<lambda>k. if k = ''project_id'' then ''p'' else ''h'')"

theorem regenerate_replaces_witness:
  "\<exists>res w' s'. RegenerateShareHash sample_share manage_request (new_writer, shared_app) = (res, w', s') \<and>
     wrote w' = Some 200 \<and>
     (\<exists>l'. GetShareLinkByHash (dbe (ae sample_share)) (sl_hash l') (app_db s') = Inr l' \<and> sl_password l' = ''pw'') \<and>
     (\<forall>q\<in>set (share_links (app_db s')). sl_hash q = ''h'' \<longrightarrow> sl_revoked q \<noteq> None)"
proof -
  obtain res w' s' where run: "RegenerateShareHash sample_share manage_request (new_writer, shared_app) = (res, w', s')"
    by (metis prod_cases3)
  have h: "encode_padded url_alphabet (show_nat 0) = ''MA==''" by code_simp
  have hash: "generateShareHash sample_share 0 = ''MA==''"
    unfolding generateShareHash_def using h by (simp add: sample_share_def Let_def)
  have "fst (InsertShareLink (dbe (ae sample_share)) (fresh_link sample_share ''u'' ''MA=='' i sample_link)
      (app_db shared_app)) = Inr ()" if "i \<noteq> ''l''" for i
    using that by (simp add: InsertShareLink_def fresh_link_def sample_link_def shared_app_def sample_db_def
        sample_share_def sample_env_def calm_env_def)
  moreover have "new_uuid (ae sample_share) 1 \<noteq> ''l''" by (simp add: sample_share_def sample_env_def)
  ultimately obtain d where ins: "InsertShareLink (dbe (ae sample_share))
      (fresh_link sample_share ''u'' ''MA=='' (new_uuid (ae sample_share) 1) sample_link) (app_db shared_app) = (Inr (), d)"
    by (metis prod.collapse)
  have p: "\<exists>p. GetProjectByID (dbe (ae sample_share)) ''p'' ''u'' (app_db shared_app) = Inr p \<and> p_user p = ''u''"
    by (simp add: GetProjectByID_def query_row_def sample_share_def sample_env_def calm_env_def shared_app_def sample_db_def)
  have r: "GetUserID manage_request = Some ''u''" "path_value manage_request ''project_id'' = ''p''"
    "path_value manage_request ''share_hash'' = ''h''" by (simp_all add: manage_request_def)
  have n: "app_uuids shared_app = 0" "sl_project sample_link = ''p''"
    by (simp_all add: shared_app_def sample_app_def sample_link_def)
  have 200: "wrote w' = Some 200"
    using run p unfolding RegenerateShareHash_def Let_def r
    by (auto simp: shared_app_link n hash ins [unfolded One_nat_def] respond_def)
  have works: "\<forall>c args. \<not> fails (dbe (ae sample_share)) c args"
    by (simp add: sample_share_def sample_env_def calm_env_def)
  show ?thesis
    using regenerate_replaces [OF run new_writer_simps(2) 200 works] run 200 shared_app_link unfolding r
    by (auto simp: same_settings_def sample_link_def intro!: exI)
qed

end
