(* ===== verification/Social.thy ===== *)
theory Social
  imports ShareLinks
begin

text \<open>
  \<open>handlers/collaboration.go\<close> with its queries in \<open>db/queries_phase2.go\<close>: privacy, collaborators, likes,
  comments, follows and the notifications of a user.

  Likes and follows are relations kept in a table: the locale \<open>pair_table\<close> is their contract, a table with
  one row per pair, and both are interpretations of it.
\<close>

subsection \<open>Queries\<close>

definition CreateLike :: "dbenv \<Rightarrow> like_row \<Rightarrow> database \<Rightarrow> unit db_result \<times> database" where
  "CreateLike env l d =
     (if fails env ''CreateLike'' [lk_user l, lk_track l] then (Inl Fault, d)
      else if \<not> (\<exists>u\<in>set (users d). u_id u = lk_user l) \<or> \<not> (\<exists>t\<in>set (tracks d). t_id t = lk_track l)
      then (Inl Conflict, d)
      else if \<exists>q\<in>set (likes d). lk_user q = lk_user l \<and> lk_track q = lk_track l then (Inr (), d)
      else if \<exists>q\<in>set (likes d). lk_id q = lk_id l then (Inl Conflict, d)
      else (Inr (), d\<lparr>likes := likes d @ [l]\<rparr>))"

definition DeleteLike :: "dbenv \<Rightarrow> string \<Rightarrow> string \<Rightarrow> database \<Rightarrow> unit db_result \<times> database" where
  "DeleteLike env userID trackID =
     exec_stmt env ''DeleteLike'' [userID, trackID]
       (\<lambda>d. d\<lparr>likes := filter (\<lambda>l. \<not> (lk_user l = userID \<and> lk_track l = trackID)) (likes d)\<rparr>)"

definition CreateComment :: "dbenv \<Rightarrow> comment_row \<Rightarrow> database \<Rightarrow> unit db_result \<times> database" where
  "CreateComment env c d =
     (if fails env ''CreateComment'' [cm_id c] then (Inl Fault, d)
      else if (\<exists>q\<in>set (comments d). cm_id q = cm_id c) \<or> \<not> (\<exists>u\<in>set (users d). u_id u = cm_user c) \<or>
         \<not> (\<exists>v\<in>set (versions d). v_id v = cm_version c) then (Inl Conflict, d)
      else (Inr (), d\<lparr>comments := comments d @ [c]\<rparr>))"

definition GetComments :: "dbenv \<Rightarrow> string \<Rightarrow> database \<Rightarrow> comment_row list db_result" where
  "GetComments env trackVersionID d =
     query_all env ''GetComments'' [trackVersionID]
       (order_asc cm_created (filter (\<lambda>c. cm_version c = trackVersionID) (comments d)))"

definition CreateFollow :: "dbenv \<Rightarrow> follow_row \<Rightarrow> database \<Rightarrow> unit db_result \<times> database" where
  "CreateFollow env f d =
     (if fails env ''CreateFollow'' [fo_follower f, fo_following f] then (Inl Fault, d)
      else if fo_follower f = fo_following f \<or> \<not> (\<exists>u\<in>set (users d). u_id u = fo_follower f) \<or>
         \<not> (\<exists>u\<in>set (users d). u_id u = fo_following f) then (Inl Conflict, d)
      else if \<exists>q\<in>set (follows d). fo_follower q = fo_follower f \<and> fo_following q = fo_following f then (Inr (), d)
      else if \<exists>q\<in>set (follows d). fo_id q = fo_id f then (Inl Conflict, d)
      else (Inr (), d\<lparr>follows := follows d @ [f]\<rparr>))"

definition DeleteFollow :: "dbenv \<Rightarrow> string \<Rightarrow> string \<Rightarrow> database \<Rightarrow> unit db_result \<times> database" where
  "DeleteFollow env followerID followingID =
     exec_stmt env ''DeleteFollow'' [followerID, followingID]
       (\<lambda>d. d\<lparr>follows := filter (\<lambda>f. \<not> (fo_follower f = followerID \<and> fo_following f = followingID)) (follows d)\<rparr>)"

text \<open>Scanning the users stops at the first row with a \<open>NULL\<close> avatar.\<close>

fun scan_users :: "user_row list \<Rightarrow> user_row list db_result" where
  "scan_users [] = Inr []"
| "scan_users (u # us) =
     (case scan_user u of Inl e \<Rightarrow> Inl e
      | Inr u \<Rightarrow> (case scan_users us of Inl e \<Rightarrow> Inl e | Inr us \<Rightarrow> Inr (u # us)))"

definition users_of :: "database \<Rightarrow> string list \<Rightarrow> user_row list" where
  "users_of d ids = concat (map (\<lambda>i. filter (\<lambda>u. u_id u = i) (users d)) ids)"

definition GetFollowing :: "dbenv \<Rightarrow> string \<Rightarrow> database \<Rightarrow> user_row list db_result" where
  "GetFollowing env userID d =
     (if fails env ''GetFollowing'' [userID] then Inl Fault
      else scan_users (users_of d (map fo_following
             (order_desc fo_created (filter (\<lambda>f. fo_follower f = userID) (follows d))))))"

definition GetFollowers :: "dbenv \<Rightarrow> string \<Rightarrow> database \<Rightarrow> user_row list db_result" where
  "GetFollowers env userID d =
     (if fails env ''GetFollowers'' [userID] then Inl Fault
      else scan_users (users_of d (map fo_follower
             (order_desc fo_created (filter (\<lambda>f. fo_following f = userID) (follows d))))))"

definition GetNotifications :: "dbenv \<Rightarrow> string \<Rightarrow> database \<Rightarrow> notification_row list db_result" where
  "GetNotifications env userID d =
     query_page env ''GetNotifications'' [userID] 100 0
       (order_desc n_created (filter (\<lambda>n. n_user n = userID) (notifications d)))"

definition MarkNotificationAsRead :: "dbenv \<Rightarrow> string \<Rightarrow> database \<Rightarrow> unit db_result \<times> database" where
  "MarkNotificationAsRead env notificationID =
     exec_stmt env ''MarkNotificationAsRead'' [notificationID]
       (\<lambda>d. d\<lparr>notifications := update_rows (\<lambda>n. n_id n = notificationID) (\<lambda>n. n\<lparr>n_read := True\<rparr>) (notifications d)\<rparr>)"

subsection \<open>Handlers\<close>

definition json_opt :: "string option \<Rightarrow> json" where
  "json_opt x = (case x of None \<Rightarrow> JNull | Some s \<Rightarrow> JStr s)"

definition user_json :: "user_row \<Rightarrow> json" where
  "user_json u = JObj [(''ID'', JStr (u_id u)), (''Email'', JStr (u_email u)), (''Username'', JStr (u_username u)),
     (''AvatarURL'', json_opt (u_avatar u)), (''Role'', JStr ''''), (''CreatedAt'', JNum (u_created u)),
     (''UpdatedAt'', JNum (u_updated u)), (''DeletedAt'', json_time (u_deleted u))]"

definition comment_json :: "comment_row \<Rightarrow> json" where
  "comment_json c = JObj [(''ID'', JStr (cm_id c)), (''UserID'', JStr (cm_user c)),
     (''TrackVersionID'', JStr (cm_version c)), (''Content'', JStr (cm_content c)),
     (''TimestampMs'', json_time (cm_timestamp c)), (''CreatedAt'', JNum (cm_created c)),
     (''UpdatedAt'', JNum (cm_updated c))]"

definition collaborator_json :: "collaborator_row \<Rightarrow> json" where
  "collaborator_json c = JObj [(''ID'', JStr (c_id c)), (''ProjectID'', JStr (c_project c)), (''UserID'', JStr (c_user c)),
     (''Role'', JStr (c_role c)), (''InvitedAt'', JNum (c_invited c)), (''JoinedAt'', json_time (c_joined c))]"

definition notification_json :: "notification_row \<Rightarrow> json" where
  "notification_json n = JObj [(''ID'', JStr (n_id n)), (''UserID'', JStr (n_user n)),
     (''ActorUserID'', json_opt (n_actor n)), (''Type'', JStr (n_type n)), (''TrackID'', json_opt (n_track n)),
     (''ProjectID'', json_opt (n_project n)), (''CommentID'', json_opt (n_comment n)),
     (''Content'', JStr (n_content n)), (''IsRead'', JBool (n_read n)), (''CreatedAt'', JNum (n_created n))]"

definition unauthorized :: "rwriter \<Rightarrow> rwriter" where
  "unauthorized = http_error ''unauthorized'' 401"

record privacy_body =
  pb_private :: bool
  pb_genre :: string
  pb_release :: "go_time option"

definition UpdateProjectPrivacyHandler :: "'o app_env \<Rightarrow> (privacy_body, 'o app) handler" where
  "UpdateProjectPrivacyHandler env r = (\<lambda>(w, s).
     (case GetUserID r of
        None \<Rightarrow> respond (unauthorized w) s
      | Some userID \<Rightarrow>
          let projectID = path_value r ''project_id''
          in case req_body r of
               None \<Rightarrow> respond (http_error ''invalid request'' 400 w) s
             | Some b \<Rightarrow>
                 (case GetProjectByID (dbe env) projectID userID (app_db s) of
                    Inl _ \<Rightarrow> respond (http_error ''project not found'' 404 w) s
                  | Inr project \<Rightarrow>
                      if p_user project \<noteq> userID then respond (http_error ''forbidden'' 403 w) s
                      else case UpdateProjectPrivacy (dbe env) projectID (pb_private b) (pb_genre b) (pb_release b) (app_db s) of
                             (Inl _, d) \<Rightarrow> respond (http_error ''failed to update'' 500 w) (s\<lparr>app_db := d\<rparr>)
                           | (Inr _, d) \<Rightarrow> respond (write_json 200 (JObj [(''project_id'', JStr projectID),
                               (''is_private'', JBool (pb_private b))]) w) (s\<lparr>app_db := d\<rparr>))))"

record collaborator_body =
  cb_email :: string
  cb_role :: string

definition AddCollaboratorHandler :: "'o app_env \<Rightarrow> (collaborator_body, 'o app) handler" where
  "AddCollaboratorHandler env r = (\<lambda>(w, s).
     (case GetUserID r of
        None \<Rightarrow> respond (unauthorized w) s
      | Some userID \<Rightarrow>
          let projectID = path_value r ''project_id''
          in case req_body r of
               None \<Rightarrow> respond (http_error ''invalid request'' 400 w) s
             | Some b \<Rightarrow>
                 (case GetProjectByID (dbe env) projectID userID (app_db s) of
                    Inl _ \<Rightarrow> respond (http_error ''forbidden'' 403 w) s
                  | Inr project \<Rightarrow>
                      if p_user project \<noteq> userID then respond (http_error ''forbidden'' 403 w) s
                      else case GetUserByEmail (dbe env) (cb_email b) (app_db s) of
                             Inl _ \<Rightarrow> respond (http_error ''user not found'' 404 w) s
                           | Inr u \<Rightarrow>
                               if u_id u = userID then
                                 respond (http_error ''cannot add yourself as collaborator'' 400 w) s
                               else let collab = \<lparr>c_id = new_uuid env (app_uuids s), c_project = projectID,
                                          c_user = u_id u, c_role = cb_role b, c_invited = now env, c_joined = None,
                                          c_deleted = None\<rparr>;
                                        s = s\<lparr>app_uuids := app_uuids s + 1\<rparr>
                                 in case AddCollaborator (dbe env) collab (app_db s) of
                                      (Inl _, d) \<Rightarrow>
                                        respond (http_error ''failed to add collaborator'' 500 w) (s\<lparr>app_db := d\<rparr>)
                                    | (Inr _, d) \<Rightarrow>
                                        respond (write_json 201 (collaborator_json collab) w) (s\<lparr>app_db := d\<rparr>))))"

definition LikeTrack :: "'o app_env \<Rightarrow> ('b, 'o app) handler" where
  "LikeTrack env r = (\<lambda>(w, s).
     (case GetUserID r of
        None \<Rightarrow> respond (unauthorized w) s
      | Some userID \<Rightarrow>
          let l = \<lparr>lk_id = new_uuid env (app_uuids s), lk_user = userID, lk_track = path_value r ''track_id'',
                lk_created = now env\<rparr>;
              s = s\<lparr>app_uuids := app_uuids s + 1\<rparr>
          in case CreateLike (dbe env) l (app_db s) of
               (Inl _, d) \<Rightarrow> respond (http_error ''failed to like'' 500 w) (s\<lparr>app_db := d\<rparr>)
             | (Inr _, d) \<Rightarrow> respond (write_header 201 w) (s\<lparr>app_db := d\<rparr>)))"

definition UnlikeTrack :: "'o app_env \<Rightarrow> ('b, 'o app) handler" where
  "UnlikeTrack env r = (\<lambda>(w, s).
     (case GetUserID r of
        None \<Rightarrow> respond (unauthorized w) s
      | Some userID \<Rightarrow>
          (case DeleteLike (dbe env) userID (path_value r ''track_id'') (app_db s) of
             (Inl _, d) \<Rightarrow> respond (http_error ''failed to unlike'' 500 w) (s\<lparr>app_db := d\<rparr>)
           | (Inr _, d) \<Rightarrow> respond (write_header 204 w) (s\<lparr>app_db := d\<rparr>))))"

record comment_body =
  cb_content :: string
  cb_timestamp :: "int option"

definition AddComment :: "'o app_env \<Rightarrow> (comment_body, 'o app) handler" where
  "AddComment env r = (\<lambda>(w, s).
     (case GetUserID r of
        None \<Rightarrow> respond (unauthorized w) s
      | Some userID \<Rightarrow>
          (case req_body r of
             None \<Rightarrow> respond (http_error ''invalid request'' 400 w) s
           | Some b \<Rightarrow>
               if cb_content b = '''' then respond (http_error ''content cannot be empty'' 400 w) s
               else let c = \<lparr>cm_id = new_uuid env (app_uuids s), cm_user = userID,
                          cm_version = path_value r ''track_version_id'', cm_content = cb_content b,
                          cm_timestamp = cb_timestamp b, cm_created = now env, cm_updated = now env\<rparr>;
                        s = s\<lparr>app_uuids := app_uuids s + 1\<rparr>
                 in case CreateComment (dbe env) c (app_db s) of
                      (Inl _, d) \<Rightarrow> respond (http_error ''failed to add comment'' 500 w) (s\<lparr>app_db := d\<rparr>)
                    | (Inr _, d) \<Rightarrow> respond (write_json 201 (comment_json c) w) (s\<lparr>app_db := d\<rparr>))))"

definition GetCommentsHandler :: "'o app_env \<Rightarrow> ('b, 'o app) handler" where
  "GetCommentsHandler env r = (\<lambda>(w, s).
     (case GetComments (dbe env) (path_value r ''track_version_id'') (app_db s) of
        Inl _ \<Rightarrow> respond (http_error ''failed to get comments'' 500 w) s
      | Inr cs \<Rightarrow> respond (write_json 200 (json_slice comment_json cs) w) s))"

definition FollowUser :: "'o app_env \<Rightarrow> ('b, 'o app) handler" where
  "FollowUser env r = (\<lambda>(w, s).
     (case GetUserID r of
        None \<Rightarrow> respond (unauthorized w) s
      | Some userID \<Rightarrow>
          let followingID = path_value r ''user_id''
          in if userID = followingID then respond (http_error ''cannot follow yourself'' 400 w) s
             else let f = \<lparr>fo_id = new_uuid env (app_uuids s), fo_follower = userID, fo_following = followingID,
                        fo_created = now env\<rparr>;
                      s = s\<lparr>app_uuids := app_uuids s + 1\<rparr>
               in case CreateFollow (dbe env) f (app_db s) of
                    (Inl _, d) \<Rightarrow> respond (http_error ''failed to follow'' 500 w) (s\<lparr>app_db := d\<rparr>)
                  | (Inr _, d) \<Rightarrow> respond (write_header 201 w) (s\<lparr>app_db := d\<rparr>)))"

definition UnfollowUser :: "'o app_env \<Rightarrow> ('b, 'o app) handler" where
  "UnfollowUser env r = (\<lambda>(w, s).
     (case GetUserID r of
        None \<Rightarrow> respond (unauthorized w) s
      | Some userID \<Rightarrow>
          (case DeleteFollow (dbe env) userID (path_value r ''user_id'') (app_db s) of
             (Inl _, d) \<Rightarrow> respond (http_error ''failed to unfollow'' 500 w) (s\<lparr>app_db := d\<rparr>)
           | (Inr _, d) \<Rightarrow> respond (write_header 204 w) (s\<lparr>app_db := d\<rparr>))))"

definition list_handler ::
  "(string \<Rightarrow> database \<Rightarrow> 'r list db_result) \<Rightarrow> ('r \<Rightarrow> json) \<Rightarrow> string \<Rightarrow> ('b, 'o app) handler" where
  "list_handler q j msg r = (\<lambda>(w, s).
     (case GetUserID r of
        None \<Rightarrow> respond (unauthorized w) s
      | Some userID \<Rightarrow>
          (case q userID (app_db s) of
             Inl _ \<Rightarrow> respond (http_error msg 500 w) s
           | Inr xs \<Rightarrow> respond (write_json 200 (json_slice j xs) w) s)))"

definition GetFollowingHandler :: "'o app_env \<Rightarrow> ('b, 'o app) handler" where
  "GetFollowingHandler env = list_handler (GetFollowing (dbe env)) user_json ''failed to get following''"

definition GetFollowersHandler :: "'o app_env \<Rightarrow> ('b, 'o app) handler" where
  "GetFollowersHandler env = list_handler (GetFollowers (dbe env)) user_json ''failed to get followers''"

definition GetNotificationsHandler :: "'o app_env \<Rightarrow> ('b, 'o app) handler" where
  "GetNotificationsHandler env = list_handler (GetNotifications (dbe env)) notification_json ''failed to get notifications''"

text \<open>The user is not looked at.\<close>

definition MarkNotificationAsReadHandler :: "'o app_env \<Rightarrow> ('b, 'o app) handler" where
  "MarkNotificationAsReadHandler env r = (\<lambda>(w, s).
     (case MarkNotificationAsRead (dbe env) (path_value r ''notification_id'') (app_db s) of
        (Inl _, d) \<Rightarrow> respond (http_error ''failed to mark as read'' 500 w) (s\<lparr>app_db := d\<rparr>)
      | (Inr _, d) \<Rightarrow> respond (write_header 204 w) (s\<lparr>app_db := d\<rparr>)))"

subsection \<open>Relations kept in a table\<close>

locale pair_table =
  fixes rows :: "'d \<Rightarrow> 'r list" and pair :: "'r \<Rightarrow> 'a \<times> 'b"
    and add :: "'r \<Rightarrow> 'd \<Rightarrow> 'e + unit \<Rightarrow> 'd \<Rightarrow> bool" and del :: "'a \<Rightarrow> 'b \<Rightarrow> 'd \<Rightarrow> 'e + unit \<Rightarrow> 'd \<Rightarrow> bool"
  assumes add_done: "add r d (Inr ()) d' \<Longrightarrow>
      rows d' = (if pair r \<in> pair ` set (rows d) then rows d else rows d @ [r])"
    and add_failed: "add r d (Inl e) d' \<Longrightarrow> rows d' = rows d"
    and del_done: "del a b d (Inr ()) d' \<Longrightarrow> rows d' = filter (\<lambda>r. pair r \<noteq> (a, b)) (rows d)"
    and del_failed: "del a b d (Inl e) d' \<Longrightarrow> rows d' = rows d"
begin

definition pairs :: "'d \<Rightarrow> ('a \<times> 'b) set" where
  "pairs d = pair ` set (rows d)"

definition one_row_each :: "'d \<Rightarrow> bool" where
  "one_row_each d \<longleftrightarrow> distinct (map pair (rows d))"

lemma pairs_add: "add r d res d' \<Longrightarrow> pairs d' = (if res = Inr () then insert (pair r) (pairs d) else pairs d)"
proof (cases res)
  case (Inr u)
  moreover assume "add r d res d'"
  ultimately have "rows d' = (if pair r \<in> pair ` set (rows d) then rows d else rows d @ [r])"
    by (intro add_done) simp
  with Inr show ?thesis by (auto simp: pairs_def)
qed (auto simp: pairs_def dest: add_failed)

lemma pairs_del: "del a b d res d' \<Longrightarrow> pairs d' = (if res = Inr () then pairs d - {(a, b)} else pairs d)"
proof (cases res)
  case (Inr u)
  moreover assume "del a b d res d'"
  ultimately have "rows d' = filter (\<lambda>r. pair r \<noteq> (a, b)) (rows d)" by (intro del_done) simp
  with Inr show ?thesis by (auto simp: pairs_def)
qed (auto simp: pairs_def dest: del_failed)

lemma one_row_add: "add r d res d' \<Longrightarrow> one_row_each d \<Longrightarrow> one_row_each d'"
  by (cases res) (auto simp: one_row_each_def dest: add_done add_failed)

lemma one_row_del: "del a b d res d' \<Longrightarrow> one_row_each d \<Longrightarrow> one_row_each d'"
  by (cases res) (auto simp: one_row_each_def distinct_map_filter dest: del_done del_failed)

lemma row_count: "one_row_each d \<Longrightarrow> length (filter (\<lambda>r. snd (pair r) = b) (rows d)) = card {a. (a, b) \<in> pairs d}"
proof -
  assume d: "one_row_each d"
  let ?rs = "filter (\<lambda>r. snd (pair r) = b) (rows d)"
  have "inj_on (\<lambda>r. fst (pair r)) (set ?rs)"
    using d by (auto simp: one_row_each_def distinct_map inj_on_def prod_eq_iff)
  moreover have "distinct ?rs" using d by (simp add: one_row_each_def distinct_map)
  moreover have "(\<lambda>r. fst (pair r)) ` set ?rs = {a. (a, b) \<in> pairs d}"
    unfolding pairs_def by (auto simp: image_iff) (metis fst_conv snd_conv prod.collapse)+
  ultimately show ?thesis by (metis card_image distinct_card)
qed

end

lemma CreateLike_rows:
  "CreateLike env l d = (Inr u, d') \<Longrightarrow>
   likes d' = (if \<exists>q\<in>set (likes d). lk_user q = lk_user l \<and> lk_track q = lk_track l then likes d else likes d @ [l])"
  "CreateLike env l d = (Inl e, d') \<Longrightarrow> d' = d"
  by (auto simp: CreateLike_def split: if_splits)

lemma CreateFollow_rows:
  "CreateFollow env f d = (Inr u, d') \<Longrightarrow>
   follows d' = (if \<exists>q\<in>set (follows d). fo_follower q = fo_follower f \<and> fo_following q = fo_following f
                 then follows d else follows d @ [f])"
  "CreateFollow env f d = (Inl e, d') \<Longrightarrow> d' = d"
  by (auto simp: CreateFollow_def split: if_splits)

lemma exec_stmt_cases:
  "exec_stmt env c a f d = (Inr u, d') \<Longrightarrow> d' = f d"
  "exec_stmt env c a f d = (Inl e, d') \<Longrightarrow> d' = d"
  by (auto simp: exec_stmt_def split: if_splits)

lemma pair_image: "(f r, g r) \<in> (\<lambda>q. (f q, g q)) ` S \<longleftrightarrow> (\<exists>q\<in>S. f q = f r \<and> g q = g r)"
  by (auto simp: image_iff) metis+

interpretation like_table: pair_table likes "\<lambda>l. (lk_user l, lk_track l)"
  "\<lambda>l d res d'. CreateLike env l d = (res, d')" "\<lambda>u t d res d'. DeleteLike env u t d = (res, d')" for env
  unfolding DeleteLike_def
  by (unfold_locales, unfold pair_image prod.inject) (erule CreateLike_rows(1), drule CreateLike_rows(2), simp, auto dest: exec_stmt_cases)

interpretation follow_table: pair_table follows "\<lambda>f. (fo_follower f, fo_following f)"
  "\<lambda>f d res d'. CreateFollow env f d = (res, d')" "\<lambda>u t d res d'. DeleteFollow env u t d = (res, d')" for env
  unfolding DeleteFollow_def
  by (unfold_locales, unfold pair_image prod.inject) (erule CreateFollow_rows(1), drule CreateFollow_rows(2), simp, auto dest: exec_stmt_cases)

interpretation update_privacy: guarded "UpdateProjectPrivacyHandler env" owns_project for env
  by (rule guarded_by_owner [where e = "dbe env"])
     (auto simp: UpdateProjectPrivacyHandler_def unauthorized_def Let_def intro: refused_http_error
        split: option.splits sum.splits)

interpretation add_collaborator: guarded "AddCollaboratorHandler env" owns_project for env
  by (rule guarded_by_owner [where e = "dbe env"])
     (auto simp: AddCollaboratorHandler_def unauthorized_def Let_def intro: refused_http_error
        split: option.splits sum.splits)

subsection \<open>Likes and follows as relations\<close>

datatype social_op = Like | Unlike | Follow | Unfollow

definition social_route :: "social_op \<Rightarrow> 'o app_env \<Rightarrow> ('b, 'o app) handler" where
  "social_route op env =
     (case op of Like \<Rightarrow> LikeTrack env | Unlike \<Rightarrow> UnlikeTrack env
               | Follow \<Rightarrow> FollowUser env | Unfollow \<Rightarrow> UnfollowUser env)"

text \<open>The requests answered with success, and the state after all of them.\<close>

fun serve_social ::
  "('o app_env \<times> social_op \<times> 'b request) list \<Rightarrow> 'o app \<Rightarrow> (social_op \<times> 'b request) list \<times> 'o app" where
  "serve_social [] s = ([], s)"
| "serve_social ((env, op, r) # rqs) s =
     (let (c, w, s') = social_route op env r (new_writer, s);
          (acc, s'') = serve_social rqs s'
      in (if wrote w \<in> {Some 201, Some 204} then (op, r) # acc else acc, s''))"

type_synonym social_graph = "(string \<times> string) set \<times> (string \<times> string) set"

definition social_graph :: "database \<Rightarrow> social_graph" where
  "social_graph d = ((\<lambda>l. (lk_user l, lk_track l)) ` set (likes d), (\<lambda>f. (fo_follower f, fo_following f)) ` set (follows d))"

fun social_step :: "social_op \<times> 'b request \<Rightarrow> social_graph \<Rightarrow> social_graph" where
  "social_step (Like, r) (L, F) = (insert (the (GetUserID r), path_value r ''track_id'') L, F)"
| "social_step (Unlike, r) (L, F) = (L - {(the (GetUserID r), path_value r ''track_id'')}, F)"
| "social_step (Follow, r) (L, F) = (L, insert (the (GetUserID r), path_value r ''user_id'') F)"
| "social_step (Unfollow, r) (L, F) = (L, F - {(the (GetUserID r), path_value r ''user_id'')})"

definition one_row_per_pair :: "database \<Rightarrow> bool" where
  "one_row_per_pair d \<longleftrightarrow>
     distinct (map (\<lambda>l. (lk_user l, lk_track l)) (likes d)) \<and> distinct (map (\<lambda>f. (fo_follower f, fo_following f)) (follows d))"

definition nobody_follows_self :: "database \<Rightarrow> bool" where
  "nobody_follows_self d \<longleftrightarrow> (\<forall>f\<in>set (follows d). fo_follower f \<noteq> fo_following f)"

definition social_effect :: "social_op \<Rightarrow> 'b request \<Rightarrow> bool \<Rightarrow> database \<Rightarrow> database \<Rightarrow> bool" where
  "social_effect op r ok d d' \<longleftrightarrow>
     social_graph d' = (if ok then social_step (op, r) (social_graph d) else social_graph d) \<and>
     (one_row_per_pair d \<longrightarrow> one_row_per_pair d') \<and> (nobody_follows_self d \<longrightarrow> nobody_follows_self d')"

lemma social_effect_refl: "social_effect op r False d d"
  by (simp add: social_effect_def)

lemma likes_frame:
  "CreateLike env l d = (res, d') \<Longrightarrow> follows d' = follows d"
  "DeleteLike env u t d = (res, d') \<Longrightarrow> follows d' = follows d"
  "CreateFollow env f d = (res, d') \<Longrightarrow> likes d' = likes d"
  "DeleteFollow env u t d = (res, d') \<Longrightarrow> likes d' = likes d"
  by (auto simp: CreateLike_def DeleteLike_def CreateFollow_def DeleteFollow_def exec_stmt_def split: if_splits)

lemma no_self_follow:
  "CreateFollow env f d = (res, d') \<Longrightarrow> nobody_follows_self d \<Longrightarrow> nobody_follows_self d'"
  "DeleteFollow env u t d = (res, d') \<Longrightarrow> nobody_follows_self d \<Longrightarrow> nobody_follows_self d'"
  by (auto simp: CreateFollow_def DeleteFollow_def exec_stmt_def nobody_follows_self_def split: if_splits)

lemma like_effect:
  assumes "CreateLike env l d = (res, d')" "lk_user l = the (GetUserID r)" "lk_track l = path_value r ''track_id''"
  shows "social_effect Like r (res = Inr ()) d d'"
  using like_table.pairs_add [OF assms(1)] like_table.one_row_add [OF assms(1)] likes_frame(1) [OF assms(1)] assms(2,3)
  by (simp add: social_effect_def social_graph_def one_row_per_pair_def nobody_follows_self_def
      like_table.pairs_def like_table.one_row_each_def)

lemma unlike_effect:
  assumes "DeleteLike env u (path_value r ''track_id'') d = (res, d')" "GetUserID r = Some u"
  shows "social_effect Unlike r (res = Inr ()) d d'"
  using like_table.pairs_del [OF assms(1)] like_table.one_row_del [OF assms(1)] likes_frame(2) [OF assms(1)] assms(2)
  by (simp add: social_effect_def social_graph_def one_row_per_pair_def nobody_follows_self_def
      like_table.pairs_def like_table.one_row_each_def)

lemma follow_effect:
  assumes "CreateFollow env f d = (res, d')" "fo_follower f = the (GetUserID r)" "fo_following f = path_value r ''user_id''"
  shows "social_effect Follow r (res = Inr ()) d d'"
  using follow_table.pairs_add [OF assms(1)] follow_table.one_row_add [OF assms(1)] likes_frame(3) [OF assms(1)]
    no_self_follow(1) [OF assms(1)] assms(2,3)
  by (simp add: social_effect_def social_graph_def one_row_per_pair_def
      follow_table.pairs_def follow_table.one_row_each_def)

lemma unfollow_effect:
  assumes "DeleteFollow env u (path_value r ''user_id'') d = (res, d')" "GetUserID r = Some u"
  shows "social_effect Unfollow r (res = Inr ()) d d'"
  using follow_table.pairs_del [OF assms(1)] follow_table.one_row_del [OF assms(1)] likes_frame(4) [OF assms(1)]
    no_self_follow(2) [OF assms(1)] assms(2)
  by (simp add: social_effect_def social_graph_def one_row_per_pair_def
      follow_table.pairs_def follow_table.one_row_each_def)

lemma social_route_effect:
  assumes "social_route op env r (new_writer, s) = (c, w, s')"
  shows "social_effect op r (wrote w \<in> {Some 201, Some 204}) (app_db s) (app_db s')"
proof (cases "GetUserID r")
  case None
  with assms show ?thesis
    by (auto simp: social_route_def LikeTrack_def UnlikeTrack_def FollowUser_def UnfollowUser_def respond_def
        unauthorized_def social_effect_refl split: social_op.splits)
next
  case (Some u)
  with assms show ?thesis
    by (cases op)
       (auto simp: social_route_def LikeTrack_def UnlikeTrack_def FollowUser_def UnfollowUser_def Let_def respond_def
          social_effect_refl split: prod.splits sum.splits if_splits
          dest!: like_effect [where r = r] unlike_effect [OF _ Some]
            follow_effect [where r = r] unfollow_effect [OF _ Some])
qed

text \<open>C22: whatever requests to like, unlike, follow and unfollow are served, the two tables are the relations that
  result from applying exactly the requests answered with success, in their order, to two sets of pairs;
  each pair has one row, nobody follows themselves, and the number of likes shown with a track is the number
  of users that like it.\<close>

theorem social_tables_refine_sets:
  assumes "serve_social rqs s = (acc, s')" and "one_row_per_pair (app_db s)" "nobody_follows_self (app_db s)"
  shows "social_graph (app_db s') = fold social_step acc (social_graph (app_db s)) \<and>
     one_row_per_pair (app_db s') \<and> nobody_follows_self (app_db s') \<and>
     (GetTrackVersionEngagementBatch e t (app_db s') = Inr (n, counts) \<longrightarrow>
        n = int (card {u. (u, t) \<in> fst (social_graph (app_db s'))}))"
proof -
  have "social_graph (app_db s') = fold social_step acc (social_graph (app_db s)) \<and>
     one_row_per_pair (app_db s') \<and> nobody_follows_self (app_db s')"
    using assms
  proof (induction rqs arbitrary: s acc)
    case (Cons rq rqs)
    obtain env op r where rq: "rq = (env, op, r)" by (cases rq)
    obtain c w s1 where one: "social_route op env r (new_writer, s) = (c, w, s1)"
      by (cases "social_route op env r (new_writer, s)")
    obtain acc1 where rest: "serve_social rqs s1 = (acc1, s')"
      using Cons.prems(1) rq one by (auto split: prod.splits)
    have eff: "social_effect op r (wrote w \<in> {Some 201, Some 204}) (app_db s) (app_db s1)"
      by (rule social_route_effect [OF one])
    with Cons.IH [OF rest] Cons.prems rq one rest show ?case
      by (auto simp: social_effect_def split: if_splits)
  qed simp
  moreover have "n = int (card {u. (u, t) \<in> fst (social_graph (app_db s'))})"
    if "one_row_per_pair (app_db s')" "GetTrackVersionEngagementBatch e t (app_db s') = Inr (n, counts)"
    using that like_table.row_count [of "app_db s'" t]
    by (auto simp: GetTrackVersionEngagementBatch_def one_row_per_pair_def social_graph_def
        like_table.one_row_each_def like_table.pairs_def split: if_splits)
  ultimately show ?thesis by blast
qed

definition social_requests :: "(string list app_env \<times> social_op \<times> unit request) list" where
  "social_requests = map (\<lambda>op. (list_env, op, as_user ''u'' (\<lambda>k. if k = ''track_id'' then ''t'' else ''u'')))
     [Like, Follow, Like]"

theorem social_tables_refine_sets_witness:
  "\<exists>acc s'. serve_social social_requests list_app = (acc, s') \<and> map fst acc = [Like, Like] \<and>
     social_graph (app_db s') = fold social_step acc ({}, {}) \<and> one_row_per_pair (app_db s')"
proof -
  obtain acc s' where run: "serve_social social_requests list_app = (acc, s')" by fastforce
  have "map fst (fst (serve_social social_requests list_app)) = [Like, Like]"
    by code_simp
  moreover have "social_graph (app_db list_app) = ({}, {})" "one_row_per_pair (app_db list_app)"
      "nobody_follows_self (app_db list_app)"
    by (simp_all add: social_graph_def one_row_per_pair_def nobody_follows_self_def list_app_def sample_db_def empty_db_def)
  ultimately show ?thesis
    using run social_tables_refine_sets [OF run, where e = calm_env and t = "''t''" and n = 0 and counts = "[]"] by auto
qed

lemma find_updated:
  "(\<And>r. P (f r) = P r) \<Longrightarrow> find P xs = Some x \<Longrightarrow> find P (update_rows P f xs) = Some (f x)"
  by (induction xs) (auto split: if_splits)

lemma find_last_match: "\<forall>x\<in>set xs. \<not> P x \<Longrightarrow> P y \<Longrightarrow> find P (xs @ [y]) = Some y"
  by (induction xs) auto

lemma AddCollaborator_role:
  assumes "AddCollaborator env c d = (Inr u, d')" and "\<forall>q\<in>set (collaborators d). c_deleted q = None"
  shows "projects d' = projects d" and "\<exists>q. collaborator d' (c_project c) (c_user c) = Some q \<and> c_role q = c_role c"
proof -
  let ?same = "\<lambda>q. c_project q = c_project c \<and> c_user q = c_user c"
  show "projects d' = projects d"
    using assms(1) by (auto simp: AddCollaborator_def Let_def split: if_splits)
  show "\<exists>q. collaborator d' (c_project c) (c_user c) = Some q \<and> c_role q = c_role c"
  proof (cases "\<exists>q\<in>set (collaborators d). ?same q")
    case True
    then have d': "collaborators d' = update_rows ?same (\<lambda>q. q\<lparr>c_role := c_role c, c_invited := c_invited c\<rparr>) (collaborators d)"
      using assms(1) by (auto simp: AddCollaborator_def Let_def split: if_splits)
    from True obtain q where q: "find (\<lambda>q. ?same q) (collaborators d') = Some q"
      unfolding d' using find_Some_ex [of _ "collaborators d" ?same]
        find_updated [of ?same "\<lambda>q. q\<lparr>c_role := c_role c, c_invited := c_invited c\<rparr>" "collaborators d"] by auto
    moreover have "\<forall>q\<in>set (collaborators d'). c_deleted q = None" "\<forall>q\<in>set (collaborators d'). ?same q \<longrightarrow> c_role q = c_role c"
      using assms(2) unfolding d' set_update_rows by auto
    moreover have "find (\<lambda>q. ?same q \<and> c_deleted q = None) (collaborators d') = find ?same (collaborators d')"
      using calculation(2) by (intro find_cong) auto
    ultimately show ?thesis
      using find_SomeD [OF q] by (auto simp: collaborator_def conj_assoc)
  next
    case False
    then have d': "collaborators d' = collaborators d @ [c\<lparr>c_deleted := None\<rparr>]"
      using assms(1) by (auto simp: AddCollaborator_def Let_def split: if_splits)
    have "find (\<lambda>q. ?same q \<and> c_deleted q = None) (collaborators d @ [c\<lparr>c_deleted := None\<rparr>]) = Some (c\<lparr>c_deleted := None\<rparr>)"
      using False by (intro find_last_match) auto
    then show ?thesis by (simp add: collaborator_def d' conj_assoc)
  qed
qed

text \<open>Whoever is added as a collaborator holds exactly the role that the request named, whatever string it
  is: the role is checked neither on the way in nor when it is read back, so a request for owner makes an owner.\<close>

theorem collaborator_role_as_asked:
  assumes "AddCollaboratorHandler env r (w, s) = (c, w', s')" and "wrote w = None" "wrote w' = Some 201"
    and "\<forall>q\<in>set (collaborators (app_db s)). c_deleted q = None" and "distinct (map p_id (projects (app_db s)))"
    and "\<not> fails e ''GetUserRoleOptimized'' [path_value r ''project_id'', u_id v]"
    and "req_body r = Some b" "GetUserByEmail (dbe env) (cb_email b) (app_db s) = Inr v"
  shows "GetUserRoleOptimized e (path_value r ''project_id'') (u_id v) (app_db s') = Inr (cb_role b)"
proof -
  let ?pid = "path_value r ''project_id''"
  obtain u p where u: "GetUserID r = Some u" "GetProjectByID (dbe env) ?pid u (app_db s) = Inr p" "p_user p = u" "u_id v \<noteq> u"
    using assms(1-3,7,8) by (auto simp: AddCollaboratorHandler_def Let_def respond_def unauthorized_def
        split: option.splits sum.splits if_splits prod.splits)
  obtain cl x where cl: "AddCollaborator (dbe env) cl (app_db s) = (Inr x, app_db s')"
      "c_project cl = ?pid" "c_user cl = u_id v" "c_role cl = cb_role b"
    using assms(1-3,7,8) u by (auto simp: AddCollaboratorHandler_def Let_def respond_def
        split: sum.splits if_splits prod.splits)
  from AddCollaborator_role [OF cl(1) assms(4)] cl(2-4) obtain q where
    q: "collaborator (app_db s') ?pid (u_id v) = Some q" "c_role q = cb_role b" and ps: "projects (app_db s') = projects (app_db s)"
    by auto
  have p: "p \<in> set (projects (app_db s'))" "p_id p = ?pid"
    using GetProjectByID_InrD(1,2) [OF u(2)] ps by auto
  have "filter (\<lambda>p. p_id p = ?pid) (projects (app_db s')) \<noteq> []"
    using p by (auto simp: filter_empty_conv)
  then obtain p' ps' where f: "filter (\<lambda>p. p_id p = ?pid) (projects (app_db s')) = p' # ps'"
    by (cases "filter (\<lambda>p. p_id p = ?pid) (projects (app_db s'))") auto
  then have "p' \<in> set (filter (\<lambda>p. p_id p = ?pid) (projects (app_db s')))" by simp
  then have "p' = p"
    using p assms(5) ps inj_onD [of p_id "set (projects (app_db s))" p' p] by (auto simp: distinct_map)
  with f q u(3,4) p(2) assms(6) show ?thesis
    by (simp add: GetUserRoleOptimized_def query_row_def)
qed

definition shared_db :: database where
  "shared_db = sample_db\<lparr>users := users sample_db @ [\<lparr>u_id = ''v'', u_email = ''v@x'', u_username = ''v'',
     u_avatar = Some ''b'', u_role = None, u_privacy = None, u_created = 0, u_updated = 0, u_deleted = None\<rparr>]\<rparr>"

definition collaborator_request :: "collaborator_body request" where
  "collaborator_request = (as_user ''u'' (\<lambda>k. ''p''))\<lparr>req_body := Some \<lparr>cb_email = ''v@x'', cb_role = ''owner''\<rparr>\<rparr>"

theorem collaborator_role_as_asked_witness:
  "\<exists>s'. snd (snd (AddCollaboratorHandler list_env collaborator_request (new_writer, list_app\<lparr>app_db := shared_db\<rparr>))) = s' \<and>
     GetUserRoleOptimized calm_env ''p'' ''v'' (app_db s') = Inr ''owner''"
proof -
  obtain c w' s' where run:
    "AddCollaboratorHandler list_env collaborator_request (new_writer, list_app\<lparr>app_db := shared_db\<rparr>) = (c, w', s')"
    by (metis prod_cases3)
  have "wrote (fst (snd (AddCollaboratorHandler list_env collaborator_request (new_writer, list_app\<lparr>app_db := shared_db\<rparr>)))) = Some 201"
    by code_simp
  moreover have "GetUserByEmail (dbe list_env) ''v@x'' shared_db = Inr (users shared_db ! 1)"
    by code_simp
  ultimately have "GetUserRoleOptimized calm_env (path_value collaborator_request ''project_id'') (u_id (users shared_db ! 1)) (app_db s') = Inr ''owner''"
    using collaborator_role_as_asked [OF run, where e = calm_env and v = "users shared_db ! 1" and b = "\<lparr>cb_email = ''v@x'', cb_role = ''owner''\<rparr>"] run
    by (simp add: shared_db_def sample_db_def empty_db_def calm_env_def collaborator_request_def)
  with run show ?thesis by (simp add: collaborator_request_def shared_db_def sample_db_def)
qed

end
