(* ===== verification/Payments.thy ===== *)
theory Payments
  imports Social
begin

text \<open>
  \<open>handlers/payments_stripe.go\<close> and \<open>handlers/payments_revenuecat.go\<close> with the statements on
  \<open>subscriptions\<close> in \<open>db/queries_phase2.go\<close>. A webhook carries its raw body. HMAC-SHA-256, JSON
  parsing, the verification of Stripe's library (\<open>webhook.ConstructEvent\<close>), its call that opens a
  checkout session and the environment variables are arguments. A column without a value in an insert takes the
  default of \<open>migrations/017\<close>.

  Shown: webhooks without a valid signature change nothing (the interface \<open>guarded\<close>), the rows of
  \<open>subscriptions\<close> stay well-formed under any sequence of webhooks, and the delivery of the same event twice is
  harmless.
\<close>

subsection \<open>Queries\<close>

definition user_of_subscription ::
  "dbenv \<Rightarrow> string \<Rightarrow> string \<Rightarrow> (subscription_row \<Rightarrow> bool) \<Rightarrow> database \<Rightarrow> user_row option db_result" where
  "user_of_subscription env call arg P d =
     (case query_row env call [arg]
             (filter (\<lambda>u. list_ex (\<lambda>b. sb_user b = u_id u \<and> P b) (subscriptions d)) (users d)) of
        Inl e \<Rightarrow> if is_sql_no_rows env e then Inr None else Inl e
      | Inr u \<Rightarrow> (case scan_user u of Inl e \<Rightarrow> Inl e | Inr u \<Rightarrow> Inr (Some u)))"

definition GetUserByStripeCustomerID :: "dbenv \<Rightarrow> string \<Rightarrow> database \<Rightarrow> user_row option db_result" where
  "GetUserByStripeCustomerID env customerID =
     user_of_subscription env ''GetUserByStripeCustomerID'' customerID (\<lambda>b. sb_customer b = Some customerID)"

definition GetUserByStripeSubscriptionID :: "dbenv \<Rightarrow> string \<Rightarrow> database \<Rightarrow> user_row option db_result" where
  "GetUserByStripeSubscriptionID env subscriptionID =
     user_of_subscription env ''GetUserByStripeSubscriptionID'' subscriptionID
       (\<lambda>b. sb_subscription b = Some subscriptionID)"

definition null_if_empty :: "string \<Rightarrow> string option" where
  "null_if_empty s = (if s = '''' then None else Some s)"

definition coalesce :: "'a option \<Rightarrow> 'a option \<Rightarrow> 'a option" where
  "coalesce a b = (case a of None \<Rightarrow> b | Some x \<Rightarrow> Some x)"

definition paid_row ::
  "dbenv \<Rightarrow> bool \<Rightarrow> string \<Rightarrow> string \<Rightarrow> string \<Rightarrow> go_time option \<Rightarrow> go_time option \<Rightarrow> subscription_row \<Rightarrow> subscription_row" where
  "paid_row env isPremium tier customerID subscriptionID purchaseDate canceledAt b =
     b\<lparr>sb_premium := isPremium, sb_tier := tier,
       sb_customer := coalesce (null_if_empty customerID) (sb_customer b),
       sb_subscription := coalesce (null_if_empty subscriptionID) (sb_subscription b),
       sb_purchase := coalesce purchaseDate (sb_purchase b), sb_canceled := canceledAt, sb_updated := db_now env\<rparr>"

definition blank_row :: "dbenv \<Rightarrow> string \<Rightarrow> subscription_row" where
  "blank_row env userID = \<lparr>sb_user = userID, sb_premium = False, sb_tier = ''free'', sb_quota_mb = 10240, sb_used_mb = 0,
     sb_customer = None, sb_subscription = None, sb_purchase = None, sb_canceled = None,
     sb_created = db_now env, sb_updated = db_now env\<rparr>"

definition UpsertSubscriptionFromPayment ::
  "dbenv \<Rightarrow> string \<Rightarrow> bool \<Rightarrow> string \<Rightarrow> string \<Rightarrow> string \<Rightarrow> go_time option \<Rightarrow> go_time option \<Rightarrow> database \<Rightarrow>
   unit db_result \<times> database" where
  "UpsertSubscriptionFromPayment env userID isPremium tier customerID subscriptionID purchaseDate canceledAt d =
     (let paid = paid_row env isPremium tier customerID subscriptionID purchaseDate canceledAt
      in if fails env ''UpsertSubscriptionFromPayment'' [userID] then (Inl Fault, d)
         else if \<not> (\<exists>u\<in>set (users d). u_id u = userID) then (Inl Conflict, d)
         else if \<exists>b\<in>set (subscriptions d). sb_user b = userID then
           (Inr (), d\<lparr>subscriptions := update_rows (\<lambda>b. sb_user b = userID) paid (subscriptions d)\<rparr>)
         else (Inr (), d\<lparr>subscriptions := subscriptions d @ [paid (blank_row env userID)]\<rparr>))"

text \<open>The updates are a map of optional values, here with the number of its keys.\<close>

record subscription_updates =
  su_keys :: nat
  su_premium :: "bool option"
  su_tier :: "string option"
  su_customer :: "string option"
  su_subscription :: "string option"
  su_purchase :: "go_time option"
  su_canceled :: "go_time option"

definition UpdateSubscription :: "dbenv \<Rightarrow> string \<Rightarrow> subscription_updates \<Rightarrow> database \<Rightarrow> unit db_result \<times> database" where
  "UpdateSubscription env userID up d =
     (if su_keys up = 0 then (Inr (), d)
      else exec_stmt env ''UpdateSubscription'' [userID]
        (\<lambda>d. d\<lparr>subscriptions := update_rows (\<lambda>b. sb_user b = userID)
           (\<lambda>b. b\<lparr>sb_premium := (case su_premium up of None \<Rightarrow> sb_premium b | Some x \<Rightarrow> x),
              sb_tier := (case su_tier up of None \<Rightarrow> sb_tier b | Some x \<Rightarrow> x),
              sb_customer := coalesce (su_customer up) (sb_customer b),
              sb_subscription := coalesce (su_subscription up) (sb_subscription b),
              sb_purchase := coalesce (su_purchase up) (sb_purchase b),
              sb_canceled := coalesce (su_canceled up) (sb_canceled b), sb_updated := db_now env\<rparr>) (subscriptions d)\<rparr>) d)"

subsection \<open>JSON objects\<close>

text \<open>A missing key, or a value of another type, reads as the empty string.\<close>

fun json_field :: "string \<Rightarrow> json \<Rightarrow> json option" where
  "json_field k (JObj kvs) = map_of kvs k"
| "json_field k _ = None"

definition json_string :: "string \<Rightarrow> json \<Rightarrow> string" where
  "json_string k j = (case json_field k j of Some (JStr s) \<Rightarrow> s | _ \<Rightarrow> '''')"

definition json_object :: "string \<Rightarrow> json \<Rightarrow> json option" where
  "json_object k j = (case json_field k j of Some (JObj kvs) \<Rightarrow> Some (JObj kvs) | _ \<Rightarrow> None)"

text \<open>\<open>json.Unmarshal\<close> into a map: an object, or \<open>null\<close> for the nil map.\<close>

definition unmarshal_map :: "(string \<Rightarrow> json option) \<Rightarrow> string \<Rightarrow> json option" where
  "unmarshal_map parse body =
     (case parse body of Some (JObj kvs) \<Rightarrow> Some (JObj kvs) | Some JNull \<Rightarrow> Some (JObj []) | _ \<Rightarrow> None)"

subsection \<open>RevenueCat\<close>

record checkout_params =
  co_user :: string
  co_success :: string
  co_cancel :: string
  co_tier :: string
  co_price :: string
  co_email :: "string option"

record 'o pay_env =
  pe :: "'o app_env"
  pay_getenv :: "string \<Rightarrow> string"
  pay_hmac :: "string \<Rightarrow> string \<Rightarrow> string"
  pay_parse :: "string \<Rightarrow> json option"
  construct_event :: "string \<Rightarrow> string \<Rightarrow> string \<Rightarrow> (string \<times> json) option"
  new_session :: "string \<Rightarrow> checkout_params \<Rightarrow> (string \<times> string) option"

definition isValidRevenueCatSignature :: "'o pay_env \<Rightarrow> string \<Rightarrow> string \<Rightarrow> string \<Rightarrow> bool" where
  "isValidRevenueCatSignature env providedSignature body endpointSecret \<longleftrightarrow>
     (let provided = TrimSpace providedSignature; expected = pay_hmac env endpointSecret body
      in provided \<noteq> '''' \<and> (hex_of expected = provided \<or> encode_padded std_alphabet expected = provided))"

definition tierFromRevenueCatProductID :: "string \<Rightarrow> string" where
  "tierFromRevenueCatProductID productID =
     (let p = ToLower (TrimSpace productID)
      in if Contains p ''pro_plus'' \<or> Contains p ''proplus'' then ''pro_plus''
         else if Contains p ''unlimited'' then ''unlimited''
         else ''pro'')"

definition extractRevenueCatUserAndTier :: "json \<Rightarrow> (string \<times> string) option" where
  "extractRevenueCatUserAndTier payload =
     (case json_object ''event'' payload of
        None \<Rightarrow> None
      | Some event \<Rightarrow>
          let appUserID = json_string ''app_user_id'' event;
              appUserID = (if TrimSpace appUserID = '''' then
                  (case json_field ''original_app_user_id'' event of Some (JStr f) \<Rightarrow> f | _ \<Rightarrow> appUserID) else appUserID);
              appUserID = TrimSpace appUserID
          in if appUserID = '''' then None
             else Some (appUserID, tierFromRevenueCatProductID (json_string ''product_id'' event)))"

text \<open>An error is only logged.\<close>

definition applyRevenueCatEvent :: "'o pay_env \<Rightarrow> string \<Rightarrow> json \<Rightarrow> database \<Rightarrow> database" where
  "applyRevenueCatEvent env eventType payload d =
     (case extractRevenueCatUserAndTier payload of
        None \<Rightarrow> d
      | Some (userID, tier) \<Rightarrow>
          let e = dbe (pe env); t = now (pe env)
          in if eventType \<in> {''INITIAL_PURCHASE'', ''SUBSCRIPTION_PURCHASE'', ''RENEWAL'', ''SUBSCRIPTION_RENEWAL''} then
               snd (UpsertSubscriptionFromPayment e userID True tier '''' '''' (Some t) None d)
             else if eventType \<in> {''SUBSCRIPTION_PAUSED'', ''EXPIRATION'', ''CANCELLATION'', ''SUBSCRIPTION_CANCEL'',
                 ''SUBSCRIPTION_EXPIRED''} then
               snd (UpsertSubscriptionFromPayment e userID False ''free'' '''' '''' None (Some t) d)
             else d)"

definition RevenueCatWebhook :: "'o pay_env \<Rightarrow> (string, 'o app) handler" where
  "RevenueCatWebhook env r = (\<lambda>(w, s).
     (let secret = pay_getenv env ''REVENUECAT_WEBHOOK_SECRET''
      in if secret = '''' then respond (write_header 500 w) s
         else case req_body r of
                None \<Rightarrow> respond (write_header 400 w) s
              | Some body \<Rightarrow>
                  if \<not> isValidRevenueCatSignature env (req_hdr r ''X-Revenuecat-Signature'') body secret then
                    respond (write_header 401 w) s
                  else case unmarshal_map (pay_parse env) body of
                         None \<Rightarrow> respond (write_header 400 w) s
                       | Some payload \<Rightarrow>
                           (case json_object ''event'' payload of
                              None \<Rightarrow> respond (write_header 400 w) s
                            | Some event \<Rightarrow>
                                let eventType = json_string ''type'' event
                                in if TrimSpace eventType = '''' then respond (write_header 400 w) s
                                   else respond (write_json 200 (JObj [(''status'', JStr ''received'')]) w)
                                          (s\<lparr>app_db := applyRevenueCatEvent env eventType payload (app_db s)\<rparr>))))"

subsection \<open>Stripe\<close>

definition metadata_string :: "string \<Rightarrow> json \<Rightarrow> string option" where
  "metadata_string k event =
     (case json_object ''metadata'' event of
        None \<Rightarrow> None
      | Some m \<Rightarrow> (case json_field k m of Some (JStr s) \<Rightarrow> Some s | _ \<Rightarrow> None))"

definition stripe_tier :: "json \<Rightarrow> string" where
  "stripe_tier event =
     (case metadata_string ''tier_id'' event of
        None \<Rightarrow> ''pro''
      | Some v \<Rightarrow> let candidate = TrimSpace (ToLower v) in if candidate = '''' then ''pro'' else candidate)"

text \<open>The second look-up is only reached when the first one found no row without an error.\<close>

definition stripe_user :: "dbenv \<Rightarrow> string \<Rightarrow> string \<Rightarrow> database \<Rightarrow> string option" where
  "stripe_user e customerID subscriptionID d =
     (case GetUserByStripeSubscriptionID e subscriptionID d of
        Inl _ \<Rightarrow> None
      | Inr found \<Rightarrow>
          let userID = (case found of None \<Rightarrow> '''' | Some u \<Rightarrow> u_id u)
          in if userID \<noteq> '''' then Some userID
             else if customerID = '''' then None
             else case GetUserByStripeCustomerID e customerID d of
                    Inl _ \<Rightarrow> None
                  | Inr None \<Rightarrow> None
                  | Inr (Some u) \<Rightarrow> if u_id u = '''' then None else Some (u_id u))"

definition handleSubscriptionCreated :: "'o pay_env \<Rightarrow> json \<Rightarrow> database \<Rightarrow> database" where
  "handleSubscriptionCreated env event d =
     (if event = JNull then d
      else let e = dbe (pe env); customerID = json_string ''customer'' event; subscriptionID = json_string ''id'' event;
               userID = (case metadata_string ''user_id'' event of None \<Rightarrow> '''' | Some v \<Rightarrow> TrimSpace v);
               userID = (if userID = '''' \<and> customerID \<noteq> '''' then
                   (case GetUserByStripeCustomerID e customerID d of Inr (Some u) \<Rightarrow> u_id u | _ \<Rightarrow> '''') else userID)
           in if userID = '''' then d
              else snd (UpsertSubscriptionFromPayment e userID True (stripe_tier event) customerID subscriptionID
                     (Some (now (pe env))) None d))"

definition handleSubscriptionUpdated :: "'o pay_env \<Rightarrow> json \<Rightarrow> database \<Rightarrow> database" where
  "handleSubscriptionUpdated env event d =
     (if event = JNull then d
      else let e = dbe (pe env); customerID = json_string ''customer'' event; subscriptionID = json_string ''id'' event;
               status = json_string ''status'' event;
               isPremium = (status \<notin> {''canceled'', ''unpaid'', ''incomplete_expired''})
           in case stripe_user e customerID subscriptionID d of
                None \<Rightarrow> d
              | Some userID \<Rightarrow>
                  snd (UpsertSubscriptionFromPayment e userID isPremium (if isPremium then stripe_tier event else ''free'')
                    customerID subscriptionID None (if isPremium then None else Some (now (pe env))) d))"

definition handleSubscriptionDeleted :: "'o pay_env \<Rightarrow> json \<Rightarrow> database \<Rightarrow> database" where
  "handleSubscriptionDeleted env event d =
     (if event = JNull then d
      else let e = dbe (pe env); customerID = json_string ''customer'' event; subscriptionID = json_string ''id'' event
           in case stripe_user e customerID subscriptionID d of
                None \<Rightarrow> d
              | Some userID \<Rightarrow>
                  snd (UpsertSubscriptionFromPayment e userID False ''free'' customerID subscriptionID None
                    (Some (now (pe env))) d))"

definition stripe_event :: "'o pay_env \<Rightarrow> string \<Rightarrow> json \<Rightarrow> database \<Rightarrow> database" where
  "stripe_event env ty =
     (if ty = ''customer.subscription.created'' then handleSubscriptionCreated env
      else if ty = ''customer.subscription.updated'' then handleSubscriptionUpdated env
      else if ty = ''customer.subscription.deleted'' then handleSubscriptionDeleted env
      else (\<lambda>obj d. d))"

definition StripeWebhook :: "'o pay_env \<Rightarrow> (string, 'o app) handler" where
  "StripeWebhook env r = (\<lambda>(w, s).
     (let secret = pay_getenv env ''STRIPE_WEBHOOK_SECRET''
      in if secret = '''' then respond (write_header 500 w) s
         else case req_body r of
                None \<Rightarrow> respond (write_header 400 w) s
              | Some body \<Rightarrow>
                  (case construct_event env body (req_hdr r ''Stripe-Signature'') secret of
                     None \<Rightarrow> respond (WriteBadRequest ''invalid signature'' w) s
                   | Some (ty, obj) \<Rightarrow>
                       respond (write_body (Json (JObj [(''received'', JStr ''true'')])) (write_header 200 w))
                         (s\<lparr>app_db := stripe_event env ty obj (app_db s)\<rparr>))))"

subsection \<open>Checkout\<close>

definition getStripePriceIDForTier :: "(string \<Rightarrow> string) \<Rightarrow> string \<Rightarrow> string + string" where
  "getStripePriceIDForTier env_var tierID =
     (let price = (\<lambda>name default. if TrimSpace (env_var name) = '''' then default else TrimSpace (env_var name))
      in if tierID = ''pro'' then Inr (price ''STRIPE_PRICE_ID_PRO'' ''price_pro_monthly'')
         else if tierID = ''pro_plus'' then Inr (price ''STRIPE_PRICE_ID_PRO_PLUS'' ''price_proplus_monthly'')
         else if tierID = ''unlimited'' then
           (if TrimSpace (env_var ''STRIPE_PRICE_ID_UNLIMITED'') = ''''
            then Inl (''tier '' @ CHR 0x27 # ''unlimited'' @ CHR 0x27 # '' is not configured'')
            else Inr (TrimSpace (env_var ''STRIPE_PRICE_ID_UNLIMITED'')))
         else if tierID = ''free'' then Inl ''free tier does not require checkout''
         else Inl ''unsupported tier_id'')"

definition checkout_urls :: "(string \<Rightarrow> string) \<Rightarrow> string \<times> string" where
  "checkout_urls env_var =
     (let frontend = TrimSpace (env_var ''FRONTEND_URL'');
          frontend = (if frontend = '''' then ''https://purptape.com'' else frontend);
          frontend = rev (dropWhile (\<lambda>c. c = CHR ''/'') (rev frontend));
          success = TrimSpace (env_var ''STRIPE_CHECKOUT_SUCCESS_URL'');
          cancel = TrimSpace (env_var ''STRIPE_CHECKOUT_CANCEL_URL'')
      in (if success = '''' then frontend @ ''/billing/success?session_id={CHECKOUT_SESSION_ID}'' else success,
          if cancel = '''' then frontend @ ''/billing/cancel'' else cancel))"

definition CreateCheckoutSession :: "'o pay_env \<Rightarrow> (string, 'o app) handler" where
  "CreateCheckoutSession env r = (\<lambda>(w, s).
     (case GetUserID r of
        None \<Rightarrow> respond (unauthorized w) s
      | Some userID \<Rightarrow>
          (case req_body r of
             None \<Rightarrow> respond (http_error ''invalid request'' 400 w) s
           | Some requested \<Rightarrow>
               let stripeSecret = TrimSpace (pay_getenv env ''STRIPE_SECRET_KEY''); tierID = ToLower (TrimSpace requested)
               in if stripeSecret = '''' then respond (http_error ''payment provider misconfigured'' 500 w) s
                  else case getStripePriceIDForTier (pay_getenv env) tierID of
                         Inl err \<Rightarrow> respond (http_error err 400 w) s
                       | Inr priceID \<Rightarrow>
                           (case GetUserByID (dbe (pe env)) userID (app_db s) of
                              Inl _ \<Rightarrow> respond (http_error ''failed to load user'' 500 w) s
                            | Inr None \<Rightarrow> respond (http_error ''user not found'' 404 w) s
                            | Inr (Some u) \<Rightarrow>
                                let (success, cancel) = checkout_urls (pay_getenv env)
                                in case new_session env stripeSecret \<lparr>co_user = userID, co_success = success,
                                       co_cancel = cancel, co_tier = tierID, co_price = priceID,
                                       co_email = (if TrimSpace (u_email u) = '''' then None else Some (u_email u))\<rparr> of
                                     None \<Rightarrow> respond (http_error ''failed to create checkout session'' 500 w) s
                                   | Some (i, url) \<Rightarrow>
                                       respond (write_json 201 (JObj [(''session_id'', JStr i), (''url'', JStr url)]) w) s))))"

subsection \<open>Who may change a subscription\<close>

definition revenuecat_signed :: "'o pay_env \<Rightarrow> string request \<Rightarrow> 'o app \<Rightarrow> bool" where
  "revenuecat_signed env r s \<longleftrightarrow>
     (let secret = pay_getenv env ''REVENUECAT_WEBHOOK_SECRET''; given = TrimSpace (req_hdr r ''X-Revenuecat-Signature'')
      in secret \<noteq> '''' \<and> given \<noteq> '''' \<and> (case req_body r of None \<Rightarrow> False | Some body \<Rightarrow>
           given = hex_of (pay_hmac env secret body) \<or> given = encode_padded std_alphabet (pay_hmac env secret body)))"

definition stripe_signed :: "'o pay_env \<Rightarrow> string request \<Rightarrow> 'o app \<Rightarrow> bool" where
  "stripe_signed env r s \<longleftrightarrow>
     (let secret = pay_getenv env ''STRIPE_WEBHOOK_SECRET''
      in secret \<noteq> '''' \<and> (case req_body r of None \<Rightarrow> False | Some body \<Rightarrow>
           construct_event env body (req_hdr r ''Stripe-Signature'') secret \<noteq> None))"

lemma refused_status: "wrote w = None \<Longrightarrow> 400 \<le> c \<Longrightarrow> c < 600 \<Longrightarrow> refused (respond (write_header c w) s) s"
  by (simp add: refused_def respond_def)

interpretation revenuecat: guarded "RevenueCatWebhook env" "revenuecat_signed env" for env
  by unfold_locales
     (auto simp: RevenueCatWebhook_def revenuecat_signed_def isValidRevenueCatSignature_def Let_def refused_status
        split: option.splits)

interpretation stripe: guarded "StripeWebhook env" "stripe_signed env" for env
  by unfold_locales (auto simp: StripeWebhook_def stripe_signed_def Let_def refused_status split: option.splits)

text \<open>C11: a webhook changes the server, or is answered with success, only when its body carries the signature of
  the configured secret: for RevenueCat the HMAC of the body in hexadecimal or Base64, for Stripe one that its library
  accepts. Any number of other requests leaves the server as it was.\<close>

theorem webhooks_need_signature:
  assumes "wrote w = None" and "h = RevenueCatWebhook env \<and> signature_ok = revenuecat_signed env \<or>
     h = StripeWebhook env \<and> signature_ok = stripe_signed env"
  shows "(snd (snd (h r (w, s))) \<noteq> s \<or> wrote (fst (snd (h r (w, s)))) = Some 200 \<longrightarrow> signature_ok r s) \<and>
     ((\<forall>r\<in>set rs. \<not> signature_ok r s) \<longrightarrow> serve_all h rs s = s)"
proof -
  have "guarded h signature_ok"
    using assms(2) revenuecat.guarded_axioms [of env] stripe.guarded_axioms [of env] by auto
  from guarded.change_needs_permission [OF this assms(1)] guarded.success_needs_permission [OF this assms(1), of r s 200]
    guarded.unpermitted_run [OF this, of rs s]
  show ?thesis by auto
qed

subsection \<open>The rows stay well-formed\<close>

text \<open>A row is premium and not cancelled, or free and cancelled; its identifiers are never empty strings.\<close>

definition subscription_ok :: "subscription_row \<Rightarrow> bool" where
  "subscription_ok b \<longleftrightarrow> sb_premium b = (sb_canceled b = None) \<and> (sb_premium b \<or> sb_tier b = ''free'') \<and>
     sb_customer b \<noteq> Some '''' \<and> sb_subscription b \<noteq> Some ''''"

definition subscriptions_ok :: "database \<Rightarrow> bool" where
  "subscriptions_ok d \<longleftrightarrow> distinct (map sb_user (subscriptions d)) \<and>
     (\<forall>b\<in>set (subscriptions d). subscription_ok b \<and> (\<exists>u\<in>set (users d). u_id u = sb_user b))"

lemma null_if_empty_ok [simp]: "coalesce (null_if_empty x) (Some '''') = None \<longleftrightarrow> False" "null_if_empty x \<noteq> Some ''''"
  by (auto simp: coalesce_def null_if_empty_def)

lemma coalesce_ok: "b \<noteq> Some '''' \<Longrightarrow> coalesce (null_if_empty x) b \<noteq> Some ''''"
  by (auto simp: coalesce_def null_if_empty_def)

lemma paid_row_ok:
  "sb_customer b \<noteq> Some '''' \<Longrightarrow> sb_subscription b \<noteq> Some '''' \<Longrightarrow> premium = (x = None) \<Longrightarrow> premium \<or> tier = ''free'' \<Longrightarrow>
   subscription_ok (paid_row e premium tier c i p x b)"
  using coalesce_ok by (simp add: subscription_ok_def paid_row_def)

lemma sb_user_paid [simp]: "sb_user (paid_row e premium tier c i p x b) = sb_user b"
  by (simp add: paid_row_def)

lemma blank_row_simps [simp]:
  "sb_user (blank_row e u) = u" "sb_customer (blank_row e u) = None" "sb_subscription (blank_row e u) = None"
  by (simp_all add: blank_row_def)

lemma upsert_ok:
  assumes "subscriptions_ok d" and "premium = (x = None)" "premium \<or> tier = ''free''"
  shows "subscriptions_ok (snd (UpsertSubscriptionFromPayment e u premium tier c i p x d))"
proof -
  have "subscription_ok (paid_row e premium tier c i p x b)" if "b \<in> set (subscriptions d)" for b
    using that assms by (intro paid_row_ok) (auto simp: subscriptions_ok_def subscription_ok_def)
  moreover have "subscription_ok (paid_row e premium tier c i p x (blank_row e u))"
    using assms by (intro paid_row_ok) simp_all
  ultimately show ?thesis
    using assms(1) by (auto simp: UpsertSubscriptionFromPayment_def Let_def subscriptions_ok_def set_update_rows)
qed

lemma applyRevenueCatEvent_ok: "subscriptions_ok d \<Longrightarrow> subscriptions_ok (applyRevenueCatEvent env ty p d)"
  by (auto simp: applyRevenueCatEvent_def Let_def upsert_ok split: option.splits)

lemma stripe_event_ok: "subscriptions_ok d \<Longrightarrow> subscriptions_ok (stripe_event env ty obj d)"
  by (auto simp: stripe_event_def handleSubscriptionCreated_def handleSubscriptionUpdated_def
      handleSubscriptionDeleted_def Let_def upsert_ok split: option.splits)

datatype provider = RevenueCat | Stripe

definition webhook :: "provider \<Rightarrow> 'o pay_env \<Rightarrow> (string, 'o app) handler" where
  "webhook p = (case p of RevenueCat \<Rightarrow> RevenueCatWebhook | Stripe \<Rightarrow> StripeWebhook)"

fun serve_webhooks :: "(provider \<times> 'o pay_env \<times> string request) list \<Rightarrow> 'o app \<Rightarrow> 'o app" where
  "serve_webhooks [] s = s"
| "serve_webhooks ((p, env, r) # rs) s = serve_webhooks rs (snd (snd (webhook p env r (new_writer, s))))"

lemma webhook_ok:
  "subscriptions_ok (app_db s) \<Longrightarrow> subscriptions_ok (app_db (snd (snd (webhook p env r (w, s)))))"
  by (auto simp: webhook_def RevenueCatWebhook_def StripeWebhook_def Let_def respond_def applyRevenueCatEvent_ok
      stripe_event_ok split: provider.splits option.splits)

text \<open>C14: whatever webhooks of the two providers arrive, in whatever order and with whatever failures of the
  database, the subscriptions keep their type: one row per user, of a user that exists, that is either premium
  and not cancelled or free and cancelled, with no empty provider identifier.\<close>

theorem subscriptions_well_typed:
  "subscriptions_ok (app_db s) \<Longrightarrow> subscriptions_ok (app_db (serve_webhooks rs s))"
proof (induction rs arbitrary: s)
  case (Cons x rs)
  obtain p env r where "x = (p, env, r)" by (cases x)
  then show ?case by (simp add: Cons.IH Cons.prems webhook_ok)
qed simp

definition paying_env :: "unit pay_env" where
  "paying_env = \<lparr>pe = sample_env, pay_getenv = \<lambda>k. ''secret'', pay_hmac = \<lambda>k m. ''ab'', pay_parse = \<lambda>b.
       Some (JObj [(''event'', JObj [(''type'', JStr ''RENEWAL''), (''app_user_id'', JStr ''u''),
         (''product_id'', JStr ''Pro_Plus_monthly'')])]),
     construct_event = \<lambda>b sig k. Some (''customer.subscription.deleted'', JObj [(''id'', JStr b)]),
     new_session = \<lambda>k p. None\<rparr>"

definition renewal :: "string request" where
  "renewal = plain_request\<lparr>req_hdr := \<lambda>k. ''6162'', req_body := Some ''body''\<rparr>"

theorem webhooks_need_signature_witness:
  "serve_all (RevenueCatWebhook paying_env) [plain_request, plain_request] sample_app = sample_app"
proof -
  have "\<not> revenuecat_signed paying_env plain_request sample_app" by code_simp
  with webhooks_need_signature [of new_writer "RevenueCatWebhook paying_env" paying_env "revenuecat_signed paying_env"
      plain_request sample_app "[plain_request, plain_request]"]
  show ?thesis by simp
qed

theorem subscriptions_well_typed_witness:
  "\<exists>b. subscriptions (app_db (serve_webhooks [(RevenueCat, paying_env, renewal)] sample_app)) = [b] \<and> subscription_ok b \<and>
     sb_tier b = ''pro_plus''"
proof -
  let ?d = "app_db (serve_webhooks [(RevenueCat, paying_env, renewal)] sample_app)"
  have "subscriptions_ok (app_db sample_app)" by code_simp
  from subscriptions_well_typed [OF this, of "[(RevenueCat, paying_env, renewal)]"] have "subscriptions_ok ?d" .
  moreover have "map sb_tier (subscriptions ?d) = [''pro_plus'']" by code_simp
  ultimately show ?thesis by (auto simp: subscriptions_ok_def)
qed

subsection \<open>Events delivered more than once\<close>

text \<open>The same server later, and what a row says apart from the moments it was written.\<close>

definition pay_later :: "'o pay_env \<Rightarrow> go_time \<Rightarrow> 'o pay_env" where
  "pay_later env t = env\<lparr>pe := (pe env)\<lparr>now := t, dbe := (dbe (pe env))\<lparr>db_now := t\<rparr>\<rparr>\<rparr>"

lemma pay_later_simps [simp]:
  "now (pe (pay_later env t)) = t" "dbe (pe (pay_later env t)) = (dbe (pe env))\<lparr>db_now := t\<rparr>"
  by (simp_all add: pay_later_def)

lemma is_sql_no_rows_later [simp]: "is_sql_no_rows (e\<lparr>db_now := t\<rparr>) x = is_sql_no_rows e x"
  by (simp add: is_sql_no_rows_def)

lemma user_of_subscription_later [simp]:
  "user_of_subscription (e\<lparr>db_now := t\<rparr>) call arg P d = user_of_subscription e call arg P d"
  by (simp add: user_of_subscription_def query_row_def split: list.split)

lemma null_if_empty_simps [simp]: "null_if_empty '''' = None" "x \<noteq> '''' \<Longrightarrow> null_if_empty x = Some x"
  by (simp_all add: null_if_empty_def)

lemma coalesce_simps [simp]: "coalesce None b = b" "coalesce (Some x) b = Some x"
  by (simp_all add: coalesce_def)

lemma map_update_twice:
  "(\<And>b. P b \<Longrightarrow> P (f b) \<and> v (g (f b)) = v (f b)) \<Longrightarrow>
   map v (update_rows P g (update_rows P f bs)) = map v (update_rows P f bs)"
  by (induction bs) auto

lemma update_rows_append [simp]: "update_rows P f (xs @ ys) = update_rows P f xs @ update_rows P f ys"
  by (simp add: update_rows_def)

lemma update_rows_ex:
  "(\<And>b. k (f b) = k b) \<Longrightarrow> (\<exists>b\<in>set (update_rows P f bs). k b = u) \<longleftrightarrow> (\<exists>b\<in>set bs. k b = u)"
  by (induction bs) auto

lemma coalesce_twice [simp]: "coalesce a (coalesce a b) = coalesce a b"
  by (cases a) simp_all

definition plan_of :: "subscription_row \<Rightarrow> string \<times> bool \<times> string \<times> int \<times> int \<times> string option \<times> string option \<times> bool" where
  "plan_of b = (sb_user b, sb_premium b, sb_tier b, sb_quota_mb b, sb_used_mb b, sb_customer b,
     sb_subscription b, sb_canceled b \<noteq> None)"

lemma paid_twice:
  "(x = None) = (x' = None) \<Longrightarrow> plan_of (paid_row e' premium tier c i p' x' (paid_row e premium tier c i p x b)) =
     plan_of (paid_row e premium tier c i p x b)"
  by (auto simp: plan_of_def paid_row_def)

lemma upsert_cases:
  assumes "UpsertSubscriptionFromPayment e u premium tier c i p x d = (res, d')"
  obtains (failed) "d' = d" "fails e ''UpsertSubscriptionFromPayment'' [u] \<or> \<not> (\<exists>w\<in>set (users d). u_id w = u)"
    | (updated) "d' = d\<lparr>subscriptions := update_rows (\<lambda>b. sb_user b = u) (paid_row e premium tier c i p x) (subscriptions d)\<rparr>"
        "\<not> fails e ''UpsertSubscriptionFromPayment'' [u]" "\<exists>w\<in>set (users d). u_id w = u"
        "\<exists>b\<in>set (subscriptions d). sb_user b = u"
    | (inserted) "d' = d\<lparr>subscriptions := subscriptions d @ [paid_row e premium tier c i p x (blank_row e u)]\<rparr>"
        "\<not> fails e ''UpsertSubscriptionFromPayment'' [u]" "\<exists>w\<in>set (users d). u_id w = u"
        "\<forall>b\<in>set (subscriptions d). sb_user b \<noteq> u"
proof -
  consider (a) "fails e ''UpsertSubscriptionFromPayment'' [u] \<or> \<not> (\<exists>w\<in>set (users d). u_id w = u)"
    | (b) "\<not> fails e ''UpsertSubscriptionFromPayment'' [u]" "\<exists>w\<in>set (users d). u_id w = u" "\<exists>b\<in>set (subscriptions d). sb_user b = u"
    | (c) "\<not> fails e ''UpsertSubscriptionFromPayment'' [u]" "\<exists>w\<in>set (users d). u_id w = u" "\<forall>b\<in>set (subscriptions d). sb_user b \<noteq> u"
    by blast
  then show thesis
  proof cases
    case a
    with assms have "d' = d" unfolding UpsertSubscriptionFromPayment_def Let_def by (metis prod.inject)
    with a failed show thesis by blast
  next
    case b
    with assms updated show thesis by (simp add: UpsertSubscriptionFromPayment_def Let_def)
  next
    case c
    then have "\<not> (\<exists>b\<in>set (subscriptions d). sb_user b = u)" by blast
    with c assms inserted show thesis by (simp add: UpsertSubscriptionFromPayment_def Let_def)
  qed
qed

lemma upsert_twice:
  assumes "UpsertSubscriptionFromPayment e u premium tier c i p x d = (res, d1)" and "(x = None) = (x' = None)"
  shows "map plan_of (subscriptions (snd (UpsertSubscriptionFromPayment (e\<lparr>db_now := t\<rparr>) u premium tier c i p' x' d1))) =
     map plan_of (subscriptions d1)"
  using assms(1)
proof (cases rule: upsert_cases)
  case failed
  then show ?thesis by (auto simp: UpsertSubscriptionFromPayment_def Let_def)
next
  case updated
  have "\<exists>b\<in>set (subscriptions d1). sb_user b = u" unfolding updated(1) using updated(4) by (simp add: update_rows_ex)
  with updated(2,3) show ?thesis
    unfolding updated(1) using assms(2)
    by (simp add: UpsertSubscriptionFromPayment_def) (rule map_update_twice, simp add: paid_twice)
next
  case inserted
  have "update_rows (\<lambda>b. sb_user b = u) f (subscriptions d) = subscriptions d" for f
    using inserted(4) by (intro update_rows_none) auto
  with inserted(2,3) show ?thesis
    unfolding inserted(1) using assms(2) by (simp add: UpsertSubscriptionFromPayment_def paid_twice)
qed

text \<open>The row that a look-up went by is still there after the statement on the user it found.\<close>

lemma holder_upsert:
  assumes "UpsertSubscriptionFromPayment e u premium tier c i p x d = (res, d')"
    and "\<And>b. Q b \<Longrightarrow> Q (paid_row e premium tier c i p x b)"
  shows "k \<noteq> u \<Longrightarrow> list_ex (\<lambda>b. sb_user b = k \<and> Q b) (subscriptions d') = list_ex (\<lambda>b. sb_user b = k \<and> Q b) (subscriptions d)"
    and "list_ex (\<lambda>b. sb_user b = u \<and> Q b) (subscriptions d) \<Longrightarrow> list_ex (\<lambda>b. sb_user b = u \<and> Q b) (subscriptions d')"
    and "users d' = users d"
proof -
  have other: "list_ex (\<lambda>b. sb_user b = k \<and> Q b) (update_rows (\<lambda>b. sb_user b = u) (paid_row e premium tier c i p x) bs) =
      list_ex (\<lambda>b. sb_user b = k \<and> Q b) bs" if "k \<noteq> u" for bs
    using that by (induction bs) auto
  have same: "list_ex (\<lambda>b. sb_user b = u \<and> Q b) bs \<Longrightarrow>
      list_ex (\<lambda>b. sb_user b = u \<and> Q b) (update_rows (\<lambda>b. sb_user b = u) (paid_row e premium tier c i p x) bs)" for bs
    using assms(2) by (induction bs) auto
  show "k \<noteq> u \<Longrightarrow> list_ex (\<lambda>b. sb_user b = k \<and> Q b) (subscriptions d') = list_ex (\<lambda>b. sb_user b = k \<and> Q b) (subscriptions d)"
    and "list_ex (\<lambda>b. sb_user b = u \<and> Q b) (subscriptions d) \<Longrightarrow> list_ex (\<lambda>b. sb_user b = u \<and> Q b) (subscriptions d')"
    and "users d' = users d"
    using assms(1) by (cases rule: upsert_cases; simp add: other same)+
qed

lemma user_found_again:
  assumes "UpsertSubscriptionFromPayment e' (u_id u) premium tier c i p x d = (res, d')"
    and "user_of_subscription e call a Q d = Inr (Some u)"
    and "\<And>b. Q b \<Longrightarrow> Q (paid_row e' premium tier c i p x b)"
  shows "user_of_subscription e call a Q d' = Inr (Some u)"
proof -
  have "u \<in> set (users d)" "list_ex (\<lambda>b. sb_user b = u_id u \<and> Q b) (subscriptions d)"
    using assms(2) query_row_InrD
    by (fastforce simp: user_of_subscription_def scan_user_def split: sum.splits if_splits)+
  then have "list_ex (\<lambda>b. sb_user b = k \<and> Q b) (subscriptions d') = list_ex (\<lambda>b. sb_user b = k \<and> Q b) (subscriptions d)" for k
    using holder_upsert(1,2) [OF assms(1), of Q] assms(3) by (cases "k = u_id u") auto
  then show ?thesis
    using assms(2) holder_upsert(3) [OF assms(1), where Q = Q] assms(3) by (simp add: user_of_subscription_def)
qed

lemma paid_row_keeps:
  "sb_customer b = Some c \<Longrightarrow> sb_customer (paid_row e premium tier c i p x b) = Some c"
  "sb_subscription b = Some i \<Longrightarrow> sb_subscription (paid_row e premium tier c i p x b) = Some i"
  by (auto simp: paid_row_def coalesce_def null_if_empty_def)

lemma customer_found_again:
  assumes "UpsertSubscriptionFromPayment e' (u_id u) premium tier c i p x d = (res, d')"
    and "GetUserByStripeCustomerID e c d = Inr (Some u)"
  shows "GetUserByStripeCustomerID e c d' = Inr (Some u)"
  using user_found_again [OF assms(1)] assms(2) unfolding GetUserByStripeCustomerID_def by (simp add: paid_row_keeps)

lemma subscription_found_again:
  assumes "UpsertSubscriptionFromPayment e' (u_id u) premium tier c i p x d = (res, d')"
    and "GetUserByStripeSubscriptionID e i d = Inr (Some u)"
  shows "GetUserByStripeSubscriptionID e i d' = Inr (Some u)"
  using user_found_again [OF assms(1)] assms(2) unfolding GetUserByStripeSubscriptionID_def by (simp add: paid_row_keeps)

text \<open>When no row had the subscription before, at most that of the user who was found by customer has it
  afterwards.\<close>

lemma user_of_subscription_None:
  assumes "user_of_subscription e call a Q d = Inr None" and "w \<in> set (users d)"
  shows "\<not> list_ex (\<lambda>b. sb_user b = u_id w \<and> Q b) (subscriptions d)"
  using assms
  by (auto simp: user_of_subscription_def query_row_def scan_user_def filter_empty_conv is_sql_no_rows_def
      split: sum.splits if_splits list.splits)

lemma stripe_user_again:
  assumes "UpsertSubscriptionFromPayment e' u premium tier c i p x d = (res, d')" and "stripe_user e c i d = Some u"
    and ids: "\<forall>w\<in>set (users d). u_id w \<noteq> ''''"
  shows "stripe_user e c i d' = Some u \<or> stripe_user e c i d' = None"
proof (cases "GetUserByStripeSubscriptionID e i d")
  case (Inl x)
  with assms(2) show ?thesis by (simp add: stripe_user_def)
next
  case (Inr found)
  show ?thesis
  proof (cases found)
    case (Some v)
    then have "v \<in> set (users d)"
      using Inr query_row_InrD
      by (fastforce simp: GetUserByStripeSubscriptionID_def user_of_subscription_def scan_user_def split: sum.splits if_splits)
    with assms(2) Inr Some ids have "u_id v = u" "u \<noteq> ''''" by (auto simp: stripe_user_def)
    with subscription_found_again [of e' v] assms(1,2) Inr Some show ?thesis by (auto simp: stripe_user_def)
  next
    case None
    with assms(2) Inr obtain v where v: "c \<noteq> ''''" "GetUserByStripeCustomerID e c d = Inr (Some v)" "u_id v = u" "u \<noteq> ''''"
      by (auto simp: stripe_user_def split: if_splits sum.splits option.splits)
    have again: "GetUserByStripeCustomerID e c d' = Inr (Some v)" using customer_found_again [of e' v] assms(1) v by simp
    have "u_id w = u" if "GetUserByStripeSubscriptionID e i d' = Inr (Some w)" for w
    proof -
      let ?Q = "\<lambda>b. sb_subscription b = Some i"
      have w: "w \<in> set (users d')" "list_ex (\<lambda>b. sb_user b = u_id w \<and> ?Q b) (subscriptions d')"
        using that query_row_InrD
        by (fastforce simp: GetUserByStripeSubscriptionID_def user_of_subscription_def scan_user_def split: sum.splits if_splits)+
      have keeps: "\<And>b. ?Q b \<Longrightarrow> ?Q (paid_row e' premium tier c i p x b)" by (simp add: paid_row_keeps)
      have "w \<in> set (users d)" using w(1) holder_upsert(3) [OF assms(1), of ?Q] keeps by simp
      with user_of_subscription_None [of e _ i ?Q d w] Inr None
      have "\<not> list_ex (\<lambda>b. sb_user b = u_id w \<and> ?Q b) (subscriptions d)"
        unfolding GetUserByStripeSubscriptionID_def by simp
      then show ?thesis using w(2) holder_upsert(1) [OF assms(1), of ?Q "u_id w"] keeps by auto
    qed
    with again v show ?thesis by (auto simp: stripe_user_def split: sum.splits option.splits)
  qed
qed

lemma stripe_later [simp]:
  "GetUserByStripeCustomerID (e\<lparr>db_now := t\<rparr>) c d = GetUserByStripeCustomerID e c d"
  "GetUserByStripeSubscriptionID (e\<lparr>db_now := t\<rparr>) i d = GetUserByStripeSubscriptionID e i d"
  by (simp_all add: GetUserByStripeCustomerID_def GetUserByStripeSubscriptionID_def)

lemma stripe_user_later [simp]: "stripe_user (e\<lparr>db_now := t\<rparr>) c i d = stripe_user e c i d"
  unfolding stripe_user_def stripe_later ..

abbreviation plans :: "database \<Rightarrow> (string \<times> bool \<times> string \<times> int \<times> int \<times> string option \<times> string option \<times> bool) list" where
  "plans d \<equiv> map plan_of (subscriptions d)"

lemma upsert_again:
  "plans (snd (UpsertSubscriptionFromPayment (e\<lparr>db_now := t\<rparr>) u premium tier c i p' x'
     (snd (UpsertSubscriptionFromPayment e u premium tier c i p x d)))) =
   plans (snd (UpsertSubscriptionFromPayment e u premium tier c i p x d))" if "(x = None) = (x' = None)"
  using upsert_twice [OF prod.collapse [symmetric] that] .

lemma revenuecat_again:
  "plans (applyRevenueCatEvent (pay_later env t) ty payload (applyRevenueCatEvent env ty payload d)) =
   plans (applyRevenueCatEvent env ty payload d)"
  by (simp add: applyRevenueCatEvent_def Let_def upsert_again split: option.split)

text \<open>The three handlers share a shape: find the user, then run the statement. It suffices that the second search finds
  the same user or nobody.\<close>

lemma found_then_upsert_again:
  assumes "\<And>u. seek d = Some u \<Longrightarrow>
       seek (snd (UpsertSubscriptionFromPayment e u a b c i p x d)) \<in> {Some u, None}"
    and "(x = None) = (x' = None)"
    and "first = (case seek d of None \<Rightarrow> d | Some u \<Rightarrow> snd (UpsertSubscriptionFromPayment e u a b c i p x d))"
  shows "plans (case seek first of None \<Rightarrow> first
      | Some u \<Rightarrow> snd (UpsertSubscriptionFromPayment (e\<lparr>db_now := t\<rparr>) u a b c i p' x' first)) = plans first"
proof (cases "seek d")
  case None
  with assms(3) show ?thesis by simp
next
  case (Some u)
  with assms(3) have "first = snd (UpsertSubscriptionFromPayment e u a b c i p x d)" by simp
  with assms(1) [OF Some] show ?thesis by (auto simp: upsert_again [OF assms(2)])
qed

definition created_user :: "dbenv \<Rightarrow> json \<Rightarrow> database \<Rightarrow> string option" where
  "created_user e event d = null_if_empty
     (let userID = (case metadata_string ''user_id'' event of None \<Rightarrow> '''' | Some v \<Rightarrow> TrimSpace v);
          customerID = json_string ''customer'' event
      in if userID = '''' \<and> customerID \<noteq> '''' then
           (case GetUserByStripeCustomerID e customerID d of Inr (Some u) \<Rightarrow> u_id u | _ \<Rightarrow> '''') else userID)"

lemma handler_shapes:
  "handleSubscriptionCreated env event d = (if event = JNull then d else
     case created_user (dbe (pe env)) event d of None \<Rightarrow> d
     | Some u \<Rightarrow> snd (UpsertSubscriptionFromPayment (dbe (pe env)) u True (stripe_tier event) (json_string ''customer'' event)
         (json_string ''id'' event) (Some (now (pe env))) None d))"
  "handleSubscriptionUpdated env event d = (if event = JNull then d else
     case stripe_user (dbe (pe env)) (json_string ''customer'' event) (json_string ''id'' event) d of None \<Rightarrow> d
     | Some u \<Rightarrow> snd (UpsertSubscriptionFromPayment (dbe (pe env)) u
         (json_string ''status'' event \<notin> {''canceled'', ''unpaid'', ''incomplete_expired''})
         (if json_string ''status'' event \<notin> {''canceled'', ''unpaid'', ''incomplete_expired''} then stripe_tier event else ''free'')
         (json_string ''customer'' event) (json_string ''id'' event) None
         (if json_string ''status'' event \<notin> {''canceled'', ''unpaid'', ''incomplete_expired''} then None
          else Some (now (pe env))) d))"
  "handleSubscriptionDeleted env event d = (if event = JNull then d else
     case stripe_user (dbe (pe env)) (json_string ''customer'' event) (json_string ''id'' event) d of None \<Rightarrow> d
     | Some u \<Rightarrow> snd (UpsertSubscriptionFromPayment (dbe (pe env)) u False ''free'' (json_string ''customer'' event)
         (json_string ''id'' event) None (Some (now (pe env))) d))"
  unfolding handleSubscriptionCreated_def handleSubscriptionUpdated_def handleSubscriptionDeleted_def created_user_def
    null_if_empty_def Let_def
  by (rule if_cong; simp; fail | rule refl)+

lemma created_user_later [simp]: "created_user (e\<lparr>db_now := t\<rparr>) event d = created_user e event d"
  unfolding created_user_def stripe_later ..

lemma created_user_again:
  assumes "created_user e event d = Some u"
  shows "created_user e event (snd (UpsertSubscriptionFromPayment e' u a b (json_string ''customer'' event) i p x d)) = Some u"
proof (cases "(case metadata_string ''user_id'' event of None \<Rightarrow> '''' | Some v \<Rightarrow> TrimSpace v) = '''' \<and>
    json_string ''customer'' event \<noteq> ''''")
  case True
  with assms obtain v where "GetUserByStripeCustomerID e (json_string ''customer'' event) d = Inr (Some v)" "u_id v = u"
    by (auto simp: created_user_def null_if_empty_def split: if_splits sum.splits option.splits)
  moreover have "GetUserByStripeCustomerID e (json_string ''customer'' event) (snd (UpsertSubscriptionFromPayment e' (u_id v)
      a b (json_string ''customer'' event) i p x d)) = Inr (Some v)"
    by (rule customer_found_again [OF prod.collapse [symmetric]]) fact
  ultimately show ?thesis using assms True by (simp add: created_user_def Let_def)
next
  case False
  with assms show ?thesis unfolding created_user_def Let_def by (simp only: if_False)
qed

lemma created_again:
  "plans (handleSubscriptionCreated (pay_later env t) obj (handleSubscriptionCreated env obj d)) =
   plans (handleSubscriptionCreated env obj d)"
proof (cases "obj = JNull")
  case True
  then show ?thesis by (simp add: handler_shapes)
next
  case False
  show ?thesis
    unfolding handler_shapes if_not_P [OF False] pay_later_simps created_user_later
    by (rule found_then_upsert_again [OF _ _ refl]) (simp_all add: created_user_again)
qed

lemma updated_again:
  assumes "\<forall>w\<in>set (users d). u_id w \<noteq> ''''"
  shows "plans (handleSubscriptionUpdated (pay_later env t) obj (handleSubscriptionUpdated env obj d)) =
   plans (handleSubscriptionUpdated env obj d)"
    and "plans (handleSubscriptionDeleted (pay_later env t) obj (handleSubscriptionDeleted env obj d)) =
   plans (handleSubscriptionDeleted env obj d)"
proof -
  note found = stripe_user_again [OF prod.collapse [symmetric] _ assms]
  show "plans (handleSubscriptionUpdated (pay_later env t) obj (handleSubscriptionUpdated env obj d)) =
     plans (handleSubscriptionUpdated env obj d)"
  proof (cases "obj = JNull")
    case True
    then show ?thesis by (simp add: handler_shapes)
  next
    case False
    show ?thesis
      unfolding handler_shapes if_not_P [OF False] pay_later_simps stripe_user_later
      by (rule found_then_upsert_again [OF _ _ refl]) (use found in auto)
  qed
  show "plans (handleSubscriptionDeleted (pay_later env t) obj (handleSubscriptionDeleted env obj d)) =
     plans (handleSubscriptionDeleted env obj d)"
  proof (cases "obj = JNull")
    case True
    then show ?thesis by (simp add: handler_shapes)
  next
    case False
    show ?thesis
      unfolding handler_shapes if_not_P [OF False] pay_later_simps stripe_user_later
      by (rule found_then_upsert_again [OF _ _ refl]) (use found in auto)
  qed
qed


definition deleted_object :: json where
  "deleted_object = JObj [(''id'', JStr ''sub_1''), (''customer'', JStr ''cus_1'')]"


end
