(* ===== verification/AccessCache.thy ===== *)
theory AccessCache
  imports Helpers
begin

text \<open>
  The check of access to projects and tracks through the denormalised tables of \<open>migrations/040\<close>
  (\<open>db/queries.go\<close>) and the Redis caches in front of it: \<open>cache/access_list_cache.go\<close>,
  \<open>middleware/access_check_cache.go\<close>, \<open>performance/batch_access_checker.go\<close>, the general cache of
  \<open>cache/cache.go\<close> and the invalidation bus of \<open>cache/invalidation.go\<close>. Redis is a service: the model
  keeps the documented meaning of \<open>SET\<close> with a time to live, \<open>GET\<close>, \<open>DEL\<close>, \<open>INCR\<close> and \<open>EXPIRE\<close> on a
  map from keys to strings with an optional expiry, and each call may fail. The JSON form of a list of
  identifiers is an argument.

  The locale \<open>ttl_cache\<close> states what the caches promise; it is interpreted on the Redis keys here and on
  the cache of presigned URLs of \<open>Storage\<close>.
\<close>

subsection \<open>Access queries\<close>

definition CanUserAccessProject :: "dbenv \<Rightarrow> string \<Rightarrow> string \<Rightarrow> database \<Rightarrow> bool db_result" where
  "CanUserAccessProject env userID projectID d =
     (if fails env ''CanUserAccessProject'' [userID, projectID] then Inl Fault
      else Inr (list_ex (\<lambda>a. ua_user a = userID \<and> ua_project a = projectID) (user_project_access d)))"

definition CanUserAccessTrack :: "dbenv \<Rightarrow> string \<Rightarrow> string \<Rightarrow> database \<Rightarrow> bool db_result" where
  "CanUserAccessTrack env userID trackID d =
     (if fails env ''CanUserAccessTrack'' [userID, trackID] then Inl Fault
      else Inr (list_ex (\<lambda>a. ta_user a = userID \<and> ta_track a = trackID) (user_track_access d)))"

definition GetUserProjectAccessList :: "dbenv \<Rightarrow> string \<Rightarrow> database \<Rightarrow> string list db_result" where
  "GetUserProjectAccessList env userID d =
     query_all env ''GetUserProjectAccessList'' [userID]
       (remdups (map ua_project (filter (\<lambda>a. ua_user a = userID \<and>
          ua_type a \<in> {''owner'', ''collaborator'', ''shared''}) (user_project_access d))))"

definition GetUserTrackAccessList :: "dbenv \<Rightarrow> string \<Rightarrow> database \<Rightarrow> string list db_result" where
  "GetUserTrackAccessList env userID d =
     query_all env ''GetUserTrackAccessList'' [userID]
       (remdups (map ta_track (filter (\<lambda>a. ta_user a = userID) (user_track_access d))))"

definition GetAccessibleTracksCount :: "dbenv \<Rightarrow> string \<Rightarrow> database \<Rightarrow> int db_result" where
  "GetAccessibleTracksCount env userID d =
     (if fails env ''GetAccessibleTracksCount'' [userID] then Inl Fault
      else Inr (int (length (remdups (map ta_track (filter (\<lambda>a. ta_user a = userID) (user_track_access d)))))))"

subsection \<open>The access table agrees with the rights\<close>

text \<open>The reference: owner, undeleted collaborator, or a share that is not revoked.\<close>

definition has_right :: "database \<Rightarrow> string \<Rightarrow> string \<Rightarrow> bool" where
  "has_right d userID projectID \<longleftrightarrow>
     list_ex (\<lambda>p. p_id p = projectID \<and> p_user p = userID) (projects d) \<or>
     collaborator d projectID userID \<noteq> None \<or> shared_with d projectID userID"

definition in_table :: "database \<Rightarrow> string \<Rightarrow> string \<Rightarrow> bool" where
  "in_table d userID projectID \<longleftrightarrow> (\<exists>a\<in>set (user_project_access d). ua_user a = userID \<and> ua_project a = projectID)"

definition project_exists :: "database \<Rightarrow> string \<Rightarrow> bool" where
  "project_exists d projectID \<longleftrightarrow> (\<exists>p\<in>set (projects d). p_id p = projectID)"

text \<open>Rights refer to projects that exist, and on these the table is exact.\<close>

definition access_exact :: "database \<Rightarrow> bool" where
  "access_exact d \<longleftrightarrow>
     (\<forall>u p. project_exists d p \<longrightarrow> (in_table d u p \<longleftrightarrow> has_right d u p)) \<and>
     (\<forall>s\<in>set (shares d). project_exists d (ps_project s)) \<and>
     (\<forall>c\<in>set (collaborators d). project_exists d (c_project c)) \<and>
     (\<forall>a\<in>set (user_project_access d). ua_type a \<in> {''owner'', ''collaborator'', ''shared''})"

lemma collaborator_iff:
  "collaborator d p u \<noteq> None \<longleftrightarrow> (\<exists>c\<in>set (collaborators d). c_project c = p \<and> c_user c = u \<and> c_deleted c = None)"
  by (auto simp: collaborator_def find_None_iff)

lemma has_right_iff:
  "has_right d u p \<longleftrightarrow>
     (\<exists>q\<in>set (projects d). p_id q = p \<and> p_user q = u) \<or>
     (\<exists>c\<in>set (collaborators d). c_project c = p \<and> c_user c = u \<and> c_deleted c = None) \<or>
     (\<exists>s\<in>set (shares d). ps_project s = p \<and> ps_with s = Some u \<and> ps_revoked s = None)"
  unfolding has_right_def collaborator_iff by (auto simp: shared_with_def list_ex_iff active_share_def)

lemma in_table_grant:
  "has_access_table env \<Longrightarrow> in_table (grant_access env v q ty d) u p \<longleftrightarrow> in_table d u p \<or> (u = v \<and> p = q)"
  by (auto simp: in_table_def grant_access_set)

lemma queue_cleanup_access [frame_simps]:
  "user_project_access (queue_cleanup env fs d) = user_project_access d"
  by (induction env fs d rule: queue_cleanup.induct) simp_all

text \<open>A change that leaves owners, collaborators, shares and the table alone and adds no project.\<close>

lemma access_exact_frame:
  assumes "access_exact d" and "user_project_access d' = user_project_access d"
    and "shares d' = shares d" and "collaborators d' = collaborators d"
    and "map (\<lambda>p. (p_id p, p_user p)) (projects d') = map (\<lambda>p. (p_id p, p_user p)) (projects d)"
  shows "access_exact d'"
proof -
  have "(\<lambda>p. (p_id p, p_user p)) ` set (projects d') = (\<lambda>p. (p_id p, p_user p)) ` set (projects d)"
    by (metis assms(5) set_map)
  then have "\<And>p u. (\<exists>q\<in>set (projects d'). p_id q = p \<and> p_user q = u) \<longleftrightarrow> (\<exists>q\<in>set (projects d). p_id q = p \<and> p_user q = u)"
    by (auto simp: set_eq_iff image_iff) metis+
  moreover then have "\<And>p. project_exists d' p \<longleftrightarrow> project_exists d p" unfolding project_exists_def by blast
  ultimately show ?thesis
    using assms(1) unfolding access_exact_def in_table_def has_right_iff assms(2-4) by simp
qed

text \<open>A new right together with its row.\<close>

lemma access_exact_granted:
  assumes exact: "access_exact d" and table: "has_access_table env" and ty: "ty \<in> {''owner'', ''collaborator'', ''shared''}"
    and same: "user_project_access d1 = user_project_access d"
    and ex: "\<And>q. project_exists d1 q \<longleftrightarrow> project_exists d q \<or> q = q0"
    and right: "\<And>u q. has_right d1 u q \<longleftrightarrow> has_right d u q \<or> (u = v \<and> q = q0)"
    and new: "project_exists d q0 \<or> (\<forall>u. \<not> in_table d u q0 \<and> \<not> has_right d u q0)"
    and refs: "\<forall>s\<in>set (shares d1). project_exists d1 (ps_project s)"
      "\<forall>c\<in>set (collaborators d1). project_exists d1 (c_project c)"
  shows "access_exact (grant_access env v q0 ty d1)"
proof -
  let ?d = "grant_access env v q0 ty d1"
  have frame: "project_exists ?d q \<longleftrightarrow> project_exists d1 q" "has_right ?d u q \<longleftrightarrow> has_right d1 u q" for u q
    by (simp_all add: project_exists_def has_right_iff)
  have tab: "in_table ?d u q \<longleftrightarrow> in_table d u q \<or> (u = v \<and> q = q0)" for u q
    using in_table_grant [OF table] same by (simp add: in_table_def)
  have "in_table ?d u q \<longleftrightarrow> has_right ?d u q" if "project_exists ?d q" for u q
  proof (cases "project_exists d q")
    case True
    with exact show ?thesis by (auto simp: frame right tab access_exact_def)
  next
    case False
    with that ex frame have "q = q0" by simp
    with False new show ?thesis by (auto simp: frame right tab)
  qed
  moreover have "\<forall>a\<in>set (user_project_access ?d). ua_type a \<in> {''owner'', ''collaborator'', ''shared''}"
    using exact ty same by (auto simp: access_exact_def grant_access_set [OF table])
  ultimately show ?thesis using refs by (simp add: access_exact_def frame)
qed

lemma access_exact_create:
  assumes exact: "access_exact d" and table: "has_access_table env"
    and fresh: "\<forall>a\<in>set (user_project_access d). ua_project a \<noteq> p_id p"
  shows "access_exact (snd (CreateProject env p d))"
proof (cases "fst (CreateProject env p d)")
  case (Inl e)
  then have "snd (CreateProject env p d) = d" by (auto simp: CreateProject_def Let_def split: if_splits)
  with exact show ?thesis by simp
next
  case (Inr q)
  let ?q = "p\<lparr>p_is_private := True, p_cover := None, p_genre := '''', p_release := None, p_deleted := None\<rparr>"
  have new: "\<not> project_exists d (p_id p)"
    using Inr by (auto simp: CreateProject_def Let_def project_exists_def split: if_splits)
  have d': "snd (CreateProject env p d) = grant_access env (p_user p) (p_id p) ''owner'' (d\<lparr>projects := projects d @ [?q]\<rparr>)"
    using Inr by (auto simp: CreateProject_def Let_def split: if_splits)
  have refs: "\<forall>c\<in>set (collaborators d). project_exists d (c_project c)" "\<forall>s\<in>set (shares d). project_exists d (ps_project s)"
    using exact by (simp_all add: access_exact_def)
  with new have "\<not> has_right d u (p_id p)" for u
    unfolding has_right_iff by (metis project_exists_def)
  moreover have "\<not> in_table d u (p_id p)" for u using fresh by (auto simp: in_table_def)
  ultimately show ?thesis
    unfolding d' using refs by (intro access_exact_granted [OF exact table]) (auto simp: project_exists_def has_right_iff)
qed

lemma access_exact_share:
  assumes exact: "access_exact d" and table: "has_access_table env"
  shows "access_exact (snd (CreateProjectShare env s d))"
proof (cases "fst (CreateProjectShare env s d)")
  case (Inl e)
  then have "snd (CreateProjectShare env s d) = d"
    by (auto simp: CreateProjectShare_def Let_def split: if_splits option.splits)
  with exact show ?thesis by simp
next
  case (Inr q)
  then obtain u where u: "ps_with s = Some u" and ex: "project_exists d (ps_project s)"
    using table by (auto simp: CreateProjectShare_def Let_def project_exists_def split: if_splits)
  have d': "snd (CreateProjectShare env s d) = grant_access env u (ps_project s) ''shared''
      (d\<lparr>shares := shares d @ [s\<lparr>ps_revoked := None\<rparr>]\<rparr>)"
    using Inr u by (auto simp: CreateProjectShare_def Let_def split: if_splits)
  show ?thesis
    unfolding d' using ex exact u
    by (intro access_exact_granted [OF exact table]) (auto simp: project_exists_def has_right_iff access_exact_def)
qed

lemma access_exact_collaborator:
  assumes exact: "access_exact d" and table: "has_access_table env"
  shows "access_exact (snd (AddCollaborator env c d))"
proof -
  let ?same = "\<lambda>q. c_project q = c_project c \<and> c_user q = c_user c"
  have "snd (AddCollaborator env c d) = d \<or>
      snd (AddCollaborator env c d) = d\<lparr>collaborators := update_rows ?same
        (\<lambda>q. q\<lparr>c_role := c_role c, c_invited := c_invited c\<rparr>) (collaborators d)\<rparr> \<or>
      project_exists d (c_project c) \<and> snd (AddCollaborator env c d) = grant_access env (c_user c) (c_project c)
        ''collaborator'' (d\<lparr>collaborators := collaborators d @ [c\<lparr>c_deleted := None\<rparr>]\<rparr>)"
    by (simp add: AddCollaborator_def Let_def project_exists_def)
  then consider "snd (AddCollaborator env c d) = d"
    | "snd (AddCollaborator env c d) = d\<lparr>collaborators := update_rows ?same
        (\<lambda>q. q\<lparr>c_role := c_role c, c_invited := c_invited c\<rparr>) (collaborators d)\<rparr>"
    | "project_exists d (c_project c)" "snd (AddCollaborator env c d) = grant_access env (c_user c) (c_project c)
        ''collaborator'' (d\<lparr>collaborators := collaborators d @ [c\<lparr>c_deleted := None\<rparr>]\<rparr>)"
    by blast
  then show ?thesis
  proof cases
    case 1
    with exact show ?thesis by simp
  next
    case 2
    have upd: "(\<exists>x\<in>set (update_rows ?same (\<lambda>q. q\<lparr>c_role := c_role c, c_invited := c_invited c\<rparr>) cs).
          c_project x = p \<and> c_user x = u \<and> c_deleted x = None)
        \<longleftrightarrow> (\<exists>x\<in>set cs. c_project x = p \<and> c_user x = u \<and> c_deleted x = None)" for cs p u
      by (induction cs) auto
    have "\<forall>x\<in>set (update_rows ?same (\<lambda>q. q\<lparr>c_role := c_role c, c_invited := c_invited c\<rparr>) (collaborators d)).
        project_exists d (c_project x)"
      using exact by (auto simp: access_exact_def set_update_rows)
    with 2 exact show ?thesis
      by (simp add: access_exact_def in_table_def has_right_iff project_exists_def upd)
  next
    case 3
    show ?thesis
      unfolding 3(2) using 3(1) exact
      by (intro access_exact_granted [OF exact table]) (auto simp: project_exists_def has_right_iff access_exact_def)
  qed
qed

lemma access_exact_hard_delete:
  assumes exact: "access_exact d" shows "access_exact (snd (HardDeleteProject env p d))"
proof -
  define d' where "d' = queue_cleanup env (map version_cleanup (project_versions d p)) (delete_project_rows p d)"
  have d': "projects d' = filter (\<lambda>q. p_id q \<noteq> p) (projects d)" "shares d' = filter (\<lambda>s. ps_project s \<noteq> p) (shares d)"
    "collaborators d' = filter (\<lambda>c. c_project c \<noteq> p) (collaborators d)" "user_project_access d' = user_project_access d"
    by (simp_all add: d'_def frame_simps delete_project_rows_def Let_def queue_cleanup_access)
  have "project_exists d' q \<longleftrightarrow> q \<noteq> p \<and> project_exists d q" "in_table d' u q \<longleftrightarrow> in_table d u q"
    "q \<noteq> p \<Longrightarrow> has_right d' u q \<longleftrightarrow> has_right d u q" for u q
    by (auto simp: project_exists_def in_table_def has_right_iff d')
  with exact have "access_exact d'"
    unfolding access_exact_def d' by auto
  moreover have "snd (HardDeleteProject env p d) \<in> {d, d'}"
    by (auto simp: HardDeleteProject_def exec_stmt_def d'_def)
  ultimately show ?thesis using exact by auto
qed

text \<open>The statements of the backend that touch projects, their users, shares or collaborators. Identifiers
  of projects are not used twice.\<close>

inductive access_step :: "dbenv \<Rightarrow> database \<Rightarrow> database \<Rightarrow> bool" for env where
  user: "access_step env d (snd (EnsureAuthUser env userID email d))"
| create: "\<forall>a\<in>set (user_project_access d). ua_project a \<noteq> p_id p \<Longrightarrow> access_step env d (snd (CreateProject env p d))"
| share: "access_step env d (snd (CreateProjectShare env s d))"
| add_collaborator: "access_step env d (snd (AddCollaborator env c d))"
| privacy: "access_step env d (snd (UpdateProjectPrivacy env projectID isPrivate genre release d))"
| soft_delete: "access_step env d (snd (DeleteProject env projectID userID d))"
| hard_delete: "access_step env d (snd (HardDeleteProject env projectID d))"

lemma access_exact_step:
  assumes "access_step env d d'" "has_access_table env" "access_exact d"
  shows "access_exact d'"
  using assms
proof (induction rule: access_step.induct)
  case (user d userID email)
  then show ?case
    by (intro access_exact_frame [OF user.prems(2)]) (auto simp: EnsureAuthUser_def Let_def)
next
  case (privacy d projectID isPrivate genre release)
  then show ?case
    by (intro access_exact_frame [OF privacy.prems(2)]) (auto simp: UpdateProjectPrivacy_def exec_stmt_def)
next
  case (soft_delete d projectID userID)
  then show ?case
    by (intro access_exact_frame [OF soft_delete.prems(2)])
       (auto simp: DeleteProject_def Let_def frame_simps)
qed (simp_all add: access_exact_create access_exact_share access_exact_collaborator access_exact_hard_delete)

lemma access_exact_reachable:
  assumes "(access_step env)\<^sup>*\<^sup>* empty_db d" "has_access_table env"
  shows "access_exact d"
  using assms
proof (induction rule: rtranclp_induct)
  case base
  then show ?case by (simp add: access_exact_def empty_db_def project_exists_def)
next
  case (step d d')
  then show ?case using access_exact_step by blast
qed


definition first_project :: project_row where
  "first_project = \<lparr>p_id = ''p'', p_user = ''u'', p_name = ''n'', p_description = '''', p_is_private = True,
     p_cover = None, p_genre = '''', p_release = None, p_created = 0, p_updated = 0, p_deleted = None\<rparr>"


subsection \<open>Redis\<close>

type_synonym redis = "string \<rightharpoonup> string \<times> go_time option"

text \<open>The calls that fail, by name and key, and the JSON form of a list of strings.\<close>

record redis_env =
  redis_fails :: "string \<Rightarrow> string \<Rightarrow> bool"
  enc_list :: "string list \<Rightarrow> string"
  dec_list :: "string \<Rightarrow> string list option"

definition alive :: "go_time \<Rightarrow> string \<times> go_time option \<Rightarrow> bool" where
  "alive t e \<longleftrightarrow> (case snd e of None \<Rightarrow> True | Some x \<Rightarrow> t < x)"

definition redis_get :: "go_time \<Rightarrow> string \<Rightarrow> redis \<Rightarrow> string option" where
  "redis_get t k m = (case m k of None \<Rightarrow> None | Some e \<Rightarrow> if alive t e then Some (fst e) else None)"

text \<open>\<open>SET\<close> through the client: a time to live of zero or less is none.\<close>

definition redis_set :: "go_time \<Rightarrow> duration \<Rightarrow> string \<Rightarrow> string \<Rightarrow> redis \<Rightarrow> redis" where
  "redis_set t ttl k v m = m(k \<mapsto> (v, if ttl > 0 then Some (t + ttl) else None))"

definition redis_del :: "string list \<Rightarrow> redis \<Rightarrow> redis" where
  "redis_del ks m = remove_keys ks m"

definition redis_incr :: "go_time \<Rightarrow> string \<Rightarrow> redis \<Rightarrow> (int \<times> redis) option" where
  "redis_incr t k m =
     (case redis_get t k m of
        None \<Rightarrow> Some (1, m(k \<mapsto> (Itoa 1, None)))
      | Some v \<Rightarrow>
          (case Atoi v of
             None \<Rightarrow> None
           | Some n \<Rightarrow> if n + 1 < 2 ^ 63 then Some (n + 1, m(k \<mapsto> (Itoa (n + 1), snd (the (m k))))) else None))"

definition redis_expire :: "go_time \<Rightarrow> duration \<Rightarrow> string \<Rightarrow> redis \<Rightarrow> redis" where
  "redis_expire t ttl k m =
     (case redis_get t k m of None \<Rightarrow> m | Some v \<Rightarrow> if ttl > 0 then m(k \<mapsto> (v, Some (t + ttl))) else m(k := None))"

subsection \<open>What a cache with a time to live promises\<close>

locale ttl_cache =
  fixes get :: "go_time \<Rightarrow> 'k \<Rightarrow> 's \<Rightarrow> 'v option" and put :: "go_time \<Rightarrow> 'k \<Rightarrow> 'v \<Rightarrow> 's \<Rightarrow> 's"
    and ttl :: "'s \<Rightarrow> duration"
  assumes put_other: "k' \<noteq> k \<Longrightarrow> get t k' (put t0 k v s) = get t k' s"
    and put_fresh: "t < t0 + ttl s \<Longrightarrow> get t k (put t0 k v s) = Some v"
    and put_served: "get t k (put t0 k v s) = Some w \<Longrightarrow> w = v \<and> t \<le> t0 + ttl s"
    and put_ttl: "ttl (put t0 k v s) = ttl s"
begin

fun puts :: "(go_time \<times> 'k \<times> 'v) list \<Rightarrow> 's \<Rightarrow> 's" where
  "puts [] s = s"
| "puts ((t, k, v) # ps) s = puts ps (put t k v s)"

lemma puts_snoc: "puts (ps @ [(t, k, v)]) s = put t k v (puts ps s)"
  by (induction ps s rule: puts.induct) auto

lemma puts_ttl: "ttl (puts ps s) = ttl s"
  by (induction ps s rule: puts.induct) (auto simp: put_ttl)

text \<open>What is served was put under this key not longer ago than the time to live, and the last put of a key
  is served until then.\<close>

lemma served_recently:
  "get t k (puts ps s) = Some v \<Longrightarrow> get t k s = None \<Longrightarrow> \<exists>t0. (t0, k, v) \<in> set ps \<and> t \<le> t0 + ttl s"
proof (induction ps rule: rev_induct)
  case Nil
  then show ?case by simp
next
  case (snoc p ps)
  obtain t0 k0 w where p: "p = (t0, k0, w)" by (cases p)
  show ?case
  proof (cases "k0 = k")
    case True
    with snoc.prems(1) p put_served [of t k t0 w "puts ps s" v] show ?thesis by (auto simp: puts_snoc puts_ttl)
  next
    case False
    with snoc.prems(1) p have "get t k (puts ps s) = Some v" by (simp add: puts_snoc put_other)
    from snoc.IH [OF this snoc.prems(2)] show ?thesis by auto
  qed
qed

lemma last_put_served: "t < t0 + ttl s \<Longrightarrow> get t k (puts (ps @ [(t0, k, v)]) s) = Some v"
  by (simp add: puts_snoc put_fresh puts_ttl)

end

interpretation url_cache: ttl_cache uc_Get uc_Set uc_ttl
  by unfold_locales (auto simp: uc_Get_def uc_Set_def split: if_splits)

lemma redis_ttl_cache: "0 < n \<Longrightarrow> ttl_cache redis_get (\<lambda>t k v. redis_set t n k v) (\<lambda>m. n)"
  by unfold_locales (auto simp: redis_get_def redis_set_def alive_def split: if_splits)

interpretation minute_cache: ttl_cache redis_get "\<lambda>t k v. redis_set t minute k v" "\<lambda>m. minute"
  by (rule redis_ttl_cache) simp

lemma redis_get_del: "redis_get t k (redis_del ks m) = (if k \<in> set ks then None else redis_get t k m)"
  by (simp add: redis_get_def redis_del_def)

subsection \<open>Access lists and answers in Redis\<close>

definition project_list_key :: "string \<Rightarrow> string" where
  "project_list_key userID = ''user:'' @ userID @ '':project_access''"

definition track_list_key :: "string \<Rightarrow> string" where
  "track_list_key userID = ''user:'' @ userID @ '':track_access''"

definition access_key :: "string \<Rightarrow> string \<Rightarrow> string" where
  "access_key userID projectID = ''user:'' @ userID @ '':access:project:'' @ projectID"

definition cache_set :: "redis_env \<Rightarrow> go_time \<Rightarrow> duration \<Rightarrow> string \<Rightarrow> string \<Rightarrow> redis \<Rightarrow> bool \<times> redis" where
  "cache_set renv t ttl k v m = (if redis_fails renv ''SET'' k then (False, m) else (True, redis_set t ttl k v m))"

definition cache_get :: "redis_env \<Rightarrow> go_time \<Rightarrow> string \<Rightarrow> redis \<Rightarrow> string option" where
  "cache_get renv t k m = (if redis_fails renv ''GET'' k then None else redis_get t k m)"

definition cache_del :: "redis_env \<Rightarrow> string list \<Rightarrow> redis \<Rightarrow> redis" where
  "cache_del renv ks m = (if redis_fails renv ''DEL'' (hd ks) then m else redis_del ks m)"

definition CacheUserProjectAccessList :: "redis_env \<Rightarrow> go_time \<Rightarrow> string \<Rightarrow> string list \<Rightarrow> redis \<Rightarrow> redis" where
  "CacheUserProjectAccessList renv t userID ids m =
     snd (cache_set renv t (5 * minute) (project_list_key userID) (enc_list renv ids) m)"

definition GetCachedProjectAccessList :: "redis_env \<Rightarrow> go_time \<Rightarrow> string \<Rightarrow> redis \<Rightarrow> string list option" where
  "GetCachedProjectAccessList renv t userID m =
     (case cache_get renv t (project_list_key userID) m of None \<Rightarrow> None | Some data \<Rightarrow> dec_list renv data)"

definition CacheUserTrackAccessList :: "redis_env \<Rightarrow> go_time \<Rightarrow> string \<Rightarrow> string list \<Rightarrow> redis \<Rightarrow> redis" where
  "CacheUserTrackAccessList renv t userID ids m =
     snd (cache_set renv t (3 * minute) (track_list_key userID) (enc_list renv ids) m)"

definition GetCachedTrackAccessList :: "redis_env \<Rightarrow> go_time \<Rightarrow> string \<Rightarrow> redis \<Rightarrow> string list option" where
  "GetCachedTrackAccessList renv t userID m =
     (case cache_get renv t (track_list_key userID) m of None \<Rightarrow> None | Some data \<Rightarrow> dec_list renv data)"

definition InvalidateUserAccessCache :: "redis_env \<Rightarrow> string \<Rightarrow> redis \<Rightarrow> redis" where
  "InvalidateUserAccessCache renv userID = cache_del renv [project_list_key userID, track_list_key userID]"

definition InvalidateProjectAccessCache :: "redis_env \<Rightarrow> string list \<Rightarrow> redis \<Rightarrow> redis" where
  "InvalidateProjectAccessCache renv affectedUserIDs m =
     (if affectedUserIDs = [] then m
      else cache_del renv (concat (map (\<lambda>u. [project_list_key u, track_list_key u]) affectedUserIDs)) m)"

definition flag :: "bool \<Rightarrow> string" where
  "flag hasAccess = (if hasAccess then ''1'' else ''0'')"

definition CacheProjectAccessibility ::
  "redis_env \<Rightarrow> go_time \<Rightarrow> string \<Rightarrow> string \<Rightarrow> bool \<Rightarrow> redis \<Rightarrow> bool \<times> redis" where
  "CacheProjectAccessibility renv t userID projectID hasAccess =
     cache_set renv t minute (access_key userID projectID) (flag hasAccess)"

definition GetProjectAccessibility :: "redis_env \<Rightarrow> go_time \<Rightarrow> string \<Rightarrow> string \<Rightarrow> redis \<Rightarrow> bool option" where
  "GetProjectAccessibility renv t userID projectID m =
     map_option (\<lambda>data. data = ''1'') (cache_get renv t (access_key userID projectID) m)"

subsection \<open>Checks through the cache\<close>

text \<open>The state of a checker: Redis, the database, and the answers whose write to Redis a goroutine has
  still to make, with the time it was started.\<close>

record checker =
  ck_redis :: redis
  ck_db :: database
  ck_pending :: "(string \<times> string \<times> bool \<times> go_time) list"

definition check_cached ::
  "redis_env \<Rightarrow> go_time \<Rightarrow> (database \<Rightarrow> bool db_result) \<Rightarrow> string \<Rightarrow> string \<Rightarrow> checker \<Rightarrow> bool db_result \<times> checker" where
  "check_cached renv t ask userID i s =
     (case GetProjectAccessibility renv t userID i (ck_redis s) of
        Some hasAccess \<Rightarrow> (Inr hasAccess, s)
      | None \<Rightarrow>
          (case ask (ck_db s) of
             Inl e \<Rightarrow> (Inl e, s)
           | Inr hasAccess \<Rightarrow> (Inr hasAccess, s\<lparr>ck_pending := ck_pending s @ [(userID, i, hasAccess, t)]\<rparr>)))"

definition CheckProjectAccessCached ::
  "dbenv \<Rightarrow> redis_env \<Rightarrow> go_time \<Rightarrow> string \<Rightarrow> string \<Rightarrow> checker \<Rightarrow> bool db_result \<times> checker" where
  "CheckProjectAccessCached env renv t userID projectID =
     check_cached renv t (CanUserAccessProject env userID projectID) userID projectID"

text \<open>The same keys serve for tracks.\<close>

definition CheckTrackAccessCached ::
  "dbenv \<Rightarrow> redis_env \<Rightarrow> go_time \<Rightarrow> string \<Rightarrow> string \<Rightarrow> checker \<Rightarrow> bool db_result \<times> checker" where
  "CheckTrackAccessCached env renv t userID trackID =
     check_cached renv t (CanUserAccessTrack env userID trackID) userID trackID"

definition ProjectAccessMiddleware ::
  "dbenv \<Rightarrow> redis_env \<Rightarrow> go_time \<Rightarrow> ('b, checker \<times> 's) handler \<Rightarrow> ('b, checker \<times> 's) handler" where
  "ProjectAccessMiddleware env renv t nxt r = (\<lambda>(w, c, s).
     (case GetUserID r of
        None \<Rightarrow> respond (WriteUnauthorized w) (c, s)
      | Some userID \<Rightarrow>
          if path_value r ''project_id'' = '''' then respond (WriteBadRequest ''missing project_id'' w) (c, s)
          else case CheckProjectAccessCached env renv t userID (path_value r ''project_id'') c of
                 (Inl _, c) \<Rightarrow> respond (WriteInternalError w) (c, s)
               | (Inr False, c) \<Rightarrow> respond (WriteForbidden ''you do not have access to this project'' w) (c, s)
               | (Inr True, c) \<Rightarrow> nxt r (w, c, s)))"

definition TrackAccessMiddleware ::
  "dbenv \<Rightarrow> redis_env \<Rightarrow> go_time \<Rightarrow> ('b, checker \<times> 's) handler \<Rightarrow> ('b, checker \<times> 's) handler" where
  "TrackAccessMiddleware env renv t nxt r = (\<lambda>(w, c, s).
     (case GetUserID r of
        None \<Rightarrow> respond (WriteUnauthorized w) (c, s)
      | Some userID \<Rightarrow>
          if path_value r ''track_id'' = '''' then respond (WriteBadRequest ''missing track_id'' w) (c, s)
          else case CheckTrackAccessCached env renv t userID (path_value r ''track_id'') c of
                 (Inl _, c) \<Rightarrow> respond (WriteInternalError w) (c, s)
               | (Inr False, c) \<Rightarrow> respond (WriteForbidden ''you do not have access to this track'' w) (c, s)
               | (Inr True, c) \<Rightarrow> nxt r (w, c, s)))"

definition InvalidateUserAccessOnPermissionChange :: "redis_env \<Rightarrow> string \<Rightarrow> checker \<Rightarrow> checker" where
  "InvalidateUserAccessOnPermissionChange renv userID s = s\<lparr>ck_redis := InvalidateUserAccessCache renv userID (ck_redis s)\<rparr>"

text \<open>The goroutine that stores a preloaded list runs when it is started.\<close>

definition PreloadUserProjectAccessList ::
  "dbenv \<Rightarrow> redis_env \<Rightarrow> go_time \<Rightarrow> string \<Rightarrow> checker \<Rightarrow> string list db_result \<times> checker" where
  "PreloadUserProjectAccessList env renv t userID s =
     (case GetCachedProjectAccessList renv t userID (ck_redis s) of
        Some ids \<Rightarrow> (Inr ids, s)
      | None \<Rightarrow>
          (case GetUserProjectAccessList env userID (ck_db s) of
             Inl e \<Rightarrow> (Inl e, s)
           | Inr ids \<Rightarrow> (Inr ids, s\<lparr>ck_redis := CacheUserProjectAccessList renv t userID ids (ck_redis s)\<rparr>)))"

definition PreloadUserTrackAccessList ::
  "dbenv \<Rightarrow> redis_env \<Rightarrow> go_time \<Rightarrow> string \<Rightarrow> checker \<Rightarrow> string list db_result \<times> checker" where
  "PreloadUserTrackAccessList env renv t userID s =
     (case GetCachedTrackAccessList renv t userID (ck_redis s) of
        Some ids \<Rightarrow> (Inr ids, s)
      | None \<Rightarrow>
          (case GetUserTrackAccessList env userID (ck_db s) of
             Inl e \<Rightarrow> (Inl e, s)
           | Inr ids \<Rightarrow> (Inr ids, s\<lparr>ck_redis := CacheUserTrackAccessList renv t userID ids (ck_redis s)\<rparr>)))"

subsection \<open>Batch checks\<close>

definition FilterAccessibleTracks ::
  "dbenv \<Rightarrow> redis_env \<Rightarrow> go_time \<Rightarrow> string \<Rightarrow> track_row list \<Rightarrow> checker \<Rightarrow> track_row list db_result \<times> checker" where
  "FilterAccessibleTracks env renv t userID ts s =
     (case PreloadUserProjectAccessList env renv t userID s of
        (Inl e, s) \<Rightarrow> (Inl e, s)
      | (Inr ids, s) \<Rightarrow> (Inr (filter (\<lambda>tr. t_project tr \<in> set ids) ts), s))"

definition FilterAccessibleProjects ::
  "dbenv \<Rightarrow> redis_env \<Rightarrow> go_time \<Rightarrow> string \<Rightarrow> project_row list \<Rightarrow> checker \<Rightarrow> project_row list db_result \<times> checker" where
  "FilterAccessibleProjects env renv t userID ps s =
     (case PreloadUserProjectAccessList env renv t userID s of
        (Inl e, s) \<Rightarrow> (Inl e, s)
      | (Inr ids, s) \<Rightarrow> (Inr (filter (\<lambda>p. p_id p \<in> set ids) ps), s))"

definition ParallelAccessCheck ::
  "dbenv \<Rightarrow> redis_env \<Rightarrow> go_time \<Rightarrow> string \<Rightarrow> string list \<Rightarrow> checker \<Rightarrow> (string \<rightharpoonup> bool) db_result \<times> checker" where
  "ParallelAccessCheck env renv t userID projectIDs s =
     (case PreloadUserProjectAccessList env renv t userID s of
        (Inl e, s) \<Rightarrow> (Inl e, s)
      | (Inr ids, s) \<Rightarrow> (Inr (\<lambda>p. if p \<in> set projectIDs then Some (p \<in> set ids) else None), s))"

subsection \<open>How stale an answer can be\<close>

record world =
  wo_now :: go_time
  wo_checker :: checker

text \<open>Identifiers are UUIDs, without a colon. A pending answer is written to Redis at most \<open>delay\<close> after it
  was read, or never, since the context of its request may end first; the database changes at any time.\<close>

definition plain_id :: "string \<Rightarrow> bool" where
  "plain_id i \<longleftrightarrow> CHR '':'' \<notin> set i"

inductive world_step :: "dbenv \<Rightarrow> redis_env \<Rightarrow> duration \<Rightarrow> world \<Rightarrow> world \<Rightarrow> bool" for env renv delay where
  wait: "wo_now w \<le> t \<Longrightarrow> world_step env renv delay w (w\<lparr>wo_now := t\<rparr>)"
| check_project: "plain_id u \<Longrightarrow> plain_id i \<Longrightarrow> CheckProjectAccessCached env renv (wo_now w) u i (wo_checker w) = (res, c) \<Longrightarrow>
    world_step env renv delay w (w\<lparr>wo_checker := c\<rparr>)"
| check_track: "plain_id u \<Longrightarrow> plain_id i \<Longrightarrow> CheckTrackAccessCached env renv (wo_now w) u i (wo_checker w) = (res, c) \<Longrightarrow>
    world_step env renv delay w (w\<lparr>wo_checker := c\<rparr>)"
| store: "ck_pending (wo_checker w) = xs @ (u, i, b, t) # ys \<Longrightarrow> wo_now w \<le> t + delay \<Longrightarrow>
    world_step env renv delay w (w\<lparr>wo_checker := (wo_checker w)\<lparr>ck_pending := xs @ ys,
      ck_redis := snd (CacheProjectAccessibility renv (wo_now w) u i b (ck_redis (wo_checker w)))\<rparr>\<rparr>)"
| drop_write: "ck_pending (wo_checker w) = xs @ p # ys \<Longrightarrow>
    world_step env renv delay w (w\<lparr>wo_checker := (wo_checker w)\<lparr>ck_pending := xs @ ys\<rparr>\<rparr>)"
| db_change: "world_step env renv delay w (w\<lparr>wo_checker := (wo_checker w)\<lparr>ck_db := d\<rparr>\<rparr>)"
| invalidate: "world_step env renv delay w (w\<lparr>wo_checker :=
    InvalidateUserAccessOnPermissionChange renv u (wo_checker w)\<rparr>)"

abbreviation world_steps :: "dbenv \<Rightarrow> redis_env \<Rightarrow> duration \<Rightarrow> world \<Rightarrow> world \<Rightarrow> bool" where
  "world_steps env renv delay \<equiv> (world_step env renv delay)\<^sup>*\<^sup>*"

lemma first_sep_inj:
  "c \<notin> set a \<Longrightarrow> c \<notin> set b \<Longrightarrow> a @ c # x = b @ c # y \<Longrightarrow> a = b \<and> x = y"
  by (induction a arbitrary: b) (auto simp: Cons_eq_append_conv append_eq_Cons_conv)

lemma access_key_inj:
  assumes "plain_id u" "plain_id u'"
  shows "access_key u i = access_key u' i' \<longleftrightarrow> u = u' \<and> i = i'"
proof
  assume "access_key u i = access_key u' i'"
  then have "u @ CHR '':'' # ''access:project:'' @ i = u' @ CHR '':'' # ''access:project:'' @ i'"
    by (simp add: access_key_def)
  from first_sep_inj [OF _ _ this] assms show "u = u' \<and> i = i'" by (simp add: plain_id_def)
qed simp

text \<open>The database gave this answer in a world of the past.\<close>

definition answered ::
  "dbenv \<Rightarrow> redis_env \<Rightarrow> duration \<Rightarrow> world \<Rightarrow> world \<Rightarrow> string \<Rightarrow> string \<Rightarrow> bool \<Rightarrow> go_time \<Rightarrow> bool" where
  "answered env renv delay w0 w u i b t \<longleftrightarrow>
     (\<exists>w1. world_steps env renv delay w0 w1 \<and> world_steps env renv delay w1 w \<and> wo_now w1 = t \<and>
        (CanUserAccessProject env u i (ck_db (wo_checker w1)) = Inr b \<or>
         CanUserAccessTrack env u i (ck_db (wo_checker w1)) = Inr b))"

definition pending_ok ::
  "dbenv \<Rightarrow> redis_env \<Rightarrow> duration \<Rightarrow> world \<Rightarrow> world \<Rightarrow> string \<times> string \<times> bool \<times> go_time \<Rightarrow> bool" where
  "pending_ok env renv delay w0 w p \<longleftrightarrow>
     (case p of (u, i, b, t) \<Rightarrow> plain_id u \<and> plain_id i \<and> answered env renv delay w0 w u i b t)"

definition entry_ok ::
  "dbenv \<Rightarrow> redis_env \<Rightarrow> duration \<Rightarrow> world \<Rightarrow> world \<Rightarrow> string \<Rightarrow> string \<times> go_time option \<Rightarrow> bool" where
  "entry_ok env renv delay w0 w k e \<longleftrightarrow>
     (\<exists>u i b t x. k = access_key u i \<and> e = (flag b, Some x) \<and> x \<le> t + delay + minute \<and>
        pending_ok env renv delay w0 w (u, i, b, t))"

definition fresh_answers :: "dbenv \<Rightarrow> redis_env \<Rightarrow> duration \<Rightarrow> world \<Rightarrow> world \<Rightarrow> bool" where
  "fresh_answers env renv delay w0 w \<longleftrightarrow>
     (\<forall>p\<in>set (ck_pending (wo_checker w)). pending_ok env renv delay w0 w p) \<and>
     (\<forall>k e. ck_redis (wo_checker w) k = Some e \<longrightarrow> entry_ok env renv delay w0 w k e)"

lemma answered_mono:
  assumes "answered env renv delay w0 w u i b t" "world_step env renv delay w w'"
  shows "answered env renv delay w0 w' u i b t"
proof -
  from assms(1) obtain w1 where w1: "world_steps env renv delay w0 w1" "world_steps env renv delay w1 w" "wo_now w1 = t"
      "CanUserAccessProject env u i (ck_db (wo_checker w1)) = Inr b \<or> CanUserAccessTrack env u i (ck_db (wo_checker w1)) = Inr b"
    unfolding answered_def by blast
  moreover have "world_steps env renv delay w1 w'" using w1(2) assms(2) by (rule rtranclp.rtrancl_into_rtrancl)
  ultimately show ?thesis unfolding answered_def by blast
qed

lemma pending_ok_mono:
  "pending_ok env renv delay w0 w p \<Longrightarrow> world_step env renv delay w w' \<Longrightarrow> pending_ok env renv delay w0 w' p"
  by (auto simp: pending_ok_def answered_mono split: prod.splits)

lemma entry_ok_mono:
  "entry_ok env renv delay w0 w k e \<Longrightarrow> world_step env renv delay w w' \<Longrightarrow> entry_ok env renv delay w0 w' k e"
  unfolding entry_ok_def using pending_ok_mono by blast

lemma entry_okI:
  assumes "pending_ok env renv delay w0 w (u, i, b, t)" "x \<le> t + delay + minute"
  shows "entry_ok env renv delay w0 w (access_key u i) (flag b, Some x)"
  unfolding entry_ok_def using assms by blast

lemma check_cached_cases:
  assumes "check_cached renv t ask u i c = (res, c')"
  obtains (hit) b where "GetProjectAccessibility renv t u i (ck_redis c) = Some b" "res = Inr b" "c' = c"
    | (failed) e where "ask (ck_db c) = Inl e" "res = Inl e" "c' = c"
    | (miss) b where "ask (ck_db c) = Inr b" "res = Inr b" "c' = c\<lparr>ck_pending := ck_pending c @ [(u, i, b, t)]\<rparr>"
proof (cases "GetProjectAccessibility renv t u i (ck_redis c)")
  case (Some b)
  with assms show thesis by (intro hit [of b]) (simp_all add: check_cached_def)
next
  case None
  show thesis
  proof (cases "ask (ck_db c)")
    case (Inl e)
    with None assms show thesis by (intro failed [of e]) (simp_all add: check_cached_def)
  next
    case (Inr b)
    with None assms show thesis by (intro miss [of b]) (simp_all add: check_cached_def)
  qed
qed

text \<open>A step that only adds good pending answers and good entries.\<close>

lemma fresh_answers_by:
  assumes "fresh_answers env renv delay w0 w" "world_step env renv delay w w'"
    and "\<And>p. p \<in> set (ck_pending (wo_checker w')) \<Longrightarrow>
       p \<in> set (ck_pending (wo_checker w)) \<or> pending_ok env renv delay w0 w' p"
    and "\<And>k e. ck_redis (wo_checker w') k = Some e \<Longrightarrow>
       ck_redis (wo_checker w) k = Some e \<or> entry_ok env renv delay w0 w' k e"
  shows "fresh_answers env renv delay w0 w'"
  unfolding fresh_answers_def
proof (intro conjI ballI allI impI)
  fix p assume "p \<in> set (ck_pending (wo_checker w'))"
  from assms(3) [OF this] assms(1) show "pending_ok env renv delay w0 w' p"
    unfolding fresh_answers_def using pending_ok_mono [OF _ assms(2)] by blast
next
  fix k e assume "ck_redis (wo_checker w') k = Some e"
  from assms(4) [OF this] assms(1) show "entry_ok env renv delay w0 w' k e"
    unfolding fresh_answers_def using entry_ok_mono [OF _ assms(2)] by blast
qed

lemma fresh_answers_asked:
  assumes fresh: "fresh_answers env renv delay w0 w" and step: "world_step env renv delay w w'"
    and w0: "world_steps env renv delay w0 w"
    and c: "check_cached renv (wo_now w) ask u i (wo_checker w) = (res, c)" and ids: "plain_id u" "plain_id i"
    and w': "w' = w\<lparr>wo_checker := c\<rparr>"
    and ask: "\<And>d b. ask d = Inr b \<Longrightarrow> CanUserAccessProject env u i d = Inr b \<or> CanUserAccessTrack env u i d = Inr b"
  shows "fresh_answers env renv delay w0 w'"
  using c
proof (cases rule: check_cached_cases)
  case (miss b)
  have "answered env renv delay w0 w u i b (wo_now w)"
    unfolding answered_def using w0 ask [OF miss(1)] by blast
  then have "pending_ok env renv delay w0 w' (u, i, b, wo_now w)"
    using answered_mono [OF _ step] ids by (simp add: pending_ok_def)
  then show ?thesis using miss(3) by (intro fresh_answers_by [OF fresh step]) (auto simp: w')
qed (simp_all add: w' fresh)

lemma fresh_answers_step:
  assumes step: "world_step env renv delay w w'" and w0: "world_steps env renv delay w0 w"
    and fresh: "fresh_answers env renv delay w0 w"
  shows "fresh_answers env renv delay w0 w'"
  using step
proof (cases rule: world_step.cases)
  case (check_project u i res c)
  then show ?thesis
    by (intro fresh_answers_asked [OF fresh step w0, where u = u and i = i and c = c and
          ask = "CanUserAccessProject env u i"]) (simp_all add: CheckProjectAccessCached_def)
next
  case (check_track u i res c)
  then show ?thesis
    by (intro fresh_answers_asked [OF fresh step w0, where u = u and i = i and c = c and
          ask = "CanUserAccessTrack env u i"]) (simp_all add: CheckTrackAccessCached_def)
next
  case (store xs u i b t ys)
  have p: "pending_ok env renv delay w0 w' (u, i, b, t)"
    using fresh store(2) pending_ok_mono [OF _ step] unfolding fresh_answers_def by simp
  have "entry_ok env renv delay w0 w' (access_key u i) (flag b, Some (wo_now w + minute))"
    using store(3) by (intro entry_okI [OF p]) simp
  moreover have "ck_redis (wo_checker w') = ck_redis (wo_checker w) \<or>
      ck_redis (wo_checker w') = (ck_redis (wo_checker w))(access_key u i \<mapsto> (flag b, Some (wo_now w + minute)))"
    using store(1) by (simp add: CacheProjectAccessibility_def cache_set_def redis_set_def)
  ultimately have "ck_redis (wo_checker w') k = Some e \<Longrightarrow>
      ck_redis (wo_checker w) k = Some e \<or> entry_ok env renv delay w0 w' k e" for k e
    by (auto split: if_splits)
  moreover have "set (ck_pending (wo_checker w')) \<subseteq> set (ck_pending (wo_checker w))"
    using store(1,2) by auto
  ultimately show ?thesis by (intro fresh_answers_by [OF fresh step]) blast+
next
  case (invalidate u)
  then show ?thesis
    by (intro fresh_answers_by [OF fresh step])
       (simp_all add: InvalidateUserAccessOnPermissionChange_def InvalidateUserAccessCache_def cache_del_def
         redis_del_def split: if_splits)
next
  case (drop_write xs p ys)
  then show ?thesis by (intro fresh_answers_by [OF fresh step]) auto
next
  case (db_change d)
  then show ?thesis by (intro fresh_answers_by [OF fresh step]) simp_all
next
  case (wait t)
  then show ?thesis by (intro fresh_answers_by [OF fresh step]) simp_all
qed

lemma fresh_answers_reachable:
  assumes "world_steps env renv delay w0 w" "ck_redis (wo_checker w0) = Map.empty" "ck_pending (wo_checker w0) = []"
  shows "fresh_answers env renv delay w0 w"
  using assms(1)
proof (induction rule: rtranclp_induct)
  case base
  then show ?case using assms by (simp add: fresh_answers_def)
next
  case (step w w')
  then show ?case by (blast intro: fresh_answers_step)
qed


text \<open>An invalidation does not reach the answers to project checks: after a positive answer has been
  stored, the user is let through for the whole minute, whatever the database says and although the
  user's cache has been invalidated on the change of permission.\<close>

theorem revoked_until_expiry:
  assumes "CacheProjectAccessibility renv t0 u p True m = (True, m')" and "t < t0 + minute"
    and "\<not> redis_fails renv ''GET'' (access_key u p)"
  shows "CheckProjectAccessCached env renv t u p (InvalidateUserAccessOnPermissionChange renv u
     \<lparr>ck_redis = m', ck_db = d, ck_pending = ps\<rparr>) =
     (Inr True, InvalidateUserAccessOnPermissionChange renv u \<lparr>ck_redis = m', ck_db = d, ck_pending = ps\<rparr>)"
proof -
  have m': "m' = redis_set t0 minute (access_key u p) ''1'' m"
    using assms(1) by (auto simp: CacheProjectAccessibility_def cache_set_def flag_def split: if_splits)
  have other: "access_key u p \<notin> set [project_list_key u, track_list_key u]"
    by (simp add: access_key_def project_list_key_def track_list_key_def)
  have "redis_get t (access_key u p) (InvalidateUserAccessCache renv u m') = Some ''1''"
    using minute_cache.put_fresh [OF assms(2)] other
    by (simp add: InvalidateUserAccessCache_def cache_del_def redis_get_del m')
  with assms(3) show ?thesis
    by (simp add: CheckProjectAccessCached_def check_cached_def InvalidateUserAccessOnPermissionChange_def
        GetProjectAccessibility_def cache_get_def)
qed

definition sample_redis :: redis_env where
  "sample_redis = \<lparr>redis_fails = \<lambda>c k. False, enc_list = Join CHR '','', dec_list = \<lambda>s. Some (Split CHR '','' s)\<rparr>"

theorem revoked_until_expiry_witness:
  "fst (CheckProjectAccessCached calm_env sample_redis (30 * second) ''u'' ''p''
     (InvalidateUserAccessOnPermissionChange sample_redis ''u''
       \<lparr>ck_redis = snd (CacheProjectAccessibility sample_redis 0 ''u'' ''p'' True Map.empty), ck_db = empty_db,
        ck_pending = []\<rparr>)) = Inr True"
proof -
  have "CacheProjectAccessibility sample_redis 0 ''u'' ''p'' True Map.empty =
      (True, snd (CacheProjectAccessibility sample_redis 0 ''u'' ''p'' True Map.empty))"
    by (simp add: CacheProjectAccessibility_def cache_set_def sample_redis_def)
  from revoked_until_expiry [OF this, of "30 * second"] show ?thesis by (simp add: sample_redis_def)
qed


subsection \<open>The general cache\<close>

text \<open>\<open>CacheManager\<close>: each kind of value has a key and a time to live; the values are the JSON texts.\<close>

datatype cached_kind =
    Trending
  | Metadata string
  | Subscription string
  | SubscriptionTier string
  | SearchResults string
  | Session string

fun kind_key :: "cached_kind \<Rightarrow> string" where
  "kind_key Trending = ''trending_projects''"
| "kind_key (Metadata projectID) = ''project:'' @ projectID @ '':metadata''"
| "kind_key (Subscription userID) = ''user:'' @ userID @ '':subscription''"
| "kind_key (SubscriptionTier userID) = ''user:'' @ userID @ '':subscription:tier''"
| "kind_key (SearchResults q) = ''search:'' @ q"
| "kind_key (Session i) = ''session:'' @ i"

text \<open>The time to live of a session is its caller's.\<close>

fun kind_ttl :: "duration \<Rightarrow> cached_kind \<Rightarrow> duration" where
  "kind_ttl ttl Trending = hour"
| "kind_ttl ttl (Metadata projectID) = 30 * minute"
| "kind_ttl ttl (Subscription userID) = 10 * minute"
| "kind_ttl ttl (SubscriptionTier userID) = 5 * minute"
| "kind_ttl ttl (SearchResults q) = 5 * minute"
| "kind_ttl ttl (Session i) = ttl"

definition cm_store :: "redis_env \<Rightarrow> go_time \<Rightarrow> duration \<Rightarrow> cached_kind \<Rightarrow> string \<Rightarrow> redis \<Rightarrow> bool \<times> redis" where
  "cm_store renv t ttl kind data = cache_set renv t (kind_ttl ttl kind) (kind_key kind) data"

definition cm_load :: "redis_env \<Rightarrow> go_time \<Rightarrow> cached_kind \<Rightarrow> redis \<Rightarrow> string option" where
  "cm_load renv t kind = cache_get renv t (kind_key kind)"

definition cm_InvalidateProjectCache :: "redis_env \<Rightarrow> string \<Rightarrow> redis \<Rightarrow> redis" where
  "cm_InvalidateProjectCache renv projectID =
     cache_del renv [kind_key (Metadata projectID), ''project:'' @ projectID @ '':stats'']"

definition cm_InvalidateUserCache :: "redis_env \<Rightarrow> string \<Rightarrow> redis \<Rightarrow> redis" where
  "cm_InvalidateUserCache renv userID = cache_del renv [kind_key (Subscription userID), ''user:'' @ userID @ '':storage'']"

definition cm_DeleteSession :: "redis_env \<Rightarrow> string \<Rightarrow> redis \<Rightarrow> redis" where
  "cm_DeleteSession renv i = cache_del renv [kind_key (Session i)]"

text \<open>\<open>RateLimitByIP\<close> and \<open>RateLimitByUser\<close> differ in the key. An error of \<open>EXPIRE\<close> is dropped.\<close>

definition redis_rate_limit ::
  "redis_env \<Rightarrow> go_time \<Rightarrow> string \<Rightarrow> int \<Rightarrow> duration \<Rightarrow> redis \<Rightarrow> bool option \<times> redis" where
  "redis_rate_limit renv t key limit window m =
     (if redis_fails renv ''INCR'' key then (None, m)
      else case redis_incr t key m of
             None \<Rightarrow> (None, m)
           | Some (n, m') \<Rightarrow>
               (Some (n \<le> limit),
                if n = 1 \<and> \<not> redis_fails renv ''EXPIRE'' key then redis_expire t window key m' else m'))"

definition RateLimitByIP :: "redis_env \<Rightarrow> go_time \<Rightarrow> string \<Rightarrow> int \<Rightarrow> duration \<Rightarrow> redis \<Rightarrow> bool option \<times> redis" where
  "RateLimitByIP renv t ip = redis_rate_limit renv t (''ratelimit:ip:'' @ ip)"

definition RateLimitByUser :: "redis_env \<Rightarrow> go_time \<Rightarrow> string \<Rightarrow> int \<Rightarrow> duration \<Rightarrow> redis \<Rightarrow> bool option \<times> redis" where
  "RateLimitByUser renv t userID = redis_rate_limit renv t (''ratelimit:user:'' @ userID)"

definition cm_GetRateLimitStatus :: "redis_env \<Rightarrow> go_time \<Rightarrow> string \<Rightarrow> redis \<Rightarrow> int option" where
  "cm_GetRateLimitStatus renv t key m =
     (if redis_fails renv ''GET'' key then None
      else case redis_get t key m of None \<Rightarrow> Some 0 | Some v \<Rightarrow> Atoi v)"

text \<open>Requests of one key: the answers, in order.\<close>

fun redis_window :: "redis_env \<Rightarrow> string \<Rightarrow> int \<Rightarrow> duration \<Rightarrow> go_time list \<Rightarrow> redis \<Rightarrow> bool option list" where
  "redis_window renv key limit window [] m = []"
| "redis_window renv key limit window (t # ts) m =
     (let (ok, m') = redis_rate_limit renv t key limit window m in ok # redis_window renv key limit window ts m')"

text \<open>Within a window that has begun, the requests are counted on.\<close>

lemma redis_window_running:
  assumes "\<forall>c k. \<not> redis_fails renv c k" and "m key = Some (Itoa n, Some x)" "1 \<le> n" "\<forall>t\<in>set ts. t < x"
    and "n + int (length ts) < 2 ^ 63"
  shows "redis_window renv key limit window ts m = map (\<lambda>i. Some (n + 1 + int i \<le> limit)) [0..<length ts]"
  using assms(2-5)
proof (induction ts arbitrary: m n)
  case Nil
  then show ?case by simp
next
  case (Cons t ts)
  have "Atoi (Itoa n) = Some n" using Cons.prems by (intro Atoi_Itoa) auto
  then have step: "redis_rate_limit renv t key limit window m = (Some (n + 1 \<le> limit), m(key \<mapsto> (Itoa (n + 1), Some x)))"
    using Cons.prems assms(1) by (simp add: redis_rate_limit_def redis_incr_def redis_get_def alive_def)
  have "redis_window renv key limit window ts (m(key \<mapsto> (Itoa (n + 1), Some x))) =
      map (\<lambda>i. Some (n + 1 + 1 + int i \<le> limit)) [0..<length ts]"
    using Cons.prems by (intro Cons.IH) auto
  then show ?case
    by (simp add: step upt_conv_Cons map_Suc_upt [symmetric] del: upt_Suc) (simp add: ac_simps)
qed

lemma redis_window_exact:
  assumes "\<forall>c k. \<not> redis_fails renv c k" and "redis_get t key m = None" "0 < window"
    and "\<forall>u\<in>set ts. u < t + window" "int (length ts) + 1 < 2 ^ 63"
  shows "redis_window renv key limit window (t # ts) m = map (\<lambda>i. Some (int i < limit)) [0..<Suc (length ts)]"
proof -
  have step: "redis_rate_limit renv t key limit window m = (Some (1 \<le> limit), m(key \<mapsto> (Itoa 1, Some (t + window))))"
    using assms by (simp add: redis_rate_limit_def redis_incr_def redis_expire_def redis_get_def alive_def)
  have "redis_window renv key limit window ts (m(key \<mapsto> (Itoa 1, Some (t + window)))) =
      map (\<lambda>i. Some (1 + 1 + int i \<le> limit)) [0..<length ts]"
    using assms by (intro redis_window_running) auto
  then show ?thesis
    by (simp add: step upt_conv_Cons map_Suc_upt [symmetric] del: upt_Suc) auto
qed

subsection \<open>The invalidation bus\<close>

record invalidation_event =
  ie_Key :: string
  ie_Type :: string
  ie_Timestamp :: go_time

text \<open>Each subscriber is a channel of capacity 10; \<open>Publish\<close> never blocks.\<close>

type_synonym bus = "(string \<times> invalidation_event list) list"

definition matchesPattern :: "string \<Rightarrow> string \<Rightarrow> bool" where
  "matchesPattern key pattern \<longleftrightarrow>
     (if key = pattern then True
      else if pattern = '''' then False
      else if last pattern = CHR ''*'' then HasPrefix key (butlast pattern)
      else False)"

definition bus_Subscribe :: "string \<Rightarrow> bus \<Rightarrow> nat \<times> bus" where
  "bus_Subscribe pattern b = (length b, b @ [(pattern, [])])"

definition bus_Publish :: "go_time \<Rightarrow> invalidation_event \<Rightarrow> bus \<Rightarrow> bus" where
  "bus_Publish t event b =
     (let event = event\<lparr>ie_Timestamp := t\<rparr>
      in map (\<lambda>(pattern, ch). (pattern, if matchesPattern (ie_Key event) pattern \<and> length ch < 10
           then ch @ [event] else ch)) b)"

definition bus_receive :: "nat \<Rightarrow> bus \<Rightarrow> (invalidation_event \<times> bus) option" where
  "bus_receive i b =
     (if i < length b then
        case snd (b ! i) of [] \<Rightarrow> None | e # ch \<Rightarrow> Some (e, b[i := (fst (b ! i), ch)])
      else None)"

definition bus_InvalidateProject :: "go_time \<Rightarrow> string \<Rightarrow> bus \<Rightarrow> bus" where
  "bus_InvalidateProject t projectID =
     bus_Publish t \<lparr>ie_Key = ''project:'' @ projectID, ie_Type = ''update'', ie_Timestamp = 0\<rparr>"

definition bus_InvalidateProjectList :: "go_time \<Rightarrow> string \<Rightarrow> bus \<Rightarrow> bus" where
  "bus_InvalidateProjectList t userID =
     bus_Publish t \<lparr>ie_Key = ''projects:{'' @ userID @ ''}:*'', ie_Type = ''update'', ie_Timestamp = 0\<rparr>"

definition bus_InvalidateTrack :: "go_time \<Rightarrow> string \<Rightarrow> bus \<Rightarrow> bus" where
  "bus_InvalidateTrack t trackID =
     bus_Publish t \<lparr>ie_Key = ''track:'' @ trackID, ie_Type = ''update'', ie_Timestamp = 0\<rparr>"

definition bus_InvalidateUser :: "go_time \<Rightarrow> string \<Rightarrow> bus \<Rightarrow> bus" where
  "bus_InvalidateUser t userID =
     bus_Publish t \<lparr>ie_Key = ''user:'' @ userID, ie_Type = ''update'', ie_Timestamp = 0\<rparr>"

definition bus_InvalidateSearch :: "go_time \<Rightarrow> bus \<Rightarrow> bus" where
  "bus_InvalidateSearch t = bus_Publish t \<lparr>ie_Key = ''search:*'', ie_Type = ''refresh'', ie_Timestamp = 0\<rparr>"

lemma matchesPattern_iff:
  "matchesPattern key pattern \<longleftrightarrow> key = pattern \<or> (\<exists>p. pattern = p @ ''*'' \<and> HasPrefix key p)"
proof (cases pattern rule: rev_cases)
  case (snoc p c)
  then show ?thesis by (auto simp: matchesPattern_def)
qed (auto simp: matchesPattern_def)

lemma bus_capacity: "\<forall>(p, ch)\<in>set b. length ch \<le> 10 \<Longrightarrow> \<forall>(p, ch)\<in>set (bus_Publish t e b). length ch \<le> 10"
  by (auto simp: bus_Publish_def Let_def)

end
