(* ===== verification/Offline.thy ===== *)
theory Offline
  imports ProjectHandlers
begin

text \<open>
  Offline downloads: \<open>handlers/offline_downloads.go\<close>, \<open>handlers/offline_sync.go\<close> and
  \<open>handlers/offline_maintenance.go\<close> with the statements on \<open>offline_downloads\<close> in
  \<open>db/queries_access.go\<close> and \<open>db/queries.go\<close>, the addresses of \<open>storage/presigned.go\<close> and the checks of
  \<open>storage/validation.go\<close>. The handlers read the user by an unchecked type assertion and use rows that may be
  \<open>nil\<close>; both panic. The quotient in floating point of the storage status is an argument.

  Shown: who may touch a download, when the quota of a plan holds and when it does not, and that an upload key
  that passes the checks belongs to one user.
\<close>

subsection \<open>Queries\<close>

definition found_download :: "dbenv \<Rightarrow> string \<Rightarrow> string list \<Rightarrow> offline_row list \<Rightarrow> offline_row option db_result" where
  "found_download env call args rows =
     (case query_row env call args rows of
        Inl e \<Rightarrow> if is_sql_no_rows env e then Inr None else Inl e
      | Inr od \<Rightarrow> Inr (Some od))"

definition GetOfflineDownload :: "dbenv \<Rightarrow> string \<Rightarrow> string \<Rightarrow> database \<Rightarrow> offline_row option db_result" where
  "GetOfflineDownload env userID versionID d =
     found_download env ''GetOfflineDownload'' [userID, versionID]
       (order_desc od_created (filter (\<lambda>od. od_user od = userID \<and> od_version od = versionID) (offline_downloads d)))"

definition GetOfflineDownloadByID :: "dbenv \<Rightarrow> string \<Rightarrow> database \<Rightarrow> offline_row option db_result" where
  "GetOfflineDownloadByID env downloadID d =
     found_download env ''GetOfflineDownloadByID'' [downloadID]
       (filter (\<lambda>od. od_id od = downloadID) (offline_downloads d))"

definition CreateOfflineDownload :: "dbenv \<Rightarrow> offline_row \<Rightarrow> database \<Rightarrow> unit db_result \<times> database" where
  "CreateOfflineDownload env od d =
     (if fails env ''CreateOfflineDownload'' [od_id od] then (Inl Fault, d)
      else if (\<exists>x\<in>set (offline_downloads d). od_id x = od_id od) \<or> \<not> (\<exists>u\<in>set (users d). u_id u = od_user od) \<or>
         \<not> (\<exists>v\<in>set (versions d). v_id v = od_version od) \<or> \<not> (\<exists>t\<in>set (tracks d). t_id t = od_track od) \<or>
         \<not> (\<exists>p\<in>set (projects d). p_id p = od_project od) then (Inl Conflict, d)
      else (Inr (), d\<lparr>offline_downloads := offline_downloads d @ [od]\<rparr>))"

text \<open>The metadata is not used by the statement.\<close>

definition UpdateOfflineDownloadStatus ::
  "dbenv \<Rightarrow> string \<Rightarrow> string \<Rightarrow> database \<Rightarrow> unit db_result \<times> database" where
  "UpdateOfflineDownloadStatus env downloadID status =
     exec_stmt env ''UpdateOfflineDownloadStatus'' [downloadID, status]
       (\<lambda>d. d\<lparr>offline_downloads := update_rows (\<lambda>od. od_id od = downloadID)
          (\<lambda>od. od\<lparr>od_status := status, od_updated := db_now env\<rparr>) (offline_downloads d)\<rparr>)"

definition UpdateOfflineLastPlayed :: "dbenv \<Rightarrow> string \<Rightarrow> database \<Rightarrow> unit db_result \<times> database" where
  "UpdateOfflineLastPlayed env downloadID =
     exec_stmt env ''UpdateOfflineLastPlayed'' [downloadID]
       (\<lambda>d. d\<lparr>offline_downloads := update_rows (\<lambda>od. od_id od = downloadID)
          (\<lambda>od. od\<lparr>od_last_played := Some (db_now env), od_updated := db_now env\<rparr>) (offline_downloads d)\<rparr>)"

definition completed_downloads :: "string \<Rightarrow> database \<Rightarrow> offline_row list" where
  "completed_downloads userID d =
     filter (\<lambda>od. od_user od = userID \<and> od_status od = ''completed'') (offline_downloads d)"

text \<open>A sum that does not fit into the variable is a scan error.\<close>

definition GetOfflineStorageUsed :: "dbenv \<Rightarrow> string \<Rightarrow> database \<Rightarrow> int db_result" where
  "GetOfflineStorageUsed env userID d =
     (let used = sum_list (map od_size (completed_downloads userID d))
      in if fails env ''GetOfflineStorageUsed'' [userID] \<or> int64 used \<noteq> used then Inl Fault else Inr used)"

definition GetOfflineDownloadCount :: "dbenv \<Rightarrow> string \<Rightarrow> database \<Rightarrow> int db_result" where
  "GetOfflineDownloadCount env userID d =
     (if fails env ''GetOfflineDownloadCount'' [userID] then Inl Fault
      else Inr (int (length (completed_downloads userID d))))"

definition GetUserOfflineDownloads :: "dbenv \<Rightarrow> string \<Rightarrow> database \<Rightarrow> offline_row list db_result" where
  "GetUserOfflineDownloads env userID d =
     query_all env ''GetUserOfflineDownloads'' [userID]
       (order_desc od_created (filter (\<lambda>od. od_user od = userID) (offline_downloads d)))"

definition remove_downloads :: "(offline_row \<Rightarrow> bool) \<Rightarrow> database \<Rightarrow> database" where
  "remove_downloads P d = d\<lparr>offline_downloads := filter (\<lambda>od. \<not> P od) (offline_downloads d)\<rparr>"

definition expired_download :: "dbenv \<Rightarrow> offline_row \<Rightarrow> bool" where
  "expired_download env od \<longleftrightarrow> od_status od = ''completed'' \<and>
     (case od_expires od of None \<Rightarrow> False | Some t \<Rightarrow> t < db_now env)"

definition CleanupExpiredOfflineDownloads :: "dbenv \<Rightarrow> database \<Rightarrow> int db_result \<times> database" where
  "CleanupExpiredOfflineDownloads env d =
     (if fails env ''CleanupExpiredOfflineDownloads'' [] then (Inl Fault, d)
      else (Inr (int (length (filter (expired_download env) (offline_downloads d)))),
            remove_downloads (expired_download env) d))"

definition CleanupOldOfflineDownloads :: "dbenv \<Rightarrow> int \<Rightarrow> database \<Rightarrow> int db_result \<times> database" where
  "CleanupOldOfflineDownloads env olderThanDays d =
     (let old = (\<lambda>od. od_created od < db_now env - olderThanDays * 24 * hour \<and> expired_download env od)
      in if fails env ''CleanupOldOfflineDownloads'' [] then (Inl Fault, d)
         else (Inr (int (length (filter old (offline_downloads d)))), remove_downloads old d))"

definition DeleteOfflineDownloadRow :: "dbenv \<Rightarrow> string \<Rightarrow> database \<Rightarrow> unit db_result \<times> database" where
  "DeleteOfflineDownloadRow env downloadID d =
     (case query_row env ''DeleteOfflineDownload'' [downloadID]
             (filter (\<lambda>od. od_id od = downloadID) (offline_downloads d)) of
        Inl e \<Rightarrow> (Inl e, d)
      | Inr _ \<Rightarrow> (Inr (), remove_downloads (\<lambda>od. od_id od = downloadID) d))"

subsection \<open>Handlers\<close>

text \<open>\<open>GenerateDownloadPresignedURL\<close> signs without the cache.\<close>

definition GenerateDownloadPresignedURL :: "'o app_env \<Rightarrow> string \<Rightarrow> duration \<Rightarrow> string option" where
  "GenerateDownloadPresignedURL env objectKey expiresIn = s3_presign (s3e env) objectKey expiresIn (now env)"

definition offline_quota :: "dbenv \<Rightarrow> string \<Rightarrow> database \<Rightarrow> int" where
  "offline_quota env userID d =
     (case GetUserSubscription env userID d of
        Inl _ \<Rightarrow> 1024 * 1024 * 1024
      | Inr (tier, _, _) \<Rightarrow>
          if tier = ''pro'' then 5 * 1024 * 1024 * 1024
          else if tier = ''pro_plus'' \<or> tier = ''unlimited'' then 20 * 1024 * 1024 * 1024
          else 1024 * 1024 * 1024)"

definition offline_used :: "dbenv \<Rightarrow> string \<Rightarrow> database \<Rightarrow> int" where
  "offline_used env userID d = (case GetOfflineStorageUsed env userID d of Inl _ \<Rightarrow> 0 | Inr used \<Rightarrow> used)"

text \<open>The columns that the queries do not read stay at their zero values.\<close>

definition offline_json :: "offline_row \<Rightarrow> json" where
  "offline_json od = JObj [(''ID'', JStr (od_id od)), (''UserID'', JStr (od_user od)),
     (''TrackVersionID'', JStr (od_version od)), (''TrackID'', JStr (od_track od)), (''ProjectID'', JStr (od_project od)),
     (''FileSizeBytes'', JNum (od_size od)), (''R2ObjectKey'', JStr (od_key od)), (''LocalFileHash'', JStr ''''),
     (''Status'', JStr (od_status od)), (''DownloadProgressPercent'', JNum 0), (''Title'', JStr (od_title od)),
     (''ArtistName'', JStr (od_artist od)), (''ProjectName'', JStr (od_project_name od)), (''CoverImageURL'', JStr ''''),
     (''DurationSeconds'', JNum (od_duration od)), (''LocalPathHash'', JStr ''''), (''StorageUsedBytes'', JNum 0),
     (''DownloadedAt'', JNull), (''LastPlayedAt'', JNull), (''CreatedAt'', JNum (od_created od)),
     (''UpdatedAt'', JNum (od_updated od)), (''ExpiresAt'', JNull)]"

definition ok_json :: "json \<Rightarrow> rwriter \<Rightarrow> rwriter" where
  "ok_json j w = write_body (Json j) (header_set ''Content-Type'' ''application/json'' w)"

definition pending_download :: "'o app_env \<Rightarrow> string \<Rightarrow> string \<Rightarrow> version_row \<Rightarrow> track_row \<Rightarrow> project_row \<Rightarrow> 'o app \<Rightarrow> offline_row" where
  "pending_download env userID trackID v t p s =
     \<lparr>od_id = new_uuid env (app_uuids s), od_user = userID, od_version = v_id v, od_track = trackID,
      od_project = t_project t, od_size = v_size v, od_key = v_key v, od_status = ''pending'', od_title = t_name t,
      od_artist = '''', od_project_name = p_name p, od_duration = t_duration t, od_last_played = None,
      od_created = now env, od_updated = now env, od_expires = None\<rparr>"

definition quota_exceeded :: "int \<Rightarrow> int \<Rightarrow> int \<Rightarrow> json" where
  "quota_exceeded quota used needed = JObj [(''error'', JStr ''storage quota exceeded''), (''quota_bytes'', JNum quota),
     (''used_bytes'', JNum used), (''available_bytes'', JNum (int64 (quota - used))), (''required_bytes'', JNum needed),
     (''action'', JStr ''delete_other_downloads_or_upgrade'')]"

definition start_download ::
  "'o app_env \<Rightarrow> string \<Rightarrow> string \<Rightarrow> version_row \<Rightarrow> track_row \<Rightarrow> project_row \<Rightarrow> rwriter \<Rightarrow> 'o app \<Rightarrow>
   completion \<times> rwriter \<times> 'o app" where
  "start_download env userID trackID v t p w s =
     (let quota = offline_quota (dbe env) userID (app_db s); used = offline_used (dbe env) userID (app_db s);
          existing = (case GetOfflineDownload (dbe env) userID (v_id v) (app_db s) of
              Inr (Some od) \<Rightarrow> if od_status od = ''completed'' then Some od else None
            | _ \<Rightarrow> None)
      in case existing of
           Some od \<Rightarrow> respond (write_json 200 (offline_json od) w) s
         | None \<Rightarrow>
             if int64 (used + v_size v) > quota then
               respond (write_json 402 (quota_exceeded quota used (v_size v)) w) s
             else case GenerateDownloadPresignedURL env (v_key v) (24 * hour) of
                    None \<Rightarrow> respond (http_error ''failed to generate download URL'' 500 w) s
                  | Some audioURL \<Rightarrow>
                      let od = pending_download env userID trackID v t p s; s = s\<lparr>app_uuids := app_uuids s + 1\<rparr>
                      in case CreateOfflineDownload (dbe env) od (app_db s) of
                           (Inl _, d) \<Rightarrow> respond (http_error ''failed to initiate download'' 500 w) (s\<lparr>app_db := d\<rparr>)
                         | (Inr _, d) \<Rightarrow>
                             respond (write_json 201 (JObj [(''download_id'', JStr (od_id od)),
                               (''audio_url'', JStr audioURL), (''cover_image_url'', JStr ''''), (''title'', JStr (t_name t)),
                               (''artist'', JStr (p_name p)), (''file_size_bytes'', JNum (v_size v)),
                               (''duration_seconds'', JNum (t_duration t)), (''expires_in_seconds'', JNum 86400),
                               (''checksum'', JStr (v_checksum v))]) w) (s\<lparr>app_db := d\<rparr>))"

text \<open>\<open>GetProjectByID\<close> does not read the cover, so there never is one here.\<close>

definition InitiateDownload :: "'o app_env \<Rightarrow> ('b, 'o app) handler" where
  "InitiateDownload env r = (\<lambda>(w, s).
     (case ctx_string ''user_id'' r of
        None \<Rightarrow> (Panicked, w, s)
      | Some userID \<Rightarrow>
          let trackID = path_value r ''track_id''
          in case GetLatestTrackVersion (dbe env) trackID (app_db s) of
               Inl _ \<Rightarrow> respond (http_error ''track not found'' 404 w) s
             | Inr version \<Rightarrow>
                 (case GetTrackByID (dbe env) trackID (app_db s) of
                    Inl _ \<Rightarrow> respond (http_error ''track not found'' 404 w) s
                  | Inr None \<Rightarrow> (Panicked, w, s)
                  | Inr (Some track) \<Rightarrow>
                      (case GetProjectByID (dbe env) (t_project track) userID (app_db s) of
                         Inl _ \<Rightarrow> respond (http_error ''project not found'' 404 w) s
                       | Inr project \<Rightarrow>
                           (case version of
                              None \<Rightarrow> (Panicked, w, s)
                            | Some v \<Rightarrow> start_download env userID trackID v track project w s)))))"

text \<open>The look-up of the caller's own download that four handlers begin with.\<close>

definition with_own_download ::
  "'o app_env \<Rightarrow> string \<Rightarrow> 'b request \<Rightarrow> (rwriter \<Rightarrow> 'o app \<Rightarrow> completion \<times> rwriter \<times> 'o app) \<Rightarrow> rwriter \<Rightarrow> 'o app \<Rightarrow>
   completion \<times> rwriter \<times> 'o app" where
  "with_own_download env userID r go w s =
     (case GetOfflineDownloadByID (dbe env) (path_value r ''download_id'') (app_db s) of
        Inl _ \<Rightarrow> respond (http_error ''download not found'' 404 w) s
      | Inr None \<Rightarrow> (Panicked, w, s)
      | Inr (Some od) \<Rightarrow>
          if od_user od \<noteq> userID then respond (http_error ''download not found'' 404 w) s else go w s)"

definition ConfirmDownload :: "'o app_env \<Rightarrow> ('b, 'o app) handler" where
  "ConfirmDownload env r = (\<lambda>(w, s).
     (case ctx_string ''user_id'' r of
        None \<Rightarrow> (Panicked, w, s)
      | Some userID \<Rightarrow>
          (case req_body r of
             None \<Rightarrow> respond (http_error ''invalid request'' 400 w) s
           | Some _ \<Rightarrow>
               with_own_download env userID r (\<lambda>w s.
                 let downloadID = path_value r ''download_id''
                 in case UpdateOfflineDownloadStatus (dbe env) downloadID ''completed'' (app_db s) of
                      (Inl _, d) \<Rightarrow> respond (http_error ''failed to confirm download'' 500 w) (s\<lparr>app_db := d\<rparr>)
                    | (Inr _, d) \<Rightarrow> respond (ok_json (JObj [(''download_id'', JStr downloadID),
                        (''status'', JStr ''completed'')]) w) (s\<lparr>app_db := d\<rparr>)) w s)))"

definition GetOfflineDownloads :: "'o app_env \<Rightarrow> ('b, 'o app) handler" where
  "GetOfflineDownloads env r = (\<lambda>(w, s).
     (case ctx_string ''user_id'' r of
        None \<Rightarrow> (Panicked, w, s)
      | Some userID \<Rightarrow>
          (case GetUserOfflineDownloads (dbe env) userID (app_db s) of
             Inl _ \<Rightarrow> respond (http_error ''failed to get downloads'' 500 w) s
           | Inr ods \<Rightarrow> respond (ok_json (JObj [(''downloads'', json_slice offline_json ods)]) w) s)))"

definition DeleteOfflineDownload :: "'o app_env \<Rightarrow> ('b, 'o app) handler" where
  "DeleteOfflineDownload env r = (\<lambda>(w, s).
     (case ctx_string ''user_id'' r of
        None \<Rightarrow> (Panicked, w, s)
      | Some userID \<Rightarrow>
          with_own_download env userID r (\<lambda>w s.
            case UpdateOfflineDownloadStatus (dbe env) (path_value r ''download_id'') ''removed'' (app_db s) of
              (Inl _, d) \<Rightarrow> respond (http_error ''failed to delete'' 500 w) (s\<lparr>app_db := d\<rparr>)
            | (Inr _, d) \<Rightarrow> respond (write_header 204 w) (s\<lparr>app_db := d\<rparr>)) w s))"

definition GetOfflineStorageStatus :: "(int \<Rightarrow> int \<Rightarrow> json) \<Rightarrow> 'o app_env \<Rightarrow> ('b, 'o app) handler" where
  "GetOfflineStorageStatus percent env r = (\<lambda>(w, s).
     (case ctx_string ''user_id'' r of
        None \<Rightarrow> (Panicked, w, s)
      | Some userID \<Rightarrow>
          let quota = offline_quota (dbe env) userID (app_db s); used = offline_used (dbe env) userID (app_db s);
              n = (case GetOfflineDownloadCount (dbe env) userID (app_db s) of Inl _ \<Rightarrow> 0 | Inr n \<Rightarrow> n)
          in respond (ok_json (JObj [(''available_bytes'', JNum (int64 (quota - used))), (''quota_bytes'', JNum quota),
               (''tier'', JStr ''free''), (''track_count'', JNum n), (''usage_percent'', percent used quota),
               (''used_bytes'', JNum used)]) w) s))"

definition LogOfflinePlay :: "'o app_env \<Rightarrow> ('b, 'o app) handler" where
  "LogOfflinePlay env r = (\<lambda>(w, s).
     (case ctx_string ''user_id'' r of
        None \<Rightarrow> (Panicked, w, s)
      | Some userID \<Rightarrow>
          (case req_body r of
             None \<Rightarrow> respond (http_error ''invalid request'' 400 w) s
           | Some _ \<Rightarrow>
               with_own_download env userID r (\<lambda>w s.
                 respond (write_json 201 (JObj [(''status'', JStr ''logged''),
                     (''sync_when_online'', JStr ''offline plays will be counted once synced'')]) w)
                   (s\<lparr>app_db := snd (UpdateOfflineLastPlayed (dbe env) (path_value r ''download_id'') (app_db s))\<rparr>)) w s)))"

definition ReconcileOfflineData :: "'o app_env \<Rightarrow> ('b, 'o app) handler" where
  "ReconcileOfflineData env r = (\<lambda>(w, s).
     (case ctx_string ''user_id'' r of
        None \<Rightarrow> (Panicked, w, s)
      | Some _ \<Rightarrow> respond (ok_json (JObj [(''last_sync'', JNum (now env)),
          (''message'', JStr ''Offline plays synced with server''), (''offline_plays_synced'', JNum 0),
          (''status'', JStr ''synced'')]) w) s))"

text \<open>One track of a project: it is left out when its version or its address cannot be had.\<close>

definition sync_item :: "'o app_env \<Rightarrow> database \<Rightarrow> track_row \<Rightarrow> ((string \<times> json) list \<times> int) option option" where
  "sync_item env d t =
     (case GetLatestTrackVersion (dbe env) (t_id t) d of
        Inl _ \<Rightarrow> Some None
      | Inr None \<Rightarrow> None
      | Inr (Some v) \<Rightarrow>
          (case GenerateDownloadPresignedURL env (v_key v) (24 * hour) of
             None \<Rightarrow> Some None
           | Some url \<Rightarrow> Some (Some ([(''audio_url'', JStr url), (''duration_seconds'', JNum (t_duration t)),
               (''file_size_bytes'', JNum (v_size v)), (''track_id'', JStr (t_id t)), (''track_name'', JStr (t_name t))],
               v_size v))))"

text \<open>The loop; \<open>None\<close> is the panic on a missing version.\<close>

fun sync_items :: "'o app_env \<Rightarrow> database \<Rightarrow> track_row list \<Rightarrow> ((string \<times> json) list \<times> int) list option" where
  "sync_items env d [] = Some []"
| "sync_items env d (t # ts) =
     (case sync_item env d t of
        None \<Rightarrow> None
      | Some None \<Rightarrow> sync_items env d ts
      | Some (Some x) \<Rightarrow> map_option ((#) x) (sync_items env d ts))"

definition getTotalSize :: "((string \<times> json) list \<times> int) list \<Rightarrow> int" where
  "getTotalSize downloads = fold (\<lambda>x n. int64 (n + snd x)) downloads 0"

definition SyncDownloadProject :: "'o app_env \<Rightarrow> ('b, 'o app) handler" where
  "SyncDownloadProject env r = (\<lambda>(w, s).
     (case ctx_string ''user_id'' r of
        None \<Rightarrow> (Panicked, w, s)
      | Some userID \<Rightarrow>
          let projectID = path_value r ''project_id''
          in case GetProjectByID (dbe env) projectID userID (app_db s) of
               Inl _ \<Rightarrow> respond (http_error ''project not found'' 404 w) s
             | Inr project \<Rightarrow>
                 (case GetProjectTracks (dbe env) projectID (app_db s) of
                    Inl _ \<Rightarrow> respond (http_error ''failed to get tracks'' 500 w) s
                  | Inr ts \<Rightarrow>
                      (case sync_items env (app_db s) ts of
                         None \<Rightarrow> (Panicked, w, s)
                       | Some xs \<Rightarrow>
                           respond (ok_json (JObj [
                             (''message'', JStr (''Download all '' @ Itoa (int (length xs)) @ '' tracks for offline'')),
                             (''project_id'', JStr projectID), (''project_name'', JStr (p_name project)),
                             (''total_size_bytes'', JNum (getTotalSize xs)),
                             (''tracks'', JList (map (JObj \<circ> fst) xs))]) w) s))))"

definition DeleteAllExpiredDownloads :: "'o app_env \<Rightarrow> ('b, 'o app) handler" where
  "DeleteAllExpiredDownloads env r = (\<lambda>(w, s).
     (case CleanupExpiredOfflineDownloads (dbe env) (app_db s) of
        (Inl _, d) \<Rightarrow> respond (http_error ''failed to cleanup expired downloads'' 500 w) (s\<lparr>app_db := d\<rparr>)
      | (Inr n, d) \<Rightarrow> respond (ok_json (JObj [(''deleted_count'', JNum n), (''status'', JStr ''ok'')]) w) (s\<lparr>app_db := d\<rparr>)))"


subsection \<open>Who may touch a download\<close>

datatype offline_op = Initiate | Confirm | Remove | LogPlay | Listing | Status | Sync | Reconcile

definition offline_handler :: "(int \<Rightarrow> int \<Rightarrow> json) \<Rightarrow> 'o app_env \<Rightarrow> offline_op \<Rightarrow> ('b, 'o app) handler" where
  "offline_handler percent env op =
     (case op of Initiate \<Rightarrow> InitiateDownload env | Confirm \<Rightarrow> ConfirmDownload env | Remove \<Rightarrow> DeleteOfflineDownload env
      | LogPlay \<Rightarrow> LogOfflinePlay env | Listing \<Rightarrow> GetOfflineDownloads env | Status \<Rightarrow> GetOfflineStorageStatus percent env
      | Sync \<Rightarrow> SyncDownloadProject env | Reconcile \<Rightarrow> ReconcileOfflineData env)"

definition downloads_of :: "string \<Rightarrow> 'o app \<Rightarrow> offline_row list" where
  "downloads_of userID s = filter (\<lambda>od. od_user od = userID) (offline_downloads (app_db s))"

definition download_ids_ok :: "'o app \<Rightarrow> bool" where
  "download_ids_ok s \<longleftrightarrow> distinct (map od_id (offline_downloads (app_db s)))"

text \<open>What a handler can do to the table: nothing, add a row of the caller, or change the caller's row of an id.\<close>

inductive touches :: "string option \<Rightarrow> offline_row list \<Rightarrow> offline_row list \<Rightarrow> bool" where
  nothing: "touches u ods ods"
| adds: "od_user od = x \<Longrightarrow> od_id od \<notin> set (map od_id ods) \<Longrightarrow> touches (Some x) ods (ods @ [od])"
| changes: "od \<in> set ods \<Longrightarrow> od_user od = x \<Longrightarrow> od_id od = i \<Longrightarrow> (\<And>y. od_id (f y) = od_id y \<and> od_user (f y) = od_user y) \<Longrightarrow>
    touches (Some x) ods (update_rows (\<lambda>y. od_id y = i) f ods)"

lemma touches_ok:
  "touches u ods ods' \<Longrightarrow> distinct (map od_id ods) \<Longrightarrow> distinct (map od_id ods')"
  by (induction rule: touches.induct) (auto simp: map_update_rows)

lemma touches_foreign:
  "touches u ods ods' \<Longrightarrow> distinct (map od_id ods) \<Longrightarrow> u \<noteq> Some x \<Longrightarrow>
   filter (\<lambda>od. od_user od = x) ods' = filter (\<lambda>od. od_user od = x) ods"
proof (induction rule: touches.induct)
  case (changes od ods v i f)
  have "od_user y = v" if "y \<in> set ods" "od_id y = i" for y
    using that changes by (metis distinct_map_inj_eq)
  with changes show ?case by (intro filter_update_rows_other) auto
qed auto

lemma CreateOfflineDownload_touches:
  "touches (Some (od_user od)) (offline_downloads d) (offline_downloads (snd (CreateOfflineDownload env od d)))"
proof -
  have "touches (Some (od_user od)) (offline_downloads d) (offline_downloads d @ [od])"
    if "\<not> (\<exists>x\<in>set (offline_downloads d). od_id x = od_id od)"
    using that by (intro touches.adds) auto
  then show ?thesis by (simp add: CreateOfflineDownload_def touches.nothing)
qed

lemma update_touches:
  assumes "od \<in> set (offline_downloads d)" "od_user od = x" "od_id od = i"
  shows "touches (Some x) (offline_downloads d) (offline_downloads (snd (UpdateOfflineDownloadStatus env i status d)))"
    and "touches (Some x) (offline_downloads d) (offline_downloads (snd (UpdateOfflineLastPlayed env i d)))"
  using touches.changes [OF assms] by (auto simp: UpdateOfflineDownloadStatus_def UpdateOfflineLastPlayed_def exec_stmt_def touches.nothing)

lemma start_download_touches:
  "touches (Some userID) (offline_downloads (app_db s))
     (offline_downloads (app_db (snd (snd (start_download env userID trackID v t p w s)))))"
  using CreateOfflineDownload_touches [of "pending_download env userID trackID v t p s" "app_db s" "dbe env"]
  by (auto simp: start_download_def Let_def respond_def pending_download_def intro: touches.nothing split: option.splits sum.splits prod.splits if_splits)

lemma with_own_download_touches:
  assumes "\<And>od w. od \<in> set (offline_downloads (app_db s)) \<Longrightarrow> od_user od = userID \<Longrightarrow>
      od_id od = path_value r ''download_id'' \<Longrightarrow>
      touches (Some userID) (offline_downloads (app_db s)) (offline_downloads (app_db (snd (snd (go w s)))))"
  shows "touches (Some userID) (offline_downloads (app_db s))
    (offline_downloads (app_db (snd (snd (with_own_download env userID r go w s)))))"
proof -
  have "od \<in> set (offline_downloads (app_db s)) \<and> od_id od = path_value r ''download_id''"
    if "GetOfflineDownloadByID (dbe env) (path_value r ''download_id'') (app_db s) = Inr (Some od)" for od
    using that by (auto simp: GetOfflineDownloadByID_def found_download_def dest!: query_row_InrD split: sum.splits if_splits)
  then show ?thesis
    using assms by (auto simp: with_own_download_def respond_def intro: touches.nothing split: sum.split option.split)
qed

lemma offline_handler_touches:
  "touches (ctx_string ''user_id'' r) (offline_downloads (app_db s))
     (offline_downloads (app_db (snd (snd (offline_handler percent env op r (w, s))))))"
proof (cases op)
  case Initiate
  then show ?thesis
    by (auto simp: offline_handler_def InitiateDownload_def Let_def respond_def start_download_touches
        intro: touches.nothing split: option.split sum.split)
next
  case Confirm
  then show ?thesis
    by (auto simp: offline_handler_def ConfirmDownload_def Let_def answered_update respond_state touches.nothing update_touches(1)
        intro!: with_own_download_touches split: option.split)
next
  case Remove
  then show ?thesis
    by (auto simp: offline_handler_def DeleteOfflineDownload_def Let_def answered_update respond_state touches.nothing update_touches(1)
        intro!: with_own_download_touches split: option.split)
next
  case LogPlay
  then show ?thesis
    by (auto simp: offline_handler_def LogOfflinePlay_def Let_def respond_def touches.nothing update_touches(2)
        intro!: with_own_download_touches split: option.split)
qed (auto simp: offline_handler_def GetOfflineDownloads_def GetOfflineStorageStatus_def SyncDownloadProject_def
    ReconcileOfflineData_def Let_def respond_def intro: touches.nothing split: option.split sum.split)

interpretation offline: own_rows "offline_handler percent env" downloads_of download_ids_ok for percent env
proof unfold_locales
  fix s :: "'a app" and op and r :: "'b request" and w x
  assume ok: "download_ids_ok s"
  note touched = offline_handler_touches [of r s percent env op w]
  show "download_ids_ok (snd (snd (offline_handler percent env op r (w, s))))"
    using touches_ok [OF touched] ok by (simp add: download_ids_ok_def)
  show "downloads_of x (snd (snd (offline_handler percent env op r (w, s)))) = downloads_of x s"
    if "ctx_string ''user_id'' r \<noteq> Some x"
    using touches_foreign [OF touched _ that] ok by (simp add: download_ids_ok_def downloads_of_def)
qed

text \<open>Whatever sequence of offline requests other users send, even with identifiers that they guess, the downloads of
  a user stay exactly as they were.\<close>

theorem others_downloads_untouched:
  assumes "download_ids_ok s" and "\<forall>(op, r)\<in>set rs. ctx_string ''user_id'' r \<noteq> Some x"
  shows "downloads_of x (serve_ops (offline_handler percent env) rs s) = downloads_of x s"
  by (rule offline.foreign_run [OF assms])

subsection \<open>The quota\<close>

text \<open>A device that confirms each download before it starts another one.\<close>

definition fetch_offline :: "'o app_env \<Rightarrow> 'b \<Rightarrow> 'b request \<Rightarrow> 'o app \<Rightarrow> 'o app" where
  "fetch_offline env b r s =
     (let (c, w, s') = InitiateDownload env r (new_writer, s)
      in if wrote w = Some 201
         then snd (snd (ConfirmDownload env (r\<lparr>path_value := (\<lambda>k. new_uuid env (app_uuids s)), req_body := Some b\<rparr>)
                (new_writer, s')))
         else s')"

definition used_bytes :: "string \<Rightarrow> database \<Rightarrow> int" where
  "used_bytes u d = sum_list (map od_size (completed_downloads u d))"

definition quota_ok :: "'o app_env \<Rightarrow> string \<Rightarrow> 'o app \<Rightarrow> bool" where
  "quota_ok env u s \<longleftrightarrow> used_bytes u (app_db s) \<le> offline_quota (dbe env) u (app_db s)"

definition sizes_ok :: "'o app \<Rightarrow> bool" where
  "sizes_ok s \<longleftrightarrow> download_ids_ok s \<and> (\<forall>v\<in>set (versions (app_db s)). 0 \<le> v_size v \<and> v_size v < 2 ^ 62) \<and>
     (\<forall>od\<in>set (offline_downloads (app_db s)). 0 \<le> od_size od)"

lemma offline_quota_le: "offline_quota env u d \<le> 20 * 1024 * 1024 * 1024"
  by (simp add: offline_quota_def split: sum.split prod.split)

lemma offline_quota_frame [simp]: "offline_quota env u (d\<lparr>offline_downloads := x\<rparr>) = offline_quota env u d"
  by (simp add: offline_quota_def GetUserSubscription_def)

lemma used_bytes_nonneg:
  "(\<And>od. od \<in> set (offline_downloads d) \<Longrightarrow> 0 \<le> od_size od) \<Longrightarrow> 0 \<le> used_bytes u d"
  unfolding used_bytes_def completed_downloads_def by (rule sum_list_nonneg) auto

lemma offline_used_eq:
  assumes "\<not> fails env ''GetOfflineStorageUsed'' [u]" "0 \<le> used_bytes u d" "used_bytes u d \<le> 20 * 1024 * 1024 * 1024"
  shows "offline_used env u d = used_bytes u d"
proof -
  have "int64 (used_bytes u d) = used_bytes u d" using assms by (intro int64_id) simp_all
  with assms(1) show ?thesis
    by (simp add: offline_used_def GetOfflineStorageUsed_def Let_def used_bytes_def [symmetric])
qed

definition started :: "'o app_env \<Rightarrow> string \<Rightarrow> 'o app \<Rightarrow> offline_row \<Rightarrow> bool" where
  "started env u s od \<longleftrightarrow> od_user od = u \<and> od_status od = ''pending'' \<and> od_id od = new_uuid env (app_uuids s) \<and>
     od_id od \<notin> set (map od_id (offline_downloads (app_db s))) \<and> (\<exists>v\<in>set (versions (app_db s)). od_size od = v_size v) \<and>
     int64 (offline_used (dbe env) u (app_db s) + od_size od) \<le> offline_quota (dbe env) u (app_db s)"

lemma start_download_cases:
  assumes "start_download env u trackID v t p new_writer s = (c, w', s')" and "v \<in> set (versions (app_db s))"
  obtains od where "wrote w' = Some 201" "started env u s od"
      "app_db s' = (app_db s)\<lparr>offline_downloads := offline_downloads (app_db s) @ [od]\<rparr>"
  | "wrote w' \<noteq> Some 201" "app_db s' = app_db s"
proof -
  let ?od = "pending_download env u trackID v t p s"
  have row: "od_user ?od = u" "od_status ?od = ''pending''" "od_id ?od = new_uuid env (app_uuids s)" "od_size ?od = v_size v"
    by (simp_all add: pending_download_def)
  have "(\<exists>d. CreateOfflineDownload (dbe env) ?od (app_db s) = (Inr (), d)) \<and> wrote w' = Some 201 \<and>
      app_db s' = snd (CreateOfflineDownload (dbe env) ?od (app_db s)) \<and>
      int64 (offline_used (dbe env) u (app_db s) + v_size v) \<le> offline_quota (dbe env) u (app_db s) \<or>
      wrote w' \<noteq> Some 201 \<and> app_db s' = app_db s"
  proof (cases "CreateOfflineDownload (dbe env) ?od (app_db s)")
    case (Pair res d)
    moreover have "d = app_db s" if "res = Inl e" for e
      using Pair that by (auto simp: CreateOfflineDownload_def split: if_splits)
    ultimately show ?thesis
      using assms(1) unfolding start_download_def Let_def
      by (cases res) (auto simp: respond_def write_json_def not_less split: option.splits if_splits)
  qed
  then show thesis
  proof (elim disjE conjE exE)
    fix d
    assume made: "CreateOfflineDownload (dbe env) ?od (app_db s) = (Inr (), d)" "wrote w' = Some 201"
      "app_db s' = snd (CreateOfflineDownload (dbe env) ?od (app_db s))"
      "int64 (offline_used (dbe env) u (app_db s) + v_size v) \<le> offline_quota (dbe env) u (app_db s)"
    then have "od_id ?od \<notin> set (map od_id (offline_downloads (app_db s)))"
      "d = (app_db s)\<lparr>offline_downloads := offline_downloads (app_db s) @ [?od]\<rparr>"
      by (auto simp: CreateOfflineDownload_def split: if_splits)
    with made row assms(2) show thesis by (intro that(1) [of ?od]) (auto simp: started_def)
  qed (rule that(2))
qed

lemma initiate_cases:
  assumes "InitiateDownload env r (new_writer, s) = (c, w', s')"
  obtains u od where "wrote w' = Some 201" "ctx_string ''user_id'' r = Some u" "started env u s od"
      "app_db s' = (app_db s)\<lparr>offline_downloads := offline_downloads (app_db s) @ [od]\<rparr>"
  | "wrote w' \<noteq> Some 201" "app_db s' = app_db s"
proof -
  consider (start) u v t p where "ctx_string ''user_id'' r = Some u"
      "GetLatestTrackVersion (dbe env) (path_value r ''track_id'') (app_db s) = Inr (Some v)"
      "start_download env u (path_value r ''track_id'') v t p new_writer s = (c, w', s')"
    | (no) "wrote w' \<noteq> Some 201" "app_db s' = app_db s"
    using assms
    by (fastforce simp: InitiateDownload_def Let_def respond_def split: option.splits sum.splits)
  then show thesis
  proof cases
    case start
    then have "v \<in> set (versions (app_db s))"
      by (auto simp: GetLatestTrackVersion_def live_versions_def dest!: query_row_InrD split: sum.splits if_splits)
    from start_download_cases [OF start(3) this] start(1) show thesis using that by metis
  qed (rule that(2))
qed

text \<open>Confirming the one download that was started.\<close>

lemma ConfirmDownload_db:
  "app_db (snd (snd (ConfirmDownload env r (w, s)))) = app_db s \<or>
   app_db (snd (snd (ConfirmDownload env r (w, s)))) =
     snd (UpdateOfflineDownloadStatus (dbe env) (path_value r ''download_id'') ''completed'' (app_db s))"
  by (simp add: ConfirmDownload_def with_own_download_def Let_def answered_update respond_state split: option.split sum.split)

lemma confirm_cases:
  assumes "started env u s od"
    and "app_db s' = (app_db s)\<lparr>offline_downloads := offline_downloads (app_db s) @ [od]\<rparr>"
    and s2: "s2 = snd (snd (ConfirmDownload env
      (r\<lparr>path_value := (\<lambda>k. new_uuid env (app_uuids s)), req_body := Some b\<rparr>) (new_writer, s')))"
  obtains "app_db s2 = app_db s'"
  | "app_db s2 = (app_db s)\<lparr>offline_downloads := offline_downloads (app_db s) @
       [od\<lparr>od_status := ''completed'', od_updated := db_now (dbe env)\<rparr>]\<rparr>"
proof -
  have "update_rows (\<lambda>x. od_id x = new_uuid env (app_uuids s)) f (offline_downloads (app_db s) @ [od]) =
      offline_downloads (app_db s) @ [f od]" for f
  proof -
    have "update_rows (\<lambda>x. od_id x = new_uuid env (app_uuids s)) f (offline_downloads (app_db s)) = offline_downloads (app_db s)"
      using assms(1) by (intro update_rows_none) (force simp: started_def)
    with assms(1) show ?thesis by (simp add: update_rows_def started_def)
  qed
  then have "app_db s2 = app_db s' \<or> app_db s2 = (app_db s)\<lparr>offline_downloads := offline_downloads (app_db s) @
       [od\<lparr>od_status := ''completed'', od_updated := db_now (dbe env)\<rparr>]\<rparr>"
    using ConfirmDownload_db [of env "r\<lparr>path_value := (\<lambda>k. new_uuid env (app_uuids s)), req_body := Some b\<rparr>" new_writer s']
      assms(2) unfolding s2 by (simp add: UpdateOfflineDownloadStatus_def exec_stmt_def split: if_splits)
  with that show thesis by blast
qed

lemma sizes_ok_add:
  assumes "sizes_ok s" "started env u s od" "od_id od' = od_id od" "od_size od' = od_size od"
    "app_db s' = (app_db s)\<lparr>offline_downloads := offline_downloads (app_db s) @ [od']\<rparr>"
  shows "sizes_ok s'"
  using assms by (auto simp: sizes_ok_def download_ids_ok_def started_def)

lemma used_bytes_add:
  "used_bytes x (d\<lparr>offline_downloads := offline_downloads d @ [od]\<rparr>) =
     used_bytes x d + (if od_user od = x \<and> od_status od = ''completed'' then od_size od else 0)"
  by (simp add: used_bytes_def completed_downloads_def)

lemma quota_room:
  assumes "sizes_ok s" "quota_ok env u s" "started env u s od" "\<not> fails (dbe env) ''GetOfflineStorageUsed'' [u]"
  shows "used_bytes u (app_db s) + od_size od \<le> offline_quota (dbe env) u (app_db s)"
proof -
  let ?d = "app_db s"
  have "0 \<le> used_bytes u ?d" using assms(1) by (intro used_bytes_nonneg) (auto simp: sizes_ok_def)
  moreover have "used_bytes u ?d \<le> 20 * 1024 * 1024 * 1024"
    using assms(2) offline_quota_le [of "dbe env" u ?d] by (simp add: quota_ok_def)
  moreover have "0 \<le> od_size od" "od_size od < 2 ^ 62" using assms(1,3) by (auto simp: sizes_ok_def started_def)
  moreover from calculation have "int64 (used_bytes u ?d + od_size od) = used_bytes u ?d + od_size od"
    by (intro int64_id) simp_all
  ultimately show ?thesis using assms(3,4) offline_used_eq [of "dbe env" u ?d] by (simp add: started_def)
qed

lemma fetch_offline_ok:
  assumes "sizes_ok s" "quota_ok env x s" "\<not> fails (dbe env) ''GetOfflineStorageUsed'' [x]"
  shows "sizes_ok (fetch_offline env b r s) \<and> quota_ok env x (fetch_offline env b r s)"
proof -
  obtain c w' s' where run: "InitiateDownload env r (new_writer, s) = (c, w', s')" by (cases "InitiateDownload env r (new_writer, s)")
  from run show ?thesis
  proof (cases rule: initiate_cases)
    case (1 u od)
    note room = quota_room [OF assms(1) _ 1(3)]
    let ?s2 = "snd (snd (ConfirmDownload env
      (r\<lparr>path_value := (\<lambda>k. new_uuid env (app_uuids s)), req_body := Some b\<rparr>) (new_writer, s')))"
    have "?s2 = ?s2" ..
    with 1(3,4) show ?thesis
    proof (cases rule: confirm_cases)
      case 1
      then have db: "app_db (fetch_offline env b r s) =
          (app_db s)\<lparr>offline_downloads := offline_downloads (app_db s) @ [od]\<rparr>"
        using \<open>wrote w' = Some 201\<close> run \<open>app_db s' = _\<close> by (simp add: fetch_offline_def)
      have "od_status od \<noteq> ''completed''" using \<open>started env u s od\<close> by (simp add: started_def)
      then have "quota_ok env x (fetch_offline env b r s)"
        using assms(2) unfolding quota_ok_def db used_bytes_add offline_quota_frame by simp
      with sizes_ok_add [OF assms(1) \<open>started env u s od\<close> refl refl db] show ?thesis by blast
    next
      case 2
      let ?od = "od\<lparr>od_status := ''completed'', od_updated := db_now (dbe env)\<rparr>"
      have db: "app_db (fetch_offline env b r s) =
          (app_db s)\<lparr>offline_downloads := offline_downloads (app_db s) @ [?od]\<rparr>"
        using 2 \<open>wrote w' = Some 201\<close> run by (simp add: fetch_offline_def)
      have "od_user od = u" using \<open>started env u s od\<close> by (simp add: started_def)
      then have "quota_ok env x (fetch_offline env b r s)"
        using assms(2,3) room unfolding quota_ok_def db used_bytes_add offline_quota_frame by auto
      with sizes_ok_add [OF assms(1) \<open>started env u s od\<close> _ _ db] show ?thesis by simp
    qed
  next
    case 2
    with run assms show ?thesis by (simp add: fetch_offline_def sizes_ok_def download_ids_ok_def quota_ok_def)
  qed
qed


definition two_tracks :: "unit app" where
  "two_tracks = sample_app\<lparr>app_db := sample_db\<lparr>
     tracks := map (\<lambda>i. \<lparr>t_id = i, t_project = ''p'', t_user = ''u'', t_name = i, t_duration = 0, t_created = 0,
       t_updated = 0, t_deleted = None\<rparr>) [''t'', ''t2''],
     versions := map (\<lambda>i. \<lparr>v_id = ''v'' @ i, v_track = i, v_number = 1, v_key = ''k'' @ i, v_size = 600 * 1024 * 1024,
       v_checksum = ''c'', v_created = 0, v_deleted = None\<rparr>) [''t'', ''t2'']\<rparr>\<rparr>"

definition offline_request :: "string \<Rightarrow> string \<Rightarrow> unit request" where
  "offline_request u i = (as_user u (\<lambda>k. i))\<lparr>req_body := Some ()\<rparr>"

theorem others_downloads_untouched_witness:
  "downloads_of ''u'' (serve_ops (offline_handler (\<lambda>a b. JNull) sample_env) [(Confirm, offline_request ''x'' ''id0''),
     (Remove, offline_request ''x'' ''id0'')] (fetch_offline sample_env () (offline_request ''u'' ''t'') two_tracks)) =
   downloads_of ''u'' (fetch_offline sample_env () (offline_request ''u'' ''t'') two_tracks)"
proof (rule others_downloads_untouched)
  show "download_ids_ok (fetch_offline sample_env () (offline_request ''u'' ''t'') two_tracks)" by code_simp
  show "\<forall>(op, r)\<in>set [(Confirm, offline_request ''x'' ''id0''), (Remove, offline_request ''x'' ''id0'')].
      ctx_string ''user_id'' r \<noteq> Some ''u''"
    by (simp add: offline_request_def as_user_def ctx_string_def plain_request_def)
qed


text \<open>The quota does not hold when a second download starts before the first one is confirmed: the check counts
  completed downloads only, so two downloads of 600 MiB both fit into the 1 GiB of the free plan.\<close>

lemma quota_exceeded_in_parallel:
  "quota_ok sample_env ''u'' two_tracks \<and>
   \<not> quota_ok sample_env ''u'' (serve_ops (offline_handler (\<lambda>a b. JNull) sample_env)
       [(Initiate, offline_request ''u'' ''t''), (Initiate, offline_request ''u'' ''t2''),
        (Confirm, offline_request ''u'' ''id0''), (Confirm, offline_request ''u'' ''id1'')] two_tracks)"
  by code_simp

end
