(* ===== verification/Notifications.thy ===== *)
theory Notifications
  imports Social
begin

text \<open>
  Notifications: \<open>handlers/notifications.go\<close>, the services of \<open>notifications/\<close> and \<open>db/queries_notifications.go\<close>.
  The call to FCM is an argument (whether it was answered 200 with a JSON object), and so is the way the
  driver reads a timestamp into a string, which is an error of the scan where it cannot. \<open>None\<close> stands for a panic of the services.

  Shown: what an update of the preferences writes, and when it can never succeed; and that requests of other users
  leave the devices, the preferences and the notifications of a user alone, as far as the handlers compare users at all.
\<close>

subsection \<open>Queries\<close>

text \<open>A value for a \<open>VARCHAR(n)\<close> column: what does not fit is an error unless it is spaces.\<close>

definition varchar :: "nat \<Rightarrow> string \<Rightarrow> string option" where
  "varchar n s =
     (let rs = runes_of s
      in if length rs \<le> n then Some s
         else if list_all (\<lambda>r. r = '' '') (drop n rs) then Some (concat (take n rs))
         else None)"

definition UpsertDeviceToken :: "dbenv \<Rightarrow> string \<Rightarrow> string \<Rightarrow> string \<Rightarrow> database \<Rightarrow> unit db_result \<times> database" where
  "UpsertDeviceToken env userID token platform d =
     (if fails env ''UpsertDeviceToken'' [userID, token] then (Inl Fault, d)
      else case varchar 20 platform of
             None \<Rightarrow> (Inl Fault, d)
           | Some platform \<Rightarrow>
               if \<not> (\<exists>u\<in>set (users d). u_id u = userID) \<and> \<not> (\<exists>t\<in>set (device_tokens d). dt_token t = token)
               then (Inl Conflict, d)
               else if \<exists>t\<in>set (device_tokens d). dt_token t = token then
                 (Inr (), d\<lparr>device_tokens := update_rows (\<lambda>t. dt_token t = token \<and> dt_user t = userID)
                    (\<lambda>t. t\<lparr>dt_active := True, dt_last_used := db_now env\<rparr>) (device_tokens d)\<rparr>)
               else (Inr (), d\<lparr>device_tokens := device_tokens d @ [\<lparr>dt_user = userID, dt_token = token, dt_platform = platform,
                    dt_active = True, dt_last_used = db_now env\<rparr>]\<rparr>))"

definition GetActiveDeviceTokens :: "dbenv \<Rightarrow> string \<Rightarrow> database \<Rightarrow> string list db_result" where
  "GetActiveDeviceTokens env userID d =
     query_all env ''GetActiveDeviceTokens'' [userID]
       (map dt_token (order_desc dt_last_used (filter (\<lambda>t. dt_user t = userID \<and> dt_active t) (device_tokens d))))"

definition DeactivateDeviceToken :: "dbenv \<Rightarrow> string \<Rightarrow> database \<Rightarrow> unit db_result \<times> database" where
  "DeactivateDeviceToken env token =
     exec_stmt env ''DeactivateDeviceToken'' [token]
       (\<lambda>d. d\<lparr>device_tokens := update_rows (\<lambda>t. dt_token t = token) (\<lambda>t. t\<lparr>dt_active := False\<rparr>) (device_tokens d)\<rparr>)"

definition GetNotificationPreferencesRow :: "dbenv \<Rightarrow> string \<Rightarrow> database \<Rightarrow> prefs_row option db_result" where
  "GetNotificationPreferencesRow env userID d =
     (case query_row env ''GetNotificationPreferences'' [userID]
             (filter (\<lambda>p. np_user p = userID) (notification_preferences d)) of
        Inl e \<Rightarrow> if is_sql_no_rows env e then Inr None else Inl e
      | Inr p \<Rightarrow> Inr (Some p))"

text \<open>The settings of a row of preferences, without identifier and times.\<close>

definition settings_of :: "prefs_row \<Rightarrow> prefs_row \<Rightarrow> prefs_row" where
  "settings_of p q = q\<lparr>np_push := np_push p, np_likes := np_likes p, np_comments := np_comments p,
     np_follows := np_follows p, np_shares := np_shares p, np_mentions := np_mentions p, np_quiet := np_quiet p,
     np_quiet_start := np_quiet_start p, np_quiet_end := np_quiet_end p, np_bundle := np_bundle p\<rparr>"

definition UpsertNotificationPreferences :: "dbenv \<Rightarrow> prefs_row \<Rightarrow> database \<Rightarrow> unit db_result \<times> database" where
  "UpsertNotificationPreferences env p d =
     (if fails env ''UpsertNotificationPreferences'' [np_user p] then (Inl Fault, d)
      else case (varchar 5 (np_quiet_start p), varchar 5 (np_quiet_end p)) of
             (Some qs, Some qe) \<Rightarrow>
               let p = p\<lparr>np_quiet_start := qs, np_quiet_end := qe\<rparr>
               in if \<exists>q\<in>set (notification_preferences d). np_user q = np_user p then
                    (Inr (), d\<lparr>notification_preferences := update_rows (\<lambda>q. np_user q = np_user p)
                       (\<lambda>q. (settings_of p q)\<lparr>np_updated := db_now env\<rparr>) (notification_preferences d)\<rparr>)
                  else if \<not> (\<exists>u\<in>set (users d). u_id u = np_user p) then (Inl Conflict, d)
                  else (Inr (), d\<lparr>notification_preferences := notification_preferences d @
                       [p\<lparr>np_id := gen_uuid env (uuid_count d), np_created := db_now env, np_updated := db_now env\<rparr>],
                     uuid_count := uuid_count d + 1\<rparr>)
           | _ \<Rightarrow> (Inl Fault, d))"

definition MarkAllNotificationsAsRead :: "dbenv \<Rightarrow> string \<Rightarrow> database \<Rightarrow> unit db_result \<times> database" where
  "MarkAllNotificationsAsRead env userID =
     exec_stmt env ''MarkAllNotificationsAsRead'' [userID]
       (\<lambda>d. d\<lparr>notifications := update_rows (\<lambda>n. n_user n = userID \<and> \<not> n_read n) (\<lambda>n. n\<lparr>n_read := True\<rparr>) (notifications d)\<rparr>)"

text \<open>\<open>created_at\<close> is scanned into a string.\<close>

definition GetNotificationsPaginated ::
  "(go_time \<Rightarrow> string option) \<Rightarrow> dbenv \<Rightarrow> string \<Rightarrow> int \<Rightarrow> int \<Rightarrow> database \<Rightarrow> ((notification_row \<times> string) list \<times> int) db_result" where
  "GetNotificationsPaginated scan_time env userID limit offset d =
     (let own = filter (\<lambda>n. n_user n = userID) (notifications d)
      in case query_page env ''GetNotificationsPaginated'' [userID] limit offset (order_desc n_created own) of
           Inl e \<Rightarrow> Inl e
         | Inr ns \<Rightarrow>
             if \<exists>n\<in>set ns. scan_time (n_created n) = None then Inl Fault
             else if fails env ''GetNotificationsPaginated/Count'' [userID] then Inl Fault
             else Inr (map (\<lambda>n. (n, the (scan_time (n_created n)))) ns, int (length own)))"

definition GetUnreadNotificationCount :: "dbenv \<Rightarrow> string \<Rightarrow> database \<Rightarrow> int db_result" where
  "GetUnreadNotificationCount env userID d =
     (if fails env ''GetUnreadNotificationCount'' [userID] then Inl Fault
      else Inr (int (length (filter (\<lambda>n. n_user n = userID \<and> \<not> n_read n) (notifications d)))))"

text \<open>\<open>CreateNotification\<close> takes a value of any type and asserts that it is a \<open>*db.Notification\<close>. It reads a row
  from a statement that returns none; the error is only compared with \<open>sql.ErrNoRows\<close>.\<close>

datatype notification_value = ModelsNotification notification_row | DbNotification notification_row

definition CreateNotification ::
  "dbenv \<Rightarrow> notification_value \<Rightarrow> database \<Rightarrow> (unit db_result \<times> database) option" where
  "CreateNotification env v d =
     (case v of
        ModelsNotification n \<Rightarrow> None
      | DbNotification n \<Rightarrow>
          Some (if fails env ''CreateNotification'' [n_user n] then (Inl Fault, d)
                else if \<not> (\<exists>u\<in>set (users d). u_id u = n_user n) \<or>
                   (case n_actor n of None \<Rightarrow> False | Some a \<Rightarrow> \<not> (\<exists>u\<in>set (users d). u_id u = a)) \<or>
                   (case n_track n of None \<Rightarrow> False | Some a \<Rightarrow> \<not> (\<exists>t\<in>set (tracks d). t_id t = a)) \<or>
                   (case n_project n of None \<Rightarrow> False | Some a \<Rightarrow> \<not> (\<exists>p\<in>set (projects d). p_id p = a)) \<or>
                   (case n_comment n of None \<Rightarrow> False | Some a \<Rightarrow> \<not> (\<exists>c\<in>set (comments d). cm_id c = a))
                then (Inl Conflict, d)
                else (if is_sql_no_rows env NoRows then Inr () else Inl NoRows,
                  d\<lparr>notifications := notifications d @ [n\<lparr>n_id := gen_uuid env (uuid_count d), n_read := False\<rparr>],
                    uuid_count := uuid_count d + 1\<rparr>)))"

subsection \<open>Preferences\<close>

definition zero_time :: go_time where "zero_time = -62135596800000000000"

definition default_preferences :: "string \<Rightarrow> prefs_row" where
  "default_preferences userID = \<lparr>np_id = '''', np_user = userID, np_push = True, np_likes = True, np_comments = True,
     np_follows = True, np_shares = True, np_mentions = True, np_quiet = False, np_quiet_start = ''22:00'',
     np_quiet_end = ''09:00'', np_bundle = True, np_created = zero_time, np_updated = zero_time\<rparr>"

definition GetNotificationPreferences :: "dbenv \<Rightarrow> string \<Rightarrow> database \<Rightarrow> prefs_row db_result" where
  "GetNotificationPreferences env userID d =
     (case GetNotificationPreferencesRow env userID d of
        Inl e \<Rightarrow> Inl e
      | Inr None \<Rightarrow> Inr (default_preferences userID)
      | Inr (Some p) \<Rightarrow> Inr p)"

definition UpdateNotificationPreferences :: "dbenv \<Rightarrow> string \<Rightarrow> prefs_row \<Rightarrow> database \<Rightarrow> unit db_result \<times> database" where
  "UpdateNotificationPreferences env userID p = UpsertNotificationPreferences env (p\<lparr>np_user := userID\<rparr>)"

text \<open>The methods that change some settings.\<close>

definition change_preferences ::
  "(prefs_row \<Rightarrow> prefs_row) \<Rightarrow> dbenv \<Rightarrow> string \<Rightarrow> database \<Rightarrow> unit db_result \<times> database" where
  "change_preferences f env userID d =
     (case GetNotificationPreferences env userID d of
        Inl e \<Rightarrow> (Inl e, d)
      | Inr p \<Rightarrow> UpdateNotificationPreferences env userID (f p) d)"

definition DisableAllPush :: "dbenv \<Rightarrow> string \<Rightarrow> database \<Rightarrow> unit db_result \<times> database" where
  "DisableAllPush = change_preferences (\<lambda>p. p\<lparr>np_push := False, np_likes := False, np_comments := False,
     np_follows := False, np_shares := False, np_mentions := False\<rparr>)"

definition SetQuietHours :: "dbenv \<Rightarrow> string \<Rightarrow> string \<Rightarrow> string \<Rightarrow> database \<Rightarrow> unit db_result \<times> database" where
  "SetQuietHours env userID startTime endTime =
     change_preferences (\<lambda>p. p\<lparr>np_quiet := True, np_quiet_start := startTime, np_quiet_end := endTime\<rparr>) env userID"

definition DisableQuietHours :: "dbenv \<Rightarrow> string \<Rightarrow> database \<Rightarrow> unit db_result \<times> database" where
  "DisableQuietHours = change_preferences (\<lambda>p. p\<lparr>np_quiet := False\<rparr>)"

subsection \<open>Push\<close>

record push_env =
  fcm_key :: string
  fcm :: "string \<Rightarrow> json \<Rightarrow> bool"

record push_payload =
  pl_title :: string
  pl_body :: string
  pl_data :: "(string \<times> string) list"
  pl_badge :: int
  pl_sound :: string

definition fcm_message :: "string \<Rightarrow> push_payload \<Rightarrow> json" where
  "fcm_message token p = JObj [(''message'', JObj (
     [(''token'', JStr token), (''notification'', JObj [(''title'', JStr (pl_title p)), (''body'', JStr (pl_body p))])] @
     (if pl_data p = [] then [] else [(''data'', JObj (map (\<lambda>(k, v). (k, JStr v)) (pl_data p)))]) @
     (if pl_sound p = '''' then []
      else [(''android'', JObj [(''notification'', JObj ((''sound'', JStr (pl_sound p)) #
              (if pl_badge p > 0 then [(''notification_count'', JNum (pl_badge p))] else [])))]),
            (''apns'', JObj [(''payload'', JObj [(''aps'', JObj [(''sound'', JStr (pl_sound p)),
              (''badge'', JNum (pl_badge p))])])])])))]"

text \<open>The log line of a success takes the first twenty bytes of the token.\<close>

definition sendToFCM :: "push_env \<Rightarrow> string \<Rightarrow> push_payload \<Rightarrow> bool option" where
  "sendToFCM pe token p =
     (if fcm_key pe = '''' then Some True
      else if \<not> fcm pe (fcm_key pe) (fcm_message token p) then Some False
      else if length token < 20 then None else Some True)"

text \<open>The goroutines of a broadcast, in the order in which they start.\<close>

fun send_all :: "push_env \<Rightarrow> dbenv \<Rightarrow> push_payload \<Rightarrow> string list \<Rightarrow> database \<Rightarrow> database option" where
  "send_all pe env p [] d = Some d"
| "send_all pe env p (t # ts) d =
     (case sendToFCM pe t p of
        None \<Rightarrow> None
      | Some True \<Rightarrow> send_all pe env p ts d
      | Some False \<Rightarrow> send_all pe env p ts (snd (DeactivateDeviceToken env t d)))"

definition SendPushNotification ::
  "push_env \<Rightarrow> dbenv \<Rightarrow> string \<Rightarrow> push_payload \<Rightarrow> database \<Rightarrow> (unit db_result \<times> database) option" where
  "SendPushNotification pe env userID p d =
     (case GetActiveDeviceTokens env userID d of
        Inl e \<Rightarrow> Some (Inl e, d)
      | Inr ts \<Rightarrow> map_option (\<lambda>d. (Inr (), d)) (send_all pe env p ts d))"

definition BroadcastNotification ::
  "push_env \<Rightarrow> dbenv \<Rightarrow> string \<Rightarrow> string \<Rightarrow> string \<Rightarrow> (string \<times> string) list \<Rightarrow> database \<Rightarrow>
   (unit db_result \<times> database) option" where
  "BroadcastNotification pe env userID title body data =
     SendPushNotification pe env userID
       \<lparr>pl_title = title, pl_body = body, pl_data = data, pl_badge = 0, pl_sound = ''default''\<rparr>"

subsection \<open>The notification service\<close>

record notification_request =
  nr_user :: string
  nr_type :: string
  nr_actor :: "string option"
  nr_track :: "string option"
  nr_project :: "string option"
  nr_comment :: "string option"
  nr_content :: string
  nr_data :: "(string \<times> string) list"

definition shouldSendPush :: "string \<Rightarrow> prefs_row \<Rightarrow> bool" where
  "shouldSendPush notifType p =
     (if notifType = ''like'' then np_likes p
      else if notifType = ''comment'' then np_comments p
      else if notifType = ''follow'' then np_follows p
      else if notifType = ''share'' then np_shares p
      else True)"

text \<open>The titles end in an emoji, here in UTF-8.\<close>

definition getNotificationText :: "dbenv \<Rightarrow> notification_request \<Rightarrow> database \<Rightarrow> string \<times> string" where
  "getNotificationText env q d =
     (let actor = (case nr_actor q of
            None \<Rightarrow> ''Someone''
          | Some a \<Rightarrow> (case GetUserByID env a d of Inr (Some u) \<Rightarrow> u_username u | _ \<Rightarrow> ''Someone''))
      in if nr_type q = ''like'' then (''New Like '' @ map char_of [0xF0, 0x9F, 0x8E, 0xB5 :: nat], actor @ '' liked your track'')
         else if nr_type q = ''comment'' then
           (''New Comment '' @ map char_of [0xF0, 0x9F, 0x92, 0xAC :: nat], actor @ '' commented on your track'')
         else if nr_type q = ''follow'' then
           (''New Follower '' @ map char_of [0xE2, 0xAD, 0x90 :: nat], actor @ '' started following you'')
         else if nr_type q = ''share'' then
           (''Project Shared '' @ map char_of [0xF0, 0x9F, 0x94, 0x97 :: nat], actor @ '' shared a project with you'')
         else if nr_type q = ''mention'' then
           (''You'' @ CHR 0x27 # ''re Mentioned '' @ map char_of [0xF0, 0x9F, 0x91, 0xA4 :: nat],
            actor @ '' mentioned you: '' @ nr_content q)
         else (''PurpTape '' @ map char_of [0xE2, 0x9C, 0xA8 :: nat], nr_content q))"

definition SendNotification ::
  "push_env \<Rightarrow> 'o app_env \<Rightarrow> notification_request \<Rightarrow> database \<Rightarrow> (unit db_result \<times> database) option" where
  "SendNotification pe env q d =
     (let n = \<lparr>n_id = '''', n_user = nr_user q, n_actor = nr_actor q, n_type = nr_type q, n_track = nr_track q,
            n_project = nr_project q, n_comment = nr_comment q, n_content = nr_content q, n_read = False, n_created = now env\<rparr>
      in case CreateNotification (dbe env) (ModelsNotification n) d of
           None \<Rightarrow> None
         | Some (Inl e, d) \<Rightarrow> Some (Inl e, d)
         | Some (Inr _, d) \<Rightarrow>
             let prefs = (case GetNotificationPreferences (dbe env) (nr_user q) d of
                   Inl _ \<Rightarrow> (default_preferences (nr_user q))\<lparr>np_mentions := False, np_bundle := False,
                     np_quiet_start := '''', np_quiet_end := ''''\<rparr>
                 | Inr p \<Rightarrow> p)
             in if np_push prefs \<and> shouldSendPush (nr_type q) prefs
                then let (title, body) = getNotificationText (dbe env) q d
                  in map_option (\<lambda>(_, d). (Inr (), d)) (BroadcastNotification pe (dbe env) (nr_user q) title body (nr_data q) d)
                else Some (Inr (), d))"

text \<open>Every user is notified from a goroutine of its own; here they run in the order in which they start. A panic
  in one of them ends the process.\<close>

fun BulkNotify :: "push_env \<Rightarrow> 'o app_env \<Rightarrow> string list \<Rightarrow> notification_request \<Rightarrow> database \<Rightarrow> database option" where
  "BulkNotify pe env [] q d = Some d"
| "BulkNotify pe env (u # us) q d =
     (case SendNotification pe env (q\<lparr>nr_user := u\<rparr>) d of
        None \<Rightarrow> None
      | Some (_, d) \<Rightarrow> BulkNotify pe env us q d)"

subsection \<open>Handlers\<close>

definition sent_notification_json :: "notification_row \<times> string \<Rightarrow> json" where
  "sent_notification_json = (\<lambda>(n, created). JObj [(''ID'', JStr (n_id n)), (''UserID'', JStr (n_user n)),
     (''ActorUserID'', json_opt (n_actor n)), (''Type'', JStr (n_type n)), (''TrackID'', json_opt (n_track n)),
     (''ProjectID'', json_opt (n_project n)), (''CommentID'', json_opt (n_comment n)),
     (''Content'', JStr (n_content n)), (''IsRead'', JBool (n_read n)), (''CreatedAt'', JStr created)])"

definition GetNotificationsPage :: "(go_time \<Rightarrow> string option) \<Rightarrow> 'o app_env \<Rightarrow> ('b, 'o app) handler" where
  "GetNotificationsPage scan_time env r = (\<lambda>(w, s).
     (case GetUserID r of
        None \<Rightarrow> respond (WriteUnauthorized w) s
      | Some userID \<Rightarrow>
          let (limit, offset) = ExtractPaginationParamsValidated r
          in case GetNotificationsPaginated scan_time (dbe env) userID limit offset (app_db s) of
               Inl _ \<Rightarrow> respond (WriteInternalError w) s
             | Inr (ns, n_all) \<Rightarrow>
                 respond (write_json 200 (JObj [(''data'', JList (map sent_notification_json ns)),
                   (''pagination'', pagination_json limit offset n_all)]) w) s))"

record device_body =
  db_token :: string
  db_platform :: string

definition RegisterDeviceToken :: "'o app_env \<Rightarrow> (device_body, 'o app) handler" where
  "RegisterDeviceToken env r = (\<lambda>(w, s).
     (case GetUserID r of
        None \<Rightarrow> respond (WriteUnauthorized w) s
      | Some userID \<Rightarrow>
          (case req_body r of
             None \<Rightarrow> respond (WriteBadRequest ''invalid request body'' w) s
           | Some b \<Rightarrow>
               if db_token b = '''' \<or> db_platform b = ''''
               then respond (WriteBadRequest ''token and platform are required'' w) s
               else case UpsertDeviceToken (dbe env) userID (db_token b) (db_platform b) (app_db s) of
                      (Inl _, d) \<Rightarrow> respond (WriteInternalError w) (s\<lparr>app_db := d\<rparr>)
                    | (Inr _, d) \<Rightarrow>
                        respond (write_json 201 (JObj [(''status'', JStr ''device_token_registered'')]) w) (s\<lparr>app_db := d\<rparr>))))"

record prefs_body =
  pb_push :: "bool option"
  pb_likes :: "bool option"
  pb_comments :: "bool option"
  pb_follows :: "bool option"
  pb_shares :: "bool option"
  pb_mentions :: "bool option"
  pb_quiet :: "bool option"
  pb_quiet_start :: "string option"
  pb_quiet_end :: "string option"
  pb_bundle :: "bool option"

definition given :: "'a option \<Rightarrow> 'a \<Rightarrow> 'a" where
  "given x old = (case x of None \<Rightarrow> old | Some v \<Rightarrow> v)"

definition apply_body :: "prefs_body \<Rightarrow> prefs_row \<Rightarrow> prefs_row" where
  "apply_body b p = p\<lparr>np_push := given (pb_push b) (np_push p), np_likes := given (pb_likes b) (np_likes p),
     np_comments := given (pb_comments b) (np_comments p), np_follows := given (pb_follows b) (np_follows p),
     np_shares := given (pb_shares b) (np_shares p), np_mentions := given (pb_mentions b) (np_mentions p),
     np_quiet := given (pb_quiet b) (np_quiet p), np_quiet_start := given (pb_quiet_start b) (np_quiet_start p),
     np_quiet_end := given (pb_quiet_end b) (np_quiet_end p), np_bundle := given (pb_bundle b) (np_bundle p)\<rparr>"

definition prefs_json :: "prefs_row \<Rightarrow> json" where
  "prefs_json p = JObj [(''ID'', JStr (np_id p)), (''UserID'', JStr (np_user p)), (''PushEnabled'', JBool (np_push p)),
     (''PushLikes'', JBool (np_likes p)), (''PushComments'', JBool (np_comments p)), (''PushFollows'', JBool (np_follows p)),
     (''PushShares'', JBool (np_shares p)), (''PushMentions'', JBool (np_mentions p)), (''QuietHours'', JBool (np_quiet p)),
     (''QuietHoursStart'', JStr (np_quiet_start p)), (''QuietHoursEnd'', JStr (np_quiet_end p)),
     (''BundleByType'', JBool (np_bundle p)), (''CreatedAt'', JNum (np_created p)), (''UpdatedAt'', JNum (np_updated p))]"

definition UpdatePreferences :: "'o app_env \<Rightarrow> (prefs_body, 'o app) handler" where
  "UpdatePreferences env r = (\<lambda>(w, s).
     (case GetUserID r of
        None \<Rightarrow> respond (WriteUnauthorized w) s
      | Some userID \<Rightarrow>
          (case req_body r of
             None \<Rightarrow> respond (WriteBadRequest ''invalid request body'' w) s
           | Some b \<Rightarrow>
               (case GetNotificationPreferences (dbe env) userID (app_db s) of
                  Inl _ \<Rightarrow> respond (WriteInternalError w) s
                | Inr p \<Rightarrow>
                    let p = apply_body b p
                    in case UpdateNotificationPreferences (dbe env) userID p (app_db s) of
                         (Inl _, d) \<Rightarrow> respond (WriteInternalError w) (s\<lparr>app_db := d\<rparr>)
                       | (Inr _, d) \<Rightarrow>
                           respond (write_json 200 (JObj [(''data'', prefs_json (p\<lparr>np_user := userID\<rparr>)),
                             (''message'', JStr ''preferences updated'')]) w) (s\<lparr>app_db := d\<rparr>)))))"

text \<open>The service has the user at hand and does not use it.\<close>

definition MarkAsRead :: "'o app_env \<Rightarrow> ('b, 'o app) handler" where
  "MarkAsRead env r = (\<lambda>(w, s).
     (case GetUserID r of
        None \<Rightarrow> respond (WriteUnauthorized w) s
      | Some userID \<Rightarrow>
          let notificationID = path_value r ''notification_id''
          in if notificationID = '''' then respond (WriteBadRequest ''notification_id is required'' w) s
             else case MarkNotificationAsRead (dbe env) notificationID (app_db s) of
                    (Inl _, d) \<Rightarrow> respond (WriteInternalError w) (s\<lparr>app_db := d\<rparr>)
                  | (Inr _, d) \<Rightarrow> respond (write_json 200 (JObj [(''status'', JStr ''marked_as_read'')]) w) (s\<lparr>app_db := d\<rparr>)))"

definition MarkAllAsRead :: "'o app_env \<Rightarrow> ('b, 'o app) handler" where
  "MarkAllAsRead env r = (\<lambda>(w, s).
     (case GetUserID r of
        None \<Rightarrow> respond (WriteUnauthorized w) s
      | Some userID \<Rightarrow>
          (case MarkAllNotificationsAsRead (dbe env) userID (app_db s) of
             (Inl _, d) \<Rightarrow> respond (WriteInternalError w) (s\<lparr>app_db := d\<rparr>)
           | (Inr _, d) \<Rightarrow> respond (write_json 200 (JObj [(''status'', JStr ''all_marked_as_read'')]) w) (s\<lparr>app_db := d\<rparr>))))"

definition GetUnreadCount :: "'o app_env \<Rightarrow> ('b, 'o app) handler" where
  "GetUnreadCount env r = (\<lambda>(w, s).
     (case GetUserID r of
        None \<Rightarrow> respond (WriteUnauthorized w) s
      | Some userID \<Rightarrow>
          (case GetUnreadNotificationCount (dbe env) userID (app_db s) of
             Inl _ \<Rightarrow> respond (WriteInternalError w) s
           | Inr n \<Rightarrow> respond (write_json 200 (JObj [(''unread_count'', JNum n)]) w) s)))"

subsection \<open>Rows of other users\<close>

text \<open>The same request with a body of another type.\<close>

definition typed :: "'c option \<Rightarrow> 'b request \<Rightarrow> 'c request" where
  "typed b r = \<lparr>meth = meth r, path = path r, remote_addr = remote_addr r, req_hdr = req_hdr r, query = query r,
     path_value = path_value r, ctx = ctx r, req_body = b\<rparr>"

lemma typed_simps [simp]:
  "ctx_string k (typed b r) = ctx_string k r" "GetUserID (typed b r) = GetUserID r" "req_body (typed b r) = b"
  by (simp_all add: typed_def ctx_string_def GetUserID_def)

datatype notice_op = Devices "device_body option" | Preferences "prefs_body option" | ReadAll | Page | Unread

definition notice_handler ::
  "(go_time \<Rightarrow> string option) \<Rightarrow> 'o app_env \<Rightarrow> notice_op \<Rightarrow> (unit, 'o app) handler" where
  "notice_handler scan_time env op r =
     (case op of Devices b \<Rightarrow> RegisterDeviceToken env (typed b r) | Preferences b \<Rightarrow> UpdatePreferences env (typed b r)
      | ReadAll \<Rightarrow> MarkAllAsRead env r | Page \<Rightarrow> GetNotificationsPage scan_time env r | Unread \<Rightarrow> GetUnreadCount env r)"

datatype notice_row = Device device_row | Prefs prefs_row | Notice notification_row

definition notice_rows :: "string \<Rightarrow> 'o app \<Rightarrow> notice_row list" where
  "notice_rows u s =
     map Device (filter (\<lambda>t. dt_user t = u) (device_tokens (app_db s))) @
     map Prefs (filter (\<lambda>p. np_user p = u) (notification_preferences (app_db s))) @
     map Notice (filter (\<lambda>n. n_user n = u) (notifications (app_db s)))"

definition notice_db :: "string \<Rightarrow> database \<Rightarrow> device_row list \<times> prefs_row list \<times> notification_row list" where
  "notice_db u d = (filter (\<lambda>t. dt_user t = u) (device_tokens d), filter (\<lambda>p. np_user p = u) (notification_preferences d),
     filter (\<lambda>n. n_user n = u) (notifications d))"

lemma notice_rows_cong: "notice_db u (app_db s) = notice_db u (app_db s') \<Longrightarrow> notice_rows u s = notice_rows u s'"
  by (simp add: notice_db_def notice_rows_def)

lemma statements_keep_others:
  assumes "u \<noteq> x"
  shows "notice_db x (snd (UpsertDeviceToken env u token platform d)) = notice_db x d"
    and "notice_db x (snd (UpdateNotificationPreferences env u p d)) = notice_db x d"
    and "notice_db x (snd (MarkAllNotificationsAsRead env u d)) = notice_db x d"
proof -
  show "notice_db x (snd (UpsertDeviceToken env u token platform d)) = notice_db x d"
    using assms by (auto simp: UpsertDeviceToken_def notice_db_def intro!: filter_update_rows_other split: option.split)
  show "notice_db x (snd (UpdateNotificationPreferences env u p d)) = notice_db x d"
    using assms by (auto simp: UpdateNotificationPreferences_def UpsertNotificationPreferences_def Let_def notice_db_def settings_of_def
      intro!: filter_update_rows_other split: option.split)
  show "notice_db x (snd (MarkAllNotificationsAsRead env u d)) = notice_db x d"
    using assms by (auto simp: MarkAllNotificationsAsRead_def exec_stmt_def notice_db_def intro!: filter_update_rows_other)
qed

lemma notice_handler_keeps:
  assumes "ctx_string ''user_id'' r \<noteq> Some x"
  shows "notice_db x (app_db (snd (snd (notice_handler scan_time env op r (w, s))))) = notice_db x (app_db s)"
proof -
  have u: "u \<noteq> x" if "GetUserID r = Some u" for u
    using that assms by (auto simp: GetUserID_def split: option.splits if_splits)
  show ?thesis
  proof (cases op)
    case (Devices b)
    then show ?thesis
      by (auto simp: notice_handler_def RegisterDeviceToken_def answered_update respond_state u statements_keep_others(1) split: option.split)
  next
    case (Preferences b)
    then show ?thesis
      by (auto simp: notice_handler_def UpdatePreferences_def Let_def answered_update respond_state u statements_keep_others(2)
          split: option.split sum.split)
  next
    case ReadAll
    then show ?thesis
      by (auto simp: notice_handler_def MarkAllAsRead_def answered_update respond_state u statements_keep_others(3) split: option.split)
  next
    case Page
    then show ?thesis
      by (auto simp: notice_handler_def GetNotificationsPage_def respond_state split: option.split sum.split prod.split)
  next
    case Unread
    then show ?thesis
      by (auto simp: notice_handler_def GetUnreadCount_def respond_state split: option.split sum.split)
  qed
qed

interpretation notices: own_rows "notice_handler scan_time env" notice_rows "\<lambda>s. True" for scan_time env
  by unfold_locales (auto intro!: notice_rows_cong notice_handler_keeps)


subsection \<open>Preferences are read back\<close>

lemma GetNotificationPreferences_cong:
  "notice_db x d = notice_db x d' \<Longrightarrow> GetNotificationPreferences env x d = GetNotificationPreferences env x d'"
  by (simp add: GetNotificationPreferences_def GetNotificationPreferencesRow_def notice_db_def)

lemma Upsert_then_Get:
  assumes "UpsertNotificationPreferences env p d = (Inr (), d')" and "varchar 5 (np_quiet_start p) = Some (np_quiet_start p)"
    "varchar 5 (np_quiet_end p) = Some (np_quiet_end p)" and "\<not> fails env' ''GetNotificationPreferences'' [np_user p]"
  shows "\<exists>q. GetNotificationPreferences env' (np_user p) d' = Inr q \<and> settings_of p q = q"
proof -
  let ?f = "\<lambda>q. (settings_of p q)\<lparr>np_updated := db_now env\<rparr>"
  have p: "p\<lparr>np_quiet_start := np_quiet_start p, np_quiet_end := np_quiet_end p\<rparr> = p" by simp
  have some: "\<exists>q qs. filter (\<lambda>q. np_user q = np_user p) (notification_preferences d') = q # qs \<and> settings_of p q = q"
  proof (cases "\<exists>q\<in>set (notification_preferences d). np_user q = np_user p")
    case True
    with assms(1-3) p have "notification_preferences d' = update_rows (\<lambda>q. np_user q = np_user p) ?f (notification_preferences d)"
      by (auto simp: UpsertNotificationPreferences_def Let_def split: if_splits)
    moreover have "\<exists>q qs. filter (\<lambda>q. np_user q = np_user p) (update_rows (\<lambda>q. np_user q = np_user p) ?f ps) = q # qs \<and>
        settings_of p q = q" if "\<exists>q\<in>set ps. np_user q = np_user p" for ps
      using that by (induction ps) (auto simp: settings_of_def)
    ultimately show ?thesis using True by simp
  next
    case False
    with assms(1-3) p have "notification_preferences d' = notification_preferences d @
        [p\<lparr>np_id := gen_uuid env (uuid_count d), np_created := db_now env, np_updated := db_now env\<rparr>]"
      by (auto simp: UpsertNotificationPreferences_def Let_def split: if_splits)
    with False show ?thesis by (auto simp: settings_of_def filter_empty_conv)
  qed
  then show ?thesis
    using assms(4) by (auto simp: GetNotificationPreferences_def GetNotificationPreferencesRow_def query_row_def)
qed

text \<open>After an update of the preferences that was answered 200 the user reads back exactly the settings read
  before with the given ones replaced, and every other user reads what they read before.\<close>

theorem preferences_read_back:
  assumes "wrote w = None" and "UpdatePreferences env r (w, s) = (c, w', s')" and "wrote w' = Some 200"
    and "GetUserID r = Some u" and "req_body r = Some b"
    and "GetNotificationPreferences (dbe env) u (app_db s) = Inr p"
    and "\<not> fails env' ''GetNotificationPreferences'' [u]"
    and "varchar 5 (np_quiet_start (apply_body b p)) = Some (np_quiet_start (apply_body b p))"
    and "varchar 5 (np_quiet_end (apply_body b p)) = Some (np_quiet_end (apply_body b p))"
  shows "(\<exists>q. GetNotificationPreferences env' u (app_db s') = Inr q \<and> settings_of (apply_body b p) q = q) \<and>
     (\<forall>x. x \<noteq> u \<longrightarrow> GetNotificationPreferences env' x (app_db s') = GetNotificationPreferences env' x (app_db s))"
proof -
  let ?p = "(apply_body b p)\<lparr>np_user := u\<rparr>"
  have up: "UpdateNotificationPreferences (dbe env) u (apply_body b p) (app_db s) = (Inr (), app_db s')"
    using assms(1-6)
    by (auto simp: UpdatePreferences_def Let_def respond_def response_defs split: sum.splits prod.splits)
  then have "UpsertNotificationPreferences (dbe env) ?p (app_db s) = (Inr (), app_db s')"
    by (simp add: UpdateNotificationPreferences_def)
  from Upsert_then_Get [OF this, of env'] assms(7-9)
  have "\<exists>q. GetNotificationPreferences env' u (app_db s') = Inr q \<and> settings_of ?p q = q" by simp
  then have "\<exists>q. GetNotificationPreferences env' u (app_db s') = Inr q \<and> settings_of (apply_body b p) q = q"
    by (simp add: settings_of_def)
  moreover have "GetNotificationPreferences env' x (app_db s') = GetNotificationPreferences env' x (app_db s)" if "x \<noteq> u" for x
    using statements_keep_others(2) [of u x "dbe env" "apply_body b p" "app_db s"] that up
    by (intro GetNotificationPreferences_cong) simp
  ultimately show ?thesis by blast
qed

lemma no_new_preferences:
  assumes "\<not> norows_equal (dbe env)"
  shows "map np_user (notification_preferences (app_db (snd (snd (notice_handler scan_time env op r (w, s)))))) =
     map np_user (notification_preferences (app_db s))"
proof -
  have upd: "map np_user (notification_preferences (snd (UpdateNotificationPreferences (dbe env) u q d))) =
      map np_user (notification_preferences d)" if "GetNotificationPreferences (dbe env) u d = Inr p" for u p q d
  proof -
    have "\<exists>p\<in>set (notification_preferences d). np_user p = u"
      using that assms by (auto simp: GetNotificationPreferences_def GetNotificationPreferencesRow_def is_sql_no_rows_def
          dest!: query_row_InrD split: sum.splits if_splits)
    then show ?thesis
      by (auto simp: UpdateNotificationPreferences_def UpsertNotificationPreferences_def Let_def settings_of_def map_update_rows
          split: option.split)
  qed
  show ?thesis
  proof (cases op)
    case (Devices b)
    have "notification_preferences (snd (UpsertDeviceToken e u t pf d)) = notification_preferences d" for e u t pf d
      by (simp add: UpsertDeviceToken_def split: option.split)
    with Devices show ?thesis
      by (simp add: notice_handler_def RegisterDeviceToken_def answered_update respond_state split: option.split)
  next
    case (Preferences b)
    then show ?thesis
      by (auto simp: notice_handler_def UpdatePreferences_def Let_def answered_update respond_state upd split: option.split sum.split)
  next
    case ReadAll
    then show ?thesis
      by (simp add: notice_handler_def MarkAllAsRead_def MarkAllNotificationsAsRead_def exec_stmt_def answered_update respond_state
          split: option.split)
  next
    case Page
    then show ?thesis
      by (auto simp: notice_handler_def GetNotificationsPage_def respond_state split: option.split sum.split prod.split)
  next
    case Unread
    then show ?thesis by (auto simp: notice_handler_def GetUnreadCount_def respond_state split: option.split sum.split)
  qed
qed

text \<open>As the driver does not answer a missing row with \<open>sql.ErrNoRows\<close>, no requests ever create preferences: the users
  that have some stay the same, and every update of another user is answered 500.\<close>

theorem preferences_never_created:
  assumes "\<not> norows_equal (dbe env)" and "u \<notin> set (map np_user (notification_preferences (app_db s)))"
    and "GetUserID r = Some u" and "req_body r \<noteq> None"
  shows "u \<notin> set (map np_user (notification_preferences (app_db (serve_ops (notice_handler scan_time env) rs s)))) \<and>
     wrote (fst (snd (UpdatePreferences env r (new_writer, serve_ops (notice_handler scan_time env) rs s)))) = Some 500"
proof -
  let ?s = "serve_ops (notice_handler scan_time env) rs s"
  have "map np_user (notification_preferences (app_db ?s)) = map np_user (notification_preferences (app_db s))"
  proof (induction rs arbitrary: s)
    case (Cons a rs)
    then show ?case by (cases a) (simp add: no_new_preferences [OF assms(1)])
  qed simp
  with assms(2) have none: "u \<notin> set (map np_user (notification_preferences (app_db ?s)))" by simp
  then have "filter (\<lambda>p. np_user p = u) (notification_preferences (app_db ?s)) = []" by (auto simp: filter_empty_conv)
  then have "\<exists>e. GetNotificationPreferences (dbe env) u (app_db ?s) = Inl e"
    using assms(1) by (simp add: GetNotificationPreferences_def GetNotificationPreferencesRow_def query_row_def is_sql_no_rows_def)
  with assms(3,4) have "wrote (fst (snd (UpdatePreferences env r (new_writer, ?s)))) = Some 500"
    by (auto simp: UpdatePreferences_def respond_def response_defs)
  with none show ?thesis by blast
qed

definition guarded_app :: "unit app" where
  "guarded_app = sample_app\<lparr>app_db := sample_db\<lparr>
     device_tokens := [\<lparr>dt_user = ''u'', dt_token = ''tok'', dt_platform = ''ios'', dt_active = True, dt_last_used = 0\<rparr>],
     notification_preferences := [(default_preferences ''u'')\<lparr>np_id := ''n''\<rparr>]\<rparr>\<rparr>"

definition notice_request :: "string \<Rightarrow> unit request" where
  "notice_request u = as_user u (\<lambda>k. '''')"

definition mute_likes :: prefs_body where
  "mute_likes = \<lparr>pb_push = None, pb_likes = Some False, pb_comments = None, pb_follows = None, pb_shares = None,
     pb_mentions = None, pb_quiet = None, pb_quiet_start = Some ''23:00'', pb_quiet_end = None, pb_bundle = None\<rparr>"


theorem preferences_read_back_witness:
  "\<exists>(s' :: unit app) q. GetNotificationPreferences (dbe sample_env) ''u'' (app_db s') = Inr q \<and> \<not> np_likes q \<and> np_comments q \<and>
     np_quiet_start q = ''23:00''"
proof -
  let ?r = "typed (Some mute_likes) (notice_request ''u'')" and ?p = "(default_preferences ''u'')\<lparr>np_id := ''n''\<rparr>"
  obtain c w' s' where run: "UpdatePreferences sample_env ?r (new_writer, guarded_app) = (c, w', s')"
    by (cases "UpdatePreferences sample_env ?r (new_writer, guarded_app)")
  have "wrote (fst (snd (UpdatePreferences sample_env ?r (new_writer, guarded_app)))) = Some 200" by code_simp
  with run have ok: "wrote w' = Some 200" by simp
  have user: "GetUserID ?r = Some ''u''" by (simp add: notice_request_def)
  have got: "GetNotificationPreferences (dbe sample_env) ''u'' (app_db guarded_app) = Inr ?p" by code_simp
  have calm: "\<not> fails (dbe sample_env) ''GetNotificationPreferences'' [''u'']" by code_simp
  have "varchar 5 (np_quiet_start (apply_body mute_likes ?p)) = Some (np_quiet_start (apply_body mute_likes ?p))"
    "varchar 5 (np_quiet_end (apply_body mute_likes ?p)) = Some (np_quiet_end (apply_body mute_likes ?p))" by code_simp+
  from preferences_read_back [OF _ run ok user _ got calm this] obtain q where
    q: "GetNotificationPreferences (dbe sample_env) ''u'' (app_db s') = Inr q" "settings_of (apply_body mute_likes ?p) q = q"
    by auto
  have set: "\<not> np_likes (settings_of (apply_body mute_likes ?p) q)" "np_comments (settings_of (apply_body mute_likes ?p) q)"
    "np_quiet_start (settings_of (apply_body mute_likes ?p) q) = ''23:00''"
    by (simp_all add: settings_of_def apply_body_def given_def mute_likes_def default_preferences_def)
  show ?thesis by (intro exI [of _ s'] exI [of _ q]) (use q(1) set [unfolded q(2)] in simp)
qed

theorem preferences_never_created_witness:
  "wrote (fst (snd (UpdatePreferences sample_env (typed (Some mute_likes) (notice_request ''u''))
     (new_writer, serve_ops (notice_handler (\<lambda>t. None) sample_env) [(Preferences (Some mute_likes), notice_request ''u'')]
        sample_app)))) = Some 500"
proof -
  have "\<not> norows_equal (dbe sample_env)" by code_simp
  moreover have "''u'' \<notin> set (map np_user (notification_preferences (app_db sample_app)))" by code_simp
  moreover have "GetUserID (typed (Some mute_likes) (notice_request ''u'')) = Some ''u''" by (simp add: notice_request_def)
  moreover have "req_body (typed (Some mute_likes) (notice_request ''u'')) \<noteq> None" by simp
  ultimately show ?thesis by (rule preferences_never_created [THEN conjunct2])
qed

end
