(* ===== verification/Config.thy ===== *)
theory Config
  imports GoStrings
begin

text \<open>
  \<open>config/config.go\<close> and \<open>config/validate.go\<close>: the configuration record, its defaults, \<open>Load\<close>
  and \<open>Validate\<close>. The environment is a function from variable names to values, as
  \<open>os.Getenv\<close> is (an unset variable reads as the empty string). The decoding of floating-point
  values is an argument, so that the type of \<open>float64\<close> stays open. A duration read from the
  environment is a 64-bit product and wraps as Go's does.
\<close>

record 'f config =
  Port :: int
  Host :: string
  Env :: string
  FrontendURL :: string
  DatabaseURL :: string
  DBMaxConns :: int
  DBMinConns :: int
  DBMaxIdleTime :: duration
  DBConnMaxLifetime :: duration
  SupabaseURL :: string
  SupabaseAnonKey :: string
  SupabaseSecretKey :: string
  R2AccessKeyID :: string
  R2SecretAccessKey :: string
  R2Endpoint :: string
  R2BucketName :: string
  R2AccountID :: string
  FCMServerKey :: string
  JWTSecret :: string
  CORSAllowedOrigins :: "string list"
  PresignedURLExpiry :: duration
  EncryptionKeyBase64 :: string
  ShareTokenExpiry :: duration
  RateLimitRequests :: int
  RateLimitWindow :: duration
  JobWorkerConcurrency :: int
  JobBatchSize :: int
  FinOpsStorageCostPerGBMonth :: 'f
  FinOpsMonthlyBudgetUSD :: 'f
  FinOpsBudgetGuardEnabled :: bool
  FinOpsUploadBlockEnabled :: bool
  FinOpsBudgetGuardRatio :: 'f
  FinOpsEnforceR2Lifecycle :: bool
  FinOpsR2LifecycleStrict :: bool
  FinOpsCostIngestToken :: string

type_synonym environ = "string \<Rightarrow> string"

definition getEnv :: "environ \<Rightarrow> string \<Rightarrow> string \<Rightarrow> string" where
  "getEnv env key defaultValue = (if env key = '''' then defaultValue else env key)"

definition getEnvInt :: "environ \<Rightarrow> string \<Rightarrow> int \<Rightarrow> int" where
  "getEnvInt env key defaultValue =
     (if env key = '''' then defaultValue
      else case Atoi (env key) of None \<Rightarrow> defaultValue | Some v \<Rightarrow> v)"

definition getEnvFloat :: "(string \<Rightarrow> 'f option) \<Rightarrow> environ \<Rightarrow> string \<Rightarrow> 'f \<Rightarrow> 'f" where
  "getEnvFloat ParseFloat env key defaultValue =
     (if env key = '''' then defaultValue
      else case ParseFloat (env key) of None \<Rightarrow> defaultValue | Some v \<Rightarrow> v)"

definition ParseBool :: "string \<Rightarrow> bool option" where
  "ParseBool s =
     (if s \<in> {''1'', ''t'', ''T'', ''TRUE'', ''true'', ''True''} then Some True
      else if s \<in> {''0'', ''f'', ''F'', ''FALSE'', ''false'', ''False''} then Some False
      else None)"

definition getEnvBool :: "environ \<Rightarrow> string \<Rightarrow> bool \<Rightarrow> bool" where
  "getEnvBool env key defaultValue =
     (if env key = '''' then defaultValue
      else case ParseBool (env key) of None \<Rightarrow> defaultValue | Some v \<Rightarrow> v)"

text \<open>The numbers of the source's \<open>float64\<close> defaults, supplied with the type.\<close>

record 'f float_defaults =
  storage_cost_default :: 'f
  budget_default :: 'f
  ratio_default :: 'f

datatype config_error = DatabaseURLRequired | SupabaseRequired

definition Load ::
  "(string \<Rightarrow> 'f option) \<Rightarrow> 'f float_defaults \<Rightarrow> environ \<Rightarrow> config_error + 'f config" where
  "Load ParseFloat fd os =
     (let env = getEnv os ''ENV'' ''development'';
          maxConns = (if env = ''production'' then getEnvInt os ''DB_MAX_CONNS'' 40
                      else getEnvInt os ''DB_MAX_CONNS'' 10);
          minConns = (if env = ''production'' then getEnvInt os ''DB_MIN_CONNS'' 10
                      else getEnvInt os ''DB_MIN_CONNS'' 2);
          cfg = \<lparr>
            Port = getEnvInt os ''PORT'' 8080,
            Host = getEnv os ''HOST'' ''0.0.0.0'',
            Env = env,
            FrontendURL = getEnv os ''FRONTEND_URL'' ''https://purptape.com'',
            DatabaseURL = getEnv os ''DATABASE_URL'' '''',
            DBMaxConns = maxConns,
            DBMinConns = minConns,
            DBMaxIdleTime = 30 * second,
            DBConnMaxLifetime = 5 * minute,
            SupabaseURL = getEnv os ''SUPABASE_URL'' '''',
            SupabaseAnonKey = getEnv os ''SUPABASE_ANON_KEY'' '''',
            SupabaseSecretKey = getEnv os ''SUPABASE_SECRET_KEY'' '''',
            R2AccessKeyID = getEnv os ''R2_ACCESS_KEY_ID'' '''',
            R2SecretAccessKey = getEnv os ''R2_SECRET_ACCESS_KEY'' '''',
            R2Endpoint = getEnv os ''R2_ENDPOINT'' '''',
            R2BucketName = getEnv os ''R2_BUCKET_NAME'' '''',
            R2AccountID = getEnv os ''R2_ACCOUNT_ID'' '''',
            FCMServerKey = getEnv os ''FCM_SERVER_KEY'' '''',
            JWTSecret = getEnv os ''JWT_SECRET'' '''',
            CORSAllowedOrigins = [],
            PresignedURLExpiry = int64 (getEnvInt os ''PRESIGNED_URL_EXPIRY_MINUTES'' 3 * minute),
            EncryptionKeyBase64 = getEnv os ''ENCRYPTION_KEY_BASE64'' '''',
            ShareTokenExpiry = int64 (getEnvInt os ''SHARE_TOKEN_EXPIRY_DAYS'' 30 * 24 * hour),
            RateLimitRequests = getEnvInt os ''RATE_LIMIT_REQUESTS'' 150,
            RateLimitWindow = int64 (getEnvInt os ''RATE_LIMIT_WINDOW_SECONDS'' 60 * second),
            JobWorkerConcurrency = getEnvInt os ''JOB_WORKER_CONCURRENCY'' 4,
            JobBatchSize = getEnvInt os ''JOB_BATCH_SIZE'' 32,
            FinOpsStorageCostPerGBMonth =
              getEnvFloat ParseFloat os ''FINOPS_STORAGE_COST_PER_GB_MONTH'' (storage_cost_default fd),
            FinOpsMonthlyBudgetUSD =
              getEnvFloat ParseFloat os ''FINOPS_MONTHLY_BUDGET_USD'' (budget_default fd),
            FinOpsBudgetGuardEnabled = getEnvBool os ''FINOPS_BUDGET_GUARD_ENABLED'' False,
            FinOpsUploadBlockEnabled = getEnvBool os ''FINOPS_UPLOAD_BLOCK_ENABLED'' False,
            FinOpsBudgetGuardRatio =
              getEnvFloat ParseFloat os ''FINOPS_BUDGET_GUARD_RATIO'' (ratio_default fd),
            FinOpsEnforceR2Lifecycle = getEnvBool os ''FINOPS_ENFORCE_R2_LIFECYCLE'' False,
            FinOpsR2LifecycleStrict = getEnvBool os ''FINOPS_R2_LIFECYCLE_STRICT'' False,
            FinOpsCostIngestToken = getEnv os ''FINOPS_COST_INGEST_TOKEN'' ''''\<rparr>
      in if DatabaseURL cfg = '''' then Inl DatabaseURLRequired
         else if SupabaseURL cfg = '''' \<or> SupabaseAnonKey cfg = '''' \<or> SupabaseSecretKey cfg = ''''
         then Inl SupabaseRequired
         else Inr cfg)"

datatype validate_error =
    InvalidPort int | NoDatabaseURL | MaxConnsTooSmall int | MinConnsTooSmall int | MaxBelowMin
  | NoSupabaseURL | NoSupabaseAnonKey | NoSupabaseSecretKey | NoR2Keys | NoR2Bucket | NoR2Endpoint

text \<open>\<open>None\<close> is Go's nil error.\<close>

definition Validate :: "'f config \<Rightarrow> validate_error option" where
  "Validate c =
     (if Port c < 1 \<or> Port c > 65535 then Some (InvalidPort (Port c))
      else if DatabaseURL c = '''' then Some NoDatabaseURL
      else if DBMaxConns c < 1 then Some (MaxConnsTooSmall (DBMaxConns c))
      else if DBMinConns c < 1 then Some (MinConnsTooSmall (DBMinConns c))
      else if DBMaxConns c < DBMinConns c then Some MaxBelowMin
      else if SupabaseURL c = '''' then Some NoSupabaseURL
      else if SupabaseAnonKey c = '''' then Some NoSupabaseAnonKey
      else if SupabaseSecretKey c = '''' then Some NoSupabaseSecretKey
      else if R2AccessKeyID c = '''' \<or> R2SecretAccessKey c = '''' then Some NoR2Keys
      else if R2BucketName c = '''' then Some NoR2Bucket
      else if R2Endpoint c = '''' then Some NoR2Endpoint
      else None)"

definition IsProduction :: "'f config \<Rightarrow> bool" where
  "IsProduction c \<longleftrightarrow> Env c = ''production'' \<or> Env c = ''prod''"

definition IsDevelopment :: "'f config \<Rightarrow> bool" where
  "IsDevelopment c \<longleftrightarrow> Env c = ''development'' \<or> Env c = ''dev'' \<or> Env c = ''''"

lemma getEnv_nonempty: "d \<noteq> '''' \<Longrightarrow> getEnv os k d \<noteq> ''''"
  by (simp add: getEnv_def)

lemma Load_Env_nonempty: "Load pf fd os = Inr c \<Longrightarrow> Env c \<noteq> ''''"
  by (auto simp: Load_def Let_def getEnv_nonempty split: if_splits)


text \<open>Go's zero value of the struct, a starting point for concrete configurations.\<close>

definition zero_config :: "nat config" where
  "zero_config = \<lparr>Port = 0, Host = '''', Env = '''', FrontendURL = '''', DatabaseURL = '''',
     DBMaxConns = 0, DBMinConns = 0, DBMaxIdleTime = 0, DBConnMaxLifetime = 0, SupabaseURL = '''',
     SupabaseAnonKey = '''', SupabaseSecretKey = '''', R2AccessKeyID = '''',
     R2SecretAccessKey = '''', R2Endpoint = '''', R2BucketName = '''', R2AccountID = '''',
     FCMServerKey = '''', JWTSecret = '''', CORSAllowedOrigins = [], PresignedURLExpiry = 0,
     EncryptionKeyBase64 = '''', ShareTokenExpiry = 0, RateLimitRequests = 0, RateLimitWindow = 0,
     JobWorkerConcurrency = 0, JobBatchSize = 0, FinOpsStorageCostPerGBMonth = 0,
     FinOpsMonthlyBudgetUSD = 0, FinOpsBudgetGuardEnabled = False,
     FinOpsUploadBlockEnabled = False, FinOpsBudgetGuardRatio = 0,
     FinOpsEnforceR2Lifecycle = False, FinOpsR2LifecycleStrict = False,
     FinOpsCostIngestToken = ''''\<rparr>"

lemma Load_InrD:
  assumes "Load pf fd os = Inr c"
  shows "Port c = getEnvInt os ''PORT'' 8080 \<and>
    DBMaxConns c = getEnvInt os ''DB_MAX_CONNS'' (if Env c = ''production'' then 40 else 10) \<and>
    DBMinConns c = getEnvInt os ''DB_MIN_CONNS'' (if Env c = ''production'' then 10 else 2) \<and>
    DatabaseURL c \<noteq> '''' \<and> SupabaseURL c \<noteq> '''' \<and> SupabaseAnonKey c \<noteq> '''' \<and>
    SupabaseSecretKey c \<noteq> ''''"
proof -
  have L: "\<And>b1 b2 e1 e2 c'. Load pf fd os = (if b1 then Inl e1 else if b2 then Inl e2 else Inr c') \<Longrightarrow>
      c = c' \<and> \<not> b1 \<and> \<not> b2"
    using assms by (simp split: if_splits)
  show ?thesis
    using L [OF Load_def [unfolded Let_def]] by simp
qed

text \<open>A configuration that \<open>Load\<close> accepts passes \<open>Validate\<close> as soon as the R2 settings are
  there and the port and pool sizes are left at their defaults.\<close>

theorem Load_then_Validate:
  assumes "Load pf fd os = Inr c"
    and "os ''PORT'' = ''''" and "os ''DB_MAX_CONNS'' = ''''" and "os ''DB_MIN_CONNS'' = ''''"
    and "R2AccessKeyID c \<noteq> ''''" and "R2SecretAccessKey c \<noteq> ''''"
    and "R2BucketName c \<noteq> ''''" and "R2Endpoint c \<noteq> ''''"
  shows "Validate c = None"
  using assms(2-) by (simp add: Validate_def getEnvInt_def Load_InrD [OF assms(1)])


definition sample_environ :: environ where
  "sample_environ k =
     (if k \<in> {''DATABASE_URL'', ''SUPABASE_URL'', ''SUPABASE_ANON_KEY'', ''SUPABASE_SECRET_KEY'',
              ''R2_ACCESS_KEY_ID'', ''R2_SECRET_ACCESS_KEY'', ''R2_ENDPOINT'', ''R2_BUCKET_NAME''}
      then ''x'' else '''')"

theorem Load_then_Validate_witness:
  "\<exists>c :: nat config. Load (\<lambda>s. None) \<lparr>storage_cost_default = 0, budget_default = 25, ratio_default = 1\<rparr>
     sample_environ = Inr c \<and> Validate c = None"
proof -
  let ?l = "Load (\<lambda>s. None) \<lparr>storage_cost_default = 0 :: nat, budget_default = 25, ratio_default = 1\<rparr>
     sample_environ"
  have "\<exists>c. ?l = Inr c \<and> R2AccessKeyID c = ''x'' \<and> R2SecretAccessKey c = ''x'' \<and>
      R2BucketName c = ''x'' \<and> R2Endpoint c = ''x''"
    by (simp add: Load_def Let_def getEnv_def sample_environ_def)
  then obtain c where c: "?l = Inr c" "R2AccessKeyID c = ''x'' \<and> R2SecretAccessKey c = ''x'' \<and>
      R2BucketName c = ''x'' \<and> R2Endpoint c = ''x''" by blast
  with Load_then_Validate [OF c(1)] show ?thesis by (auto simp: sample_environ_def)
qed

end
