(* ===== verification/RateLimit.thy ===== *)
theory RateLimit
  imports Http Config
begin

text \<open>
  The in-memory rate limiters: \<open>middleware/rate_limit.go\<close> (\<open>RateLimiter\<close>, a fixed window per
  client address), \<open>middleware/rate_limiter.go\<close> (\<open>ConfigurableRateLimiter\<close>) and the key function
  \<open>helpers.ExtractRateLimitKey\<close>. Each body under the mutex is one step that reads the clock once;
  the clean-up goroutine is a step of its own. The locale \<open>limiter\<close> is the contract of both: a
  request is decided by its own live entry only, and a sweep removes only entries that are no
  longer live.
\<close>

subsection \<open>Runs of a limiter\<close>

datatype 'q limiter_event = Request go_time 'q | Sweep go_time

fun event_time :: "'q limiter_event \<Rightarrow> go_time" where
  "event_time (Request t q) = t"
| "event_time (Sweep t) = t"

definition live :: "(go_time \<Rightarrow> 'e \<Rightarrow> bool) \<Rightarrow> go_time \<Rightarrow> 'e option \<Rightarrow> 'e option" where
  "live stale t eo = (case eo of None \<Rightarrow> None | Some e \<Rightarrow> if stale t e then None else Some e)"

fun limiter_run ::
  "(go_time \<Rightarrow> 'q \<Rightarrow> 's \<Rightarrow> bool \<times> 's) \<Rightarrow> (go_time \<Rightarrow> 's \<Rightarrow> 's) \<Rightarrow> 'q limiter_event list \<Rightarrow> 's \<Rightarrow>
   (go_time \<times> 'q \<times> bool) list" where
  "limiter_run step sweep [] s = []"
| "limiter_run step sweep (Request t q # evs) s =
     (case step t q s of (b, s') \<Rightarrow> (t, q, b) # limiter_run step sweep evs s')"
| "limiter_run step sweep (Sweep t # evs) s = limiter_run step sweep evs (sweep t s)"

definition requests_of :: "('q \<Rightarrow> string) \<Rightarrow> string \<Rightarrow> 'q limiter_event list \<Rightarrow> 'q limiter_event list"
  where "requests_of key k evs =
    filter (\<lambda>e. case e of Request t q \<Rightarrow> key q = k | Sweep t \<Rightarrow> False) evs"

lemma live_simps [simp]:
  "live stale t None = None"
  "live stale t (Some e) = (if stale t e then None else Some e)"
  by (simp_all add: live_def)

locale limiter =
  fixes step :: "go_time \<Rightarrow> 'q \<Rightarrow> (string \<rightharpoonup> 'e) \<Rightarrow> bool \<times> (string \<rightharpoonup> 'e)"
    and sweep :: "go_time \<Rightarrow> (string \<rightharpoonup> 'e) \<Rightarrow> (string \<rightharpoonup> 'e)"
    and key :: "'q \<Rightarrow> string"
    and stale :: "go_time \<Rightarrow> 'e \<Rightarrow> bool"
  assumes stale_mono: "stale t e \<Longrightarrow> t \<le> u \<Longrightarrow> stale u e"
    and step_frame: "k \<noteq> key q \<Longrightarrow> snd (step t q m) k = m k"
    and step_local: "live stale t (m (key q)) = live stale t (m' (key q)) \<Longrightarrow>
      fst (step t q m) = fst (step t q m') \<and>
      live stale t (snd (step t q m) (key q)) = live stale t (snd (step t q m') (key q))"
    and sweep_live: "live stale t (sweep t m k) = live stale t (m k)"
begin

lemma live_later:
  assumes "live stale t x = live stale t y" and "t \<le> u"
  shows "live stale u x = live stale u y"
  using assms stale_mono by (auto simp: live_def split: option.splits if_splits)

lemma run_restrict:
  "clock_sorted t (map event_time evs) \<Longrightarrow> live stale t (m k) = live stale t (m' k) \<Longrightarrow>
   filter (\<lambda>(t, q, b). key q = k) (limiter_run step sweep evs m) =
   limiter_run step sweep (requests_of key k evs) m'"
proof (induction evs arbitrary: t m m')
  case Nil
  then show ?case by (simp add: requests_of_def)
next
  case (Cons e evs)
  from Cons.prems have tu: "t \<le> event_time e" and s: "clock_sorted (event_time e) (map event_time evs)"
    by auto
  have l: "live stale (event_time e) (m k) = live stale (event_time e) (m' k)"
    using live_later [OF Cons.prems(2) tu] .
  show ?case
  proof (cases e)
    case (Sweep u)
    with Cons.IH [OF s, of "sweep u m" m'] l sweep_live show ?thesis
      by (simp add: requests_of_def)
  next
    case (Request u q)
    obtain b n where sn: "step u q m = (b, n)" by force
    obtain b' n' where sn': "step u q m' = (b', n')" by force
    show ?thesis
    proof (cases "key q = k")
      case True
      with step_local [of u m q m'] l Request sn sn'
      have "b = b'" "live stale u (n k) = live stale u (n' k)" by auto
      with Cons.IH [of u n n'] s Request sn sn' True show ?thesis
        by (simp add: requests_of_def)
    next
      case False
      with step_frame [of k q u m] sn have "n k = m k" by auto
      with Cons.IH [of u n m'] s l Request sn False show ?thesis
        by (simp add: requests_of_def)
    qed
  qed
qed

end

subsection \<open>\<open>middleware.RateLimiter\<close>\<close>

record rl_entry =
  rl_count :: "32 word"
  windowStart :: go_time

type_synonym rl_state = "string \<rightharpoonup> rl_entry"

definition isAllowedWithLimit ::
  "go_time \<Rightarrow> string \<Rightarrow> 32 word \<Rightarrow> rl_state \<Rightarrow> bool \<times> rl_state" where
  "isAllowedWithLimit now identifier limitPerMinute requests =
     (case requests identifier of
        None \<Rightarrow> (True, requests(identifier \<mapsto> \<lparr>rl_count = 1, windowStart = now\<rparr>))
      | Some entry \<Rightarrow>
          if now - windowStart entry > minute then
            (True, requests(identifier \<mapsto> \<lparr>rl_count = 1, windowStart = now\<rparr>))
          else if rl_count entry \<ge> limitPerMinute then (False, requests)
          else (True, requests(identifier \<mapsto> entry\<lparr>rl_count := rl_count entry + 1\<rparr>)))"

definition isAllowed :: "go_time \<Rightarrow> string \<Rightarrow> rl_state \<Rightarrow> bool \<times> rl_state" where
  "isAllowed now identifier requests = isAllowedWithLimit now identifier 100 requests"

definition rl_cleanup :: "go_time \<Rightarrow> rl_state \<Rightarrow> rl_state" where
  "rl_cleanup now requests =
     (let cutoff = now + (-2 * minute)
      in delete_where (\<lambda>entry. windowStart entry < cutoff) requests)"

definition rl_step :: "go_time \<Rightarrow> string \<times> 32 word \<Rightarrow> rl_state \<Rightarrow> bool \<times> rl_state" where
  "rl_step t q m = isAllowedWithLimit t (fst q) (snd q) m"

definition rl_stale :: "go_time \<Rightarrow> rl_entry \<Rightarrow> bool" where
  "rl_stale t e \<longleftrightarrow> t - windowStart e > minute"

text \<open>The address both middlewares of this file limit by.\<close>

definition limited_address :: "'b request \<Rightarrow> string" where
  "limited_address r =
     (let ip = (case split_host (remote_addr r) of Some h \<Rightarrow> h | None \<Rightarrow> remote_addr r);
          forwardedFor = req_hdr r ''X-Forwarded-For''
      in if forwardedFor \<noteq> '''' then forwardedFor else ip)"

definition RateLimitMiddleware ::
  "go_time \<Rightarrow> ('b, rl_state \<times> 's) handler \<Rightarrow> ('b, rl_state \<times> 's) handler" where
  "RateLimitMiddleware now next r = (\<lambda>(w, rl, s).
     case isAllowed now (limited_address r) rl of
       (ok, rl') \<Rightarrow>
         if \<not> ok then
           respond (http_error ''Too many requests. Maximum 100 requests per minute.'' 429
             (header_set ''Retry-After'' ''60'' w)) (rl', s)
         else next r (w, rl', s))"

definition StrictRateLimitMiddleware ::
  "go_time \<Rightarrow> ('b, rl_state \<times> 's) handler \<Rightarrow> ('b, rl_state \<times> 's) handler" where
  "StrictRateLimitMiddleware now next r = (\<lambda>(w, rl, s).
     case isAllowedWithLimit now (limited_address r) 10 rl of
       (ok, rl') \<Rightarrow>
         if \<not> ok then
           respond (http_error (''Too many requests. Maximum '' @ Itoa 10 @ '' requests per minute.'')
             429 (header_set ''Retry-After'' ''60'' w)) (rl', s)
         else next r (w, rl', s))"

interpretation rl: limiter rl_step rl_cleanup fst rl_stale
proof
  show "rl_stale t e \<Longrightarrow> t \<le> u \<Longrightarrow> rl_stale u e" for t u e
    by (simp add: rl_stale_def)
  show "k \<noteq> fst q \<Longrightarrow> snd (rl_step t q m) k = m k" for k t and q :: "string \<times> 32 word" and m
    by (simp add: rl_step_def isAllowedWithLimit_def split: option.split)
  show "live rl_stale t (m (fst q)) = live rl_stale t (m' (fst q)) \<Longrightarrow>
      fst (rl_step t q m) = fst (rl_step t q m') \<and>
      live rl_stale t (snd (rl_step t q m) (fst q)) = live rl_stale t (snd (rl_step t q m') (fst q))"
    for t m m' and q :: "string \<times> 32 word"
    by (auto simp: rl_step_def isAllowedWithLimit_def rl_stale_def live_def
        split: option.splits if_splits)
  show "live rl_stale t (rl_cleanup t m k) = live rl_stale t (m k)" for t m k
    by (auto simp: rl_cleanup_def rl_stale_def live_def delete_where_def Let_def split: option.splits)
qed

subsection \<open>The bound of the fixed window\<close>

text \<open>The requests of \<open>k\<close> that the run admits in the closed minute from \<open>a\<close>.\<close>

definition admitted ::
  "go_time \<Rightarrow> string \<Rightarrow> (go_time \<times> (string \<times> 32 word) \<times> bool) list \<Rightarrow> nat" where
  "admitted a k ds = length (filter (\<lambda>(t, q, b). b \<and> fst q = k \<and> a \<le> t \<and> t \<le> a + minute) ds)"

text \<open>What can still be admitted from a given entry of \<open>k\<close> when the clock shows \<open>t\<close>.\<close>

definition budget :: "nat \<Rightarrow> go_time \<Rightarrow> go_time \<Rightarrow> rl_entry option \<Rightarrow> nat" where
  "budget L a t eo =
     (if t > a + minute then 0
      else case eo of
        None \<Rightarrow> if t < a then 2 * L else L
      | Some e \<Rightarrow>
          if a \<le> windowStart e then L - unat (rl_count e)
          else if t < a then 2 * L else (L - unat (rl_count e)) + L)"

lemma budget_le: "budget L a t eo \<le> 2 * L"
  by (auto simp: budget_def split: option.split)

lemma unat_inc_below:
  fixes c :: "'w :: len word"
  assumes "c < l" shows "unat (c + 1) = Suc (unat c)"
proof -
  have "c \<noteq> - 1" using assms by (metis linorder_not_le word_n1_ge)
  then have "c + 1 \<noteq> 0" by (simp add: add_eq_0_iff2)
  then show ?thesis by (metis add.commute unatSuc)
qed

lemma budget_later: "t \<le> u \<Longrightarrow> 1 \<le> L \<Longrightarrow> budget L a u eo \<le> budget L a t eo"
  by (auto simp: budget_def split: option.split)

lemma budget_step:
  assumes L: "1 \<le> L" and lim: "unat l \<le> L" and ws: "\<And>e. m k = Some e \<Longrightarrow> windowStart e \<le> u"
    and step: "isAllowedWithLimit u k l m = (b, m')"
  shows "(if b \<and> a \<le> u \<and> u \<le> a + minute then 1 else 0) + budget L a u (m' k) \<le> budget L a u (m k)"
proof (cases "m k")
  case None
  with step L show ?thesis by (auto simp: isAllowedWithLimit_def budget_def)
next
  case (Some e)
  consider (expired) "u - windowStart e > minute" | (full) "u - windowStart e \<le> minute" "l \<le> rl_count e"
    | (inc) "u - windowStart e \<le> minute" "rl_count e < l"
    by fastforce
  then show ?thesis
  proof cases
    case expired
    with Some step L ws [OF Some] show ?thesis
      by (auto simp: isAllowedWithLimit_def budget_def)
  next
    case full
    with Some step show ?thesis by (auto simp: isAllowedWithLimit_def)
  next
    case inc
    then have "unat (rl_count e) < L" "unat (rl_count e + 1) = Suc (unat (rl_count e))"
      using lim unat_inc_below by (auto simp: word_less_nat_alt)
    moreover have "\<not> l \<le> rl_count e" using inc(2) by simp
    with inc Some step have "b" "m' k = Some (e\<lparr>rl_count := rl_count e + 1\<rparr>)"
      by (auto simp: isAllowedWithLimit_def)
    ultimately show ?thesis using inc Some ws [OF Some] by (auto simp: budget_def)
  qed
qed

lemma budget_sweep: "1 \<le> L \<Longrightarrow> budget L a u (rl_cleanup u m k) \<le> budget L a u (m k)"
  by (auto simp: budget_def rl_cleanup_def Let_def delete_where_def split: option.split)

lemma windowStart_step:
  "(\<And>k e. m k = Some e \<Longrightarrow> windowStart e \<le> u) \<Longrightarrow> isAllowedWithLimit u i l m = (b, m') \<Longrightarrow>
   m' k = Some e \<Longrightarrow> windowStart e \<le> u"
  by (auto simp: isAllowedWithLimit_def split: option.splits if_splits)

lemma windowStart_sweep:
  "(\<And>k e. m k = Some e \<Longrightarrow> windowStart e \<le> u) \<Longrightarrow> rl_cleanup u m k = Some e \<Longrightarrow> windowStart e \<le> u"
  by (auto simp: rl_cleanup_def Let_def dest: delete_where_SomeD)

lemma admitted_le_budget:
  assumes L: "1 \<le> L"
  shows "clock_sorted t (map event_time evs) \<Longrightarrow>
    (\<And>u l. Request u (k, l) \<in> set evs \<Longrightarrow> unat l \<le> L) \<Longrightarrow>
    (\<And>i e. m i = Some e \<Longrightarrow> windowStart e \<le> t) \<Longrightarrow>
    admitted a k (limiter_run rl_step rl_cleanup evs m) \<le> budget L a t (m k)"
proof (induction evs arbitrary: t m)
  case Nil
  then show ?case by (simp add: admitted_def)
next
  case (Cons ev evs)
  define u where "u = event_time ev"
  from Cons.prems(1) have tu: "t \<le> u" and s: "clock_sorted u (map event_time evs)"
    by (auto simp: u_def)
  have ws: "windowStart e \<le> u" if "m i = Some e" for i e
    using Cons.prems(3) [OF that] tu by simp
  have lims: "\<And>v l. Request v (k, l) \<in> set evs \<Longrightarrow> unat l \<le> L" using Cons.prems(2) by auto
  have "admitted a k (limiter_run rl_step rl_cleanup (ev # evs) m) \<le> budget L a u (m k)"
  proof (cases ev)
    case (Sweep v)
    then have v: "v = u" by (simp add: u_def)
    have "admitted a k (limiter_run rl_step rl_cleanup evs (rl_cleanup u m))
        \<le> budget L a u (rl_cleanup u m k)"
      by (rule Cons.IH [OF s lims]) (auto intro: windowStart_sweep ws)
    with budget_sweep [OF L, of a u m k] Sweep v show ?thesis by simp
  next
    case (Request v q)
    obtain i l where q: "q = (i, l)" by force
    from Request have v: "v = u" by (simp add: u_def)
    obtain b m' where st: "isAllowedWithLimit u i l m = (b, m')" by force
    have IH: "admitted a k (limiter_run rl_step rl_cleanup evs m') \<le> budget L a u (m' k)"
      by (rule Cons.IH [OF s lims]) (auto intro: windowStart_step [OF ws st])
    show ?thesis
    proof (cases "i = k")
      case True
      have "unat l \<le> L" using Cons.prems(2) Request q v True by auto
      then have "(if b \<and> a \<le> u \<and> u \<le> a + minute then 1 else 0) + budget L a u (m' k)
          \<le> budget L a u (m k)"
        by (rule budget_step [OF L]) (use ws st True in auto)
      with IH st Request q v True show ?thesis
        by (auto simp: admitted_def rl_step_def split: if_splits)
    next
      case False
      have "m' k = m k" using rl.step_frame [of k q u m] False st q by (simp add: rl_step_def)
      with IH st Request q v False show ?thesis
        by (auto simp: admitted_def rl_step_def)
    qed
  qed
  with budget_later [OF tu L] show ?case by (meson le_trans)
qed

text \<open>C15: over any run of requests and clean-ups in clock order, started with an empty table,
  every closed minute admits at most twice the limit of a client (at most two when the limit is
  zero): a client that fills the end of one window and the start of the next gets no more.\<close>

theorem rate_limit_minute_bound:
  assumes "clock_sorted t (map event_time evs)"
    and "\<And>u l. Request u (k, l) \<in> set evs \<Longrightarrow> l \<le> limit"
  shows "admitted a k (limiter_run rl_step rl_cleanup evs Map.empty) \<le> 2 * max 1 (unat limit)"
proof -
  have "admitted a k (limiter_run rl_step rl_cleanup evs Map.empty)
      \<le> budget (max 1 (unat limit)) a t (Map.empty k)"
    by (rule admitted_le_budget)
      (use assms in \<open>auto simp: word_le_nat_alt intro: max.coboundedI2\<close>)
  with budget_le show ?thesis by (meson le_trans)
qed

theorem rate_limit_minute_bound_witness:
  "admitted (59 * second) ''ip''
     (limiter_run rl_step rl_cleanup
       [Request 0 (''ip'', 2), Request (59 * second) (''ip'', 2), Request (59 * second) (''ip'', 2),
        Request (61 * second) (''ip'', 2), Sweep (62 * second), Request (63 * second) (''ip'', 2),
        Request (64 * second) (''ip'', 2)] Map.empty) \<le> 2 * max 1 (unat (2 :: 32 word))"
  by (rule rate_limit_minute_bound [where t = 0]) auto

text \<open>What a client is told depends on its own requests only: the decisions for an address
  in a run with any other clients and any clean-ups between are those of the run of its requests
  alone. The clean-up never resets a window that still counts.\<close>

theorem rate_limit_isolated:
  assumes "clock_sorted t (map event_time evs)"
  shows "filter (\<lambda>(t, q, b). fst q = k) (limiter_run rl_step rl_cleanup evs Map.empty) =
         limiter_run rl_step rl_cleanup (requests_of fst k evs) Map.empty"
  by (rule rl.run_restrict [OF assms]) simp

theorem rate_limit_isolated_witness:
  "filter (\<lambda>(t, q, b). fst q = ''a'')
     (limiter_run rl_step rl_cleanup
       [Request 0 (''a'', 1), Request 1 (''b'', 1), Sweep (121 * second), Request (122 * second) (''a'', 1)]
       Map.empty) =
   limiter_run rl_step rl_cleanup [Request 0 (''a'', 1), Request (122 * second) (''a'', 1)] Map.empty"
  using rate_limit_isolated [of 0 "[Request 0 (''a'', 1), Request 1 (''b'', 1), Sweep (121 * second),
    Request (122 * second) (''a'', 1)]" "''a''"]
  by (simp add: requests_of_def)

subsection \<open>\<open>helpers.ExtractRateLimitKey\<close>\<close>

definition ExtractRateLimitKey :: "'b request \<Rightarrow> string" where
  "ExtractRateLimitKey r =
     (let anonymous =
        (let forwarded = req_hdr r ''X-Forwarded-For'';
             ip = (if forwarded = ''''
                   then (case split_host (remote_addr r) of Some host \<Rightarrow> host | None \<Rightarrow> remote_addr r)
                   else forwarded)
         in ''ip:'' @ ip)
      in case ctx_string ''user_id'' r of
           Some userID \<Rightarrow> if userID \<noteq> '''' then ''user:'' @ userID else anonymous
         | None \<Rightarrow> anonymous)"

definition signed_in :: "'b request \<Rightarrow> string option" where
  "signed_in r = (case ctx_string ''user_id'' r of
     Some u \<Rightarrow> if u \<noteq> '''' then Some u else None | None \<Rightarrow> None)"

subsection \<open>\<open>middleware.ConfigurableRateLimiter\<close>\<close>

text \<open>A tracker is stored by pointer and changed in place under the lock, here by an update of
  the map. The counts are Go \<open>int\<close>s: they stay far below \<open>2 ^ 63\<close> in a window.\<close>

record tracker =
  tr_count :: int
  resetAt :: go_time
  exceeds :: int

type_synonym counts = "string \<rightharpoonup> tracker"

text \<open>The critical section of the middleware: whether the request goes on.\<close>

definition configurable_step ::
  "'f config \<Rightarrow> go_time \<Rightarrow> string \<Rightarrow> counts \<Rightarrow> bool \<times> counts" where
  "configurable_step cfg now key m =
     (case m key of
        None \<Rightarrow> (True, m(key \<mapsto> \<lparr>tr_count = 1, resetAt = now + RateLimitWindow cfg, exceeds = 0\<rparr>))
      | Some tr \<Rightarrow>
          if now > resetAt tr then
            (True, m(key \<mapsto> \<lparr>tr_count = 1, resetAt = now + RateLimitWindow cfg, exceeds = 0\<rparr>))
          else let tr' = tr\<lparr>tr_count := tr_count tr + 1\<rparr>
               in if tr_count tr' > RateLimitRequests cfg
                  then (False, m(key \<mapsto> tr'\<lparr>exceeds := exceeds tr' + 1\<rparr>))
                  else (True, m(key \<mapsto> tr')))"

text \<open>\<open>fmt.Sprintf("%.0f", d.Seconds())\<close>: the nearest whole number of seconds, ties to even.\<close>

definition whole_seconds :: "duration \<Rightarrow> string" where
  "whole_seconds d =
     (let q = d div second; r = d mod second
      in Itoa (if 2 * r > second \<or> (2 * r = second \<and> odd q) then q + 1 else q))"

definition ConfigurableRateLimitMiddleware ::
  "'f config \<Rightarrow> go_time \<Rightarrow> ('b, counts \<times> 's) handler \<Rightarrow> ('b, counts \<times> 's) handler" where
  "ConfigurableRateLimitMiddleware cfg now next r = (\<lambda>(w, m, s).
     case configurable_step cfg now (ExtractRateLimitKey r) m of
       (ok, m') \<Rightarrow>
         if ok then next r (w, m', s)
         else respond (http_error ''rate limit exceeded'' 429
           (header_set ''Retry-After'' (whole_seconds (RateLimitWindow cfg)) w)) (m', s))"

definition configurable_cleanup :: "go_time \<Rightarrow> counts \<Rightarrow> counts" where
  "configurable_cleanup now m = delete_where (\<lambda>tr. now > resetAt tr + 5 * minute) m"

definition tracker_stale :: "go_time \<Rightarrow> tracker \<Rightarrow> bool" where
  "tracker_stale t tr \<longleftrightarrow> t > resetAt tr"

record rl_status =
  current_count :: "int option"
  requests_remaining :: int
  reset_at :: go_time
  limit_window :: "duration option"

definition GetRateLimitStatus :: "'f config \<Rightarrow> go_time \<Rightarrow> string \<Rightarrow> counts \<Rightarrow> rl_status" where
  "GetRateLimitStatus cfg now key m =
     (case m key of
        None \<Rightarrow> \<lparr>current_count = None, requests_remaining = RateLimitRequests cfg,
                 reset_at = now + RateLimitWindow cfg, limit_window = None\<rparr>
      | Some tr \<Rightarrow>
          let remaining = RateLimitRequests cfg - tr_count tr;
              remaining = (if remaining < 0 then 0 else remaining)
          in \<lparr>current_count = Some (tr_count tr), requests_remaining = remaining,
              reset_at = resetAt tr, limit_window = Some (RateLimitWindow cfg)\<rparr>)"

interpretation crl: limiter "configurable_step cfg" configurable_cleanup id tracker_stale
  for cfg :: "'f config"
proof
  show "tracker_stale t e \<Longrightarrow> t \<le> u \<Longrightarrow> tracker_stale u e" for t u e
    by (simp add: tracker_stale_def)
  show "k \<noteq> id q \<Longrightarrow> snd (configurable_step cfg t q m) k = m k" for k t q m
    by (simp add: configurable_step_def Let_def split: option.split)
  show "live tracker_stale t (m (id q)) = live tracker_stale t (m' (id q)) \<Longrightarrow>
      fst (configurable_step cfg t q m) = fst (configurable_step cfg t q m') \<and>
      live tracker_stale t (snd (configurable_step cfg t q m) (id q)) =
      live tracker_stale t (snd (configurable_step cfg t q m') (id q))" for t m m' q
    by (auto simp: configurable_step_def tracker_stale_def live_def Let_def
        split: option.splits if_splits)
  show "live tracker_stale t (configurable_cleanup t m k) = live tracker_stale t (m k)" for t m k
    by (auto simp: configurable_cleanup_def tracker_stale_def live_def delete_where_def
        split: option.splits)
qed

subsection \<open>A burst within one window\<close>

fun burst :: "'f config \<Rightarrow> string \<Rightarrow> go_time list \<Rightarrow> counts \<Rightarrow> bool list \<times> counts" where
  "burst cfg k [] m = ([], m)"
| "burst cfg k (t # ts) m =
     (case configurable_step cfg t k m of (b, m') \<Rightarrow>
      case burst cfg k ts m' of (bs, m'') \<Rightarrow> (b # bs, m''))"

lemma burst_open:
  "m k = Some tr \<Longrightarrow> (\<forall>t\<in>set ts. t \<le> resetAt tr) \<Longrightarrow> 0 \<le> tr_count tr \<Longrightarrow>
   fst (burst cfg k ts m) =
     replicate (min (length ts) (nat (RateLimitRequests cfg - tr_count tr))) True @
     replicate (length ts - nat (RateLimitRequests cfg - tr_count tr)) False \<and>
   (\<exists>tr'. snd (burst cfg k ts m) k = Some tr' \<and> tr_count tr' = tr_count tr + int (length ts) \<and>
          resetAt tr' = resetAt tr)"
proof (induction ts arbitrary: m tr)
  case Nil
  then show ?case by simp
next
  case (Cons t ts)
  define n where "n = nat (RateLimitRequests cfg - tr_count tr)"
  obtain b m' where s: "configurable_step cfg t k m = (b, m')" by force
  have b: "b \<longleftrightarrow> 0 < n"
    using s Cons.prems by (auto simp: configurable_step_def n_def Let_def split: if_splits)
  obtain tr1 where tr1: "m' k = Some tr1" "tr_count tr1 = tr_count tr + 1" "resetAt tr1 = resetAt tr"
    using s Cons.prems by (auto simp: configurable_step_def Let_def split: if_splits)
  have n1: "nat (RateLimitRequests cfg - tr_count tr1) = n - 1" by (simp add: tr1 n_def)
  obtain bs m'' where r: "burst cfg k ts m' = (bs, m'')" by force
  have IH: "bs = replicate (min (length ts) (n - 1)) True @ replicate (length ts - (n - 1)) False"
      "\<exists>tr'. m'' k = Some tr' \<and> tr_count tr' = tr_count tr1 + int (length ts) \<and> resetAt tr' = resetAt tr1"
    using Cons.IH [of m' tr1] Cons.prems tr1 n1 r by auto
  have "b # bs = replicate (min (Suc (length ts)) n) True @ replicate (Suc (length ts) - n) False"
    by (cases n) (auto simp: b IH(1))
  with IH(2) s r tr1 show ?case by (auto simp: n_def)
qed


text \<open>In one window of the configurable limiter a key gets exactly its configured number of
  requests through (one, if that number is not positive): the first ones pass, the rest are
  refused, whatever the times inside the window.\<close>

theorem configurable_window_exact:
  assumes "live tracker_stale t (m k) = None" and "\<forall>u\<in>set ts. u \<le> t + RateLimitWindow cfg"
  shows "fst (burst cfg k (t # ts) m) =
    replicate (min (length (t # ts)) (max 1 (nat (RateLimitRequests cfg)))) True @
    replicate (length (t # ts) - max 1 (nat (RateLimitRequests cfg))) False"
proof -
  define tr where "tr = \<lparr>tr_count = 1, resetAt = t + RateLimitWindow cfg, exceeds = 0\<rparr>"
  have s: "configurable_step cfg t k m = (True, m(k \<mapsto> tr))"
    using assms(1) by (auto simp: configurable_step_def tracker_stale_def tr_def live_def
        split: option.splits if_splits)
  obtain bs m' where r: "burst cfg k ts (m(k \<mapsto> tr)) = (bs, m')" by force
  have "bs = replicate (min (length ts) (nat (RateLimitRequests cfg - 1))) True @
      replicate (length ts - nat (RateLimitRequests cfg - 1)) False"
    using burst_open [of "m(k \<mapsto> tr)" k tr ts cfg] assms(2) r by (simp add: tr_def)
  moreover have "max 1 (nat (RateLimitRequests cfg)) = Suc (nat (RateLimitRequests cfg - 1))" by auto
  ultimately show ?thesis using s r by simp
qed

text \<open>The number of remaining requests that \<open>GetRateLimitStatus\<close> reports is the number that
  the middleware will let through before the window of the key ends.\<close>

theorem status_predicts_admissions:
  assumes "m k = Some tr" and "0 \<le> tr_count tr" and "\<forall>t\<in>set ts. t \<le> resetAt tr"
  shows "length (filter id (fst (burst cfg k ts m))) =
         min (length ts) (nat (requests_remaining (GetRateLimitStatus cfg now k m)))"
proof -
  have "filter id (replicate a True @ replicate b False) = replicate a True" for a b
    by (induction a) auto
  with burst_open [of m k tr ts cfg] assms show ?thesis
    by (simp add: GetRateLimitStatus_def Let_def)
qed

text \<open>Two requests share a rate-limit key only if they come from the same signed-in user or
  both from no user: no forwarded address can name another client's user key.\<close>

theorem rate_limit_keys_separate:
  "ExtractRateLimitKey r1 = ExtractRateLimitKey r2 \<Longrightarrow> signed_in r1 = signed_in r2"
  by (auto simp: ExtractRateLimitKey_def signed_in_def Let_def split: option.splits if_splits)


theorem configurable_window_exact_witness:
  "fst (burst (zero_config\<lparr>RateLimitRequests := 2, RateLimitWindow := minute\<rparr>) ''ip:x''
     [0, second, minute] Map.empty) = [True, True, False]"
  using configurable_window_exact [of 0 Map.empty "''ip:x''" "[second, minute]"
    "zero_config\<lparr>RateLimitRequests := 2, RateLimitWindow := minute\<rparr>"]
  by (simp add: zero_config_def eval_nat_numeral)

theorem status_predicts_admissions_witness:
  "length (filter id (fst (burst (zero_config\<lparr>RateLimitRequests := 2, RateLimitWindow := minute\<rparr>)
     ''ip:x'' [1, 2, 3] [''ip:x'' \<mapsto> \<lparr>tr_count = 1, resetAt = minute, exceeds = 0\<rparr>]))) = 1"
  using status_predicts_admissions [of "[''ip:x'' \<mapsto> \<lparr>tr_count = 1, resetAt = minute, exceeds = 0\<rparr>]"
    "''ip:x''" "\<lparr>tr_count = 1, resetAt = minute, exceeds = 0\<rparr>" "[1, 2, 3]"
    "zero_config\<lparr>RateLimitRequests := 2, RateLimitWindow := minute\<rparr>" 0]
  by (simp add: GetRateLimitStatus_def zero_config_def)

theorem rate_limit_keys_separate_witness:
  "signed_in (\<lparr>meth = ''GET'', path = ''/'', remote_addr = ''1.2.3.4:5'', req_hdr = \<lambda>_. '''',
      query = \<lambda>_. '''', path_value = \<lambda>_. '''', ctx = Map.empty, req_body = None\<rparr> :: unit request) =
   signed_in (\<lparr>meth = ''POST'', path = ''/'', remote_addr = ''1.2.3.4:6'', req_hdr = \<lambda>_. '''',
      query = \<lambda>_. '''', path_value = \<lambda>_. '''', ctx = Map.empty, req_body = None\<rparr> :: unit request)"
  by (rule rate_limit_keys_separate) code_simp

end
