(* ===== verification/Auth.thy ===== *)
theory Auth
  imports Http Base64
begin

text \<open>
  \<open>auth/validator.go\<close>, \<open>auth/share_token.go\<close> and \<open>encryption/aes.go\<close>.

  The JWT library is the record \<open>jwt_lib\<close>: its parser of unverified tokens, its signature check
  and its check of the registered claims. The answer of the JWKS endpoint is an argument of each
  call (\<open>None\<close> when the request, its status or its decoding fails), and so are the two readings
  of the clock. SHA-256, AES-GCM and the random source are arguments too.
\<close>

subsection \<open>Tokens and keys\<close>

record claims =
  Sub :: string
  Email :: string
  Aud :: string
  Iat :: int
  Exp :: int

datatype signing_method = HMAC | RSA | ECDSA | OtherMethod

record jwt_token =
  alg :: "string option"
  kid :: "string option"
  signing :: signing_method
  token_claims :: claims

datatype auth_key = Secret string | RSAKey nat int | ECKey nat nat

record jwt_lib =
  parse_unverified :: "string \<Rightarrow> jwt_token option"
  sig_valid :: "string \<Rightarrow> auth_key \<Rightarrow> bool"
  registered_valid :: "go_time \<Rightarrow> string \<Rightarrow> bool"

record jwks_key =
  Kty :: string
  Kid :: string
  Use :: string
  key_N :: string
  key_E :: string
  Crv :: string
  key_X :: string
  key_Y :: string

record validator =
  supabase_url :: string
  anonKey :: string
  secretKey :: string
  jwtSecret :: string
  publicKeyCache :: "string \<rightharpoonup> auth_key"
  keysExpiry :: go_time

definition NewValidator :: "string \<Rightarrow> string \<Rightarrow> string \<Rightarrow> string \<Rightarrow> validator" where
  "NewValidator url anon secret jwt =
     \<lparr>supabase_url = url, anonKey = anon, secretKey = secret, jwtSecret = jwt,
      publicKeyCache = Map.empty, keysExpiry = 0\<rparr>"

subsection \<open>Keys of the JWKS endpoint\<close>

text \<open>\<open>big.Int.SetBytes\<close>, and the exponent loop, whose shift wraps at 64 bits.\<close>

definition big_endian :: "string \<Rightarrow> nat" where
  "big_endian s = foldl (\<lambda>n c. n * 256 + of_char c) 0 s"

definition exponent :: "string \<Rightarrow> 64 word" where
  "exponent s = foldl (\<lambda>e c. or (push_bit 8 e) (of_char c)) 0 s"

definition parseRSAPublicKeyFromJWKS :: "jwks_key \<Rightarrow> auth_key option" where
  "parseRSAPublicKeyFromJWKS key =
     (if Kty key \<noteq> ''RSA'' then None
      else case decode_raw url_alphabet (key_N key) of
        None \<Rightarrow> None
      | Some nBytes \<Rightarrow>
          (case decode_raw url_alphabet (key_E key) of
             None \<Rightarrow> None
           | Some eBytes \<Rightarrow>
               let e = exponent eBytes
               in if e = 0 then None else Some (RSAKey (big_endian nBytes) (sint e))))"

definition parseECDSAPublicKeyFromJWKS :: "jwks_key \<Rightarrow> auth_key option" where
  "parseECDSAPublicKeyFromJWKS key =
     (if Kty key \<noteq> ''EC'' then None
      else if Crv key \<noteq> ''P-256'' then None
      else case decode_raw url_alphabet (key_X key) of
        None \<Rightarrow> None
      | Some xBytes \<Rightarrow>
          (case decode_raw url_alphabet (key_Y key) of
             None \<Rightarrow> None
           | Some yBytes \<Rightarrow> Some (ECKey (big_endian xBytes) (big_endian yBytes))))"

fun load_keys :: "jwks_key list \<Rightarrow> (string \<rightharpoonup> auth_key) \<Rightarrow> (string \<rightharpoonup> auth_key)" where
  "load_keys [] m = m"
| "load_keys (key # ks) m =
     (if Kty key = ''RSA'' then
        (case parseRSAPublicKeyFromJWKS key of
           Some k \<Rightarrow> load_keys ks (m(Kid key \<mapsto> k)) | None \<Rightarrow> load_keys ks m)
      else if Kty key = ''EC'' then
        (case parseECDSAPublicKeyFromJWKS key of
           Some k \<Rightarrow> load_keys ks (m(Kid key \<mapsto> k)) | None \<Rightarrow> load_keys ks m)
      else load_keys ks m)"

text \<open>The environment of one validation: the endpoint's answer and the clock, read before the
  request, after it, and at the end.\<close>

record auth_env =
  jwks :: "jwks_key list option"
  clock_cache :: go_time
  clock_fetched :: go_time
  clock_parse :: go_time
  clock_now :: go_time

definition getPublicKey :: "auth_env \<Rightarrow> string \<Rightarrow> validator \<Rightarrow> auth_key option \<times> validator" where
  "getPublicKey env keyID v =
     (case (if clock_cache env < keysExpiry v then publicKeyCache v keyID else None) of
        Some key \<Rightarrow> (Some key, v)
      | None \<Rightarrow>
          (case jwks env of
             None \<Rightarrow> (None, v)
           | Some keys \<Rightarrow>
               let cache = load_keys keys Map.empty;
                   v' = v\<lparr>publicKeyCache := cache, keysExpiry := clock_fetched env + 24 * hour\<rparr>
               in (cache keyID, v')))"

subsection \<open>Validation of a bearer token\<close>

text \<open>The key function handed to the library.\<close>

definition key_for :: "auth_env \<Rightarrow> jwt_token \<Rightarrow> validator \<Rightarrow> auth_key option \<times> validator" where
  "key_for env t v =
     (if alg t = Some ''none'' then (None, v)
      else if signing t = HMAC then
        (if jwtSecret v \<noteq> '''' then (Some (Secret (jwtSecret v)), v)
         else if secretKey v \<noteq> '''' then (Some (Secret (secretKey v)), v)
         else (None, v))
      else if signing t = RSA \<or> signing t = ECDSA then
        (case kid t of
           None \<Rightarrow> (None, v)
         | Some k \<Rightarrow> if k = '''' then (None, v) else getPublicKey env k v)
      else (None, v))"

definition ValidateToken :: "jwt_lib \<Rightarrow> auth_env \<Rightarrow> string \<Rightarrow> validator \<Rightarrow> claims option \<times> validator" where
  "ValidateToken lib env authHeader v =
     (let parts = Split CHR '' '' authHeader
      in if length parts \<noteq> 2 \<or> parts ! 0 \<noteq> ''Bearer'' then (None, v)
         else let tokenString = parts ! 1
           in case parse_unverified lib tokenString of
                None \<Rightarrow> (None, v)
              | Some t \<Rightarrow>
                  (case key_for env t v of
                     (None, v') \<Rightarrow> (None, v')
                   | (Some key, v') \<Rightarrow>
                       if \<not> sig_valid lib tokenString key then (None, v')
                       else if \<not> registered_valid lib (clock_parse env) tokenString then (None, v')
                       else if Exp (token_claims t) < clock_now env div second then (None, v')
                       else (Some (token_claims t), v')))"

definition GetUserIDFromToken :: "jwt_lib \<Rightarrow> auth_env \<Rightarrow> string \<Rightarrow> validator \<Rightarrow> string option \<times> validator" where
  "GetUserIDFromToken lib env authHeader v =
     (case ValidateToken lib env authHeader v of
        (None, v') \<Rightarrow> (None, v') | (Some c, v') \<Rightarrow> (Some (Sub c), v'))"

text \<open>\<open>user_api\<close> answers the request to \<open>/auth/v1/user\<close> with these two headers.\<close>

definition GetCurrentUser ::
  "(string \<Rightarrow> string \<Rightarrow> 'u option) \<Rightarrow> jwt_lib \<Rightarrow> auth_env \<Rightarrow> string \<Rightarrow> string \<Rightarrow> validator \<Rightarrow>
   'u option \<times> validator" where
  "GetCurrentUser user_api lib env userID authHeader v =
     (case ValidateToken lib env authHeader v of
        (None, v') \<Rightarrow> (None, v')
      | (Some c, v') \<Rightarrow>
          if Sub c \<noteq> userID then (None, v') else (user_api authHeader (anonKey v'), v'))"

lemma Split_bearer:
  assumes "length (Split CHR '' '' h) = 2" and "Split CHR '' '' h ! 0 = ''Bearer''"
  shows "h = ''Bearer '' @ Split CHR '' '' h ! 1 \<and> CHR '' '' \<notin> set (Split CHR '' '' h ! 1)"
proof -
  obtain a b where s: "Split CHR '' '' h = [a, b]"
    using assms(1) by (auto simp: length_Suc_conv numeral_2_eq_2)
  have "CHR '' '' \<notin> set b" using Split_parts_no_sep [of b "CHR '' ''" h] s by simp
  moreover have "h = ''Bearer'' @ CHR '' '' # b"
    using Join_Split [of "CHR '' ''" h] s assms(2) by simp
  ultimately show ?thesis using s by simp
qed

subsection \<open>The key cache\<close>

definition asymmetric :: "auth_key \<Rightarrow> bool" where
  "asymmetric k \<longleftrightarrow> (\<forall>s. k \<noteq> Secret s)"

definition cache_ok :: "validator \<Rightarrow> bool" where
  "cache_ok v \<longleftrightarrow> (\<forall>k\<in>ran (publicKeyCache v). asymmetric k)"

lemma parse_asymmetric:
  "parseRSAPublicKeyFromJWKS key = Some k \<Longrightarrow> asymmetric k"
  "parseECDSAPublicKeyFromJWKS key = Some k \<Longrightarrow> asymmetric k"
  by (auto simp: parseRSAPublicKeyFromJWKS_def parseECDSAPublicKeyFromJWKS_def asymmetric_def
      Let_def split: if_splits option.splits)

lemma load_keys_asymmetric:
  "(\<And>i k. m i = Some k \<Longrightarrow> asymmetric k) \<Longrightarrow> load_keys ks m i = Some k \<Longrightarrow> asymmetric k"
proof (induction ks arbitrary: m)
  case Nil
  then show ?case by simp
next
  case (Cons key ks)
  have *: "\<And>i x. (m(Kid key \<mapsto> x')) i = Some x \<Longrightarrow> asymmetric x" if "asymmetric x'" for x'
    using Cons.prems(1) that by (auto split: if_splits)
  show ?case
  proof (cases "Kty key = ''RSA''")
    case True
    with Cons show ?thesis
      by (cases "parseRSAPublicKeyFromJWKS key") (auto dest: parse_asymmetric intro: Cons.IH [OF *])
  next
    case False
    with Cons show ?thesis
      by (cases "parseECDSAPublicKeyFromJWKS key")
         (auto dest: parse_asymmetric intro: Cons.IH [OF *] split: if_splits)
  qed
qed

text \<open>Where a public key may come from.\<close>

definition trusted_public_key :: "auth_env \<Rightarrow> string \<Rightarrow> validator \<Rightarrow> auth_key \<Rightarrow> bool" where
  "trusted_public_key env k v key \<longleftrightarrow>
     (clock_cache env < keysExpiry v \<and> publicKeyCache v k = Some key) \<or>
     (\<exists>ks. jwks env = Some ks \<and> load_keys ks Map.empty k = Some key)"

lemma getPublicKey_trusted:
  "getPublicKey env k v = (Some key, v') \<Longrightarrow> trusted_public_key env k v key"
  by (auto simp: getPublicKey_def trusted_public_key_def Let_def split: option.splits if_splits)

lemma getPublicKey_cache_ok [inv_intros]:
  assumes "cache_ok v" and "getPublicKey env k v = (r, v')"
  shows "cache_ok v' \<and> (\<forall>key. r = Some key \<longrightarrow> asymmetric key)"
proof -
  have new: "asymmetric key" if "load_keys ks Map.empty i = Some key" for ks i key
    using load_keys_asymmetric [OF _ that] by simp
  show ?thesis
    using assms
    by (auto simp: getPublicKey_def cache_ok_def Let_def ran_def dest: new
        split: option.splits if_splits)
qed

lemma key_for_cache_ok [inv_intros]:
  "cache_ok v \<Longrightarrow> key_for env t v = (r, v') \<Longrightarrow> cache_ok v'"
  by (auto simp: key_for_def dest: getPublicKey_cache_ok split: if_splits option.splits)

lemma key_for_Some:
  assumes "cache_ok v" "key_for env t v = (Some key, v')"
  shows "alg t \<noteq> Some ''none'' \<and>
    (case signing t of
       HMAC \<Rightarrow> key \<in> {Secret (jwtSecret v), Secret (secretKey v)} \<and> key \<noteq> Secret ''''
     | OtherMethod \<Rightarrow> False
     | _ \<Rightarrow> asymmetric key \<and> (\<exists>k. kid t = Some k \<and> k \<noteq> '''' \<and> trusted_public_key env k v key))"
  using assms
  by (cases "signing t")
     (auto simp: key_for_def dest: getPublicKey_trusted getPublicKey_cache_ok
       split: if_splits option.splits)

lemma ValidateToken_SomeD:
  assumes "ValidateToken lib env h v = (Some c, v')"
  shows "\<exists>tok t key. h = ''Bearer '' @ tok \<and> parse_unverified lib tok = Some t \<and>
    c = token_claims t \<and> key_for env t v = (Some key, v') \<and> sig_valid lib tok key \<and>
    registered_valid lib (clock_parse env) tok \<and> clock_now env div second \<le> Exp c"
proof -
  define tok where "tok = Split CHR '' '' h ! 1"
  have l: "length (Split CHR '' '' h) = 2" "Split CHR '' '' h ! 0 = ''Bearer''"
    using assms by (auto simp: ValidateToken_def Let_def split: if_splits)
  then have "h = ''Bearer '' @ tok" using Split_bearer tok_def by blast
  moreover have "\<exists>t key. parse_unverified lib tok = Some t \<and>
    c = token_claims t \<and> key_for env t v = (Some key, v') \<and> sig_valid lib tok key \<and>
    registered_valid lib (clock_parse env) tok \<and> clock_now env div second \<le> Exp c"
    using assms l unfolding tok_def
    by (auto simp: ValidateToken_def Let_def split: option.splits prod.splits if_splits)
  ultimately show ?thesis by blast
qed

text \<open>C3: a token is accepted only if it is unexpired, its algorithm is not \<open>none\<close>, and its
  signature verifies under a key that fits its own method: the configured non-empty secret for an
  HMAC token, a live key of the JWKS endpoint, named by its \<open>kid\<close>, for an RSA or ECDSA token. A
  public key is never used as an HMAC secret.\<close>

theorem ValidateToken_sound:
  assumes "cache_ok v" and "ValidateToken lib env h v = (Some c, v')"
  shows "cache_ok v' \<and> (\<exists>tok t key. h = ''Bearer '' @ tok \<and> parse_unverified lib tok = Some t \<and>
    c = token_claims t \<and> clock_now env div second \<le> Exp c \<and> alg t \<noteq> Some ''none'' \<and>
    sig_valid lib tok key \<and>
    (case signing t of
       HMAC \<Rightarrow> key \<in> {Secret (jwtSecret v), Secret (secretKey v)} \<and> key \<noteq> Secret ''''
     | OtherMethod \<Rightarrow> False
     | _ \<Rightarrow> asymmetric key \<and> (\<exists>k. kid t = Some k \<and> k \<noteq> '''' \<and> trusted_public_key env k v key)))"
proof -
  obtain tok t key where *: "h = ''Bearer '' @ tok" "parse_unverified lib tok = Some t"
    "c = token_claims t" "key_for env t v = (Some key, v')" "sig_valid lib tok key"
    "clock_now env div second \<le> Exp c"
    using ValidateToken_SomeD [OF assms(2)] by blast
  with key_for_Some [OF assms(1) *(4)] key_for_cache_ok [OF assms(1) *(4)] show ?thesis by blast
qed


theorem ValidateToken_sound_witness:
  "\<exists>lib env v c v'. cache_ok v \<and> ValidateToken lib env ''Bearer t'' v = (Some c, v') \<and> cache_ok v' \<and>
     (\<exists>tok t key. ''Bearer t'' = ''Bearer '' @ tok \<and> parse_unverified lib tok = Some t \<and>
      sig_valid lib tok key \<and> clock_now env div second \<le> Exp c)"
proof -
  let ?c = "\<lparr>Sub = ''u'', Email = ''e'', Aud = ''a'', Iat = 0, Exp = 10\<rparr>"
  let ?t = "\<lparr>alg = Some ''HS256'', kid = None, signing = HMAC, token_claims = ?c\<rparr>"
  let ?lib = "\<lparr>parse_unverified = \<lambda>s. if s = ''t'' then Some ?t else None,
    sig_valid = \<lambda>s k. k = Secret ''x'', registered_valid = \<lambda>u s. True\<rparr>"
  let ?env = "\<lparr>jwks = None, clock_cache = 0, clock_fetched = 0, clock_parse = 0, clock_now = 5 * second\<rparr>"
  let ?v = "NewValidator ''url'' ''anon'' '''' ''x''"
  have v: "cache_ok ?v" by (simp add: NewValidator_def cache_ok_def)
  have s: "Split CHR '' '' ''Bearer t'' = [''Bearer'', ''t'']" by code_simp
  have r: "ValidateToken ?lib ?env ''Bearer t'' ?v = (Some ?c, ?v)"
    by (simp add: ValidateToken_def s key_for_def NewValidator_def)
  from ValidateToken_sound [OF v r] v r show ?thesis by blast
qed

text \<open>A public key fetched from the endpoint is served from the cache for 24 hours, whatever
  the endpoint answers meanwhile, and without changing the cache.\<close>

theorem getPublicKey_cached:
  assumes "getPublicKey env k v = (Some key, v')" and "\<not> (clock_cache env < keysExpiry v)"
    and "clock_cache env' < clock_fetched env + 24 * hour"
  shows "getPublicKey env' k v' = (Some key, v')"
  using assms by (auto simp: getPublicKey_def Let_def split: option.splits)

theorem getPublicKey_cached_witness:
  "\<exists>v. getPublicKey \<lparr>jwks = None, clock_cache = hour, clock_fetched = hour, clock_parse = 0, clock_now = 0\<rparr>
     ''k'' v = (Some (ECKey 0 0), v)"
proof -
  let ?key = "\<lparr>Kty = ''EC'', Kid = ''k'', Use = '''', key_N = '''', key_E = '''', Crv = ''P-256'',
    key_X = '''', key_Y = ''''\<rparr>"
  let ?e = "\<lparr>jwks = Some [?key], clock_cache = 0, clock_fetched = 0, clock_parse = 0, clock_now = 0\<rparr>"
  let ?v = "NewValidator '''' '''' '''' ''''"
  have d: "decode_raw url_alphabet '''' = Some ''''" by code_simp
  have "\<exists>v'. getPublicKey ?e ''k'' ?v = (Some (ECKey 0 0), v')"
    by (simp add: getPublicKey_def NewValidator_def parseECDSAPublicKeyFromJWKS_def d
        big_endian_def)
  then obtain v' where "getPublicKey ?e ''k'' ?v = (Some (ECKey 0 0), v')" by blast
  then have "getPublicKey \<lparr>jwks = None, clock_cache = hour, clock_fetched = hour, clock_parse = 0, clock_now = 0\<rparr>
      ''k'' v' = (Some (ECKey 0 0), v')"
    by (rule getPublicKey_cached) (simp_all add: NewValidator_def)
  then show ?thesis by blast
qed

subsection \<open>Share tokens\<close>

record share_token =
  st_Token :: string
  st_Hash :: string
  st_ExpiresAt :: go_time

text \<open>\<open>rand_bytes\<close> is what \<open>rand.Read\<close> delivers, \<open>sha256\<close> the digest.\<close>

definition GenerateShareToken ::
  "(string \<Rightarrow> string) \<Rightarrow> string option \<Rightarrow> go_time \<Rightarrow> duration \<Rightarrow> share_token option" where
  "GenerateShareToken sha256 rand_bytes now expiryDuration =
     (case rand_bytes of
        None \<Rightarrow> None
      | Some tokenBytes \<Rightarrow>
          let token = encode_padded url_alphabet tokenBytes;
              hashHex = hex_of (sha256 token)
          in Some \<lparr>st_Token = token, st_Hash = hashHex, st_ExpiresAt = now + expiryDuration\<rparr>)"

definition constantTimeCompare :: "string \<Rightarrow> string \<Rightarrow> bool" where
  "constantTimeCompare a b =
     (if length a \<noteq> length b then False
      else foldl (\<lambda>result i. or result (xor (of_char (a ! i)) (of_char (b ! i)))) (0 :: int)
             (rune_starts 0 a) = 0)"

definition VerifyShareToken ::
  "(string \<Rightarrow> string) \<Rightarrow> go_time \<Rightarrow> string \<Rightarrow> string \<Rightarrow> go_time \<Rightarrow> bool" where
  "VerifyShareToken sha256 now token storedHash expiresAt =
     (if now > expiresAt then False
      else constantTimeCompare (hex_of (sha256 token)) storedHash)"

definition CreateShareLink ::
  "(string \<Rightarrow> string) \<Rightarrow> string option \<Rightarrow> go_time \<Rightarrow> duration \<Rightarrow> share_token option" where
  "CreateShareLink sha256 rand_bytes now tokenExpiry =
     GenerateShareToken sha256 rand_bytes now tokenExpiry"

definition IsTokenValid ::
  "(string \<Rightarrow> string) \<Rightarrow> go_time \<Rightarrow> string \<Rightarrow> string \<Rightarrow> go_time \<Rightarrow> bool" where
  "IsTokenValid sha256 now token storedHash expiresAt =
     (if token = '''' \<or> storedHash = '''' then False
      else VerifyShareToken sha256 now token storedHash expiresAt)"

definition TokenAlmostExpired :: "go_time \<Rightarrow> go_time \<Rightarrow> go_time \<Rightarrow> bool" where
  "TokenAlmostExpired now now' expiresAt \<longleftrightarrow> expiresAt - now < 24 * hour \<and> expiresAt - now' > 0"

lemma or_zero_iff: "or (a :: int) b = 0 \<longleftrightarrow> a = 0 \<and> b = 0"
  by (auto simp: bit_eq_iff bit_or_iff)

lemma or_fold_zero:
  "foldl (\<lambda>r i. or r (f i)) (a :: int) is = 0 \<longleftrightarrow> a = 0 \<and> (\<forall>i\<in>set is. f i = 0)"
  by (induction "is" arbitrary: a) (auto simp: or_zero_iff)

lemma xor_zero_iff: "xor (a :: int) b = 0 \<longleftrightarrow> a = b"
proof
  assume "xor a b = 0"
  then have "xor (xor a b) b = b" by simp
  then show "a = b" by (simp add: xor.assoc)
qed simp

lemma of_char_int_eq: "(of_char c :: int) = of_char d \<longleftrightarrow> c = d"
  by (metis char_of_char)

lemma constantTimeCompare_iff:
  "constantTimeCompare a b \<longleftrightarrow>
     length a = length b \<and> (\<forall>i\<in>set (rune_starts 0 a). a ! i = b ! i)"
  by (simp add: constantTimeCompare_def or_fold_zero xor_zero_iff of_char_int_eq)

lemma constantTimeCompare_ascii: "ascii a \<Longrightarrow> constantTimeCompare a b \<longleftrightarrow> a = b"
  unfolding constantTimeCompare_iff list_eq_iff_nth_eq by (auto simp: rune_starts_ascii)

text \<open>A generated share token verifies until its expiry and no longer, and another token
  verifies against the stored hash only if its digest is the same.\<close>

theorem share_token_verifies:
  assumes "CreateShareLink sha256 (Some r) t ttl = Some st"
  shows "IsTokenValid sha256 now tok (st_Hash st) (st_ExpiresAt st) \<longleftrightarrow>
    tok \<noteq> '''' \<and> st_Hash st \<noteq> '''' \<and> now \<le> t + ttl \<and> hex_of (sha256 tok) = hex_of (sha256 (st_Token st))"
  using assms
  by (auto simp: CreateShareLink_def GenerateShareToken_def IsTokenValid_def VerifyShareToken_def
      Let_def constantTimeCompare_ascii ascii_hex_of)


theorem share_token_verifies_witness:
  "\<exists>st. CreateShareLink (\<lambda>s. s) (Some [CHR 0x00]) 0 hour = Some st \<and>
    IsTokenValid (\<lambda>s. s) hour (st_Token st) (st_Hash st) (st_ExpiresAt st) \<and>
    \<not> IsTokenValid (\<lambda>s. s) (hour + 1) (st_Token st) (st_Hash st) (st_ExpiresAt st)"
proof -
  have e: "encode_padded url_alphabet [CHR 0x00] = ''AA==''" by code_simp
  obtain st where st: "CreateShareLink (\<lambda>s. s) (Some [CHR 0x00]) 0 hour = Some st"
    and t: "st_Token st = ''AA==''" "st_Hash st = hex_of ''AA==''"
    by (auto simp: CreateShareLink_def GenerateShareToken_def e Let_def)
  have h: "hex_of ''AA=='' \<noteq> ''''" by code_simp
  show ?thesis
    using share_token_verifies [OF st] st by (auto simp: t h)
qed

subsection \<open>AES-256-GCM\<close>

text \<open>The cipher: \<open>seal key nonce plain\<close> and \<open>open key nonce cipher\<close>; the nonce has 12 bytes.\<close>

record gcm =
  gcm_seal :: "string \<Rightarrow> string \<Rightarrow> string \<Rightarrow> string"
  gcm_open :: "string \<Rightarrow> string \<Rightarrow> string \<Rightarrow> string option"

definition gcm_correct :: "gcm \<Rightarrow> bool" where
  "gcm_correct g \<longleftrightarrow> (\<forall>k n p. gcm_open g k n (gcm_seal g k n p) = Some p)"

type_synonym encryptor = "string option"

definition NewAESEncryptor :: "string \<Rightarrow> encryptor option" where
  "NewAESEncryptor keyBase64 =
     (if keyBase64 = '''' then Some None
      else case decode_padded std_alphabet keyBase64 of
        None \<Rightarrow> None
      | Some keyBytes \<Rightarrow> if length keyBytes \<noteq> 32 then None else Some (Some keyBytes))"

definition Encrypt :: "gcm \<Rightarrow> string option \<Rightarrow> encryptor \<Rightarrow> string \<Rightarrow> string option" where
  "Encrypt g rand_nonce ae plaintext =
     (case ae of
        None \<Rightarrow> Some plaintext
      | Some key \<Rightarrow>
          (case rand_nonce of
             None \<Rightarrow> None
           | Some nonce \<Rightarrow>
               Some (encode_padded std_alphabet (nonce @ gcm_seal g key nonce plaintext))))"

definition Decrypt :: "gcm \<Rightarrow> encryptor \<Rightarrow> string \<Rightarrow> string option" where
  "Decrypt g ae ciphertext64 =
     (case ae of
        None \<Rightarrow> Some ciphertext64
      | Some key \<Rightarrow>
          (case decode_padded std_alphabet ciphertext64 of
             None \<Rightarrow> None
           | Some ciphertext \<Rightarrow>
               if length ciphertext < 12 then None
               else gcm_open g key (take 12 ciphertext) (drop 12 ciphertext)))"

definition GenerateKey :: "string option \<Rightarrow> string option" where
  "GenerateKey rand_key = map_option (encode_padded std_alphabet) rand_key"

text \<open>Under every key that \<open>GenerateKey\<close> writes and \<open>NewAESEncryptor\<close> reads back, and with
  any nonce, decryption returns what was encrypted.\<close>

theorem encrypt_roundtrip:
  assumes "gcm_correct g" and "length key = 32" and "length nonce = 12"
    and "GenerateKey (Some key) = Some text" and "NewAESEncryptor text = Some ae"
    and "Encrypt g (Some nonce) ae p = Some c"
  shows "ae = Some key \<and> Decrypt g ae c = Some p"
proof -
  have "text = encode_padded std_alphabet key" using assms(4) by (simp add: GenerateKey_def)
  moreover have "encode_padded std_alphabet key \<noteq> ''''"
    using decode_padded_encode [OF good_alphabets(1), of key] assms(2)
    by (auto simp: decode_padded_def decode_values_def skip_breaks_def)
  ultimately have ae: "ae = Some key"
    using assms(2,5) by (simp add: NewAESEncryptor_def decode_padded_encode [OF good_alphabets(1)])
  then have "c = encode_padded std_alphabet (nonce @ gcm_seal g key nonce p)"
    using assms(6) by (simp add: Encrypt_def)
  then show ?thesis
    using ae assms(1,3) by (simp add: Decrypt_def decode_padded_encode [OF good_alphabets(1)] gcm_correct_def)
qed

theorem encrypt_roundtrip_witness:
  "\<exists>c. Encrypt \<lparr>gcm_seal = \<lambda>k n p. rev p, gcm_open = \<lambda>k n c. Some (rev c)\<rparr>
     (Some (replicate 12 CHR 0x01)) (Some (replicate 32 CHR 0x02)) ''secret'' = Some c \<and>
   Decrypt \<lparr>gcm_seal = \<lambda>k n p. rev p, gcm_open = \<lambda>k n c. Some (rev c)\<rparr>
     (Some (replicate 32 CHR 0x02)) c = Some ''secret''"
proof -
  let ?g = "\<lparr>gcm_seal = \<lambda>k n p. rev p, gcm_open = \<lambda>k n c. Some (rev c)\<rparr>"
  let ?k = "replicate 32 CHR 0x02"
  obtain c where c: "Encrypt ?g (Some (replicate 12 CHR 0x01)) (Some ?k) ''secret'' = Some c"
    by (simp add: Encrypt_def)
  have d: "decode_padded std_alphabet (encode_padded std_alphabet ?k) = Some ?k"
    by (rule decode_padded_encode [OF good_alphabets(1)])
  have n: "encode_padded std_alphabet ?k \<noteq> ''''"
    using d by (auto simp: decode_padded_def decode_values_def skip_breaks_def)
  have "NewAESEncryptor (encode_padded std_alphabet ?k) = Some (Some ?k)"
    using d n by (simp add: NewAESEncryptor_def)
  from encrypt_roundtrip [OF _ _ _ _ this c, of ?k] c show ?thesis
    by (auto simp: gcm_correct_def GenerateKey_def)
qed

end
