(* ===== verification/Middleware.thy ===== *)
theory Middleware
  imports RateLimit Auth
begin

text \<open>
  The middleware of \<open>middleware/enterprise.go\<close>, \<open>chain.go\<close>, \<open>metrics.go\<close>, \<open>context.go\<close>,
  \<open>auth.go\<close> and \<open>rbac.go\<close>. Log lines are left out; a wrapper that only records status and size
  for the log is the identity on the response.
\<close>

type_synonym ('b, 's) middleware = "('b, 's) handler \<Rightarrow> ('b, 's) handler"

subsection \<open>Panic recovery\<close>

definition internal_error_body :: payload where
  "internal_error_body = Text ''{\"error\":\"internal server error\"}''"

definition recovered :: "completion \<times> rwriter \<times> 's \<Rightarrow> completion \<times> rwriter \<times> 's" where
  "recovered res =
     (case res of
        (Returned, w, s) \<Rightarrow> (Returned, w, s)
      | (Panicked, w, s) \<Rightarrow>
          respond (write_body internal_error_body
            (write_header 500 (header_set ''Content-Type'' ''application/json'' w))) s)"

definition PanicRecoveryMiddleware :: "('b, 's) middleware" where
  "PanicRecoveryMiddleware next r ws = recovered (next r ws)"

definition RecoveryMiddleware :: "('b, 's) middleware" where
  "RecoveryMiddleware next r ws = recovered (next r ws)"

definition RequestMetricsMiddleware :: "('b, 's) middleware" where
  "RequestMetricsMiddleware next r ws = next r ws"

definition LoggingMiddleware :: "('b, 's) middleware" where
  "LoggingMiddleware next r ws = next r ws"

definition LoggingDetailsMiddleware :: "('b, 's) middleware" where
  "LoggingDetailsMiddleware next r ws = next r ws"

text \<open>It logs the time since \<open>start_time\<close>, asserted to be a time before the handler runs.\<close>

definition ResponseLoggingMiddleware :: "('b, 's) middleware" where
  "ResponseLoggingMiddleware next r ws =
     (case ctx r ''start_time'' of Some (CtxTime t) \<Rightarrow> next r ws | _ \<Rightarrow> (Panicked, ws))"

subsection \<open>Headers and request context\<close>

definition SecurityHeadersMiddleware :: "('b, 's) middleware" where
  "SecurityHeadersMiddleware next r = (\<lambda>(w, s).
     next r
       (header_set ''Permissions-Policy'' ''camera=(), microphone=(), geolocation=()''
       (header_set ''Referrer-Policy'' ''strict-origin-when-cross-origin''
       (header_set ''Content-Security-Policy'' (''default-src '' @ [CHR 0x27] @ ''self'' @ [CHR 0x27] @
          ''; script-src '' @ [CHR 0x27] @ ''self'' @ [CHR 0x27] @ ''; style-src '' @ [CHR 0x27] @ ''self'' @
          [CHR 0x27] @ '' '' @ [CHR 0x27] @ ''unsafe-inline'' @ [CHR 0x27] @ ''; img-src '' @ [CHR 0x27] @
          ''self'' @ [CHR 0x27] @ '' https:; font-src '' @ [CHR 0x27] @ ''self'' @ [CHR 0x27])
       (header_set ''Strict-Transport-Security'' ''max-age=31536000; includeSubDomains; preload''
       (header_set ''X-XSS-Protection'' ''1; mode=block''
       (header_set ''X-Frame-Options'' ''DENY''
       (header_set ''X-Content-Type-Options'' ''nosniff'' w)))))), s))"

definition ChainSecurityHeadersMiddleware :: "('b, 's) middleware" where
  "ChainSecurityHeadersMiddleware next r = (\<lambda>(w, s).
     next r
       (header_set ''Permissions-Policy'' ''geolocation=(), microphone=(), camera=()''
       (header_set ''Referrer-Policy'' ''strict-origin-when-cross-origin''
       (header_set ''Content-Security-Policy'' (''default-src '' @ [CHR 0x27] @ ''self'' @ [CHR 0x27] @
          ''; script-src '' @ [CHR 0x27] @ ''self'' @ [CHR 0x27] @ ''; style-src '' @ [CHR 0x27] @ ''self'' @
          [CHR 0x27] @ '' '' @ [CHR 0x27] @ ''unsafe-inline'' @ [CHR 0x27])
       (header_set ''X-XSS-Protection'' ''1; mode=block''
       (header_set ''X-Content-Type-Options'' ''nosniff''
       (header_set ''X-Frame-Options'' ''DENY'' w))))), s))"

definition RequestContextMiddleware :: "go_time \<Rightarrow> go_time \<Rightarrow> ('b, 's) middleware" where
  "RequestContextMiddleware now now' next r ws =
     (let h = req_hdr r ''X-Request-ID'';
          requestID = (if h = '''' then ''req_'' @ Itoa now else h)
      in next (with_value ''start_time'' (CtxTime now') (with_value ''request_id'' (CtxStr requestID) r)) ws)"

definition getClientIP :: "'b request \<Rightarrow> string" where
  "getClientIP r =
     (let forwarded = req_hdr r ''X-Forwarded-For''; realIP = req_hdr r ''X-Real-IP''
      in if forwarded \<noteq> '''' then TrimSpace (hd (Split CHR '','' forwarded))
         else if realIP \<noteq> '''' then realIP
         else case split_host (remote_addr r) of Some host \<Rightarrow> host | None \<Rightarrow> remote_addr r)"

definition getIPAddress :: "'b request \<Rightarrow> string" where
  "getIPAddress r =
     (let forwardedFor = req_hdr r ''X-Forwarded-For''; realIP = req_hdr r ''X-Real-IP'';
          ip = hd (Split CHR '':'' (remote_addr r))
      in if forwardedFor \<noteq> '''' then TrimSpace (hd (Split CHR '','' forwardedFor))
         else if realIP \<noteq> '''' then realIP
         else if ip \<noteq> '''' then ip
         else ''unknown'')"

text \<open>\<open>new_id\<close> is the UUID that \<open>generateRequestID\<close> draws.\<close>

definition ContextMiddleware :: "string \<Rightarrow> ('b, 's) middleware" where
  "ContextMiddleware new_id next r = (\<lambda>(w, s).
     (let h = req_hdr r ''X-Request-ID'';
          requestID = (if h = '''' then new_id else h);
          ipAddress = getIPAddress r;
          userAgent = req_hdr r ''User-Agent'';
          userID = (case ctx_string ''user_id'' r of Some u \<Rightarrow> u | None \<Rightarrow> '''');
          reqCtx = \<lparr>rc_RequestID = requestID, rc_UserID = userID, rc_IPAddress = ipAddress,
                    rc_UserAgent = userAgent, rc_Method = meth r, rc_Path = path r, rc_StatusCode = 0\<rparr>
      in next (with_value ''ip_address'' (CtxStr ipAddress) (with_value ''request_id'' (CtxStr requestID)
           (with_value ''request_context'' (CtxReq reqCtx) r)))
           (header_set ''X-Request-ID'' requestID w, s)))"

definition GetRequestContext :: "'b request \<Rightarrow> request_context" where
  "GetRequestContext r =
     (case ctx r ''request_context'' of
        Some (CtxReq rc) \<Rightarrow> rc
      | _ \<Rightarrow> \<lparr>rc_RequestID = '''', rc_UserID = '''', rc_IPAddress = '''', rc_UserAgent = '''',
              rc_Method = '''', rc_Path = '''', rc_StatusCode = 0\<rparr>)"

subsection \<open>Chain and gzip\<close>

text \<open>The loop of \<open>Chain\<close> runs from the last middleware to the first.\<close>

fun chain_from :: "nat \<Rightarrow> ('b, 's) middleware list \<Rightarrow> ('b, 's) handler \<Rightarrow> ('b, 's) handler" where
  "chain_from 0 mws h = h"
| "chain_from (Suc i) mws h = chain_from i mws ((mws ! i) h)"

definition Chain :: "('b, 's) handler \<Rightarrow> ('b, 's) middleware list \<Rightarrow> ('b, 's) handler" where
  "Chain h mws = chain_from (length mws) mws h"

lemma chain_from_take:
  "i \<le> length mws \<Longrightarrow> chain_from i mws h = foldr (\<lambda>m h. m h) (take i mws) h"
  by (induction i arbitrary: h) (simp_all add: take_Suc_conv_app_nth)

lemma Chain_foldr: "Chain h mws = foldr (\<lambda>m h. m h) mws h"
  by (simp add: Chain_def chain_from_take)

definition acceptsGzip :: "string \<Rightarrow> bool" where
  "acceptsGzip acceptEncoding =
     (if acceptEncoding = '''' then False
      else list_ex (\<lambda>encoding. TrimSpace (hd (Split CHR '';'' encoding)) = ''gzip'')
             (Split CHR '','' acceptEncoding))"

text \<open>\<open>defer gzWriter.Close()\<close>: the gzip stream, which has a header and a footer even when it is
  empty, goes to the writer below; a writer without a status gets 200 first.\<close>

definition gzip_close :: "rwriter \<Rightarrow> rwriter" where
  "gzip_close w =
     (case gz w of
        None \<Rightarrow> w
      | Some buf \<Rightarrow> write_body (Gzip buf) (w\<lparr>gz := None\<rparr>))"

definition header_add :: "string \<Rightarrow> string \<Rightarrow> rwriter \<Rightarrow> rwriter" where
  "header_add k v w =
     (case hdrs w k of None \<Rightarrow> header_set k v w | Some u \<Rightarrow> header_set k (u @ '', '' @ v) w)"

definition GzipMiddleware :: "('b, 's) middleware" where
  "GzipMiddleware next r = (\<lambda>(w, s).
     (if \<not> acceptsGzip (req_hdr r ''Accept-Encoding'') \<or> meth r = ''HEAD'' \<or>
         req_hdr r ''Upgrade'' \<noteq> '''' then next r (w, s)
      else case next r ((header_add ''Vary'' ''Accept-Encoding'' w)\<lparr>gz := Some []\<rparr>, s) of
             (c, w', s') \<Rightarrow> (c, gzip_close w', s')))"

definition isOriginAllowed :: "string \<Rightarrow> string list \<Rightarrow> bool" where
  "isOriginAllowed origin allowed =
     (if allowed = [] then False else list_ex (\<lambda>o'. o' = ''*'' \<or> o' = origin) allowed)"

definition ChainCORSMiddleware :: "string list \<Rightarrow> ('b, 's) middleware" where
  "ChainCORSMiddleware allowedOrigins next r = (\<lambda>(w, s).
     (let origin = req_hdr r ''Origin'';
          w' = (if isOriginAllowed origin allowedOrigins then
                  header_set ''Access-Control-Max-Age'' ''3600''
                    (header_set ''Access-Control-Allow-Headers'' ''Content-Type, Authorization''
                    (header_set ''Access-Control-Allow-Methods'' ''GET, POST, PUT, DELETE, PATCH, OPTIONS''
                    (header_set ''Access-Control-Allow-Origin'' origin w)))
                else w)
      in if meth r = ''OPTIONS'' then respond (write_header 204 w') s else next r (w', s)))"

definition CORSMiddleware :: "string list \<Rightarrow> ('b, 's) middleware" where
  "CORSMiddleware allowedOrigins next r = (\<lambda>(w, s).
     (let origin = req_hdr r ''Origin'';
          allowed = list_ex (\<lambda>allowedOrigin. origin = allowedOrigin) allowedOrigins;
          w' = (if allowed then
                  header_set ''Access-Control-Max-Age'' ''3600''
                    (header_set ''Access-Control-Allow-Credentials'' ''true''
                    (header_set ''Access-Control-Allow-Headers'' ''Content-Type, Authorization''
                    (header_set ''Access-Control-Allow-Methods'' ''GET, POST, PUT, DELETE, OPTIONS''
                    (header_set ''Access-Control-Allow-Origin'' origin w))))
                else w)
      in if meth r = ''OPTIONS'' then respond (write_header 204 w') s else next r (w', s)))"

definition DefaultMiddlewareStack :: "string \<Rightarrow> ('b, 's) middleware list" where
  "DefaultMiddlewareStack new_id =
     [RecoveryMiddleware, ContextMiddleware new_id, RequestMetricsMiddleware,
      ChainSecurityHeadersMiddleware]"

definition APIMiddlewareStack :: "string \<Rightarrow> ('b, 's) middleware list" where
  "APIMiddlewareStack new_id =
     [RecoveryMiddleware, ContextMiddleware new_id, RequestMetricsMiddleware,
      ChainSecurityHeadersMiddleware, GzipMiddleware]"

subsection \<open>Time-outs\<close>

text \<open>Which of the two channels the \<open>select\<close> sees first is an argument. On a time-out the handler
  goroutine goes on with the same writer; \<open>late\<close> is what it has done by then.\<close>

datatype timeout_event = Done | Expired

definition TimeoutMiddleware ::
  "timeout_event \<Rightarrow> ('b request \<Rightarrow> rwriter \<times> 's \<Rightarrow> rwriter \<times> 's) \<Rightarrow> ('b, 's) middleware" where
  "TimeoutMiddleware ev late next r ws =
     (case ev of
        Done \<Rightarrow> next r ws
      | Expired \<Rightarrow> (case late r ws of (w, s) \<Rightarrow> respond (http_error ''request timeout'' 408 w) s))"

subsection \<open>The circuit breaker\<close>

datatype breaker_state = StateClosed | StateOpen | StateHalf

record breaker =
  cb_state :: breaker_state
  failureCount :: int
  successCount :: int
  failureThreshold :: int
  successThreshold :: int
  cb_timeout :: duration
  lastFailureTime :: go_time

definition NewCircuitBreaker :: "int \<Rightarrow> int \<Rightarrow> duration \<Rightarrow> breaker" where
  "NewCircuitBreaker ft st t =
     \<lparr>cb_state = StateClosed, failureCount = 0, successCount = 0, failureThreshold = ft,
      successThreshold = st, cb_timeout = t, lastFailureTime = 0\<rparr>"

datatype 'e fn_result = FnOk | FnErr 'e | FnPanic
datatype 'e call_result = CallOk | CallErr 'e | BreakerOpen | Tripped 'e | CallPanic

text \<open>The lock is held over the whole call. \<open>now\<close> is the clock at the check, \<open>now'\<close> the clock after
  a failure. A panic of \<open>fn\<close> leaves through the deferred unlock.\<close>

definition breaker_after :: "'e fn_result \<Rightarrow> go_time \<Rightarrow> breaker \<Rightarrow> 'e call_result \<times> breaker" where
  "breaker_after res now' cb =
     (case res of
        FnPanic \<Rightarrow> (CallPanic, cb)
      | FnOk \<Rightarrow>
          (CallOk,
           if cb_state cb = StateHalf then
             let cb = cb\<lparr>successCount := successCount cb + 1\<rparr>
             in if successCount cb \<ge> successThreshold cb
                then cb\<lparr>cb_state := StateClosed, failureCount := 0\<rparr> else cb
           else if cb_state cb = StateClosed then cb\<lparr>failureCount := 0\<rparr>
           else cb)
      | FnErr e \<Rightarrow>
          let cb = cb\<lparr>failureCount := failureCount cb + 1, lastFailureTime := now'\<rparr>
          in if failureCount cb \<ge> failureThreshold cb
             then (Tripped e, cb\<lparr>cb_state := StateOpen\<rparr>) else (CallErr e, cb))"

definition breaker_admit :: "go_time \<Rightarrow> breaker \<Rightarrow> breaker option" where
  "breaker_admit now cb =
     (if cb_state cb = StateOpen then
        if now - lastFailureTime cb > cb_timeout cb
        then Some (cb\<lparr>cb_state := StateHalf, successCount := 0\<rparr>) else None
      else Some cb)"

definition Call ::
  "('s \<Rightarrow> 'e fn_result \<times> 's) \<Rightarrow> go_time \<Rightarrow> go_time \<Rightarrow> breaker \<times> 's \<Rightarrow> 'e call_result \<times> breaker \<times> 's"
  where
  "Call fn now now' = (\<lambda>(cb, s).
     case breaker_admit now cb of
       None \<Rightarrow> (BreakerOpen, cb, s)
     | Some cb' \<Rightarrow>
         (case fn s of (res, s') \<Rightarrow>
          case breaker_after res now' cb' of (r, cb'') \<Rightarrow> (r, cb'', s')))"

text \<open>The breaker as a state machine over calls of any functions.\<close>

inductive breaker_step :: "breaker \<times> 's \<Rightarrow> string call_result \<Rightarrow> breaker \<times> 's \<Rightarrow> bool" where
  "Call fn now now' (cb, s) = (r, cb', s') \<Longrightarrow> breaker_step (cb, s) r (cb', s')"

inductive breaker_reachable :: "int \<Rightarrow> int \<Rightarrow> duration \<Rightarrow> 's \<Rightarrow> breaker \<times> 's \<Rightarrow> bool" for ft st t s0 where
  start: "breaker_reachable ft st t s0 (NewCircuitBreaker ft st t, s0)"
| step: "breaker_reachable ft st t s0 c \<Longrightarrow> breaker_step c r c' \<Longrightarrow> breaker_reachable ft st t s0 c'"

inductive_cases breaker_stepE: "breaker_step c r c'"

lemma Call_cases:
  assumes "Call fn now now' (cb, s) = (r, cb', s')"
  obtains (rejected) "breaker_admit now cb = None" "r = BreakerOpen" "cb' = cb" "s' = s"
  | (ran) cb1 res where "breaker_admit now cb = Some cb1" "fn s = (res, s')"
      "breaker_after res now' cb1 = (r, cb')"
  using assms by (auto simp: Call_def split: option.splits prod.splits)

text \<open>The invariant, and what is fixed for the life of a breaker.\<close>

definition breaker_inv :: "int \<Rightarrow> int \<Rightarrow> duration \<Rightarrow> breaker \<Rightarrow> bool" where
  "breaker_inv ft st t cb \<longleftrightarrow>
     failureThreshold cb = ft \<and> successThreshold cb = st \<and> cb_timeout cb = t \<and>
     0 \<le> failureCount cb \<and> 0 \<le> successCount cb \<and>
     (cb_state cb = StateClosed \<longleftrightarrow> failureCount cb < ft) \<and>
     (cb_state cb = StateHalf \<longrightarrow> successCount cb < st \<or> successCount cb = 0)"

lemma breaker_inv_new: "0 < ft \<Longrightarrow> breaker_inv ft st t (NewCircuitBreaker ft st t)"
  by (simp add: breaker_inv_def NewCircuitBreaker_def)

lemma breaker_admit_inv [inv_intros]:
  "breaker_inv ft st t cb \<Longrightarrow> breaker_admit now cb = Some cb' \<Longrightarrow>
   breaker_inv ft st t cb' \<and> cb_state cb' \<noteq> StateOpen"
  by (cases "cb_state cb") (auto simp: breaker_inv_def breaker_admit_def split: if_splits)

lemma breaker_after_inv [inv_intros]:
  "0 < ft \<Longrightarrow> breaker_inv ft st t cb \<Longrightarrow> cb_state cb \<noteq> StateOpen \<Longrightarrow>
   breaker_after res now' cb = (r, cb') \<Longrightarrow> breaker_inv ft st t cb'"
  by (cases "cb_state cb"; cases res)
     (auto simp: breaker_inv_def breaker_after_def Let_def split: if_splits)

text \<open>C17: in every state a breaker reaches, with a positive failure threshold, it is closed exactly
  while its failure count is below the threshold; so one failure of a half-open breaker opens it
  again, since the count is kept over the time-out.\<close>

theorem breaker_reachable_inv:
  assumes "breaker_reachable ft st t s0 c" and "0 < ft"
  shows "breaker_inv ft st t (fst c)"
  using assms
proof (induction rule: breaker_reachable.induct)
  case start
  then show ?case by (simp add: breaker_inv_new)
next
  case (step c r c')
  from step.hyps(2) obtain fn now now' cb s cb' s' where
    c: "c = (cb, s)" "c' = (cb', s')" and call: "Call fn now now' (cb, s) = (r, cb', s')"
    by (elim breaker_stepE) blast
  from call show ?case
    using c step.IH [OF step.prems] step.prems
    by (cases rule: Call_cases) (auto dest: breaker_admit_inv breaker_after_inv)
qed


theorem breaker_reachable_inv_witness:
  "breaker_inv 1 1 minute
     (fst (snd (Call (\<lambda>s. (FnErr ''e'', s)) 5 6 (NewCircuitBreaker 1 1 minute, 0 :: nat))))"
proof (rule breaker_reachable_inv [of 1 1 minute "0 :: nat"])
  obtain r cb' s' where c: "Call (\<lambda>s. (FnErr ''e'', s)) 5 6 (NewCircuitBreaker 1 1 minute, 0 :: nat) =
      (r, cb', s')"
    by (metis prod_cases3)
  from breaker_reachable.step [OF breaker_reachable.start breaker_step.intros [OF c]]
  show "breaker_reachable 1 1 minute (0 :: nat)
     (snd (Call (\<lambda>s. (FnErr ''e'', s)) 5 6 (NewCircuitBreaker 1 1 minute, 0)))"
    by (simp add: c)
qed simp

text \<open>A sequence of calls, each with the result of its function and its two clock readings.\<close>

fun run_calls :: "('e fn_result \<times> go_time \<times> go_time) list \<Rightarrow> breaker \<Rightarrow> 'e call_result list \<times> breaker"
  where
  "run_calls [] cb = ([], cb)"
| "run_calls ((res, t, t') # cs) cb =
     (case Call (\<lambda>s. (res, s)) t t' (cb, ()) of
        (r, cb', _) \<Rightarrow> (case run_calls cs cb' of (rs, cb'') \<Rightarrow> (r # rs, cb'')))"

lemma half_open_successes:
  "cb_state cb = StateHalf \<Longrightarrow> successCount cb + int (length ts) \<le> successThreshold cb \<Longrightarrow>
   0 < length ts \<Longrightarrow>
   run_calls (map (\<lambda>(t, t'). (FnOk :: 'e fn_result, t, t')) ts) cb =
     (replicate (length ts) CallOk,
      if successCount cb + int (length ts) = successThreshold cb
      then cb\<lparr>cb_state := StateClosed, failureCount := 0, successCount := successThreshold cb\<rparr>
      else cb\<lparr>successCount := successCount cb + int (length ts)\<rparr>)"
proof (induction ts arbitrary: cb)
  case Nil
  then show ?case by simp
next
  case (Cons p ts)
  obtain t t' where p: "p = (t, t')" by force
  show ?case
  proof (cases ts)
    case Nil
    with Cons.prems p show ?thesis
      by (simp add: Call_def breaker_admit_def breaker_after_def Let_def)
  next
    case (Cons q qs)
    let ?cb = "cb\<lparr>successCount := successCount cb + 1\<rparr>"
    have "Call (\<lambda>s. (FnOk :: 'e fn_result, s)) t t' (cb, ()) = (CallOk, ?cb, ())"
      using Cons.prems Cons by (simp add: Call_def breaker_admit_def breaker_after_def Let_def)
    with Cons.IH [of ?cb] Cons.prems Cons p show ?thesis by (auto simp: algebra_simps)
  qed
qed

text \<open>An open breaker refuses every call until its time-out has passed since the last failure,
  without running the function; then \<open>successThreshold\<close> successes in a row close it and clear the
  failure count, and one failure before that opens it again.\<close>

theorem breaker_recovery:
  fixes fn :: "'s \<Rightarrow> 'e fn_result \<times> 's" and ts :: "(go_time \<times> go_time) list"
  assumes inv: "breaker_inv ft st t cb" and op: "cb_state cb = StateOpen" and st: "int (Suc (length ts)) = st"
  shows "if now - lastFailureTime cb \<le> t then Call fn now now' (cb, s) = (BreakerOpen, cb, s)
    else let calls = run_calls (map (\<lambda>(t, t'). (FnOk :: 'e fn_result, t, t')) ((now, now') # ts)) cb in
         fst calls = replicate (length ts + 1) CallOk \<and> cb_state (snd calls) = StateClosed \<and>
         failureCount (snd calls) = 0 \<and>
         (\<forall>e s'. fn s = (FnErr e, s') \<longrightarrow> (\<exists>cb'. Call fn now now' (cb, s) = (Tripped e, cb', s') \<and>
            cb_state cb' = StateOpen \<and> lastFailureTime cb' = now'))"
proof (cases "now - lastFailureTime cb \<le> t")
  case True
  then show ?thesis using inv op by (simp add: Call_def breaker_admit_def breaker_inv_def)
next
  case False
  let ?half = "cb\<lparr>cb_state := StateHalf, successCount := 0\<rparr>"
  have half: "breaker_admit now cb = Some ?half"
    using False inv op by (simp add: breaker_admit_def breaker_inv_def)
  define calls where
    "calls = run_calls (map (\<lambda>(t, t'). (FnOk :: 'e fn_result, t, t')) ((now, now') # ts)) cb"
  have "calls = run_calls (map (\<lambda>(t, t'). (FnOk :: 'e fn_result, t, t')) ((now, now') # ts)) ?half"
    unfolding calls_def by (simp add: Call_def half) (simp add: breaker_admit_def)
  also have "\<dots> = (replicate (length ts + 1) CallOk,
      ?half\<lparr>cb_state := StateClosed, failureCount := 0, successCount := successThreshold cb\<rparr>)"
    using half_open_successes [of ?half "(now, now') # ts"] inv st by (simp add: breaker_inv_def)
  finally have c: "fst calls = replicate (length ts + 1) CallOk" "cb_state (snd calls) = StateClosed"
    "failureCount (snd calls) = 0" by simp_all
  have e: "\<exists>cb'. Call fn now now' (cb, s) = (Tripped e, cb', s') \<and>
      cb_state cb' = StateOpen \<and> lastFailureTime cb' = now'" if "fn s = (FnErr e, s')" for e s'
    using that half inv op by (auto simp: Call_def breaker_after_def Let_def breaker_inv_def)
  from False c e show ?thesis unfolding calls_def Let_def by simp
qed


theorem breaker_recovery_witness:
  "Call (\<lambda>s. (FnErr ''e'', s)) 10 11
     (\<lparr>cb_state = StateOpen, failureCount = 2, successCount = 0, failureThreshold = 2,
       successThreshold = 1, cb_timeout = 60, lastFailureTime = 0\<rparr>, 7 :: nat) =
   (BreakerOpen, \<lparr>cb_state = StateOpen, failureCount = 2, successCount = 0, failureThreshold = 2,
       successThreshold = 1, cb_timeout = 60, lastFailureTime = 0\<rparr>, 7)"
  using breaker_recovery [of 2 1 60 "\<lparr>cb_state = StateOpen, failureCount = 2, successCount = 0,
      failureThreshold = 2, successThreshold = 1, cb_timeout = 60, lastFailureTime = 0\<rparr>" "[]" 10
      "\<lambda>s. (FnErr ''e'', s)" 11 "7 :: nat"]
  by (simp add: breaker_inv_def)

subsection \<open>Authentication\<close>

text \<open>\<open>middleware/auth.go\<close>: the validator is part of the server state, for its key cache.\<close>

definition AuthMiddleware :: "jwt_lib \<Rightarrow> auth_env \<Rightarrow> ('b, validator \<times> 's) middleware" where
  "AuthMiddleware lib env next r = (\<lambda>(w, v, s).
     (let authHeader = req_hdr r ''Authorization'';
          parts = Split CHR '' '' authHeader
      in if authHeader = '''' then respond (http_error ''missing authorization header'' 401 w) (v, s)
         else if length parts \<noteq> 2 \<or> parts ! 0 \<noteq> ''Bearer'' then
           respond (http_error ''invalid authorization header'' 401 w) (v, s)
         else let token = parts ! 1
           in case ValidateToken lib env authHeader v of
                (None, v') \<Rightarrow> respond (http_error ''invalid token'' 401 w) (v', s)
              | (Some c, v') \<Rightarrow>
                  next (with_value ''token'' (CtxStr token) (with_value ''user_email'' (CtxStr (Email c))
                    (with_value ''user_id'' (CtxStr (Sub c)) r))) (w, v', s)))"

text \<open>The loop redacts in place, so a part that was just redacted is looked at again.\<close>

fun redact_from :: "nat \<Rightarrow> nat \<Rightarrow> string list \<Rightarrow> string list" where
  "redact_from 0 index parts = parts"
| "redact_from (Suc n) index parts =
     (let part = parts ! index
      in redact_from n (Suc index)
           (if part \<noteq> '''' \<and> (part = ''share'' \<or> part = ''shares'' \<or> part = ''token'') \<and>
               index + 1 < length parts \<and> parts ! (index + 1) \<noteq> ''''
            then parts[index + 1 := ''[REDACTED]''] else parts))"

definition sanitizePathForLogs :: "string \<Rightarrow> string" where
  "sanitizePathForLogs p =
     (if p = '''' then p
      else let parts = Split CHR ''/'' p
        in Join CHR ''/'' (redact_from (length parts) 0 parts))"

subsection \<open>Roles\<close>

definition hierarchy :: "string \<rightharpoonup> int" where
  "hierarchy = [''viewer'' \<mapsto> 0, ''commenter'' \<mapsto> 1, ''editor'' \<mapsto> 2, ''collaborator'' \<mapsto> 2,
    ''owner'' \<mapsto> 3]"

definition checkRoleAccess :: "string \<Rightarrow> string \<Rightarrow> bool" where
  "checkRoleAccess userRole requiredRole =
     (case (hierarchy userRole, hierarchy requiredRole) of
        (Some userLevel, Some requiredLevel) \<Rightarrow> userLevel \<ge> requiredLevel
      | _ \<Rightarrow> False)"

text \<open>\<open>get_role\<close> is \<open>db.GetUserRoleOptimized\<close>: project, user and database state to a role, or
  \<open>None\<close> on an error.\<close>

definition RBACMiddleware ::
  "(string \<Rightarrow> string \<Rightarrow> 's \<Rightarrow> string option) \<Rightarrow> ('b, 's) middleware" where
  "RBACMiddleware get_role next r = (\<lambda>(w, s).
     (case ctx_string ''user_id'' r of
        None \<Rightarrow> respond (http_error ''unauthorized'' 401 w) s
      | Some userID \<Rightarrow>
          let projectID = path_value r ''project_id''
          in if userID = '''' then respond (http_error ''unauthorized'' 401 w) s
             else if projectID = '''' then respond (http_error ''missing project_id'' 400 w) s
             else case get_role projectID userID s of
                 None \<Rightarrow> respond (http_error ''internal server error'' 500 w) s
               | Some role \<Rightarrow>
                   if role = ''denied'' then respond (http_error ''access denied'' 403 w) s
                   else next (with_value ''project_id'' (CtxStr projectID)
                          (with_value ''user_role'' (CtxStr role) r)) (w, s)))"

definition EnforceRole :: "string \<Rightarrow> ('b, 's) middleware" where
  "EnforceRole requiredRole next r = (\<lambda>(w, s).
     (case ctx_string ''user_role'' r of
        None \<Rightarrow> respond (http_error ''permission denied'' 403 w) s
      | Some userRole \<Rightarrow>
          if userRole = '''' then respond (http_error ''permission denied'' 403 w) s
          else if \<not> checkRoleAccess userRole requiredRole then
            respond (http_error ''insufficient permissions'' 403 w) s
          else next r (w, s)))"

definition EnforceOwnership :: "('b, 's) middleware" where
  "EnforceOwnership next r = (\<lambda>(w, s).
     (if ctx_string ''user_role'' r \<noteq> Some ''owner'' then
        respond (http_error ''only project owner can perform this action'' 403 w) s
      else next r (w, s)))"

definition EnforceModificationAccess :: "('b, 's) middleware" where
  "EnforceModificationAccess next r = (\<lambda>(w, s).
     (case ctx_string ''user_role'' r of
        None \<Rightarrow> respond (http_error ''permission denied'' 403 w) s
      | Some role \<Rightarrow>
          if \<not> checkRoleAccess role ''editor'' then
            respond (http_error ''insufficient permissions to modify content'' 403 w) s
          else next r (w, s)))"


subsection \<open>What the guards let through\<close>

lemma ctx_with_value [simp]:
  "ctx (with_value k v r) = (ctx r)(k \<mapsto> v)"
  "path_value (with_value k v r) = path_value r"
  "req_hdr (with_value k v r) = req_hdr r"
  "req_body (with_value k v r) = req_body r"
  by (simp_all add: with_value_def)

lemma ctx_string_with_value [simp]:
  "ctx_string k (with_value k (CtxStr s) r) = Some s"
  "k \<noteq> k' \<Longrightarrow> ctx_string k (with_value k' v r) = ctx_string k r"
  by (simp_all add: ctx_string_def with_value_def)

lemma Split_Nil_eq [simp]: "Split c '''' = ['''']" by simp

text \<open>C6: a protected handler runs exactly when the validator accepts the authorization header, and
  then sees the subject of the token as its user, whatever was in the context before; otherwise the
  answer is 401 and the state of the server behind it is untouched.\<close>

theorem AuthMiddleware_guards:
  assumes "wrote w = None"
  shows "case ValidateToken lib env (req_hdr r ''Authorization'') v of
      (Some c, v') \<Rightarrow> (\<exists>r'. AuthMiddleware lib env next r (w, v, s) = next r' (w, v', s) \<and>
        ctx_string ''user_id'' r' = Some (Sub c) \<and> req_body r' = req_body r \<and> path_value r' = path_value r)
    | (None, v') \<Rightarrow> (\<exists>w'. AuthMiddleware lib env next r (w, v, s) = (Returned, w', v', s) \<and>
        wrote w' = Some 401)"
proof (cases "length (Split CHR '' '' (req_hdr r ''Authorization'')) = 2 \<and>
    Split CHR '' '' (req_hdr r ''Authorization'') ! 0 = ''Bearer''")
  case False
  with assms show ?thesis
    by (auto simp: ValidateToken_def AuthMiddleware_def respond_def Let_def)
next
  case True
  then have "req_hdr r ''Authorization'' \<noteq> ''''" by auto
  then have "AuthMiddleware lib env next r (w, v, s) =
      (case ValidateToken lib env (req_hdr r ''Authorization'') v of
         (None, v') \<Rightarrow> respond (http_error ''invalid token'' 401 w) (v', s)
       | (Some c, v') \<Rightarrow>
           next (with_value ''token'' (CtxStr (Split CHR '' '' (req_hdr r ''Authorization'') ! Suc 0))
             (with_value ''user_email'' (CtxStr (Email c)) (with_value ''user_id'' (CtxStr (Sub c)) r)))
             (w, v', s))"
    using True by (simp add: AuthMiddleware_def Let_def)
  note A = this
  obtain res v' where V: "ValidateToken lib env (req_hdr r ''Authorization'') v = (res, v')" by force
  show ?thesis
  proof (cases res)
    case None
    with A V assms show ?thesis by (simp add: respond_def)
  next
    case (Some c)
    show ?thesis
      unfolding A V Some by (simp, rule exI, rule conjI, rule refl) simp
  qed
qed


lemma modification_roles:
  "checkRoleAccess role ''editor'' \<longleftrightarrow> role \<in> {''owner'', ''editor'', ''collaborator''}"
  by (auto simp: checkRoleAccess_def hierarchy_def split: option.splits if_splits)


definition sample_request :: "unit request" where
  "sample_request = \<lparr>meth = ''GET'', path = ''/projects/p'', remote_addr = ''1.2.3.4:5'',
     req_hdr = \<lambda>_. '''', query = \<lambda>_. '''', path_value = \<lambda>k. if k = ''project_id'' then ''p'' else '''',
     ctx = Map.empty, req_body = None\<rparr>"

definition sample_lib :: jwt_lib where
  "sample_lib = \<lparr>parse_unverified = \<lambda>s. if s = ''t'' then Some \<lparr>alg = Some ''HS256'', kid = None,
       signing = HMAC, token_claims = \<lparr>Sub = ''u'', Email = ''e'', Aud = ''a'', Iat = 0, Exp = 10\<rparr>\<rparr> else None,
     sig_valid = \<lambda>s k. k = Secret ''x'', registered_valid = \<lambda>u s. True\<rparr>"

definition sample_auth :: auth_env where
  "sample_auth = \<lparr>jwks = None, clock_cache = 0, clock_fetched = 0, clock_parse = 0, clock_now = 5 * second\<rparr>"

definition sample_validator :: validator where
  "sample_validator = NewValidator ''url'' ''anon'' ''a'' ''x''"

theorem AuthMiddleware_guards_witness:
  "\<exists>r' :: unit request. AuthMiddleware sample_lib sample_auth (\<lambda>r ws. (Returned, ws))
      (sample_request\<lparr>req_hdr := \<lambda>_. ''Bearer t''\<rparr>) (new_writer, sample_validator, 0 :: nat) =
    (Returned, new_writer, sample_validator, 0) \<and>
    ctx_string ''user_id'' r' = Some ''u'' \<and> path_value r' = path_value sample_request"
proof -
  let ?r = "sample_request\<lparr>req_hdr := \<lambda>_. ''Bearer t''\<rparr>"
  have s: "Split CHR '' '' ''Bearer t'' = [''Bearer'', ''t'']" by code_simp
  have v: "ValidateToken sample_lib sample_auth ''Bearer t'' sample_validator =
      (Some \<lparr>Sub = ''u'', Email = ''e'', Aud = ''a'', Iat = 0, Exp = 10\<rparr>, sample_validator)"
    by (simp add: ValidateToken_def s key_for_def NewValidator_def sample_lib_def sample_auth_def sample_validator_def)
  have w: "wrote new_writer = None" by simp
  show ?thesis
    using AuthMiddleware_guards [OF w, of sample_lib sample_auth "\<lambda>r ws. (Returned, ws)" ?r sample_validator "0 :: nat"] v
    by (auto simp: sample_request_def)
qed


subsection \<open>Redaction\<close>

definition secret_key :: "string \<Rightarrow> bool" where
  "secret_key p \<longleftrightarrow> p = ''share'' \<or> p = ''shares'' \<or> p = ''token''"

text \<open>The loop as a recursion on the list of parts.\<close>

fun redacted :: "string list \<Rightarrow> string list" where
  "redacted (p # q # rest) =
     p # redacted ((if secret_key p \<and> q \<noteq> '''' then ''[REDACTED]'' else q) # rest)"
| "redacted ps = ps"

lemma length_redacted [simp]: "length (redacted ps) = length ps"
  by (induction ps rule: redacted.induct) auto

lemma redact_from_redacted:
  "length xs = i \<Longrightarrow> n = length ys \<Longrightarrow> redact_from n i (xs @ ys) = xs @ redacted ys"
proof (induction ys arbitrary: xs i n rule: redacted.induct)
  case (1 p q rest)
  let ?q = "if secret_key p \<and> q \<noteq> '''' then ''[REDACTED]'' else q"
  have "redact_from (Suc (Suc (length rest))) i (xs @ p # q # rest) =
      redact_from (Suc (length rest)) (Suc i) ((xs @ [p]) @ ?q # rest)"
    using 1(2) by (auto simp: Let_def nth_append secret_key_def list_update_append)
  also have "\<dots> = (xs @ [p]) @ redacted (?q # rest)"
    using 1(1) [of "xs @ [p]" "Suc i" "Suc (length rest)"] 1(2) by auto
  finally show ?case using 1(3) by simp
qed (auto simp: Let_def nth_append)

lemma sanitize_redacted:
  "sanitizePathForLogs p = Join CHR ''/'' (redacted (Split CHR ''/'' p))"
  using redact_from_redacted [of "[]" 0 "length (Split CHR ''/'' p)" "Split CHR ''/'' p"]
  by (simp add: sanitizePathForLogs_def Let_def)

text \<open>The log line of a share route does not contain the share hash, whatever the hash and
  whatever follows it in the path.\<close>

theorem share_hash_redacted:
  assumes "h \<noteq> ''''" and "CHR ''/'' \<notin> set h"
  shows "sanitizePathForLogs (''/share/'' @ h) = ''/share/[REDACTED]'' \<and>
    sanitizePathForLogs (''/share/'' @ h @ ''/verify'') = ''/share/[REDACTED]/verify''"
proof -
  have "Split CHR ''/'' (''/share/'' @ h) = ['''', ''share'', h]"
    using assms(2) by (simp add: Split_no_sep)
  moreover have "Split CHR ''/'' (''/share/'' @ h @ ''/verify'') = ['''', ''share'', h, ''verify'']"
    using Split_append_sep [OF assms(2), of "''verify''"] by simp
  ultimately show ?thesis
    using assms(1) by (simp add: sanitize_redacted secret_key_def)
qed

theorem share_hash_redacted_witness:
  "sanitizePathForLogs ''/share/ab'' = ''/share/[REDACTED]''"
  using share_hash_redacted [of "''ab''"] by simp

subsection \<open>Panics and the deployed chain\<close>

text \<open>\<open>cmd/api/main.go\<close>: the handler of the server, from the outermost middleware inwards.\<close>

definition server_handler ::
  "'f config \<Rightarrow> go_time \<Rightarrow> ('b, counts \<times> 's) handler \<Rightarrow> ('b, counts \<times> 's) handler" where
  "server_handler cfg now mux =
     (let corsOrigins = [FrontendURL cfg] @
            (if Env cfg = ''development'' then [''http://localhost:3000'', ''http://localhost:5173''] else [])
      in Chain mux [RecoveryMiddleware, RequestMetricsMiddleware, GzipMiddleware,
           ConfigurableRateLimitMiddleware cfg now, CORSMiddleware corsOrigins, LoggingMiddleware])"


lemma header_set_fields [simp]:
  "(header_set k v w)\<lparr>gz := g\<rparr> = header_set k v (w\<lparr>gz := g\<rparr>)"
  by (simp add: header_set_def)

lemma header_add_simps [simp]:
  "wrote (header_add k v w) = wrote w" "gz (header_add k v w) = gz w" "out (header_add k v w) = out w"
  by (simp_all add: header_add_def split: option.split)

text \<open>No panic of a handler leaves the recovery middleware; a handler that panics before it
  has written anything is answered with status 500 and the fixed error body, and what it did to
  the state stays.\<close>

theorem recovery_contains_panics:
  "fst (RecoveryMiddleware next r (w, s)) = Returned \<and>
   (\<forall>w' s'. next r (w, s) = (Panicked, w', s') \<and> wrote w' = None \<and> gz w' = None \<longrightarrow>
      (\<exists>w''. RecoveryMiddleware next r (w, s) = (Returned, w'', s') \<and> wrote w'' = Some 500 \<and>
        out w'' = out w' @ [internal_error_body] \<and>
        sent w'' ''Content-Type'' = Some ''application/json''))"
  by (auto simp: RecoveryMiddleware_def recovered_def respond_def split: prod.splits completion.splits)

theorem recovery_contains_panics_witness:
  "\<exists>w''. RecoveryMiddleware (\<lambda>r (w, s). (Panicked, w, Suc s)) sample_request (new_writer, 0) =
     (Returned, w'', 1) \<and> wrote w'' = Some 500"
  using recovery_contains_panics [of "\<lambda>r (w, s). (Panicked, w, Suc s)" sample_request new_writer 0]
  by auto

text \<open>Under \<open>GzipMiddleware\<close>, as in the deployed chain, that status is lost: the deferred
  \<open>Close\<close> writes an empty gzip stream, and with it status 200, before the recovery can answer.\<close>

theorem gzip_hides_panic:
  assumes "acceptsGzip (req_hdr r ''Accept-Encoding'')" and "meth r \<noteq> ''HEAD''"
    and "req_hdr r ''Upgrade'' = ''''" and "wrote w = None"
    and "\<And>ws. next r ws = (Panicked, ws)"
  shows "wrote (fst (snd (RecoveryMiddleware (GzipMiddleware next) r (w, s)))) = Some 200"
  using assms
  by (simp add: RecoveryMiddleware_def GzipMiddleware_def recovered_def respond_def gzip_close_def)

theorem gzip_hides_panic_witness:
  "wrote (fst (snd (RecoveryMiddleware (GzipMiddleware (\<lambda>r ws. (Panicked, ws)))
     (sample_request\<lparr>req_hdr := \<lambda>k. if k = ''Accept-Encoding'' then ''gzip'' else ''''\<rparr>)
     (new_writer, ())))) = Some 200"
proof -
  have "acceptsGzip ''gzip''" by code_simp
  then show ?thesis by (intro gzip_hides_panic) (simp_all add: sample_request_def)
qed

text \<open>The CORS middleware answers every preflight itself, with 204, and names an origin only
  if it is the request's origin and on the list.\<close>

theorem CORS_listed_origins_only:
  assumes "hdrs w ''Access-Control-Allow-Origin'' = None" and "gz w = None" and "wrote w = None"
  shows "(\<forall>ok. hdrs (fst (snd (CORSMiddleware origins (\<lambda>r ws. (Returned, ws)) r (w, s))))
            ''Access-Control-Allow-Origin'' = Some ok \<longrightarrow> ok \<in> set origins \<and> ok = req_hdr r ''Origin'') \<and>
    (meth r = ''OPTIONS'' \<longrightarrow> (\<exists>w'. CORSMiddleware origins next r (w, s) = (Returned, w', s) \<and>
       wrote w' = Some 204))"
  using assms
  by (auto simp: CORSMiddleware_def respond_def Let_def list_ex_iff split: if_splits)

theorem CORS_listed_origins_only_witness:
  "\<exists>w'. CORSMiddleware [''https://a''] (\<lambda>r ws. (Panicked, ws)) (sample_request\<lparr>meth := ''OPTIONS''\<rparr>)
     (new_writer, ()) = (Returned, w', ()) \<and> wrote w' = Some 204"
  using CORS_listed_origins_only [of new_writer "[''https://a'']" "sample_request\<lparr>meth := ''OPTIONS''\<rparr>" "()"
      "\<lambda>r ws. (Panicked, ws)"]
  by simp

text \<open>\<open>Chain\<close> applies the first middleware outermost.\<close>

lemma Chain_order: "Chain h (m # ms) = m (Chain h ms) \<and> Chain h [] = h"
  by (simp add: Chain_foldr)

text \<open>In the deployed chain a client over its limit is answered 429 before routing and before
  authentication, and its limit is that of its address whoever is signed in: the key is computed
  before any user is in the context.\<close>

theorem server_limits_by_address:
  fixes r :: "'b request" and mux :: "('b, counts \<times> 's) handler"
  assumes "ctx r ''user_id'' = None"
    and "configurable_step cfg now (''ip:'' @ limited_address r) m = (False, m')"
  shows "\<exists>w. server_handler cfg now mux r (new_writer, m, s) = (Returned, w, m', s) \<and> wrote w = Some 429"
proof -
  have key: "ExtractRateLimitKey r = ''ip:'' @ limited_address r"
    using assms(1) by (simp add: ExtractRateLimitKey_def limited_address_def ctx_string_def Let_def
        split: option.split)
  have lim: "\<exists>w'. ConfigurableRateLimitMiddleware cfg now h r (w, m, s) = (Returned, w', m', s) \<and>
      wrote w' = Some 429" if "wrote w = None" for w and h :: "('b, counts \<times> 's) handler"
    using that assms(2) by (simp add: ConfigurableRateLimitMiddleware_def key respond_def)
  have gzip: "\<exists>w'. GzipMiddleware (ConfigurableRateLimitMiddleware cfg now h) r (w, m, s) =
      (Returned, w', m', s) \<and> wrote w' = Some 429" if w: "wrote w = None"
    for w and h :: "('b, counts \<times> 's) handler"
  proof (cases "\<not> acceptsGzip (req_hdr r ''Accept-Encoding'') \<or> meth r = ''HEAD'' \<or> req_hdr r ''Upgrade'' \<noteq> ''''")
    case True
    with lim [OF w] show ?thesis by (simp add: GzipMiddleware_def)
  next
    case False
    obtain w' where "ConfigurableRateLimitMiddleware cfg now h r
        ((header_add ''Vary'' ''Accept-Encoding'' w)\<lparr>gz := Some []\<rparr>, m, s) = (Returned, w', m', s)"
        "wrote w' = Some 429"
      using lim [of "(header_add ''Vary'' ''Accept-Encoding'' w)\<lparr>gz := Some []\<rparr>" h] w by auto
    with False show ?thesis
      by (simp add: GzipMiddleware_def gzip_close_def split: option.split)
  qed
  define h where "h = CORSMiddleware ([FrontendURL cfg] @
      (if Env cfg = ''development'' then [''http://localhost:3000'', ''http://localhost:5173''] else []))
      (LoggingMiddleware mux)"
  have "server_handler cfg now mux =
      RecoveryMiddleware (RequestMetricsMiddleware (GzipMiddleware (ConfigurableRateLimitMiddleware cfg now h)))"
    by (simp add: server_handler_def Chain_foldr h_def Let_def)
  moreover obtain w' where "GzipMiddleware (ConfigurableRateLimitMiddleware cfg now h) r (new_writer, m, s) =
      (Returned, w', m', s)" "wrote w' = Some 429"
    using gzip [of new_writer h] by auto
  ultimately show ?thesis
    by (simp add: RecoveryMiddleware_def RequestMetricsMiddleware_def recovered_def)
qed

theorem server_limits_by_address_witness:
  "\<exists>w. server_handler (zero_config\<lparr>RateLimitRequests := 1, RateLimitWindow := minute\<rparr>) 5
      (\<lambda>r ws. (Returned, ws)) sample_request
      (new_writer, [''ip:1.2.3.4'' \<mapsto> \<lparr>tr_count = 1, resetAt = minute, exceeds = 0\<rparr>], ()) =
    (Returned, w, [''ip:1.2.3.4'' \<mapsto> \<lparr>tr_count = 2, resetAt = minute, exceeds = 1\<rparr>], ()) \<and>
    wrote w = Some 429"
proof (rule server_limits_by_address)
  have "limited_address sample_request = ''1.2.3.4''" by code_simp
  then show "configurable_step (zero_config\<lparr>RateLimitRequests := 1, RateLimitWindow := minute\<rparr>) 5
      (''ip:'' @ limited_address sample_request)
      [''ip:1.2.3.4'' \<mapsto> \<lparr>tr_count = 1, resetAt = minute, exceeds = 0\<rparr>] =
    (False, [''ip:1.2.3.4'' \<mapsto> \<lparr>tr_count = 2, resetAt = minute, exceeds = 1\<rparr>])"
    by (simp add: configurable_step_def zero_config_def)
qed (simp add: sample_request_def)

end
