(* ===== verification/Uploads.thy ===== *)
theory Uploads
  imports TrackHandlers
begin

text \<open>
  The direct upload from a client: \<open>storage/validation.go\<close>, the upload address of \<open>storage/presigned.go\<close>, and the
  copy loop of \<open>storage/streaming.go\<close>. \<open>filepath.Clean\<close> and \<open>filepath.Rel\<close> are written out for slash paths, and
  the product with 1.1 with the rounding of \<open>float64\<close>. The signing of a PUT request is an argument.

  Shown: a key that passes belongs to one user and stays in the directory of that user, an address is only handed
  out within the quota, and the copy loop writes what it reads.
\<close>

subsection \<open>Slash paths\<close>

text \<open>The elements of a path that remain, last first.\<close>

fun clean_parts :: "bool \<Rightarrow> string list \<Rightarrow> string list \<Rightarrow> string list" where
  "clean_parts rooted acc [] = rev acc"
| "clean_parts rooted acc (p # ps) =
     (if p = '''' \<or> p = ''.'' then clean_parts rooted acc ps
      else if p = ''..'' then
        (case acc of
           [] \<Rightarrow> clean_parts rooted (if rooted then [] else [p]) ps
         | q # qs \<Rightarrow> clean_parts rooted (if q = ''..'' then p # acc else qs) ps)
      else clean_parts rooted (p # acc) ps)"

definition Clean :: "string \<Rightarrow> string" where
  "Clean s =
     (let rooted = HasPrefix s ''/''; ps = clean_parts rooted [] (Split CHR ''/'' s)
      in if rooted then CHR ''/'' # Join CHR ''/'' ps
         else if ps = [] then ''.'' else Join CHR ''/'' ps)"

definition elements :: "string \<Rightarrow> string list" where
  "elements s = (if s = '''' then [] else if s = ''/'' then [''''] else Split CHR ''/'' s)"

fun drop_common :: "'a list \<Rightarrow> 'a list \<Rightarrow> 'a list \<times> 'a list" where
  "drop_common (x # xs) (y # ys) = (if x = y then drop_common xs ys else (x # xs, y # ys))"
| "drop_common xs ys = (xs, ys)"

definition Rel :: "string \<Rightarrow> string \<Rightarrow> string option" where
  "Rel basepath targpath =
     (let base = Clean basepath; targ = Clean targpath
      in if targ = base then Some ''.''
         else let base = (if base = ''.'' then '''' else base)
           in if HasPrefix base ''/'' \<noteq> HasPrefix targ ''/'' then None
              else let (bs, ts) = drop_common (elements base) (elements targ)
                in if bs \<noteq> [] \<and> hd bs = ''..'' \<and> ts \<noteq> [] then None
                   else Some (Join CHR ''/'' (map (\<lambda>b. ''..'') bs @ ts)))"

lemma path_examples:
  "Clean ''tracks/u/../v/./x'' = ''tracks/v/x''" "Clean ''/../a//b/'' = ''/a/b''" "Clean ''../../a/..'' = ''../..''"
  "Clean '''' = ''.''" "Rel ''tracks/u/'' ''tracks/u/t/v1'' = Some ''t/v1''" "Rel ''tracks/u/'' ''tracks/v/x'' = Some ''../v/x''"
  "Rel ''a/b'' ''/a'' = None" "Rel ''..'' ''a'' = None" "Rel ''a'' ''a'' = Some ''.''"
  by code_simp+

subsection \<open>Checks\<close>

definition validateObjectKey :: "string \<Rightarrow> string \<Rightarrow> string option" where
  "validateObjectKey userID objectKey =
     (let expectedPrefix = ''tracks/'' @ userID @ ''/''
      in if Contains objectKey ''..'' then Some ''invalid object key: directory traversal detected (..)''
         else if Contains objectKey ''//'' then Some ''invalid object key: double slashes not allowed''
         else if \<not> HasPrefix objectKey expectedPrefix then Some (''invalid object key: must start with '' @ expectedPrefix)
         else if HasPrefix (Clean objectKey) ''/'' then Some ''invalid object key: absolute paths not allowed''
         else if (case Rel expectedPrefix objectKey of None \<Rightarrow> True | Some rel \<Rightarrow> HasPrefix rel ''..'') then
           Some ''invalid object key: path escapes user directory''
         else if length objectKey > 1024 then
           Some (''invalid object key: too long (max 1024 chars, got '' @ Itoa (int (length objectKey)) @ '')'')
         else None)"

definition audio_types :: "string set" where
  "audio_types = {''audio/mpeg'', ''audio/wav'', ''audio/x-wav'', ''audio/aiff'', ''audio/x-aiff'', ''audio/flac'',
     ''audio/aac'', ''audio/x-m4a'', ''audio/mp4'', ''application/octet-stream''}"

definition ValidateUploadRequest :: "string \<Rightarrow> string \<Rightarrow> int \<Rightarrow> string \<Rightarrow> string option" where
  "ValidateUploadRequest userID objectKey expectedFileSizeBytes contentType =
     (case validateObjectKey userID objectKey of
        Some err \<Rightarrow> Some err
      | None \<Rightarrow>
          if expectedFileSizeBytes > 500 * 1024 * 1024 then
            Some (''file size exceeds maximum: expected '' @ Itoa expectedFileSizeBytes @ '' bytes, max '' @
              Itoa (500 * 1024 * 1024) @ '' bytes'')
          else if expectedFileSizeBytes \<le> 0 then Some ''invalid file size: must be greater than 0''
          else if contentType \<notin> audio_types then Some (''invalid content type: '' @ contentType @ '' not allowed'')
          else None)"

subsection \<open>Upload addresses\<close>

function bit_length :: "int \<Rightarrow> nat" where
  "bit_length n = (if n \<le> 0 then 0 else 1 + bit_length (n div 2))"
  by auto
termination by (relation "measure nat") auto

declare bit_length.simps [simp del]

text \<open>A number that is not negative, rounded to 53 significant bits, to the nearest and to even.\<close>

definition round53 :: "int \<Rightarrow> int" where
  "round53 n =
     (let s = bit_length n - 53; q = n div 2 ^ s; r = n mod 2 ^ s; half = 2 ^ s div 2
      in if s = 0 \<or> r < half \<or> (r = half \<and> even q) then q * 2 ^ s else (q + 1) * 2 ^ s)"

text \<open>\<open>int64(float64(x) * 1.1)\<close> for a size that has passed the checks, so that \<open>float64(x)\<close> is exact. The constant
  is the nearest \<open>float64\<close> of 1.1: 2476979795053773 / 2 \<open>^\<close> 51.\<close>

definition with_overhead :: "int \<Rightarrow> int" where
  "with_overhead x = round53 (x * 2476979795053773) div 2 ^ 51"

lemma with_overhead_examples:
  "with_overhead 100 = 110" "with_overhead 7 = 7" "with_overhead (500 * 1024 * 1024) = 576716800"
  by code_simp+

record presigned_upload =
  pu_url :: string
  pu_expires_in :: int
  pu_file :: string

definition GeneratePresignedUploadURL ::
  "(string \<Rightarrow> string \<Rightarrow> int \<Rightarrow> duration \<Rightarrow> string option) \<Rightarrow> string \<Rightarrow> string \<Rightarrow> string \<Rightarrow> int \<Rightarrow>
   (string \<Rightarrow> (string \<times> int \<times> int) db_result) option \<Rightarrow> string + presigned_upload" where
  "GeneratePresignedUploadURL presign_put userID objectKey contentType expectedFileSizeBytes quotaChecker =
     (case validateObjectKey userID objectKey of
        Some err \<Rightarrow> Inl (''invalid upload request: '' @ err)
      | None \<Rightarrow>
          (case ValidateUploadRequest userID objectKey expectedFileSizeBytes contentType of
             Some err \<Rightarrow> Inl err
           | None \<Rightarrow>
               let address = (case presign_put objectKey contentType expectedFileSizeBytes (5 * minute) of
                     None \<Rightarrow> Inl ''failed to presign upload URL''
                   | Some url \<Rightarrow> if url = '''' then Inl ''presigned URL is empty''
                       else Inr \<lparr>pu_url = url, pu_expires_in = 300, pu_file = objectKey\<rparr>)
               in case quotaChecker of
                    None \<Rightarrow> address
                  | Some get \<Rightarrow>
                      (case get userID of
                         Inl _ \<Rightarrow> Inl ''failed to check storage quota''
                       | Inr (tier, quotaMB, usedMB) \<Rightarrow>
                           let availableMB = int64 (quotaMB - usedMB);
                               fileSizeMB = with_overhead expectedFileSizeBytes div (1024 * 1024)
                           in if fileSizeMB > availableMB
                              then Inl (''insufficient storage quota: need '' @ Itoa fileSizeMB @ ''MB but only '' @
                                Itoa availableMB @ ''MB available'')
                              else address)))"

subsection \<open>Streaming\<close>

text \<open>A reader is the list of what its calls return: some bytes and how the call ended. The writer answers how
  many bytes it took and whether it failed.\<close>

datatype read_end = More | Eof | ReadError

datatype stream_error = Cancelled | WriteFailed | ReadFailed

fun StreamToWriter ::
  "(nat \<Rightarrow> bool) \<Rightarrow> (string \<Rightarrow> 'w \<Rightarrow> (nat \<times> bool) \<times> 'w) \<Rightarrow> nat \<Rightarrow> int \<Rightarrow> (string \<times> read_end) list \<Rightarrow> 'w \<Rightarrow>
   (int \<times> stream_error option) option \<times> 'w" where
  "StreamToWriter cancelled wr i total_written [] w = (if cancelled i then Some (total_written, Some Cancelled) else None, w)"
| "StreamToWriter cancelled wr i total_written ((chunk, e) # rs) w =
     (if cancelled i then (Some (total_written, Some Cancelled), w)
      else let ((n, failed), w) = (if chunk = '''' then ((0, False), w) else wr chunk w); total_written = int64 (total_written + int n)
        in if failed then (Some (total_written, Some WriteFailed), w)
           else case e of
                  Eof \<Rightarrow> (Some (total_written, None), w)
                | ReadError \<Rightarrow> (Some (total_written, Some ReadFailed), w)
                | More \<Rightarrow> StreamToWriter cancelled wr (Suc i) total_written rs w)"

subsection \<open>Which keys pass\<close>

lemma Contains_Join: "p \<in> set ps \<Longrightarrow> Contains (Join c ps) p"
proof (induction ps rule: Join.induct)
  case (3 c s t ts)
  show ?case
  proof (cases "p = s")
    case True
    then show ?thesis unfolding Contains_iff by (intro exI [of _ "''''"] exI) auto
  next
    case False
    with 3 obtain a b where "Join c (t # ts) = a @ p @ b" by (auto simp: Contains_iff)
    then have "Join c (s # t # ts) = (s @ c # a) @ p @ b" by simp
    then show ?thesis unfolding Contains_iff by blast
  qed
qed (auto simp: Contains_iff intro: exI [of _ "''''"])

lemma Contains_trans: "Contains s p \<Longrightarrow> Contains p q \<Longrightarrow> Contains s q"
  unfolding Contains_iff by (metis append.assoc)

lemma Contains_Split: "p \<in> set (Split c s) \<Longrightarrow> Contains s p"
  using Contains_Join [of p "Split c s" c] by simp

lemma Split_append: "Split c (a @ c # b) = Split c a @ Split c b"
proof (induction a)
  case (Cons x a)
  then show ?case by (cases "Split c a") auto
qed simp

lemma clean_parts_filter:
  "''..'' \<notin> set ps \<Longrightarrow> clean_parts rooted acc ps = rev acc @ filter (\<lambda>p. p \<noteq> '''' \<and> p \<noteq> ''.'') ps"
  by (induction ps arbitrary: acc) auto

lemma drop_common_append: "drop_common xs (xs @ ys) = ([], ys)"
  by (induction xs) (cases ys, auto)

abbreviation solid :: "string list \<Rightarrow> string list" where
  "solid \<equiv> filter (\<lambda>p. p \<noteq> '''' \<and> p \<noteq> ''.'')"

lemma Clean_solid:
  assumes "\<not> HasPrefix s ''/''" "\<not> Contains s ''..''" "solid (Split CHR ''/'' s) \<noteq> []"
  shows "Clean s = Join CHR ''/'' (solid (Split CHR ''/'' s))"
proof -
  have "''..'' \<notin> set (Split CHR ''/'' s)" using assms(2) Contains_Split by blast
  with assms show ?thesis by (simp add: Clean_def clean_parts_filter)
qed

lemma elements_Join_solid:
  assumes "ps = solid (Split CHR ''/'' s)" "ps \<noteq> []"
  shows "elements (Join CHR ''/'' ps) = ps" "Join CHR ''/'' ps \<noteq> ''.''" "\<not> HasPrefix (Join CHR ''/'' ps) ''/''"
proof -
  have parts: "\<forall>p\<in>set ps. CHR ''/'' \<notin> set p \<and> p \<noteq> '''' \<and> p \<noteq> ''.''" using assms(1) Split_parts_no_sep by auto
  then have split: "Split CHR ''/'' (Join CHR ''/'' ps) = ps" using assms(2) by (intro Split_Join) auto
  obtain p qs where ps: "ps = p # qs" using assms(2) by (cases ps) auto
  with parts obtain c p' where p: "p = c # p'" "c \<noteq> CHR ''/''" by (cases p) auto
  then have hd: "\<exists>t. Join CHR ''/'' ps = c # t" using ps by (cases qs) auto
  with split p(2) show "elements (Join CHR ''/'' ps) = ps" by (auto simp: elements_def)
  show "\<not> HasPrefix (Join CHR ''/'' ps) ''/''" using hd p(2) by (auto simp: HasPrefix_iff)
  show "Join CHR ''/'' ps \<noteq> ''.''"
  proof
    assume "Join CHR ''/'' ps = ''.''"
    with split have "ps = [''.'']" by simp
    with parts show False by simp
  qed
qed

lemma Join_no_dots:
  assumes "\<And>p. p \<in> set ps \<Longrightarrow> p \<noteq> '''' \<and> \<not> Contains p ''..''"
  shows "\<not> HasPrefix (Join CHR ''/'' ps) ''..''"
proof (cases ps)
  case (Cons p qs)
  with assms obtain c p' where p: "p = c # p'" "\<not> Contains p ''..''" by (cases p) auto
  have no: "\<not> HasPrefix p ''..''" using p(2) by (auto simp: HasPrefix_iff Contains_iff)
  show ?thesis
  proof (cases "qs = []")
    case True
    with Cons no show ?thesis by simp
  next
    case False
    with Cons have "Join CHR ''/'' ps = p @ CHR ''/'' # Join CHR ''/'' qs" by (simp add: Join_Cons)
    with no p(1) show ?thesis by (cases p') (auto simp: HasPrefix_iff)
  qed
qed (simp add: HasPrefix_iff)

lemma key_stays_below:
  assumes k: "k = ''tracks/'' @ u @ CHR ''/'' # rest" and no: "\<not> Contains k ''..''"
  shows "\<not> HasPrefix (Clean k) ''/''" "\<exists>rel. Rel (''tracks/'' @ u @ ''/'') k = Some rel \<and> \<not> HasPrefix rel ''..''"
proof -
  let ?p = "''tracks/'' @ u" and ?sp = "\<lambda>s. solid (Split CHR ''/'' s)"
  have "Split CHR ''/'' ''tracks'' = [''tracks'']" by code_simp
  then have "Split CHR ''/'' ?p = ''tracks'' # Split CHR ''/'' u"
    using Split_append [of "CHR ''/''" "''tracks''" u] by simp
  then have B: "?sp ?p \<noteq> []" by simp
  have parts: "?sp (?p @ CHR ''/'' # s) = ?sp ?p @ ?sp s" for s by (simp only: Split_append filter_append)
  have K: "?sp k = ?sp ?p @ ?sp rest" using parts [of rest] k by simp
  have P: "?sp (?p @ ''/'') = ?sp ?p" using parts [of "''''"] by simp
  have noP: "\<not> Contains (?p @ ''/'') ''..''"
    using no Contains_trans [of k "?p @ ''/''" "''..''"] k unfolding Contains_iff by force
  have ck: "Clean k = Join CHR ''/'' (?sp k)" using K B no k by (intro Clean_solid) (auto simp: HasPrefix_iff)
  have cp: "Clean (?p @ ''/'') = Join CHR ''/'' (?sp ?p)"
    using P B noP Clean_solid [of "?p @ ''/''"] by (simp add: HasPrefix_iff)
  have nonempty: "?sp k \<noteq> []" using K B by simp
  note ek = elements_Join_solid [OF refl nonempty] and ep = elements_Join_solid [OF refl B]
  show "\<not> HasPrefix (Clean k) ''/''" using ek(3) ck by simp
  have tail: "\<not> HasPrefix (Join CHR ''/'' (?sp rest)) ''..''"
  proof (rule Join_no_dots)
    fix p
    assume "p \<in> set (?sp rest)"
    then have "p \<in> set (?sp k)" using K by simp
    then have "Contains k p" using Contains_Split [of p "CHR ''/''" k] by simp
    with no \<open>p \<in> set (?sp rest)\<close> show "p \<noteq> '''' \<and> \<not> Contains p ''..''" using Contains_trans by auto
  qed
  have "drop_common (?sp ?p) (?sp k) = ([], ?sp rest)" unfolding K by (rule drop_common_append)
  then have "Rel (?p @ ''/'') k = (if Clean k = Clean (?p @ ''/'') then Some ''.'' else Some (Join CHR ''/'' (?sp rest)))"
    using ek ep unfolding Rel_def Let_def ck cp by simp
  with tail show "\<exists>rel. Rel (''tracks/'' @ u @ ''/'') k = Some rel \<and> \<not> HasPrefix rel ''..''"
    by (auto simp: HasPrefix_iff)
qed

text \<open>An upload key passes the checks exactly when it starts with \<open>tracks/<user>/\<close>, has neither two dots nor two
  slashes in a row and at most 1024 bytes: the tests on the cleaned and the relative path refuse nothing more. A key that
  passes for one user passes for no other user whose identifier has no slash.\<close>

theorem upload_key_accepted_iff:
  "(validateObjectKey u k = None \<longleftrightarrow> HasPrefix k (''tracks/'' @ u @ ''/'') \<and> \<not> Contains k ''..'' \<and> \<not> Contains k ''//'' \<and>
      length k \<le> 1024) \<and>
   (validateObjectKey u k = None \<and> validateObjectKey v k = None \<and> CHR ''/'' \<notin> set u \<and> CHR ''/'' \<notin> set v \<longrightarrow> u = v)"
proof -
  have iff: "validateObjectKey u k = None \<longleftrightarrow> HasPrefix k (''tracks/'' @ u @ ''/'') \<and> \<not> Contains k ''..'' \<and> \<not> Contains k ''//'' \<and>
      length k \<le> 1024" for u
  proof (cases "HasPrefix k (''tracks/'' @ u @ ''/'') \<and> \<not> Contains k ''..''")
    case True
    then obtain rest where "k = ''tracks/'' @ u @ CHR ''/'' # rest" by (auto simp: HasPrefix_iff)
    from key_stays_below [OF this] True show ?thesis by (auto simp: validateObjectKey_def Let_def)
  next
    case False
    then show ?thesis by (auto simp: validateObjectKey_def Let_def)
  qed
  have "u = v" if "u @ CHR ''/'' # a = v @ CHR ''/'' # b" "CHR ''/'' \<notin> set u" "CHR ''/'' \<notin> set v" for a b
    using that by (metis Split_append_sep list.inject)
  then have "u = v" if "HasPrefix k (''tracks/'' @ u @ ''/'')" "HasPrefix k (''tracks/'' @ v @ ''/'')"
      "CHR ''/'' \<notin> set u" "CHR ''/'' \<notin> set v"
    using that by (auto simp: HasPrefix_iff)
  with iff [of u] iff [of v] show ?thesis by blast
qed

subsection \<open>Sizes\<close>

lemma bit_length_le: "0 < n \<Longrightarrow> 2 ^ (bit_length n - 1) \<le> n"
proof (induction n rule: bit_length.induct)
  case (1 n)
  show ?case
  proof (cases "n = 1")
    case True
    then show ?thesis by (simp add: bit_length.simps)
  next
    case False
    with 1 have IH: "2 ^ (bit_length (n div 2) - 1) \<le> n div 2" by simp
    have "bit_length (n div 2) = 1 + bit_length (n div 2 div 2)" using 1(2) False by (subst bit_length.simps) simp
    then have "2 ^ (bit_length n - 1) = 2 * (2 :: int) ^ (bit_length (n div 2) - 1)"
      using 1(2) by (subst bit_length.simps) simp
    with IH show ?thesis by linarith
  qed
qed

lemma round53_ge:
  assumes "0 < n"
  shows "n * (2 ^ 52 - 1) \<le> round53 n * 2 ^ 52"
proof -
  let ?s = "bit_length n - 53"
  have r: "n = n div 2 ^ ?s * 2 ^ ?s + n mod 2 ^ ?s" by (rule div_mult_mod_eq [symmetric])
  have ge: "n - n mod 2 ^ ?s \<le> round53 n"
  proof -
    have "n div 2 ^ ?s * 2 ^ ?s \<le> round53 n" by (simp add: round53_def Let_def)
    with r show ?thesis by linarith
  qed
  have "n mod 2 ^ ?s * 2 ^ 52 \<le> n"
  proof (cases "?s = 0")
    case True
    then show ?thesis using assms by simp
  next
    case False
    have "n mod 2 ^ ?s * 2 ^ 52 \<le> 2 ^ ?s * 2 ^ 52"
      by (intro mult_right_mono less_imp_le pos_mod_bound) simp_all
    also have "\<dots> = (2 :: int) ^ (bit_length n - 1)"
    proof -
      have "bit_length n - 1 = ?s + 52" using False by simp
      then show ?thesis by (simp only: power_add)
    qed
    finally show ?thesis using bit_length_le [OF assms] by linarith
  qed
  moreover have "(n - n mod 2 ^ ?s) * 2 ^ 52 \<le> round53 n * 2 ^ 52" using ge by (rule mult_right_mono) simp
  ultimately show ?thesis unfolding left_diff_distrib right_diff_distrib by linarith
qed

lemma with_overhead_ge: "0 < x \<Longrightarrow> x \<le> with_overhead x"
proof -
  assume x: "0 < x"
  let ?n = "x * 2476979795053773"
  have "?n * (2 ^ 52 - 1) \<le> round53 ?n * 2 ^ 52" using x by (intro round53_ge) simp
  then have "x * 2 ^ 51 \<le> round53 ?n" using x by simp
  then have "x * 2 ^ 51 div 2 ^ 51 \<le> round53 ?n div 2 ^ 51" by (intro zdiv_mono1) simp_all
  then show ?thesis by (simp add: with_overhead_def)
qed

text \<open>An upload address is only handed out for the caller's own directory, for at most 500 MB of an audio type, for five
  minutes, and, when the subscription is checked, for a size that fits into what its quota has left.\<close>

theorem upload_address_bounds:
  assumes "GeneratePresignedUploadURL presign_put u k ct n checker = Inr p"
  shows "HasPrefix k (''tracks/'' @ u @ ''/'') \<and> pu_file p = k \<and> presign_put k ct n (300 * second) = Some (pu_url p) \<and>
     0 < n \<and> n \<le> 524288000 \<and> ct \<in> audio_types \<and>
     (\<forall>get t quota used. checker = Some get \<and> get u = Inr (t, quota, used) \<and> 0 \<le> used \<and> 0 \<le> quota \<and> used < 2 ^ 62 \<and>
        quota < 2 ^ 62 \<longrightarrow> used + n div (1024 * 1024) \<le> quota)"
proof -
  have ok: "validateObjectKey u k = None" "ValidateUploadRequest u k n ct = None"
    using assms by (auto simp: GeneratePresignedUploadURL_def split: option.splits)
  then have n: "0 < n" "n \<le> 524288000" "ct \<in> audio_types"
    by (auto simp: ValidateUploadRequest_def split: if_splits)
  have "HasPrefix k (''tracks/'' @ u @ ''/'')"
    using ok(1) by (auto simp: validateObjectKey_def Let_def split: if_splits)
  moreover have "pu_file p = k \<and> presign_put k ct n (300 * second) = Some (pu_url p)"
    using assms ok by (auto simp: GeneratePresignedUploadURL_def Let_def split: option.splits sum.splits if_splits)
  moreover have "used + n div (1024 * 1024) \<le> quota"
    if c: "checker = Some get" "get u = Inr (t, quota, used)" and b: "0 \<le> used" "0 \<le> quota" "used < 2 ^ 62" "quota < 2 ^ 62"
    for get t quota used
  proof -
    have "int64 (quota - used) = quota - used"
      using b by (intro int64_id) simp_all
    then have "with_overhead n div (1024 * 1024) \<le> quota - used"
      using assms ok c by (auto simp: GeneratePresignedUploadURL_def Let_def split: if_splits)
    moreover have "n div (1024 * 1024) \<le> with_overhead n div (1024 * 1024)"
      using with_overhead_ge [OF n(1)] by (intro zdiv_mono1) simp_all
    ultimately show ?thesis by linarith
  qed
  ultimately show ?thesis using n by blast
qed

definition upload_put :: "string \<Rightarrow> string \<Rightarrow> int \<Rightarrow> duration \<Rightarrow> string option" where
  "upload_put k ct n d = Some (''https://r2/'' @ k)"

definition pro_quota :: "string \<Rightarrow> (string \<times> int \<times> int) db_result" where
  "pro_quota u = Inr (''pro'', 100, 40)"

theorem upload_key_accepted_iff_witness:
  "validateObjectKey ''u'' ''tracks/u/t/v1'' = None \<and> validateObjectKey ''v'' ''tracks/u/t/v1'' \<noteq> None"
proof -
  have ok: "validateObjectKey ''u'' ''tracks/u/t/v1'' = None" by code_simp
  with upload_key_accepted_iff [of "''u''" "''tracks/u/t/v1''" "''v''"] show ?thesis by auto
qed

theorem upload_address_bounds_witness:
  "\<exists>p. GeneratePresignedUploadURL upload_put ''u'' ''tracks/u/t/v1'' ''audio/flac'' 52428800 (Some pro_quota) = Inr p \<and>
     pu_file p = ''tracks/u/t/v1'' \<and> (40 :: int) + 52428800 div (1024 * 1024) \<le> 100"
proof -
  let ?res = "GeneratePresignedUploadURL upload_put ''u'' ''tracks/u/t/v1'' ''audio/flac'' 52428800 (Some pro_quota)"
  have "case ?res of Inl e \<Rightarrow> False | Inr p \<Rightarrow> True" by code_simp
  then obtain p where p: "?res = Inr p" by (cases ?res) simp_all
  show ?thesis using upload_address_bounds [OF p] p by (auto simp: pro_quota_def)
qed

subsection \<open>The copy loop\<close>

lemma StreamToWriter_copies:
  assumes "\<And>i. \<not> cancelled i" and "\<And>c w. wr c w = ((length c, False), w @ c)"
    and "0 \<le> n" "n + int (length (concat cs @ c)) < 2 ^ 63"
  shows "StreamToWriter cancelled wr i n (map (\<lambda>c. (c, More)) cs @ [(c, Eof)]) w =
     (Some (n + int (length (concat cs @ c)), None), w @ concat cs @ c)"
  using assms(3,4)
proof (induction cs arbitrary: i n w)
  case Nil
  then show ?case using assms(1,2) by (auto simp: int64_id)
next
  case (Cons a cs)
  then have "int64 (n + int (length a)) = n + int (length a)" by (intro int64_id) simp_all
  with Cons assms(1,2) show ?case by (auto simp: int64_id)
qed

end
