(* ===== verification/Router.thy ===== *)
theory Router
  imports Middleware ProjectHandlers Uploads
begin

text \<open>
  \<open>cmd/api/router.go\<close>, the table of routes, with the matching of the \<open>ServeMux\<close> of Go 1.22 and later, and
  the \<open>withAuth\<close> of \<open>cmd/api/main.go\<close>. The handlers behind the routes are an argument, named by the expressions of
  the source. A path stands for its own escaped form, and the raw query, which a redirect would append, is left out.

  Shown: the table registers without a conflict, a request is served by the most specific route that matches it, and
  what a request without a valid token can do is decided by the public handlers alone.
\<close>

subsection \<open>The table\<close>

definition registerPublicRoutes :: "(string \<times> string) list" where
  "registerPublicRoutes = [
     (''GET /ops'', ''OpsConsole''),
     (''GET /ops/endpoints'', ''OpsEndpointCatalog''),
     (''GET /health'', ''health.GetHealth''),
     (''GET /health/deep'', ''health.GetDeepHealth''),
     (''GET /readiness'', ''health.GetReadiness''),
     (''GET /metrics'', ''health.GetMetrics''),
     (''GET /search'', ''search.SearchAll''),
     (''GET /discover/trending'', ''search.GetTrending''),
     (''GET /discover/public'', ''search.GetPublicProjects''),
     (''GET /share/{share_hash}'', ''share.GetProjectByShareHash''),
     (''POST /share/{share_hash}/verify'', ''share.VerifySharePassword''),
     (''POST /webhooks/stripe'', ''payment.StripeWebhook''),
     (''POST /webhooks/revenuecat'', ''payment.RevenueCatWebhook''),
     (''GET /pricing/tiers'', ''payment.GetPricingTiers''),
     (''POST /finops/cost-events'', ''finops.IngestCostEvent''),
     (''POST /graphql'', ''graphql.GraphQLHandler''),
     (''GET /graphql'', ''graphql.GraphQLHandler'')]"

definition registerProtectedRoutes :: "(string \<times> string) list" where
  "registerProtectedRoutes = [
     (''GET /projects'', ''project.ListProjects''),
     (''POST /projects'', ''project.CreateProject''),
     (''DELETE /projects/{id}'', ''project.DeleteProject''),
     (''GET /projects/{id}'', ''project.GetProject''),
     (''PATCH /projects/{project_id}/privacy'', ''collaboration.UpdateProjectPrivacy''),
     (''POST /projects/{project_id}/collaborators'', ''collaboration.AddCollaborator''),
     (''POST /projects/{project_id}/cover'', ''image.UploadCover''),
     (''GET /projects/{project_id}/tracks'', ''track.ListTracks''),
     (''POST /projects/{project_id}/tracks'', ''track.CreateTrack''),
     (''GET /projects/{project_id}/analytics'', ''analytics.GetProjectAnalytics''),
     (''POST /projects/{project_id}/share-link'', ''share.GenerateShareLink''),
     (''DELETE /projects/{project_id}/share-link/{share_hash}'', ''share.RevokeShareLink''),
     (''POST /projects/{project_id}/share-link/{share_hash}/regenerate'', ''share.RegenerateShareHash''),
     (''GET /tracks/{track_id}/versions'', ''track.ListTrackVersions''),
     (''DELETE /tracks/{track_id}'', ''track.DeleteTrack''),
     (''POST /tracks/{track_id}/versions'', ''track.UploadTrackVersion''),
     (''GET /tracks/{track_id}/versions/{version_id}/download'', ''download.DownloadTrackVersion''),
     (''POST /tracks/{track_id}/versions/{version_number}/rollback'', ''rollback.RollbackTrackVersion''),
     (''GET /tracks/{track_id}/versions/history'', ''rollback.GetTrackVersionHistory''),
     (''GET /tracks/{track_id}/play'', ''track.GetSignedPlayURL''),
     (''POST /tracks/{track_id}/play-start'', ''analytics.RecordPlay''),
     (''GET /tracks/{track_id}/stats'', ''analytics.GetTrackStats''),
     (''POST /tracks/{track_id}/like'', ''collaboration.LikeTrack''),
     (''DELETE /tracks/{track_id}/like'', ''collaboration.UnlikeTrack''),
     (''POST /tracks/{track_id}/offline/download'', ''offline.InitiateDownload''),
     (''POST /track-versions/{track_version_id}/comments'', ''collaboration.AddComment''),
     (''GET /track-versions/{track_version_id}/comments'', ''collaboration.GetComments''),
     (''GET /images/{image_id}/url'', ''image.GetCoverSignedURL''),
     (''POST /checkout/session'', ''payment.CreateCheckoutSession''),
     (''POST /plays/{play_id}/complete'', ''analytics.CompletePlay''),
     (''GET /search/projects'', ''search.SearchProjects''),
     (''POST /users/{user_id}/follow'', ''collaboration.FollowUser''),
     (''DELETE /users/{user_id}/follow'', ''collaboration.UnfollowUser''),
     (''GET /user/following'', ''collaboration.GetFollowing''),
     (''GET /user/followers'', ''collaboration.GetFollowers''),
     (''GET /user/notifications'', ''collaboration.GetNotifications''),
     (''PATCH /notifications/{notification_id}/read'', ''collaboration.MarkNotificationAsRead''),
     (''GET /user/stats'', ''analytics.GetUserStats''),
     (''POST /offline/downloads/{download_id}/confirm'', ''offline.ConfirmDownload''),
     (''GET /offline/downloads'', ''offline.GetOfflineDownloads''),
     (''GET /offline/downloads/{download_id}/file'', ''download.DownloadOfflineFile''),
     (''GET /offline/storage'', ''offline.GetOfflineStorageStatus''),
     (''POST /offline/play-log'', ''offline.LogOfflinePlay''),
     (''POST /offline/reconcile'', ''offline.ReconcileOfflineData''),
     (''POST /offline/projects/{project_id}/sync'', ''offline.SyncDownloadProject''),
     (''DELETE /offline/downloads/{download_id}'', ''offline.DeleteOfflineDownload''),
     (''DELETE /offline/downloads/expired'', ''offline.DeleteAllExpiredDownloads''),
     (''GET /offline/storage/info'', ''offline.GetOfflineStorageInfo''),
     (''GET /compliance/data-export'', ''compliance.ExportUserData''),
     (''DELETE /compliance/delete-account'', ''compliance.DeleteUserData''),
     (''GET /compliance/privacy-settings'', ''compliance.GetPrivacySettings''),
     (''PATCH /compliance/privacy-settings'', ''compliance.UpdatePrivacySettings''),
     (''GET /finops/summary'', ''finops.GetSummary''),
     (''GET /notifications'', ''notifications.GetNotifications''),
     (''POST /notifications/device-token'', ''notifications.RegisterDeviceToken''),
     (''PATCH /notifications/preferences'', ''notifications.UpdatePreferences''),
     (''POST /notifications/{notification_id}/read'', ''notifications.MarkAsRead''),
     (''POST /notifications/read-all'', ''notifications.MarkAllAsRead''),
     (''GET /notifications/unread-count'', ''notifications.GetUnreadCount'')]"

datatype seg = Lit string | Wild string

definition parse_seg :: "string \<Rightarrow> seg" where
  "parse_seg s = (if HasPrefix s ''{'' then Wild (butlast (tl s)) else Lit s)"

record route =
  rt_method :: string
  rt_segs :: "seg list"
  rt_endpoint :: string
  rt_auth :: bool

definition parse_route :: "bool \<Rightarrow> string \<times> string \<Rightarrow> route" where
  "parse_route auth = (\<lambda>(pattern, endpoint).
     (let parts = Split CHR '' '' pattern
      in \<lparr>rt_method = hd parts, rt_segs = map parse_seg (tl (Split CHR ''/'' (last parts))),
          rt_endpoint = endpoint, rt_auth = auth\<rparr>))"

definition registerRoutes :: "route list" where
  "registerRoutes = map (parse_route False) registerPublicRoutes @ map (parse_route True) registerProtectedRoutes"

subsection \<open>Patterns\<close>

definition seg_matches :: "seg \<Rightarrow> string \<Rightarrow> bool" where
  "seg_matches p s = (case p of Lit t \<Rightarrow> s = t | Wild n \<Rightarrow> s \<noteq> '''')"

definition matches :: "seg list \<Rightarrow> string list \<Rightarrow> bool" where
  "matches = list_all2 seg_matches"

text \<open>The second segment matches whatever the first one does.\<close>

definition seg_le :: "seg \<Rightarrow> seg \<Rightarrow> bool" where
  "seg_le p q = (case q of Wild n \<Rightarrow> (case p of Lit t \<Rightarrow> t \<noteq> '''' | Wild m \<Rightarrow> True) | Lit t \<Rightarrow> p = Lit t)"

definition as_specific :: "seg list \<Rightarrow> seg list \<Rightarrow> bool" where
  "as_specific = list_all2 seg_le"

definition seg_overlap :: "seg \<Rightarrow> seg \<Rightarrow> bool" where
  "seg_overlap p q = (case (p, q) of (Lit s, Lit t) \<Rightarrow> s = t | (Lit s, Wild n) \<Rightarrow> s \<noteq> '''' | (Wild n, Lit t) \<Rightarrow> t \<noteq> ''''
     | (Wild n, Wild m) \<Rightarrow> True)"

text \<open>Two patterns conflict, and the registration of the second one panics, when they have the same method, match a
  common path, and neither is more specific than the other.\<close>

definition conflict :: "route \<Rightarrow> route \<Rightarrow> bool" where
  "conflict x y \<longleftrightarrow> rt_method x = rt_method y \<and> list_all2 seg_overlap (rt_segs x) (rt_segs y) \<and>
     as_specific (rt_segs x) (rt_segs y) = as_specific (rt_segs y) (rt_segs x)"

fun conflict_free :: "route list \<Rightarrow> bool" where
  "conflict_free [] \<longleftrightarrow> True"
| "conflict_free (x # xs) \<longleftrightarrow> list_all (\<lambda>y. \<not> conflict x y) xs \<and> conflict_free xs"

text \<open>The search in the routing tree: at every segment first the literal child, then the wildcard. The values of
  the wildcards are returned in order.\<close>

fun lit_step :: "string \<Rightarrow> (seg list \<times> 'a) list \<Rightarrow> (seg list \<times> 'a) list" where
  "lit_step s [] = []"
| "lit_step s ((p, a) # ps) =
     (case p of Lit t # q \<Rightarrow> if t = s then (q, a) # lit_step s ps else lit_step s ps | _ \<Rightarrow> lit_step s ps)"

fun wild_step :: "(seg list \<times> 'a) list \<Rightarrow> (seg list \<times> 'a) list" where
  "wild_step [] = []"
| "wild_step ((p, a) # ps) = (case p of Wild n # q \<Rightarrow> (q, a) # wild_step ps | _ \<Rightarrow> wild_step ps)"

fun match_tree :: "(seg list \<times> 'a) list \<Rightarrow> string list \<Rightarrow> ('a \<times> string list) option" where
  "match_tree ps [] = (case filter (\<lambda>(p, a). p = []) ps of [] \<Rightarrow> None | (p, a) # _ \<Rightarrow> Some (a, []))"
| "match_tree ps (s # ss) =
     (case match_tree (lit_step s ps) ss of
        Some x \<Rightarrow> Some x
      | None \<Rightarrow> if s = '''' then None else map_option (\<lambda>(a, vs). (a, s # vs)) (match_tree (wild_step ps) ss))"

definition path_segs :: "string \<Rightarrow> string list" where
  "path_segs p = tl (Split CHR ''/'' p)"

definition find_method :: "route list \<Rightarrow> string \<Rightarrow> string \<Rightarrow> (route \<times> string list) option" where
  "find_method rs m p = match_tree (map (\<lambda>x. (rt_segs x, x)) (filter (\<lambda>x. rt_method x = m) rs)) (path_segs p)"

definition find_route :: "route list \<Rightarrow> string \<Rightarrow> string \<Rightarrow> (route \<times> string list) option" where
  "find_route rs m p =
     (case find_method rs m p of
        Some x \<Rightarrow> Some x
      | None \<Rightarrow> if m = ''HEAD'' then find_method rs ''GET'' p else None)"

definition matching_methods :: "route list \<Rightarrow> string \<Rightarrow> string list" where
  "matching_methods rs p =
     filter (\<lambda>m. find_route rs m p \<noteq> None) [''DELETE'', ''GET'', ''HEAD'', ''PATCH'', ''POST'']"

subsection \<open>Serving\<close>

definition cleanPath :: "string \<Rightarrow> string" where
  "cleanPath p =
     (if p = '''' then ''/''
      else let p = (if HasPrefix p ''/'' then p else CHR ''/'' # p); np = Clean p
        in if last p = CHR ''/'' \<and> np \<noteq> ''/'' then np @ ''/'' else np)"

definition moved_permanently :: "'b request \<Rightarrow> string \<Rightarrow> rwriter \<Rightarrow> rwriter" where
  "moved_permanently r url w =
     (let had_type = hdrs w ''Content-Type'' \<noteq> None;
          w = header_set ''Location'' url w;
          w = (if \<not> had_type \<and> meth r \<in> {''GET'', ''HEAD''}
               then header_set ''Content-Type'' ''text/html; charset=utf-8'' w else w);
          w = write_header 301 w
      in if \<not> had_type \<and> meth r = ''GET''
         then write_body (Text (''<a href='' @ CHR 0x22 # html_escape url @ CHR 0x22 # ''>Moved Permanently</a>.'' @
                [CHR 0x0A, CHR 0x0A])) w
         else w)"

text \<open>The names of the wildcards of a pattern, in order.\<close>

fun wild_names :: "seg list \<Rightarrow> string list" where
  "wild_names [] = []"
| "wild_names (Lit t # p) = wild_names p"
| "wild_names (Wild n # p) = n # wild_names p"

definition with_path_values :: "string list \<Rightarrow> string list \<Rightarrow> 'b request \<Rightarrow> 'b request" where
  "with_path_values ns vs r =
     r\<lparr>path_value := (\<lambda>k. case map_of (zip ns vs) k of None \<Rightarrow> '''' | Some v \<Rightarrow> v)\<rparr>"

definition mux_serve ::
  "(('b, 's) handler \<Rightarrow> ('b, 's) handler) \<Rightarrow> (string \<Rightarrow> ('b, 's) handler) \<Rightarrow> route list \<Rightarrow> ('b, 's) handler" where
  "mux_serve withAuth impl rs r = (\<lambda>(w, s).
     (let p = path r
      in if meth r \<noteq> ''CONNECT'' \<and> cleanPath p \<noteq> p then respond (moved_permanently r (cleanPath p) w) s
         else case find_route rs (meth r) p of
                Some (x, vs) \<Rightarrow>
                  (if rt_auth x then withAuth (impl (rt_endpoint x)) else impl (rt_endpoint x))
                    (with_path_values (wild_names (rt_segs x)) vs r) (w, s)
              | None \<Rightarrow>
                  if matching_methods rs p = [] then respond (http_error ''404 page not found'' 404 w) s
                  else respond (http_error ''Method Not Allowed'' 405
                         (header_set ''Allow'' (concat (map (\<lambda>m. m @ '', '') (butlast (matching_methods rs p))) @
                           last (matching_methods rs p)) w)) s))"

definition api ::
  "jwt_lib \<Rightarrow> auth_env \<Rightarrow> (string \<Rightarrow> ('b, validator \<times> 's) handler) \<Rightarrow> ('b, validator \<times> 's) handler" where
  "api lib env impl = mux_serve (AuthMiddleware lib env) impl registerRoutes"

lemma route_examples:
  "map_option (\<lambda>(x, vs). (rt_endpoint x, vs)) (find_route registerRoutes ''DELETE'' ''/offline/downloads/expired'') =
     Some (''offline.DeleteAllExpiredDownloads'', [])"
  "map_option (\<lambda>(x, vs). (rt_endpoint x, vs)) (find_route registerRoutes ''DELETE'' ''/offline/downloads/7'') =
     Some (''offline.DeleteOfflineDownload'', [''7''])"
  "find_route registerRoutes ''DELETE'' ''/offline/downloads/'' = None"
  "matching_methods registerRoutes ''/projects'' = [''GET'', ''HEAD'', ''POST'']"
  by code_simp+

lemma registration: "conflict_free registerRoutes"
  by code_simp

subsection \<open>The search finds the most specific pattern\<close>

lemma set_lit_step: "(q, a) \<in> set (lit_step s ps) \<longleftrightarrow> (Lit s # q, a) \<in> set ps"
  by (induction s ps rule: lit_step.induct) (auto split: list.split seg.split)

lemma set_wild_step: "(q, a) \<in> set (wild_step ps) \<longleftrightarrow> (\<exists>n. (Wild n # q, a) \<in> set ps)"
  by (induction ps rule: wild_step.induct) (auto split: list.split seg.split)

lemma matches_Cons [simp]:
  "matches (Lit t # q) (s # ss) \<longleftrightarrow> s = t \<and> matches q ss" "matches (Wild n # q) (s # ss) \<longleftrightarrow> s \<noteq> '''' \<and> matches q ss"
  "matches [] ss \<longleftrightarrow> ss = []" "matches p [] \<longleftrightarrow> p = []"
  by (auto simp: matches_def seg_matches_def)

lemma as_specific_simps [simp]:
  "as_specific (p # ps) (q # qs) \<longleftrightarrow> seg_le p q \<and> as_specific ps qs" "as_specific [] []"
  "seg_le (Lit s) (Lit t) \<longleftrightarrow> s = t" "\<not> seg_le (Wild n) (Lit t)" "seg_le (Wild n) (Wild m)"
  "seg_le (Lit s) (Wild m) \<longleftrightarrow> s \<noteq> ''''"
  by (auto simp: as_specific_def seg_le_def)

lemma as_specific_matches: "as_specific p q \<Longrightarrow> matches p ss \<Longrightarrow> matches q ss"
proof (induction p arbitrary: q ss)
  case (Cons x p)
  obtain y q' where q: "q = y # q'" using Cons.prems(1) by (cases q) (auto simp: as_specific_def)
  obtain s ss' where ss: "ss = s # ss'" using Cons.prems(2) by (cases ss) auto
  show ?case using Cons q ss by (cases x; cases y) auto
qed (auto simp: as_specific_def)

lemma match_tree_None: "match_tree ps ss = None \<longleftrightarrow> (\<forall>(p, a)\<in>set ps. \<not> matches p ss)"
proof (induction ps ss rule: match_tree.induct)
  case (1 ps)
  have "match_tree ps [] = None \<longleftrightarrow> filter (\<lambda>(p, a). p = []) ps = []" by (auto split: list.split)
  then show ?case by (auto simp: filter_empty_conv)
next
  case (2 ps s ss)
  have step: "(X \<longleftrightarrow> L \<and> (n \<longrightarrow> W)) \<Longrightarrow> (Y \<longleftrightarrow> A \<and> (n \<longrightarrow> B)) \<Longrightarrow> (A \<longleftrightarrow> L) \<Longrightarrow> (A \<Longrightarrow> n \<Longrightarrow> B \<longleftrightarrow> W) \<Longrightarrow> Y \<longleftrightarrow> X"
    for X L n W Y A B by blast
  have all: "(\<forall>(p, a)\<in>set ps. \<not> matches p (s # ss)) \<longleftrightarrow>
      (\<forall>(q, a)\<in>set (lit_step s ps). \<not> matches q ss) \<and> (s \<noteq> '''' \<longrightarrow> (\<forall>(q, a)\<in>set (wild_step ps). \<not> matches q ss))"
    (is "?all \<longleftrightarrow> ?lit \<and> ?wild")
  proof
    assume ?all
    then show "?lit \<and> ?wild" by (fastforce simp: set_lit_step set_wild_step)
  next
    assume steps: "?lit \<and> ?wild"
    have "\<not> matches p (s # ss)" if "(p, a) \<in> set ps" for p a
      using that steps
    proof (cases p)
      case (Cons x q)
      with that steps show ?thesis by (cases x) (fastforce simp: set_lit_step set_wild_step)+
    qed simp
    then show ?all by blast
  qed
  have tree: "match_tree ps (s # ss) = None \<longleftrightarrow>
      match_tree (lit_step s ps) ss = None \<and> (s \<noteq> '''' \<longrightarrow> match_tree (wild_step ps) ss = None)"
    by (auto split: option.split)
  show ?case by (rule step [OF all tree 2])
qed

lemma match_tree_Some:
  assumes "match_tree ps ss = Some (a, vs)"
  shows "\<exists>p. (p, a) \<in> set ps \<and> matches p ss \<and> length vs = length (wild_names p) \<and>
     (\<forall>(q, b)\<in>set ps. matches q ss \<and> as_specific q p \<longrightarrow> as_specific p q)"
  using assms
proof (induction ps ss arbitrary: vs rule: match_tree.induct)
  case (1 ps)
  have "\<exists>p. (p, a) \<in> set (filter (\<lambda>(p, a). p = []) ps) \<and> vs = []"
  proof (cases "filter (\<lambda>(p, a). p = []) ps")
    case (Cons x xs)
    with 1 obtain p where "x = (p, a)" "vs = []" by (auto split: prod.splits)
    with Cons show ?thesis by auto
  qed (use 1 in simp)
  then show ?case by auto
next
  case (2 ps s ss)
  show ?case
  proof (cases "match_tree (lit_step s ps) ss")
    case (Some x)
    with 2 obtain p where p: "(p, a) \<in> set (lit_step s ps)" "matches p ss" "length vs = length (wild_names p)"
      "\<forall>(q, b)\<in>set (lit_step s ps). matches q ss \<and> as_specific q p \<longrightarrow> as_specific p q" by fastforce
    have "as_specific (Lit s # p) q" if "(q, b) \<in> set ps" "matches q (s # ss)" "as_specific q (Lit s # p)" for q b
    proof (cases q)
      case (Cons y q')
      with that(3) have "y = Lit s" by (cases y) auto
      with Cons that p(4) show ?thesis by (auto simp: set_lit_step)
    qed (use that in simp)
    with p show ?thesis by (intro exI [of _ "Lit s # p"]) (auto simp: set_lit_step)
  next
    case None
    with 2(3) obtain vs' where vs: "s \<noteq> ''''" "match_tree (wild_step ps) ss = Some (a, vs')" "vs = s # vs'"
      by (auto split: if_splits)
    from 2(2) [OF None vs(1,2)] obtain p where p: "(p, a) \<in> set (wild_step ps)" "matches p ss" "length vs' = length (wild_names p)"
      "\<forall>(q, b)\<in>set (wild_step ps). matches q ss \<and> as_specific q p \<longrightarrow> as_specific p q" by blast
    obtain n where n: "(Wild n # p, a) \<in> set ps" using p(1) by (auto simp: set_wild_step)
    have "as_specific (Wild n # p) q" if "(q, b) \<in> set ps" "matches q (s # ss)" "as_specific q (Wild n # p)" for q b
    proof (cases q)
      case (Cons y q')
      show ?thesis
      proof (cases y)
        case (Lit t)
        with Cons that have "(q', b) \<in> set (lit_step s ps)" "matches q' ss" by (auto simp: set_lit_step)
        with None show ?thesis unfolding match_tree_None by blast
      next
        case (Wild m)
        with Cons that p(4) show ?thesis by (fastforce simp: set_wild_step)
      qed
    qed (use that in simp)
    with n p vs show ?thesis by (intro exI [of _ "Wild n # p"]) auto
  qed
qed

lemma matches_overlap: "matches p ss \<Longrightarrow> matches q ss \<Longrightarrow> list_all2 seg_overlap p q"
proof (induction p arbitrary: q ss)
  case (Cons x p)
  obtain s ss' where ss: "ss = s # ss'" using Cons.prems(1) by (cases ss) auto
  obtain y q' where q: "q = y # q'" using Cons.prems(2) ss by (cases q) auto
  show ?case using Cons q ss by (cases x; cases y) (auto simp: seg_overlap_def)
qed (auto simp: matches_def)

lemma conflict_free_comparable:
  assumes "conflict_free rs" "x \<in> set rs" "y \<in> set rs" "rt_method x = rt_method y"
    "matches (rt_segs x) ss" "matches (rt_segs y) ss"
  shows "x = y \<or> as_specific (rt_segs x) (rt_segs y) \<noteq> as_specific (rt_segs y) (rt_segs x)"
proof -
  have sym: "list_all2 seg_overlap (rt_segs x) (rt_segs y)" "list_all2 seg_overlap (rt_segs y) (rt_segs x)"
    using assms(5,6) matches_overlap by blast+
  have "\<not> conflict x y \<or> \<not> conflict y x \<or> x = y"
    using assms(1-3) by (induction rs) (auto simp: list_all_iff)
  with sym assms(4) show ?thesis by (auto simp: conflict_def)
qed

text \<open>A request goes to a route of its method exactly when one matches its path (a \<open>HEAD\<close> request to a route of
  \<open>GET\<close> when it has none), and among the routes that match, the chosen one is the most specific: every path it matches is
  matched by all the others, and none of them is as specific.\<close>

theorem most_specific_route:
  "(find_method registerRoutes m p = None \<longleftrightarrow>
      (\<forall>x\<in>set registerRoutes. rt_method x = m \<longrightarrow> \<not> matches (rt_segs x) (path_segs p))) \<and>
   (\<forall>x vs. find_method registerRoutes m p = Some (x, vs) \<longrightarrow>
      x \<in> set registerRoutes \<and> rt_method x = m \<and> matches (rt_segs x) (path_segs p) \<and> length vs = length (wild_names (rt_segs x)) \<and>
      (\<forall>y\<in>set registerRoutes. rt_method y = m \<and> matches (rt_segs y) (path_segs p) \<and> y \<noteq> x \<longrightarrow>
         (\<forall>ss. matches (rt_segs x) ss \<longrightarrow> matches (rt_segs y) ss) \<and> \<not> as_specific (rt_segs y) (rt_segs x)))"
proof -
  let ?ps = "map (\<lambda>x. (rt_segs x, x)) (filter (\<lambda>x. rt_method x = m) registerRoutes)"
  have none: "find_method registerRoutes m p = None \<longleftrightarrow>
      (\<forall>x\<in>set registerRoutes. rt_method x = m \<longrightarrow> \<not> matches (rt_segs x) (path_segs p))"
    unfolding find_method_def match_tree_None by auto
  have some: "x \<in> set registerRoutes \<and> rt_method x = m \<and> matches (rt_segs x) (path_segs p) \<and> length vs = length (wild_names (rt_segs x)) \<and>
      (\<forall>y\<in>set registerRoutes. rt_method y = m \<and> matches (rt_segs y) (path_segs p) \<and> y \<noteq> x \<longrightarrow>
         (\<forall>ss. matches (rt_segs x) ss \<longrightarrow> matches (rt_segs y) ss) \<and> \<not> as_specific (rt_segs y) (rt_segs x))"
    if "find_method registerRoutes m p = Some (x, vs)" for x vs
  proof -
    from match_tree_Some [OF that [unfolded find_method_def]]
    have x: "x \<in> set registerRoutes" "rt_method x = m" "matches (rt_segs x) (path_segs p)" "length vs = length (wild_names (rt_segs x))"
      and best: "\<And>y. y \<in> set registerRoutes \<Longrightarrow> rt_method y = m \<Longrightarrow> matches (rt_segs y) (path_segs p) \<Longrightarrow>
        as_specific (rt_segs y) (rt_segs x) \<Longrightarrow> as_specific (rt_segs x) (rt_segs y)"
      by auto
    have "as_specific (rt_segs x) (rt_segs y) \<and> \<not> as_specific (rt_segs y) (rt_segs x)"
      if y: "y \<in> set registerRoutes" "rt_method y = m" "matches (rt_segs y) (path_segs p)" "y \<noteq> x" for y
      using conflict_free_comparable [OF registration x(1) y(1) _ x(3) y(3)] x(2) y best by auto
    with x as_specific_matches show ?thesis by blast
  qed
  from none some show ?thesis by blast
qed

lemma api_public_only:
  assumes "\<forall>e\<in>snd ` set registerPublicRoutes. impl e = impl' e"
    and "fst (ValidateToken lib env (req_hdr r ''Authorization'') v) = None"
  shows "api lib env impl r (w, v, s) = api lib env impl' r (w, v, s)"
proof -
  have auth: "AuthMiddleware lib env h r' (w, v, s) = AuthMiddleware lib env h' r' (w, v, s)"
    if "req_hdr r' = req_hdr r" for h h' r'
    using that assms(2) by (auto simp: AuthMiddleware_def Let_def split: prod.split option.split)
  have pub: "impl (rt_endpoint x) = impl' (rt_endpoint x)" if "x \<in> set registerRoutes" "\<not> rt_auth x" for x
  proof -
    have "rt_endpoint x \<in> snd ` set registerPublicRoutes"
      using that by (auto simp: registerRoutes_def parse_route_def Let_def image_iff split: prod.splits) force
    with assms(1) show ?thesis by blast
  qed
  have found: "x \<in> set registerRoutes" if "find_route registerRoutes m p = Some (x, vs)" for x vs m p
    using that match_tree_Some by (fastforce simp: find_route_def find_method_def split: option.splits if_splits)
  show ?thesis
  proof (cases "find_route registerRoutes (meth r) (path r)")
    case (Some a)
    obtain x vs where "a = (x, vs)" by (cases a)
    with Some found pub auth [of "with_path_values (wild_names (rt_segs x)) vs r"] show ?thesis
      by (auto simp: api_def mux_serve_def Let_def with_path_values_def)
  next
    case None
    then show ?thesis unfolding api_def mux_serve_def Let_def by (simp only: prod.case option.case)
  qed
qed

text \<open>A request without a valid token is answered in a way that depends on the public handlers alone: whatever the
  handlers behind the protected routes are, the answer and the new state of the server are the same.\<close>

theorem protected_handlers_unreachable:
  assumes "\<forall>e\<in>snd ` set registerPublicRoutes. impl e = impl' e"
    and "fst (ValidateToken lib env (req_hdr r ''Authorization'') v) = None"
  shows "api lib env impl r (w, v, s) = api lib env impl' r (w, v, s)"
  using assms by (rule api_public_only)

theorem most_specific_route_witness:
  "\<exists>x. find_method registerRoutes ''DELETE'' ''/offline/downloads/expired'' = Some (x, []) \<and>
     rt_endpoint x = ''offline.DeleteAllExpiredDownloads'' \<and>
     (\<forall>y\<in>set registerRoutes. rt_method y = ''DELETE'' \<and> matches (rt_segs y) (path_segs ''/offline/downloads/expired'') \<and> y \<noteq> x \<longrightarrow>
        \<not> as_specific (rt_segs y) (rt_segs x))"
proof -
  let ?find = "find_method registerRoutes ''DELETE'' ''/offline/downloads/expired''"
  have "map_option (\<lambda>(x, vs). (rt_endpoint x, vs)) ?find = Some (''offline.DeleteAllExpiredDownloads'', [])" by code_simp
  then obtain x where x: "?find = Some (x, [])" "rt_endpoint x = ''offline.DeleteAllExpiredDownloads''"
    by (cases ?find) auto
  have "\<forall>y\<in>set registerRoutes. rt_method y = ''DELETE'' \<and> matches (rt_segs y) (path_segs ''/offline/downloads/expired'') \<and> y \<noteq> x \<longrightarrow>
      \<not> as_specific (rt_segs y) (rt_segs x)"
    using most_specific_route [of "''DELETE''" "''/offline/downloads/expired''", THEN conjunct2] x(1) by blast
  with x show ?thesis by blast
qed

definition delete_project :: "unit request" where
  "delete_project = plain_request\<lparr>meth := ''DELETE'', path := ''/projects/p''\<rparr>"

theorem protected_handlers_unreachable_witness:
  "api sample_lib sample_auth (\<lambda>e r ws. (Returned, ws)) delete_project (new_writer, sample_validator, 0 :: nat) =
   api sample_lib sample_auth (\<lambda>e r (w, v, s). (if e = ''project.DeleteProject'' then Panicked else Returned, w, v,
     if e = ''project.DeleteProject'' then s + 1 else s))
     delete_project (new_writer, sample_validator, 0)"
proof (rule protected_handlers_unreachable)
  show "fst (ValidateToken sample_lib sample_auth (req_hdr delete_project ''Authorization'') sample_validator) = None"
    by (simp add: delete_project_def plain_request_def ValidateToken_def)
  have "''project.DeleteProject'' \<notin> snd ` set registerPublicRoutes" by code_simp
  then have other: "e \<in> snd ` set registerPublicRoutes \<Longrightarrow> e \<noteq> ''project.DeleteProject''" for e by (rule contrapos_pn) simp
  show "\<forall>e\<in>snd ` set registerPublicRoutes. (\<lambda>r ws. (Returned, ws)) =
      (\<lambda>r (w, v, s :: nat). (if e = ''project.DeleteProject'' then Panicked else Returned, w, v,
         if e = ''project.DeleteProject'' then s + 1 else s))"
    by (rule ballI, drule other) (simp add: fun_eq_iff)
qed

end
