(* ===== verification/GraphQL.thy ===== *)
theory GraphQL
  imports Notifications Router "HOL-Library.List_Lexorder"
begin

text \<open>
  \<open>graphql/executor.go\<close> and \<open>graphql/resolver.go\<close>: the textual search that stands for a parser, the resolvers and the
  endpoint. \<open>None\<close> is a panic, from indexing an empty remainder. Of a wrapped error only the text of the resolver is
  kept. Numbers in variables are whole and print as they are, which Go's \<open>%v\<close> does below 10\<open>^\<close>21.

  Shown: what the search finds in a rendered query, when it panics, and that, as the route is registered,
  no request to the endpoint changes anything.
\<close>

subsection \<open>Text\<close>

text \<open>\<open>strings.Fields\<close>: the word read so far is kept in reverse.\<close>

function fields_from :: "string \<Rightarrow> string \<Rightarrow> string list" where
  "fields_from acc s =
     (case s of
        [] \<Rightarrow> (if acc = [] then [] else [rev acc])
      | c # cs \<Rightarrow>
          if length (strip_left space_runes s) < length s
          then (if acc = [] then [] else [rev acc]) @ fields_from [] (strip_left space_runes s)
          else fields_from (c # acc) cs)"
  by pat_completeness auto
termination by (relation "measure (\<lambda>(acc, s). length s)") auto

declare fields_from.simps [simp del]

definition Fields :: "string \<Rightarrow> string list" where
  "Fields = fields_from []"

definition quote :: char where "quote = CHR 0x22"

fun format_value :: "json \<Rightarrow> string" where
  "format_value JNull = ''<nil>''"
| "format_value (JBool b) = (if b then ''true'' else ''false'')"
| "format_value (JNum n) = Itoa n"
| "format_value (JStr s) = s"
| "format_value (JList xs) = ''['' @ Join CHR '' '' (map format_value xs) @ '']''"
| "format_value (JObj kvs) = ''map['' @ Join CHR '' ''
     (map (\<lambda>(k, v). k @ '':'' @ v) (sort_key fst (map (\<lambda>(k, v). (k, format_value v)) kvs))) @ '']''"

definition field_end :: "char \<Rightarrow> bool" where
  "field_end c \<longleftrightarrow> c = CHR ''('' \<or> c = CHR '' '' \<or> c = CHR ''{'' \<or> c = CHR 0x0A"

text \<open>Without an end of the word the slice ends after the first byte of the last character.\<close>

definition extractFieldName :: "string \<Rightarrow> string" where
  "extractFieldName q =
     (let q = Join CHR '' '' (Fields q)
      in case Index q ''{'' of
           None \<Rightarrow> ''''
         | Some idx \<Rightarrow>
             let remainder = TrimSpace (drop (idx + 1) q);
                 fieldName = (if list_ex field_end remainder then takeWhile (\<lambda>c. \<not> field_end c) remainder
                   else if remainder = '''' then ''''
                   else take (last (rune_starts 0 remainder) + 1) remainder)
             in TrimSpace fieldName)"

definition word_char :: "char \<Rightarrow> bool" where
  "word_char c \<longleftrightarrow> (CHR ''a'' \<le> c \<and> c \<le> CHR ''z'') \<or> (CHR ''A'' \<le> c \<and> c \<le> CHR ''Z'') \<or> is_digit c \<or> c = CHR ''_''"

definition extractVarName :: "string \<Rightarrow> string option" where
  "extractVarName s =
     (let s = TrimSpace s
      in if s = '''' then None
         else Some (takeWhile word_char (if hd s = CHR ''$'' then tl s else s)))"

text \<open>What follows the first occurrence of an argument name.\<close>

definition argument_at :: "string \<Rightarrow> string \<Rightarrow> string option" where
  "argument_at q argName =
     map_option (\<lambda>idx. TrimSpace (drop (idx + length argName + 1) q)) (Index q (argName @ '':''))"

type_synonym variables = "(string \<times> json) list"

definition extractArgument :: "string \<Rightarrow> string \<Rightarrow> variables \<Rightarrow> string option" where
  "extractArgument q argName vars =
     (case argument_at q argName of
        None \<Rightarrow> Some ''''
      | Some remainder \<Rightarrow>
          if remainder = '''' then None
          else case (if hd remainder = CHR ''$'' then Option.bind (extractVarName remainder) (map_of vars) else None) of
                 Some v \<Rightarrow> Some (format_value v)
               | None \<Rightarrow>
                   if hd remainder = quote then
                     (case Index (tl remainder) [quote] of
                        Some endIdx \<Rightarrow> Some (take endIdx (tl remainder))
                      | None \<Rightarrow> Some '''')
                   else Some '''')"

definition extractIDArray :: "string \<Rightarrow> string \<Rightarrow> variables \<Rightarrow> string list option" where
  "extractIDArray q argName vars =
     (case argument_at q argName of
        None \<Rightarrow> Some []
      | Some remainder \<Rightarrow>
          if remainder = '''' then None
          else case (if hd remainder = CHR ''$'' then Option.bind (extractVarName remainder) (map_of vars) else None) of
                 Some (JList xs) \<Rightarrow> Some (map format_value xs)
               | _ \<Rightarrow> Some [])"

definition extractPagination :: "string \<Rightarrow> variables \<Rightarrow> (int \<times> int) option" where
  "extractPagination q vars =
     (case extractArgument q ''limit'' vars of
        None \<Rightarrow> None
      | Some limitStr \<Rightarrow>
          let limit = (if limitStr = '''' then 20
                else case Atoi limitStr of Some l \<Rightarrow> if l > 0 \<and> l \<le> 100 then l else 20 | None \<Rightarrow> 20)
          in case extractArgument q ''offset'' vars of
               None \<Rightarrow> None
             | Some offsetStr \<Rightarrow>
                 Some (limit, if offsetStr = '''' then 0
                   else case Atoi offsetStr of Some off \<Rightarrow> if off \<ge> 0 then off else 0 | None \<Rightarrow> 0))"

definition field_bool :: "variables \<Rightarrow> string \<Rightarrow> bool option" where
  "field_bool kvs k = (case map_of kvs k of Some (JBool b) \<Rightarrow> Some b | _ \<Rightarrow> None)"

definition field_str :: "variables \<Rightarrow> string \<Rightarrow> string option" where
  "field_str kvs k = (case map_of kvs k of Some (JStr b) \<Rightarrow> Some b | _ \<Rightarrow> None)"

definition preferences_of :: "variables \<Rightarrow> prefs_body" where
  "preferences_of kvs = \<lparr>pb_push = field_bool kvs ''pushEnabled'', pb_likes = field_bool kvs ''pushLikes'',
     pb_comments = field_bool kvs ''pushComments'', pb_follows = field_bool kvs ''pushFollows'',
     pb_shares = field_bool kvs ''pushShares'', pb_mentions = field_bool kvs ''pushMentions'',
     pb_quiet = field_bool kvs ''quietHoursEnabled'', pb_quiet_start = field_str kvs ''quietHoursStart'',
     pb_quiet_end = field_str kvs ''quietHoursEnd'', pb_bundle = field_bool kvs ''bundleByType''\<rparr>"

definition extractPreferencesInput :: "string \<Rightarrow> variables \<Rightarrow> prefs_body option" where
  "extractPreferencesInput q vars =
     (case argument_at q ''input'' of
        None \<Rightarrow> Some (preferences_of [])
      | Some remainder \<Rightarrow>
          if remainder = '''' then None
          else case (if hd remainder = CHR ''$'' then Option.bind (extractVarName remainder) (map_of vars) else None) of
                 Some (JObj kvs) \<Rightarrow> Some (preferences_of kvs)
               | _ \<Rightarrow> Some (preferences_of []))"

lemma extract_examples:
  "extractFieldName ''query  {  me { id } }'' = ''me''" "extractFieldName ''{me}'' = ''me}''"
  "extractArgument (''{ user(id: '' @ quote # ''u1'' @ quote # '') }'') ''id'' [] = Some ''u1''"
  "extractArgument ''{ user(id: $u) }'' ''id'' [(''u'', JNum 7)] = Some ''7''"
  "extractArgument ''{ projects(limit: 5) }'' ''limit'' [] = Some ''''" "extractArgument ''{ user(id:'' ''id'' [] = None"
  by code_simp+

subsection \<open>Resolvers\<close>

type_synonym 'a resolved = "string + 'a"

text \<open>Every user is converted to the same constant.\<close>

definition dbUserToGraphQL :: json where
  "dbUserToGraphQL = JObj [(''ID'', JStr ''user-id''), (''Username'', JStr ''''), (''Email'', JStr ''''),
     (''AvatarURL'', JStr ''''), (''Bio'', JStr '''')]"

definition Me :: "'o app_env \<Rightarrow> 'b request \<Rightarrow> 'o app \<Rightarrow> json resolved" where
  "Me env r s =
     (case ctx_string ''user_id'' r of
        None \<Rightarrow> Inl ''unauthorized''
      | Some userID \<Rightarrow> (case GetUserByID (dbe env) userID (app_db s) of
            Inl _ \<Rightarrow> Inl ''failed to get user'' | Inr _ \<Rightarrow> Inr dbUserToGraphQL))"

definition User :: "'o app_env \<Rightarrow> string \<Rightarrow> 'o app \<Rightarrow> json resolved" where
  "User env i s =
     (case GetUserByID (dbe env) i (app_db s) of Inr (Some _) \<Rightarrow> Inr dbUserToGraphQL | _ \<Rightarrow> Inl ''user not found'')"

definition page_info :: "int \<Rightarrow> int \<Rightarrow> int \<Rightarrow> json" where
  "page_info limit offset n_all = JObj [(''Offset'', JNum offset), (''Limit'', JNum limit),
     (''HasMore'', JBool (has_more limit offset n_all)), (''TotalCount'', JNum n_all)]"

definition clamp :: "int \<Rightarrow> int" where
  "clamp limit = (let limit = (if limit \<le> 0 then 20 else limit) in if limit > 100 then 100 else limit)"

definition Projects :: "'o app_env \<Rightarrow> 'b request \<Rightarrow> int \<Rightarrow> int \<Rightarrow> 'o app \<Rightarrow> json resolved" where
  "Projects env r limit offset s =
     (case ctx_string ''user_id'' r of
        None \<Rightarrow> Inl ''unauthorized''
      | Some userID \<Rightarrow>
          let limit = clamp limit
          in case GetUserProjectsPaginated (dbe env) userID limit offset (app_db s) of
               Inl _ \<Rightarrow> Inl ''failed to get projects''
             | Inr (ps, n_all) \<Rightarrow> Inr (JObj [(''Edges'', json_slice project_json ps),
                 (''PageInfo'', page_info limit offset n_all), (''TotalCount'', JNum n_all)]))"

definition Notifications :: "(go_time \<Rightarrow> string option) \<Rightarrow> 'o app_env \<Rightarrow> 'b request \<Rightarrow> int \<Rightarrow> int \<Rightarrow> 'o app \<Rightarrow> json resolved" where
  "Notifications scan_time env r limit offset s =
     (case ctx_string ''user_id'' r of
        None \<Rightarrow> Inl ''unauthorized''
      | Some userID \<Rightarrow>
          let limit = clamp limit
          in case GetNotificationsPaginated scan_time (dbe env) userID limit offset (app_db s) of
               Inl _ \<Rightarrow> Inl ''failed to get notifications''
             | Inr (ns, n_all) \<Rightarrow>
                 let unread = (case GetUnreadNotificationCount (dbe env) userID (app_db s) of Inl _ \<Rightarrow> 0 | Inr n \<Rightarrow> n)
                 in Inr (JObj [(''Edges'', JList (map sent_notification_json ns)),
                      (''PageInfo'', page_info limit offset n_all), (''TotalCount'', JNum n_all), (''UnreadCount'', JNum unread)]))"

definition UnreadNotificationCount :: "'o app_env \<Rightarrow> 'b request \<Rightarrow> 'o app \<Rightarrow> json resolved" where
  "UnreadNotificationCount env r s =
     (case ctx_string ''user_id'' r of
        None \<Rightarrow> Inl ''unauthorized''
      | Some userID \<Rightarrow> (case GetUnreadNotificationCount (dbe env) userID (app_db s) of
            Inl _ \<Rightarrow> Inl ''failed to get unread count'' | Inr n \<Rightarrow> Inr (JNum n)))"

definition RegisterDevice :: "'o app_env \<Rightarrow> 'b request \<Rightarrow> string \<Rightarrow> string \<Rightarrow> 'o app \<Rightarrow> json resolved \<times> 'o app" where
  "RegisterDevice env r token platform s =
     (case ctx_string ''user_id'' r of
        None \<Rightarrow> (Inl ''unauthorized'', s)
      | Some userID \<Rightarrow>
          (case UpsertDeviceToken (dbe env) userID token platform (app_db s) of
             (Inl _, d) \<Rightarrow> (Inl ''failed to register device token'', s\<lparr>app_db := d\<rparr>)
           | (Inr _, d) \<Rightarrow> (Inr (JObj [(''ID'', JStr ''''), (''Platform'', JStr platform)]), s\<lparr>app_db := d\<rparr>)))"

definition graphql_preferences :: "prefs_row \<Rightarrow> json" where
  "graphql_preferences p = JObj [(''PushEnabled'', JBool (np_push p)), (''PushLikes'', JBool (np_likes p)),
     (''PushComments'', JBool (np_comments p)), (''PushFollows'', JBool (np_follows p)), (''PushShares'', JBool (np_shares p)),
     (''PushMentions'', JBool (np_mentions p)), (''QuietHoursEnabled'', JBool (np_quiet p)),
     (''QuietHoursStart'', JStr (np_quiet_start p)), (''QuietHoursEnd'', JStr (np_quiet_end p)),
     (''BundleByType'', JBool (np_bundle p))]"

definition UpdatePrefs :: "'o app_env \<Rightarrow> 'b request \<Rightarrow> prefs_body \<Rightarrow> 'o app \<Rightarrow> json resolved \<times> 'o app" where
  "UpdatePrefs env r input s =
     (case ctx_string ''user_id'' r of
        None \<Rightarrow> (Inl ''unauthorized'', s)
      | Some userID \<Rightarrow>
          (case GetNotificationPreferences (dbe env) userID (app_db s) of
             Inl _ \<Rightarrow> (Inl ''failed to get preferences'', s)
           | Inr p \<Rightarrow>
               let p = apply_body input p
               in case UpdateNotificationPreferences (dbe env) userID p (app_db s) of
                    (Inl _, d) \<Rightarrow> (Inl ''failed to update preferences'', s\<lparr>app_db := d\<rparr>)
                  | (Inr _, d) \<Rightarrow> (Inr (graphql_preferences p), s\<lparr>app_db := d\<rparr>)))"

fun mark_all :: "dbenv \<Rightarrow> string list \<Rightarrow> database \<Rightarrow> int \<times> database" where
  "mark_all env [] d = (0, d)"
| "mark_all env (i # is) d =
     (case MarkNotificationAsRead env i d of
        (Inl _, d) \<Rightarrow> mark_all env is d
      | (Inr _, d) \<Rightarrow> (case mark_all env is d of (n, d) \<Rightarrow> (n + 1, d)))"

definition MarkNotificationsAsRead :: "'o app_env \<Rightarrow> 'b request \<Rightarrow> string list \<Rightarrow> 'o app \<Rightarrow> json resolved \<times> 'o app" where
  "MarkNotificationsAsRead env r is s =
     (case ctx_string ''user_id'' r of
        None \<Rightarrow> (Inl ''unauthorized'', s)
      | Some _ \<Rightarrow> (case mark_all (dbe env) is (app_db s) of (n, d) \<Rightarrow> (Inr (JNum n), s\<lparr>app_db := d\<rparr>)))"

text \<open>The executor reaches neither of these two.\<close>

definition MarkOneAsRead :: "'o app_env \<Rightarrow> 'b request \<Rightarrow> string \<Rightarrow> 'o app \<Rightarrow> json resolved \<times> 'o app" where
  "MarkOneAsRead env r i s =
     (case ctx_string ''user_id'' r of
        None \<Rightarrow> (Inl ''unauthorized'', s)
      | Some _ \<Rightarrow>
          (case MarkNotificationAsRead (dbe env) i (app_db s) of
             (Inl _, d) \<Rightarrow> (Inl ''failed to mark as read'', s\<lparr>app_db := d\<rparr>)
           | (Inr _, d) \<Rightarrow> (Inr (JObj [(''success'', JBool True)]), s\<lparr>app_db := d\<rparr>)))"

definition MarkAllOfUser :: "'o app_env \<Rightarrow> 'b request \<Rightarrow> 'o app \<Rightarrow> json resolved \<times> 'o app" where
  "MarkAllOfUser env r s =
     (case ctx_string ''user_id'' r of
        None \<Rightarrow> (Inl ''unauthorized'', s)
      | Some userID \<Rightarrow>
          (case MarkAllNotificationsAsRead (dbe env) userID (app_db s) of
             (Inl _, d) \<Rightarrow> (Inl ''failed to mark all as read'', s\<lparr>app_db := d\<rparr>)
           | (Inr _, d) \<Rightarrow> (Inr (JBool True), s\<lparr>app_db := d\<rparr>)))"

subsection \<open>Execution\<close>

definition query_response :: "string \<Rightarrow> json resolved \<Rightarrow> json" where
  "query_response name res =
     (case res of Inl err \<Rightarrow> JObj [(''errors'', JList [JStr err])] | Inr j \<Rightarrow> JObj [(''data'', JObj [(name, j)])])"

definition query_error :: "string \<Rightarrow> json" where
  "query_error err = JObj [(''errors'', JList [JStr err])]"

definition executeQuery :: "(go_time \<Rightarrow> string option) \<Rightarrow> 'o app_env \<Rightarrow> 'b request \<Rightarrow> string \<Rightarrow> variables \<Rightarrow> 'o app \<Rightarrow> json option" where
  "executeQuery scan_time env r q vars s =
     (let name = extractFieldName q
      in if name = '''' then Some (query_error ''invalid query format'')
         else if name = ''me'' then Some (query_response name (Me env r s))
         else if name = ''projects'' then
           map_option (\<lambda>(limit, offset). query_response name (Projects env r limit offset s)) (extractPagination q vars)
         else if name = ''notifications'' then
           map_option (\<lambda>(limit, offset). query_response name (Notifications scan_time env r limit offset s)) (extractPagination q vars)
         else if name = ''unreadNotificationCount'' then Some (query_response name (UnreadNotificationCount env r s))
         else if name = ''user'' then
           map_option (\<lambda>i. if i = '''' then query_error ''missing required argument: id''
             else query_response name (User env i s)) (extractArgument q ''id'' vars)
         else Some (query_error (''unknown query field: '' @ name)))"

definition executeMutation ::
  "'o app_env \<Rightarrow> 'b request \<Rightarrow> string \<Rightarrow> variables \<Rightarrow> 'o app \<Rightarrow> (json \<times> 'o app) option" where
  "executeMutation env r q vars s =
     (let name = extractFieldName q; answer = (\<lambda>(res, s). (query_response name res, s))
      in if name = '''' then Some (query_error ''invalid mutation format'', s)
         else if name = ''registerDeviceToken'' then
           Option.bind (extractArgument q ''token'' vars) (\<lambda>token.
             map_option (\<lambda>platform. if token = '''' \<or> platform = ''''
                 then (query_error ''missing required arguments: token, platform'', s)
                 else answer (RegisterDevice env r token platform s)) (extractArgument q ''platform'' vars))
         else if name = ''updateNotificationPreferences'' then
           map_option (\<lambda>input. answer (UpdatePrefs env r input s)) (extractPreferencesInput q vars)
         else if name = ''markNotificationsAsRead'' then
           map_option (\<lambda>is. if is = [] then (query_error ''missing required argument: ids'', s)
             else answer (MarkNotificationsAsRead env r is s)) (extractIDArray q ''ids'' vars)
         else Some (query_error (''unknown mutation field: '' @ name), s))"

definition ExecuteQuery ::
  "(go_time \<Rightarrow> string option) \<Rightarrow> 'o app_env \<Rightarrow> 'b request \<Rightarrow> string \<Rightarrow> variables \<Rightarrow> 'o app \<Rightarrow> (json \<times> 'o app) option" where
  "ExecuteQuery scan_time env r q vars s =
     (let q = TrimSpace q
      in if Contains q ''mutation '' \<or> Contains q ''mutation{'' then executeMutation env r q vars s
         else map_option (\<lambda>j. (j, s)) (executeQuery scan_time env r q vars s))"

record graphql_body =
  gq_query :: string
  gq_variables :: variables

definition GraphQLHandler :: "(go_time \<Rightarrow> string option) \<Rightarrow> 'o app_env \<Rightarrow> (graphql_body, 'o app) handler" where
  "GraphQLHandler scan_time env r = (\<lambda>(w, s).
     (if meth r \<noteq> ''POST'' \<and> meth r \<noteq> ''GET'' then respond (http_error ''Method not allowed'' 405 w) s
      else case req_body r of
             None \<Rightarrow> respond (write_json 400 (query_error ''invalid request body: '') w) s
           | Some b \<Rightarrow>
               if TrimSpace (gq_query b) = '''' then respond (write_json 400 (query_error ''query cannot be empty'') w) s
               else case ExecuteQuery scan_time env r (gq_query b) (gq_variables b) s of
                      None \<Rightarrow> (Panicked, w, s)
                    | Some (j, s) \<Rightarrow> respond (write_json 200 j w) s))"

subsection \<open>Arguments are found\<close>

lemma strip_left_removed: "\<exists>a. s = a @ strip_left ws s \<and> set a \<subseteq> (\<Union>w\<in>set ws. set w)"
proof (induction ws s rule: strip_left.induct)
  case (1 ws s)
  show ?case
  proof (cases "find (\<lambda>w. w \<noteq> [] \<and> HasPrefix s w) ws")
    case None
    then show ?thesis by (simp add: strip_left.simps)
  next
    case (Some w)
    then obtain t where w: "w \<in> set ws" "s = w @ t" by (auto dest!: find_SomeD simp: HasPrefix_iff)
    with 1 [OF Some] obtain a where "t = a @ strip_left ws t" "set a \<subseteq> (\<Union>w\<in>set ws. set w)" by auto
    moreover have "strip_left ws s = strip_left ws t" using Some w(2) by (subst strip_left.simps) simp
    ultimately show ?thesis using w by (intro exI [of _ "w @ a"]) auto
  qed
qed

definition space_bytes :: "char set" where
  "space_bytes = (\<Union>w\<in>set space_runes. set w)"

lemma TrimSpace_removed: "\<exists>b. strip_left space_runes s = TrimSpace s @ b \<and> set b \<subseteq> space_bytes"
proof -
  obtain a where "rev (strip_left space_runes s) = a @ strip_left (map rev space_runes) (rev (strip_left space_runes s))"
    "set a \<subseteq> space_bytes"
    using strip_left_removed [of "rev (strip_left space_runes s)" "map rev space_runes"] by (auto simp: space_bytes_def)
  then have "strip_left space_runes s = TrimSpace s @ rev a" unfolding TrimSpace_def by (metis rev_append rev_rev_ident)
  with \<open>set a \<subseteq> space_bytes\<close> show ?thesis by auto
qed

lemma append_split_last:
  "x @ c # y = t @ b \<Longrightarrow> c \<notin> set b \<Longrightarrow> \<exists>y'. t = x @ c # y'"
proof (induction x arbitrary: t)
  case Nil
  then show ?case by (cases t) auto
next
  case (Cons z x)
  then show ?case by (cases t) auto
qed

text \<open>Up to a byte that no white space contains, only leading white space is removed.\<close>

lemma TrimSpace_keeps:
  assumes "d \<notin> space_bytes" "c \<notin> space_bytes"
  shows "\<exists>y'. TrimSpace (CHR '' '' # d # x @ c # y) = d # x @ c # y'"
proof -
  let ?s = "CHR '' '' # d # x @ c # y"
  have ws: "w \<noteq> [] \<and> set w \<subseteq> space_bytes" if "w \<in> set space_runes" for w
    using that by (auto simp: space_bytes_def space_runes_def)
  have stop: "strip_left space_runes (d # x @ c # y) = d # x @ c # y"
    using assms(1) ws by (intro strip_left_id) (fastforce simp: HasPrefix_iff neq_Nil_conv)
  have "strip_left space_runes ?s = d # x @ c # y"
  proof -
    have "find (\<lambda>w. w \<noteq> [] \<and> HasPrefix ?s w) space_runes = Some '' ''"
      using assms(1) by (simp add: space_runes_def HasPrefix_def)
    then show ?thesis using stop by (subst strip_left.simps) simp
  qed
  with TrimSpace_removed [of ?s] obtain b where b: "(d # x) @ c # y = TrimSpace ?s @ b" "set b \<subseteq> space_bytes" by auto
  with append_split_last [OF b(1)] assms(2) show ?thesis by auto
qed

lemma Index_first: "c \<notin> set v \<Longrightarrow> Index (v @ c # rest) [c] = Some (length v)"
  by (induction v) (auto simp: HasPrefix_def)

lemma argument_at_first:
  assumes "Index (a @ name @ '':'' @ t) (name @ '':'') = Some (length a)"
  shows "argument_at (a @ name @ '':'' @ t) name = Some (TrimSpace t)"
  using assms by (simp add: argument_at_def)

text \<open>The argument of a query is found: where its name followed by a colon first occurs, a quoted value without a quote in it
  is returned as it is, and a variable that has a value is returned as the text of that value.\<close>

theorem argument_roundtrip:
  assumes "Index (a @ name @ '':'' @ t) (name @ '':'') = Some (length a)"
  shows "(t = CHR '' '' # quote # v @ quote # rest \<and> quote \<notin> set v \<longrightarrow>
       extractArgument (a @ name @ '':'' @ t) name vars = Some v) \<and>
     (t = CHR '' '' # CHR ''$'' # x @ CHR '')'' # rest \<and> list_all word_char x \<and> map_of vars x = Some j \<longrightarrow>
       extractArgument (a @ name @ '':'' @ t) name vars = Some (format_value j))"
proof -
  have bytes: "quote \<notin> space_bytes" "CHR ''$'' \<notin> space_bytes" "CHR '')'' \<notin> space_bytes"
    by (simp_all add: space_bytes_def space_runes_def quote_def)
  note at = argument_at_first [OF assms]
  have "extractArgument (a @ name @ '':'' @ t) name vars = Some v"
    if "t = CHR '' '' # quote # v @ quote # rest" "quote \<notin> set v"
  proof -
    have "\<exists>y. TrimSpace t = quote # v @ quote # y" unfolding that(1) by (rule TrimSpace_keeps [OF bytes(1,1)])
    then obtain y where "TrimSpace t = quote # v @ quote # y" ..
    moreover have "quote \<noteq> CHR ''$''" by (simp add: quote_def)
    ultimately show ?thesis using at that(2) by (simp add: extractArgument_def Index_first)
  qed
  moreover have "extractArgument (a @ name @ '':'' @ t) name vars = Some (format_value j)"
    if t: "t = CHR '' '' # CHR ''$'' # x @ CHR '')'' # rest" "list_all word_char x" "map_of vars x = Some j"
  proof -
    have "\<exists>y. TrimSpace t = CHR ''$'' # x @ CHR '')'' # y" unfolding t(1) by (rule TrimSpace_keeps [OF bytes(2,3)])
    then obtain y where y: "TrimSpace t = CHR ''$'' # x @ CHR '')'' # y" ..
    have "\<not> word_char CHR '')''" by (simp add: word_char_def is_digit_def)
    with t(2) have "takeWhile word_char (x @ CHR '')'' # y) = x" by (induction x) auto
    with y have "extractVarName (TrimSpace t) = Some x"
      unfolding extractVarName_def TrimSpace_idem by simp
    with y at t(3) show ?thesis by (simp add: extractArgument_def)
  qed
  ultimately show ?thesis by blast
qed

theorem argument_roundtrip_witness:
  "extractArgument (''{ user(id'' @ '':'' @ CHR '' '' # quote # ''u1'' @ quote # '') }'') ''id'' [] = Some ''u1''"
proof -
  have "Index (''{ user('' @ ''id'' @ '':'' @ CHR '' '' # quote # ''u1'' @ quote # '') }'') (''id'' @ '':'') = Some (length ''{ user('')"
    by code_simp
  from argument_roundtrip [OF this, of "''u1''" "'') }''" "[]" "''''" JNull] show ?thesis by (simp add: quote_def)
qed

subsection \<open>The endpoint as it is registered\<close>

text \<open>A handler on the state without the validator.\<close>

definition beside :: "('b, 's) handler \<Rightarrow> ('b, 'v \<times> 's) handler" where
  "beside h r = (\<lambda>(w, v, s). case h r (w, s) of (c, w', s') \<Rightarrow> (c, w', v, s'))"

lemma GraphQLHandler_anonymous:
  assumes "ctx_string ''user_id'' r = None"
  shows "snd (snd (GraphQLHandler scan_time env r (w, s))) = s"
proof -
  have "s' = s" if "executeMutation env r q vars s = Some (j, s')" for q vars j s'
    using that assms
    by (auto simp: executeMutation_def Let_def RegisterDevice_def UpdatePrefs_def MarkNotificationsAsRead_def bind_eq_Some_conv
        split: if_splits)
  then show ?thesis
    by (auto simp: GraphQLHandler_def ExecuteQuery_def Let_def respond_def split: option.split)
qed

lemma graphql_routes: "\<forall>x\<in>set registerRoutes. matches (rt_segs x) (path_segs ''/graphql'') \<longrightarrow>
    rt_endpoint x = ''graphql.GraphQLHandler'' \<and> \<not> rt_auth x"
  by code_simp

text \<open>C29: the GraphQL routes are registered without authentication, so no request to them, whatever token it carries and
  whatever mutation it asks for, changes the server.\<close>

theorem graphql_changes_nothing:
  assumes "path r = ''/graphql''" and "ctx_string ''user_id'' r = None"
    and "impl ''graphql.GraphQLHandler'' = beside (GraphQLHandler scan_time env)"
  shows "snd (snd (api lib aenv impl r (w, v, s))) = (v, s)"
proof (cases "find_route registerRoutes (meth r) (path r)")
  case None
  then show ?thesis by (auto simp: api_def mux_serve_def Let_def respond_def)
next
  case (Some a)
  obtain x vs where a: "a = (x, vs)" by (cases a)
  have found: "x \<in> set registerRoutes \<and> matches (rt_segs x) (path_segs (path r))"
    if "find_method registerRoutes m (path r) = Some (x, vs)" for m
    using match_tree_Some [OF that [unfolded find_method_def]] by auto
  have "x \<in> set registerRoutes \<and> matches (rt_segs x) (path_segs ''/graphql'')"
    using Some a found assms(1) by (auto simp: find_route_def split: option.splits if_splits)
  with graphql_routes have x: "rt_endpoint x = ''graphql.GraphQLHandler''" "\<not> rt_auth x" by blast+
  let ?r = "with_path_values (wild_names (rt_segs x)) vs r"
  have "ctx_string ''user_id'' ?r = None" using assms(2) by (simp add: with_path_values_def ctx_string_def)
  from GraphQLHandler_anonymous [OF this, of scan_time env w s] have "snd (snd (beside (GraphQLHandler scan_time env) ?r (w, v, s))) = (v, s)"
    by (auto simp: beside_def split: prod.split)
  with Some a x assms(3) show ?thesis by (simp add: api_def mux_serve_def Let_def respond_def)
qed

definition register_mutation :: "graphql_body request" where
  "register_mutation = \<lparr>meth = ''POST'', path = ''/graphql'', remote_addr = ''1.2.3.4:5'', req_hdr = \<lambda>k. ''Bearer t'', query = \<lambda>k. '''',
     path_value = \<lambda>k. '''', ctx = Map.empty, req_body = Some \<lparr>gq_query = ''mutation { registerDeviceToken(token: $t, platform: $p) { id } }'',
     gq_variables = [(''t'', JStr ''tok''), (''p'', JStr ''ios'')]\<rparr>\<rparr>"

theorem graphql_changes_nothing_witness:
  "snd (snd (api sample_lib sample_auth (\<lambda>e. beside (GraphQLHandler (\<lambda>t. None) sample_env)) register_mutation
     (new_writer, sample_validator, sample_app))) = (sample_validator, sample_app)"
  by (rule graphql_changes_nothing) (simp_all add: register_mutation_def ctx_string_def)

end
