(* ===== verification/Migrations.thy ===== *)
theory Migrations
  imports Database "HOL-Library.List_Lexorder"
begin

text \<open>
  \<open>db/migrations.go\<close>: the migration runner that \<open>main.go\<close> calls at start-up. It runs the SQL files
  of a directory in the order of their names, skips those that the table \<open>schema_migrations\<close>
  records, takes \<open>VACUUM\<close> lines out of a script (PostgreSQL refuses them inside the transaction that
  a script of several statements is), goes on after errors of a few kinds, and records each file.

  \<open>mig_db\<close> is what the runner's statements see: the names in \<open>schema_migrations\<close> (\<open>None\<close> before the table
  exists), whether \<open>user_project_access\<close> exists, and the tables. What a script does is a parameter,
  \<open>run\<close>: it sees and changes the tables, and cannot touch \<open>schema_migrations\<close>, which no file of
  \<open>migrations/\<close> mentions.
\<close>

subsection \<open>Splitting a script\<close>

definition upper_char :: "char \<Rightarrow> char" where
  "upper_char c = (if CHR ''a'' \<le> c \<and> c \<le> CHR ''z'' then char_of (of_char c - (32 :: nat)) else c)"

definition ToUpper :: "string \<Rightarrow> string" where
  "ToUpper = map upper_char"

definition HasSuffix :: "string \<Rightarrow> string \<Rightarrow> bool" where
  "HasSuffix s p \<longleftrightarrow> HasPrefix (rev s) (rev p)"

abbreviation newline :: char where
  "newline \<equiv> CHR 0x0A"

definition vacuum_line :: "string \<Rightarrow> bool" where
  "vacuum_line line =
     (let upper = ToUpper (TrimSpace line) in HasPrefix upper ''VACUUM '' \<or> upper = ''VACUUM;'')"

definition preprocessMigrationSQL :: "string \<Rightarrow> string \<times> string list" where
  "preprocessMigrationSQL sql =
     (let lines = Split newline sql;
          kept = filter (\<lambda>line. \<not> vacuum_line line) lines;
          maintenance = map TrimSpace (filter vacuum_line lines)
      in (TrimSpace (Join newline kept), maintenance))"

subsection \<open>Errors\<close>

record sql_error =
  e_code :: "string option"
  e_message :: string

definition isNonFatalMigrationError :: "sql_error \<Rightarrow> bool" where
  "isNonFatalMigrationError err =
     (if e_code err = Some ''42501'' \<or> e_code err = Some ''42703'' then True
      else let message = ToLower (e_message err)
        in Contains message ''permission denied for schema auth'' \<or>
           Contains message ''must be owner'' \<or>
           Contains message ''insufficient privilege'' \<or>
           Contains message ''permission denied for table'' \<or>
           Contains message ''column old.deleted_at does not exist'')"

datatype mig_error =
    TableFailed
  | DirUnreadable
  | StatusFailed string
  | FileUnreadable string
  | ExecFailed string sql_error
  | AccessFailed string
  | RecordFailed string

subsection \<open>The runner\<close>

record mig_db =
  schema_migrations :: "string list option"
  access_table :: bool
  tables :: database

record mig_env =
  mig_dbe :: dbenv
  mig_read :: "string \<Rightarrow> string option"
  mig_run :: "string \<Rightarrow> bool \<times> database \<Rightarrow> sql_error option \<times> (bool \<times> database)"

definition createMigrationsTable :: "mig_env \<Rightarrow> mig_db \<Rightarrow> (mig_error + unit) \<times> mig_db" where
  "createMigrationsTable env s =
     (if fails (mig_dbe env) ''createMigrationsTable'' [] then (Inl TableFailed, s)
      else (Inr (), s\<lparr>schema_migrations := Some (case schema_migrations s of None \<Rightarrow> [] | Some ns \<Rightarrow> ns)\<rparr>))"

definition run_sql :: "mig_env \<Rightarrow> string \<Rightarrow> mig_db \<Rightarrow> sql_error option \<times> mig_db" where
  "run_sql env sql s =
     (case mig_run env sql (access_table s, tables s) of
        (e, a, d) \<Rightarrow> (e, s\<lparr>access_table := a, tables := d\<rparr>))"

definition backfill_owners :: "dbenv \<Rightarrow> database \<Rightarrow> database" where
  "backfill_owners env d =
     fold (\<lambda>p. grant_access (env\<lparr>has_access_table := True\<rparr>) (p_user p) (p_id p) ''owner'')
       (filter (\<lambda>p. p_deleted p = None) (projects d)) d"

definition ensureUserProjectAccessCache ::
  "mig_env \<Rightarrow> string \<Rightarrow> mig_db \<Rightarrow> (mig_error + unit) \<times> mig_db" where
  "ensureUserProjectAccessCache env migrationName s =
     (if migrationName < ''040_performance_rls_refactor.sql'' then (Inr (), s)
      else if fails (mig_dbe env) ''ensure user_project_access'' [migrationName] then (Inl (AccessFailed migrationName), s)
      else let s = (if access_table s then s
                    else s\<lparr>access_table := True, tables := (tables s)\<lparr>user_project_access := []\<rparr>\<rparr>)
        in if fails (mig_dbe env) ''ensure user_project_access index'' [migrationName] then
             (Inl (AccessFailed migrationName), s)
           else if fails (mig_dbe env) ''backfill user_project_access'' [migrationName] then
             (Inl (AccessFailed migrationName), s)
           else (Inr (), s\<lparr>tables := backfill_owners (mig_dbe env) (tables s)\<rparr>))"

definition record_migration :: "mig_env \<Rightarrow> string \<Rightarrow> mig_db \<Rightarrow> (mig_error + unit) \<times> mig_db" where
  "record_migration env name s =
     (case schema_migrations s of
        None \<Rightarrow> (Inl (RecordFailed name), s)
      | Some ns \<Rightarrow>
          if fails (mig_dbe env) ''record migration'' [name] then (Inl (RecordFailed name), s)
          else (Inr (), s\<lparr>schema_migrations := Some (if name \<in> set ns then ns else ns @ [name])\<rparr>))"

text \<open>One file: \<open>EXISTS\<close>, read, prepare, execute, maintain, ensure, record.\<close>

definition run_maintenance :: "mig_env \<Rightarrow> string list \<Rightarrow> mig_db \<Rightarrow> mig_db" where
  "run_maintenance env stmts s = fold (\<lambda>stmt s. snd (run_sql env stmt s)) stmts s"

definition run_script :: "mig_env \<Rightarrow> string \<Rightarrow> string \<Rightarrow> mig_db \<Rightarrow> (mig_error + unit) \<times> mig_db" where
  "run_script env name preparedSQL s =
     (if preparedSQL = '''' then (Inr (), s)
      else case run_sql env preparedSQL s of
             (None, s) \<Rightarrow> (Inr (), s)
           | (Some err, s) \<Rightarrow>
               if isNonFatalMigrationError err then (Inr (), s) else (Inl (ExecFailed name err), s))"

definition apply_migration :: "mig_env \<Rightarrow> string \<Rightarrow> string \<Rightarrow> mig_db \<Rightarrow> (mig_error + unit) \<times> mig_db" where
  "apply_migration env name sql s =
     (case preprocessMigrationSQL sql of (preparedSQL, maintenance) \<Rightarrow>
        (case run_script env name preparedSQL s of
           (Inl e, s) \<Rightarrow> (Inl e, s)
         | (Inr _, s) \<Rightarrow>
             (case ensureUserProjectAccessCache env name (run_maintenance env maintenance s) of
                (Inl e, s) \<Rightarrow> (Inl e, s)
              | (Inr _, s) \<Rightarrow> record_migration env name s)))"

definition migrate_file :: "mig_env \<Rightarrow> string \<Rightarrow> mig_db \<Rightarrow> (mig_error + unit) \<times> mig_db" where
  "migrate_file env name s =
     (case schema_migrations s of
        None \<Rightarrow> (Inl (StatusFailed name), s)
      | Some ns \<Rightarrow>
          if fails (mig_dbe env) ''check migration status'' [name] then (Inl (StatusFailed name), s)
          else if name \<in> set ns then (Inr (), s)
          else case mig_read env name of
                 None \<Rightarrow> (Inl (FileUnreadable name), s)
               | Some content \<Rightarrow>
                   let sql = TrimSpace content
                   in if sql = '''' then (Inr (), s) else apply_migration env name sql s)"

fun migrate_files :: "mig_env \<Rightarrow> string list \<Rightarrow> mig_db \<Rightarrow> (mig_error + unit) \<times> mig_db" where
  "migrate_files env [] s = (Inr (), s)"
| "migrate_files env (f # fs) s =
     (case migrate_file env f s of
        (Inl e, s) \<Rightarrow> (Inl e, s)
      | (Inr _, s) \<Rightarrow> migrate_files env fs s)"

text \<open>The directory is its entries, a name and whether it is a directory, or cannot be read.\<close>

definition sql_files :: "(string \<times> bool) list \<Rightarrow> string list" where
  "sql_files entries = sort (map fst (filter (\<lambda>(name, is_dir). \<not> is_dir \<and> HasSuffix name ''.sql'') entries))"

definition RunMigrations ::
  "mig_env \<Rightarrow> (string \<times> bool) list option \<Rightarrow> mig_db \<Rightarrow> (mig_error + unit) \<times> mig_db" where
  "RunMigrations env dir s =
     (case createMigrationsTable env s of
        (Inl e, s) \<Rightarrow> (Inl e, s)
      | (Inr _, s) \<Rightarrow>
          (case dir of
             None \<Rightarrow> (Inl DirUnreadable, s)
           | Some entries \<Rightarrow> migrate_files env (sql_files entries) s))"


subsection \<open>What the table records\<close>

lemma kept_names [simp]:
  "schema_migrations (snd (run_sql env sql s)) = schema_migrations s"
  "schema_migrations (run_maintenance env stmts s) = schema_migrations s"
  "schema_migrations (snd (run_script env name sql s)) = schema_migrations s"
  "schema_migrations (snd (ensureUserProjectAccessCache env name s)) = schema_migrations s"
proof -
  show r: "schema_migrations (snd (run_sql env sql s)) = schema_migrations s" for sql s
    by (simp add: run_sql_def split: prod.splits)
  show "schema_migrations (run_maintenance env stmts s) = schema_migrations s"
    unfolding run_maintenance_def by (induction stmts arbitrary: s) (simp_all add: r)
  show "schema_migrations (snd (run_script env name sql s)) = schema_migrations s"
    using r [of sql s] by (auto simp: run_script_def split: prod.splits option.splits)
  show "schema_migrations (snd (ensureUserProjectAccessCache env name s)) = schema_migrations s"
    by (simp add: ensureUserProjectAccessCache_def Let_def)
qed

definition done_with :: "mig_env \<Rightarrow> string \<Rightarrow> mig_db \<Rightarrow> bool" where
  "done_with env f s \<longleftrightarrow> (\<exists>ns. schema_migrations s = Some ns \<and>
     (f \<in> set ns \<or> (\<exists>c. mig_read env f = Some c \<and> TrimSpace c = '''')))"

definition names_grow :: "mig_db \<Rightarrow> mig_db \<Rightarrow> bool" where
  "names_grow s s' \<longleftrightarrow>
     (\<forall>ns. schema_migrations s = Some ns \<longrightarrow> (\<exists>ns'. schema_migrations s' = Some ns' \<and> set ns \<subseteq> set ns'))"

lemma names_grow_same: "schema_migrations s' = schema_migrations s \<Longrightarrow> names_grow s s'"
  by (simp add: names_grow_def)

lemma record_migration_grows: "record_migration env f s = (r, s') \<Longrightarrow> names_grow s s'"
  by (auto simp: record_migration_def names_grow_def split: option.splits if_splits)

lemma apply_migration_cases:
  assumes "apply_migration env f sql s = (r, s')"
  obtains (failed) e where "r = Inl e" "schema_migrations s' = schema_migrations s"
  | (recorded) s1 where "record_migration env f s1 = (r, s')" "schema_migrations s1 = schema_migrations s"
proof -
  obtain p m where pm: "preprocessMigrationSQL sql = (p, m)" by fastforce
  obtain r1 s1 where 1: "run_script env f p s = (r1, s1)" by fastforce
  obtain r2 s2 where 2: "ensureUserProjectAccessCache env f (run_maintenance env m s1) = (r2, s2)" by fastforce
  have k: "schema_migrations s1 = schema_migrations s" "schema_migrations s2 = schema_migrations s1"
    using kept_names(3) [of env f p s] kept_names(4) [of env f "run_maintenance env m s1"] 1 2 by simp_all
  show ?thesis
  proof (cases r1)
    case (Inl e)
    then have "r = Inl e" "s1 = s'" using assms pm 1 by (simp_all add: apply_migration_def)
    then show ?thesis using k failed by simp
  next
    case (Inr u)
    show ?thesis
    proof (cases r2)
      case (Inl e)
      then have "r = Inl e" "s2 = s'" using assms pm 1 2 \<open>r1 = Inr u\<close> by (simp_all add: apply_migration_def)
      then show ?thesis using k failed by simp
    next
      case (Inr v)
      then have "record_migration env f s2 = (r, s')"
        using assms pm 1 2 \<open>r1 = Inr u\<close> by (simp add: apply_migration_def)
      then show ?thesis using k recorded by simp
    qed
  qed
qed

lemma migrate_file_grows: "migrate_file env f s = (r, s') \<Longrightarrow> names_grow s s'"
proof -
  assume m: "migrate_file env f s = (r, s')"
  have "names_grow s s'" if "apply_migration env f sql s = (r, s')" for sql
    using that by (cases rule: apply_migration_cases)
      (auto simp: names_grow_def dest!: record_migration_grows)
  with m show ?thesis
    by (auto simp: migrate_file_def Let_def names_grow_same split: option.splits if_splits)
qed

lemma migrate_file_done:
  assumes "migrate_file env f s = (Inr (), s')"
  shows "done_with env f s'" and "\<not> fails (mig_dbe env) ''check migration status'' [f]"
proof -
  have "done_with env f s'" if a: "apply_migration env f sql s = (Inr (), s')" for sql
    using a
  proof (cases rule: apply_migration_cases)
    case (recorded s1)
    then show ?thesis
      by (auto simp: record_migration_def done_with_def split: option.splits if_splits)
  qed simp
  with assms show "done_with env f s'" "\<not> fails (mig_dbe env) ''check migration status'' [f]"
    by (auto simp: migrate_file_def Let_def done_with_def split: option.splits if_splits)
qed

lemma done_with_grows: "done_with env f s \<Longrightarrow> names_grow s s' \<Longrightarrow> done_with env f s'"
  by (auto simp: done_with_def names_grow_def)

lemma migrate_file_skips:
  "done_with env f s \<Longrightarrow> \<not> fails (mig_dbe env) ''check migration status'' [f] \<Longrightarrow>
   migrate_file env f s = (Inr (), s)"
  by (auto simp: done_with_def migrate_file_def)

lemma migrate_files_done:
  "migrate_files env fs s = (Inr (), s') \<Longrightarrow> names_grow s s' \<and>
     (\<forall>f\<in>set fs. done_with env f s' \<and> \<not> fails (mig_dbe env) ''check migration status'' [f])"
proof (induction fs arbitrary: s)
  case Nil
  then show ?case by (simp add: names_grow_def)
next
  case (Cons f fs)
  then obtain s1 where f: "migrate_file env f s = (Inr (), s1)" and fs: "migrate_files env fs s1 = (Inr (), s')"
    by (auto split: prod.splits sum.splits)
  from Cons.IH [OF fs] migrate_file_grows [OF f] migrate_file_done [OF f] done_with_grows
  show ?case by (fastforce simp: names_grow_def)
qed

lemma migrate_files_skip:
  "(\<And>f. f \<in> set fs \<Longrightarrow> done_with env f s \<and> \<not> fails (mig_dbe env) ''check migration status'' [f]) \<Longrightarrow>
   migrate_files env fs s = (Inr (), s)"
  by (induction fs) (simp_all add: migrate_file_skips)

lemma migrate_files_append:
  "migrate_files env (fs @ gs) s =
     (case migrate_files env fs s of (Inl e, s) \<Rightarrow> (Inl e, s) | (Inr _, s) \<Rightarrow> migrate_files env gs s)"
  by (induction fs arbitrary: s) (auto split: prod.splits sum.splits)

lemma migrate_files_failed:
  "migrate_files env fs s = (Inl e, s') \<Longrightarrow>
   \<exists>before f after s1. fs = before @ f # after \<and> migrate_files env before s = (Inr (), s1) \<and>
     migrate_file env f s1 = (Inl e, s')"
proof (induction fs arbitrary: s)
  case Nil
  then show ?case by simp
next
  case (Cons g fs)
  obtain r s2 where g: "migrate_file env g s = (r, s2)" by fastforce
  show ?case
  proof (cases r)
    case (Inl e')
    then have "g # fs = [] @ g # fs" "migrate_files env [] s = (Inr (), s)" "migrate_file env g s = (Inl e, s')"
      using Cons.prems g by simp_all
    then show ?thesis by blast
  next
    case (Inr u)
    with Cons.prems g have "migrate_files env fs s2 = (Inl e, s')" by simp
    from Cons.IH [OF this] obtain before f after s1 where
      "fs = before @ f # after" "migrate_files env before s2 = (Inr (), s1)" "migrate_file env f s1 = (Inl e, s')"
      by blast
    then have "g # fs = (g # before) @ f # after" "migrate_files env (g # before) s = (Inr (), s1)"
      using g Inr by simp_all
    then show ?thesis using \<open>migrate_file env f s1 = (Inl e, s')\<close> by blast
  qed
qed

text \<open>A script that fails leaves the tables as they were.\<close>

definition rolls_back :: "mig_env \<Rightarrow> bool" where
  "rolls_back env \<longleftrightarrow> (\<forall>sql x e. fst (mig_run env sql x) = Some e \<longrightarrow> snd (mig_run env sql x) = x)"

lemma script_failed_unchanged:
  assumes "rolls_back env" and "migrate_file env f s = (Inl (ExecFailed f' err), s')"
  shows "f' = f" and "s' = s"
proof -
  have same: "snd (run_sql env p s) = s" if "fst (run_sql env p s) = Some e" for p e
    using that assms(1) [unfolded rolls_back_def, rule_format, of p "(access_table s, tables s)" e]
    by (simp add: run_sql_def split: prod.splits)
  have run: "f' = f \<and> s' = s" if "run_script env f p s = (Inl (ExecFailed f' err), s')" for p
    using that same [of p] by (auto simp: run_script_def split: option.splits if_splits prod.splits)
  have "f' = f \<and> s' = s" if "apply_migration env f sql s = (Inl (ExecFailed f' err), s')" for sql
    using that run [of "fst (preprocessMigrationSQL sql)"]
    by (auto simp: apply_migration_def ensureUserProjectAccessCache_def record_migration_def Let_def
        split: prod.splits sum.splits if_splits option.splits)
  with assms(2) show "f' = f" "s' = s"
    by (auto simp: migrate_file_def Let_def split: option.splits if_splits)
qed

text \<open>C30: a second start changes nothing: when the migrations of a directory have run without an error, running them again returns
  without an error and leaves the tables and the record of migrations as they are.\<close>

theorem restart_runs_nothing:
  assumes "RunMigrations env dir s = (Inr (), s')"
  shows "RunMigrations env dir s' = (Inr (), s')"
proof -
  obtain s1 entries where 1: "createMigrationsTable env s = (Inr (), s1)" "dir = Some entries"
    "migrate_files env (sql_files entries) s1 = (Inr (), s')"
    using assms by (auto simp: RunMigrations_def split: prod.splits sum.splits option.splits)
  then obtain ns where "schema_migrations s1 = Some ns"
    by (auto simp: createMigrationsTable_def split: if_splits)
  with migrate_files_done [OF 1(3)] obtain ns' where "schema_migrations s' = Some ns'"
    by (auto simp: names_grow_def)
  with 1(1) have "createMigrationsTable env s' = (Inr (), s')"
    by (auto simp: createMigrationsTable_def split: if_splits)
  moreover have "migrate_files env (sql_files entries) s' = (Inr (), s')"
    using migrate_files_done [OF 1(3)] by (intro migrate_files_skip) blast
  ultimately show ?thesis by (simp add: RunMigrations_def 1(2))
qed

text \<open>C31: an interrupted upgrade goes on where it stopped: when a script of a run fails with an error that ends the run, the
  files before it are done, and a later run (with whatever contents the files that were not reached have by then)
  behaves as if it started at the failed file, on the tables the files before it left.\<close>

theorem interrupted_migration_resumes:
  assumes "migrate_files env fs s = (Inl (ExecFailed f err), s')" and "rolls_back env"
    and "\<And>g. mig_read env' g = mig_read env g \<or> g \<notin> set (takeWhile (\<lambda>g. g \<noteq> f) fs)"
    and "\<And>g. \<not> fails (mig_dbe env') ''check migration status'' [g]" and "distinct fs"
  shows "\<exists>before after. fs = before @ f # after \<and> migrate_files env before s = (Inr (), s') \<and>
     migrate_files env' fs s' = migrate_files env' (f # after) s'"
proof -
  from migrate_files_failed [OF assms(1)] obtain before g after s1 where
    fs: "fs = before @ g # after" and b: "migrate_files env before s = (Inr (), s1)"
    and g: "migrate_file env g s1 = (Inl (ExecFailed f err), s')" by blast
  note same = script_failed_unchanged [OF assms(2) g]
  have "takeWhile (\<lambda>g. g \<noteq> f) fs = before" using assms(5) fs same(1) by (auto simp: takeWhile_append)
  with assms(3) have "mig_read env' h = mig_read env h" if "h \<in> set before" for h using that by blast
  with migrate_files_done [OF b] have "migrate_files env' before s1 = (Inr (), s1)"
    using assms(4) by (intro migrate_files_skip) (auto simp: done_with_def)
  with fs b same show ?thesis by (intro exI [of _ before] exI [of _ after]) (simp add: migrate_files_append)
qed


subsection \<open>White space around a line\<close>

text \<open>The encodings of two spaces do not overlap, from the left or from the right.\<close>

definition prefix_code :: "string list \<Rightarrow> bool" where
  "prefix_code ws \<longleftrightarrow> list_all (\<lambda>v. v \<noteq> [] \<and>
     list_all (\<lambda>w. take (min (length v) (length w)) v = take (min (length v) (length w)) w \<longrightarrow> v = w) ws) ws"

definition no_overlap :: "string list \<Rightarrow> bool" where
  "no_overlap ws \<longleftrightarrow> list_all (\<lambda>v. list_all (\<lambda>c. list_all (\<lambda>w. w \<noteq> [] \<longrightarrow> hd w \<noteq> c) ws) (tl v)) ws"

lemma prefix_codeD:
  assumes "prefix_code ws" "v \<in> set ws" "w \<in> set ws" "HasPrefix (w @ x) v"
  shows "v = w"
proof -
  obtain t where "w @ x = v @ t" using assms(4) by (auto simp: HasPrefix_iff)
  then have "take (min (length v) (length w)) (w @ x) = take (min (length v) (length w)) (v @ t)" by simp
  then have "take (min (length v) (length w)) v = take (min (length v) (length w)) w" by simp
  with assms show ?thesis by (auto simp: prefix_code_def list_all_iff)
qed

lemma strip_left_drop: "prefix_code ws \<Longrightarrow> w \<in> set ws \<Longrightarrow> strip_left ws (w @ x) = strip_left ws x"
proof -
  assume ws: "prefix_code ws" "w \<in> set ws"
  then have w: "w \<noteq> [] \<and> HasPrefix (w @ x) w" by (auto simp: prefix_code_def list_all_iff)
  then obtain v where v: "find (\<lambda>v. v \<noteq> [] \<and> HasPrefix (w @ x) v) ws = Some v"
    using find_Some_ex [of w ws "\<lambda>v. v \<noteq> [] \<and> HasPrefix (w @ x) v"] ws(2) by auto
  then have "v = w" using ws find_SomeD [OF v] prefix_codeD by blast
  with v show ?thesis by (subst strip_left.simps) simp
qed

lemma prefix_across:
  assumes ws: "no_overlap ws" "v \<in> set ws" "r \<in> set ws" "r \<noteq> []" and v: "HasPrefix (x @ r) v" and x: "x \<noteq> []"
  shows "HasPrefix x v"
proof -
  obtain t where t: "x @ r = v @ t" using v by (auto simp: HasPrefix_iff)
  then consider y where "v = x @ y" "r = y @ t" "y \<noteq> []" | y where "x = v @ y"
    by (metis append_eq_append_conv2 append_Nil2)
  then show ?thesis
  proof cases
    case (1 y)
    then have "hd r \<in> set (tl v)" using x by (cases x; cases y) auto
    with ws show ?thesis by (auto simp: no_overlap_def list_all_iff)
  next
    case (2 y)
    then show ?thesis by simp
  qed
qed

lemma strip_left_across:
  "prefix_code ws \<Longrightarrow> r \<in> set ws \<Longrightarrow> no_overlap ws \<Longrightarrow>
   strip_left ws (s @ r) = (if strip_left ws s = [] then [] else strip_left ws s @ r)"
proof (induction ws s rule: strip_left.induct)
  case (1 ws s)
  show ?case
  proof (cases "s = []")
    case True
    have e: "strip_left ws [] = []" using length_strip_left [of ws "[]"] by simp
    with strip_left_drop [OF 1(2,3), of "[]"] True show ?thesis by simp
  next
    case s: False
    show ?thesis
    proof (cases "find (\<lambda>w. w \<noteq> [] \<and> HasPrefix s w) ws")
      case None
      have "\<not> HasPrefix (s @ r) w" if "w \<in> set ws" "w \<noteq> []" for w
        using prefix_across [OF 1(4) that(1) 1(3) _ _ s] find_NoneD [OF None that(1)] that(2) 1(2,3)
        by (auto simp: prefix_code_def list_all_iff)
      then have "strip_left ws (s @ r) = s @ r" by (rule strip_left_id)
      moreover have "strip_left ws s = s" using None by (subst strip_left.simps) simp
      ultimately show ?thesis using s by simp
    next
      case (Some w)
      then obtain t where w: "w \<in> set ws" "s = w @ t" by (auto dest!: find_SomeD simp: HasPrefix_iff)
      then have "strip_left ws s = strip_left ws t" "strip_left ws (s @ r) = strip_left ws (t @ r)"
        using strip_left_drop [OF 1(2) w(1)] by simp_all
      with 1(1) [OF Some 1(2-4)] w(2) show ?thesis by simp
    qed
  qed
qed

lemma space_codes: "prefix_code space_runes" "prefix_code (map rev space_runes)" "no_overlap space_runes"
  by code_simp+

lemma TrimSpace_drop: "r \<in> set space_runes \<Longrightarrow> TrimSpace (r @ s) = TrimSpace s"
  by (simp add: TrimSpace_def strip_left_drop space_codes)

lemma TrimSpace_across: "r \<in> set space_runes \<Longrightarrow> TrimSpace (s @ r) = TrimSpace s"
  using strip_left_drop [OF space_codes(2), of "rev r" "rev (strip_left space_runes s)"]
    strip_left_across [OF space_codes(1) _ space_codes(3), of r s]
    length_strip_left [of "map rev space_runes" "[]"]
  by (simp add: TrimSpace_def)


text \<open>A script all of whose lines are plain stays so when white space around it goes.\<close>

definition plain_lines :: "string \<Rightarrow> bool" where
  "plain_lines s \<longleftrightarrow> (\<forall>l\<in>set (Split newline s). \<not> vacuum_line l)"

lemma space_newline: "r \<in> set space_runes \<Longrightarrow> r = [newline] \<or> newline \<notin> set r"
  by (auto simp: space_runes_def)

lemma vacuum_line_space:
  "r \<in> set space_runes \<Longrightarrow> vacuum_line (r @ l) = vacuum_line l"
  "r \<in> set space_runes \<Longrightarrow> vacuum_line (l @ r) = vacuum_line l"
  by (simp_all add: vacuum_line_def TrimSpace_drop TrimSpace_across)

lemma Split_append_left:
  "c \<notin> set r \<Longrightarrow> Split c (r @ s) = (r @ hd (Split c s)) # tl (Split c s)"
proof (induction r)
  case Nil
  then show ?case by simp
next
  case (Cons x r)
  have "x \<noteq> c" using Cons.prems by auto
  with Cons show ?case by simp
qed

lemma Split_append_right:
  "c \<notin> set r \<Longrightarrow> Split c (s @ r) = butlast (Split c s) @ [last (Split c s) @ r]"
proof (induction s)
  case Nil
  then show ?case by (simp add: Split_no_sep)
next
  case (Cons x s)
  obtain y ys where "Split c s = y # ys" by (cases "Split c s") auto
  with Cons show ?case by (auto simp: Split_no_sep butlast_append split: list.splits)
qed

lemma Split_newline_end: "Split c (s @ [c]) = Split c s @ [[]]"
proof (induction s)
  case Nil
  then show ?case by simp
next
  case (Cons x s)
  obtain y ys where "Split c s = y # ys" by (cases "Split c s") auto
  with Cons show ?case by auto
qed

lemma plain_lines_left: "r \<in> set space_runes \<Longrightarrow> plain_lines (r @ s) \<Longrightarrow> plain_lines s"
proof -
  assume r: "r \<in> set space_runes" and p: "plain_lines (r @ s)"
  obtain y ys where s: "Split newline s = y # ys" by (cases "Split newline s") auto
  from space_newline [OF r] show "plain_lines s"
  proof
    assume "r = [newline]"
    with p show ?thesis by (simp add: plain_lines_def)
  next
    assume "newline \<notin> set r"
    with p s vacuum_line_space(1) [OF r, of y] show ?thesis
      by (simp add: plain_lines_def Split_append_left)
  qed
qed

lemma plain_lines_right: "r \<in> set space_runes \<Longrightarrow> plain_lines (s @ r) \<Longrightarrow> plain_lines s"
proof -
  assume r: "r \<in> set space_runes" and p: "plain_lines (s @ r)"
  obtain ys y where s: "Split newline s = ys @ [y]" by (cases "Split newline s" rule: rev_cases) auto
  from space_newline [OF r] show "plain_lines s"
  proof
    assume "r = [newline]"
    with p show ?thesis by (simp add: plain_lines_def Split_newline_end)
  next
    assume "newline \<notin> set r"
    with p s vacuum_line_space(2) [OF r, of y] show ?thesis
      by (simp add: plain_lines_def Split_append_right)
  qed
qed

lemma plain_lines_strip: "plain_lines s \<Longrightarrow> plain_lines (strip_left space_runes s)"
proof (induction space_runes s rule: strip_left.induct)
  case (1 s)
  show ?case
  proof (cases "find (\<lambda>w. w \<noteq> [] \<and> HasPrefix s w) space_runes")
    case None
    then show ?thesis using 1(2) by (subst strip_left.simps) simp
  next
    case (Some w)
    then obtain t where w: "w \<in> set space_runes" "s = w @ t" by (auto dest!: find_SomeD simp: HasPrefix_iff)
    with 1 Some plain_lines_left have "plain_lines (strip_left space_runes t)" by simp
    with w show ?thesis by (simp add: strip_left_drop space_codes)
  qed
qed

lemma plain_lines_strip_right:
  "plain_lines (rev s) \<Longrightarrow> plain_lines (rev (strip_left (map rev space_runes) s))"
proof (induction "map rev space_runes" s rule: strip_left.induct)
  case (1 s)
  show ?case
  proof (cases "find (\<lambda>w. w \<noteq> [] \<and> HasPrefix s w) (map rev space_runes)")
    case None
    then show ?thesis using 1(2) by (subst strip_left.simps) simp
  next
    case (Some w)
    then obtain t where w: "w \<in> set (map rev space_runes)" "s = w @ t"
      by (auto dest!: find_SomeD simp: HasPrefix_iff simp del: set_map)
    then have "rev w \<in> set space_runes" by auto
    with 1(2) w(2) plain_lines_right have "plain_lines (rev t)" by simp
    with 1(1) Some w(2) have "plain_lines (rev (strip_left (map rev space_runes) t))" by simp
    with w show ?thesis by (simp add: strip_left_drop space_codes del: set_map)
  qed
qed

lemma plain_lines_TrimSpace: "plain_lines s \<Longrightarrow> plain_lines (TrimSpace s)"
  unfolding TrimSpace_def by (rule plain_lines_strip_right) (simp add: plain_lines_strip)

text \<open>No \<open>VACUUM\<close> statement on a line of its own reaches the transaction of a script: the text that is
  executed as a whole has no line that begins with one, and every such line of the file is executed
  on its own afterwards, in order.\<close>

theorem vacuum_never_in_transaction:
  "filter vacuum_line (Split newline (fst (preprocessMigrationSQL sql))) = [] \<and>
   snd (preprocessMigrationSQL sql) = map TrimSpace (filter vacuum_line (Split newline sql))"
proof -
  let ?kept = "filter (\<lambda>line. \<not> vacuum_line line) (Split newline sql)"
  have "plain_lines (Join newline ?kept)"
  proof (cases "?kept = []")
    case True
    have "\<not> vacuum_line []" by (simp add: vacuum_line_def ToUpper_def HasPrefix_def)
    with True show ?thesis by (simp add: plain_lines_def)
  next
    case False
    then have "Split newline (Join newline ?kept) = ?kept"
      by (intro Split_Join) (auto dest: Split_parts_no_sep)
    then show ?thesis by (simp add: plain_lines_def)
  qed
  then have "plain_lines (TrimSpace (Join newline ?kept))" by (rule plain_lines_TrimSpace)
  then show ?thesis
    unfolding preprocessMigrationSQL_def Let_def fst_conv snd_conv plain_lines_def filter_empty_conv by (rule conjI) (rule refl)
qed

subsection \<open>Witnesses\<close>

definition sample_mig_env :: mig_env where
  "sample_mig_env = \<lparr>mig_dbe = \<lparr>fails = \<lambda>_ _. False, db_now = 0, gen_uuid = Itoa \<circ> int, norows_equal = False,
       has_access_table = True\<rparr>,
     mig_read = (\<lambda>f. if f = ''001.sql'' then Some ''x'' else if f = ''002.sql'' then Some ''bad'' else None),
     mig_run = (\<lambda>sql x. if sql = ''bad'' then (Some \<lparr>e_code = Some ''42601'', e_message = ''syntax error''\<rparr>, x)
                        else (None, x))\<rparr>"

definition fresh_mig_db :: mig_db where
  "fresh_mig_db = \<lparr>schema_migrations = None, access_table = False, tables = empty_db\<rparr>"

lemma restart_runs_nothing_witness:
  "RunMigrations sample_mig_env (Some [(''doc'', True), (''001.sql'', False)])
     (snd (RunMigrations sample_mig_env (Some [(''doc'', True), (''001.sql'', False)]) fresh_mig_db)) =
   (Inr (), fresh_mig_db\<lparr>schema_migrations := Some [''001.sql'']\<rparr>)"
proof -
  have "RunMigrations sample_mig_env (Some [(''doc'', True), (''001.sql'', False)]) fresh_mig_db =
      (Inr (), fresh_mig_db\<lparr>schema_migrations := Some [''001.sql'']\<rparr>)"
    by code_simp
  from restart_runs_nothing [OF this] this show ?thesis by simp
qed

lemma interrupted_migration_resumes_witness:
  "\<exists>before after. [''001.sql'', ''002.sql''] = before @ ''002.sql'' # after \<and>
     migrate_files sample_mig_env before (fresh_mig_db\<lparr>schema_migrations := Some []\<rparr>) =
       (Inr (), fresh_mig_db\<lparr>schema_migrations := Some [''001.sql'']\<rparr>) \<and>
     migrate_files sample_mig_env [''001.sql'', ''002.sql''] (fresh_mig_db\<lparr>schema_migrations := Some [''001.sql'']\<rparr>) =
       migrate_files sample_mig_env (''002.sql'' # after) (fresh_mig_db\<lparr>schema_migrations := Some [''001.sql'']\<rparr>)"
proof (rule interrupted_migration_resumes)
  show "migrate_files sample_mig_env [''001.sql'', ''002.sql''] (fresh_mig_db\<lparr>schema_migrations := Some []\<rparr>) =
      (Inl (ExecFailed ''002.sql'' \<lparr>e_code = Some ''42601'', e_message = ''syntax error''\<rparr>),
       fresh_mig_db\<lparr>schema_migrations := Some [''001.sql'']\<rparr>)"
    by code_simp
  show "rolls_back sample_mig_env" by (simp add: rolls_back_def sample_mig_env_def)
qed (simp_all add: sample_mig_env_def)

end
