(* ===== verification/Accounts.thy ===== *)
theory Accounts
  imports Social ProjectHandlers Jobs
begin

text \<open>
  Roles, privacy and the end of an account: \<open>db/queries_role.go\<close>, \<open>db/transactions.go\<close>,
  \<open>handlers/bootstrap.go\<close>, \<open>handlers/compliance.go\<close> with its statements in \<open>db/queries_access.go\<close>, and
  \<open>audit/audit_logger.go\<close>. The environment variable that holds the set-up token, PostgreSQL's reading of
  an address as \<open>inet\<close>, and the driver's reading of an \<open>inet\<close> into a string are arguments.
  A map of settings is the list of its entries in the order of their keys.

  Shown: who can become founder, that the deletion of an account leaves nothing of the user and queues
  every stored file for removal or else changes nothing, and that privacy settings are read back.
\<close>

subsection \<open>Roles\<close>

definition role_column :: "string \<Rightarrow> database \<Rightarrow> string option list" where
  "role_column userID d = map u_role (filter (\<lambda>u. u_id u = userID \<and> u_deleted u = None) (users d))"

definition scan_string :: "string option \<Rightarrow> string db_result" where
  "scan_string x = (case x of None \<Rightarrow> Inl Fault | Some s \<Rightarrow> Inr s)"

definition IsFounder :: "dbenv \<Rightarrow> string \<Rightarrow> database \<Rightarrow> bool db_result" where
  "IsFounder env userID d =
     (case query_row env ''IsFounder'' [userID] (role_column userID d) of
        Inl e \<Rightarrow> if is_sql_no_rows env e then Inr False else Inl e
      | Inr x \<Rightarrow> (case scan_string x of Inl e \<Rightarrow> Inl e | Inr role \<Rightarrow> Inr (role = ''founder'')))"

definition IsAdmin :: "dbenv \<Rightarrow> string \<Rightarrow> database \<Rightarrow> bool db_result" where
  "IsAdmin env userID d =
     (case query_row env ''IsAdmin'' [userID] (role_column userID d) of
        Inl e \<Rightarrow> if is_sql_no_rows env e then Inr False else Inl e
      | Inr x \<Rightarrow> (case scan_string x of Inl e \<Rightarrow> Inl e
                  | Inr role \<Rightarrow> Inr (role = ''admin'' \<or> role = ''founder'')))"

text \<open>The role \<open>user\<close> that goes with an error is not used by the caller.\<close>

definition GetUserRole :: "dbenv \<Rightarrow> string \<Rightarrow> database \<Rightarrow> string db_result" where
  "GetUserRole env userID d =
     (case query_row env ''GetUserRole'' [userID] (role_column userID d) of
        Inl e \<Rightarrow> if is_sql_no_rows env e then Inr ''user'' else Inl e
      | Inr x \<Rightarrow> Inr (case x of None \<Rightarrow> ''user'' | Some role \<Rightarrow> role))"

text \<open>The constraint of \<open>migrations/042\<close> allows three roles.\<close>

definition user_roles :: "string list" where
  "user_roles = [''user'', ''admin'', ''founder'']"

definition SetUserRole :: "dbenv \<Rightarrow> string \<Rightarrow> string \<Rightarrow> database \<Rightarrow> unit db_result \<times> database" where
  "SetUserRole env userID role d =
     (if fails env ''SetUserRole'' [userID, role] then (Inl Fault, d)
      else if role \<notin> set user_roles \<and> (\<exists>u\<in>set (users d). u_id u = userID) then (Inl Conflict, d)
      else (Inr (), d\<lparr>users := update_rows (\<lambda>u. u_id u = userID) (\<lambda>u. u\<lparr>u_role := Some role\<rparr>) (users d)\<rparr>))"

definition FindUserByEmail :: "dbenv \<Rightarrow> string \<Rightarrow> database \<Rightarrow> string db_result" where
  "FindUserByEmail env email d =
     (case query_row env ''FindUserByEmail'' [email]
             (filter (\<lambda>u. u_email u = email \<and> u_deleted u = None) (users d)) of
        Inl e \<Rightarrow> if is_sql_no_rows env e then Inr '''' else Inl e
      | Inr u \<Rightarrow> Inr (u_id u))"

definition InitializeFounderIfNeeded :: "dbenv \<Rightarrow> string \<Rightarrow> database \<Rightarrow> unit db_result \<times> database" where
  "InitializeFounderIfNeeded env founderEmail d =
     (if founderEmail = '''' then (Inr (), d)
      else case FindUserByEmail env founderEmail d of
             Inl e \<Rightarrow> (Inl e, d)
           | Inr userID \<Rightarrow>
               if userID = '''' then (Inr (), d)
               else case GetUserRole env userID d of
                      Inl e \<Rightarrow> (Inl e, d)
                    | Inr role \<Rightarrow> if role = ''user'' then SetUserRole env userID ''founder'' d else (Inr (), d))"

subsection \<open>The first founder\<close>

definition bootstrap_response :: "bool \<Rightarrow> string \<Rightarrow> string \<Rightarrow> json" where
  "bootstrap_response success message email =
     JObj ([(''success'', JBool success), (''message'', JStr message)] @
           (if email = '''' then [] else [(''email'', JStr email)]))"

text \<open>The body is the token. \<open>GetUserByID\<close> does not read the column \<open>role\<close>, so the role of the user it
  returns is empty.\<close>

definition SetupFounder :: "string \<Rightarrow> 'o app_env \<Rightarrow> (string, 'o app) handler" where
  "SetupFounder setup_token env r = (\<lambda>(w, s).
     (case GetUserID r of
        None \<Rightarrow> respond (WriteUnauthorized w) s
      | Some userID \<Rightarrow>
          (case req_body r of
             None \<Rightarrow> respond (WriteBadRequest ''invalid request body'' w) s
           | Some token \<Rightarrow>
               if setup_token = '''' \<or> setup_token \<noteq> token then respond (WriteForbidden ''invalid setup token'' w) s
               else case GetUserByID (dbe env) userID (app_db s) of
                      Inl _ \<Rightarrow> respond (WriteInternalError w) s
                    | Inr None \<Rightarrow> (Panicked, w, s)
                    | Inr (Some user) \<Rightarrow>
                        let role = '''' in
                        if role = ''founder'' \<or> role = ''admin'' then
                          respond (write_json 200 (bootstrap_response True ''User already has admin/founder role'' (u_email user)) w) s
                        else case SetUserRole (dbe env) userID ''founder'' (app_db s) of
                               (Inl _, d) \<Rightarrow> respond (WriteInternalError w) (s\<lparr>app_db := d\<rparr>)
                             | (Inr _, d) \<Rightarrow>
                                 respond (write_json 200 (bootstrap_response True ''Founder role successfully assigned'' (u_email user)) w)
                                   (s\<lparr>app_db := d\<rparr>))))"

definition CheckFounderStatus :: "string \<Rightarrow> 'o app_env \<Rightarrow> ('b, 'o app) handler" where
  "CheckFounderStatus setup_token env r = (\<lambda>(w, s).
     let founderExists = \<not> fails (dbe env) ''CheckFounderStatus'' [] \<and>
           list_ex (\<lambda>u. u_role u = Some ''founder'') (users (app_db s))
     in respond (write_json 200 (JObj [(''has_founder'', JBool founderExists),
          (''setup_token_required'', JBool (\<not> founderExists \<and> setup_token \<noteq> ''''))]) w) s)"

definition founders :: "database \<Rightarrow> string set" where
  "founders d = u_id ` {u \<in> set (users d). u_role u = Some ''founder''}"


subsection \<open>Transactions\<close>

text \<open>A roll-back that fails only changes the error.\<close>

definition WithTx :: "dbenv \<Rightarrow> (database \<Rightarrow> unit db_result \<times> database) \<Rightarrow> database \<Rightarrow> unit db_result \<times> database" where
  "WithTx env fn d =
     (if fails env ''Begin'' [] then (Inl Fault, d)
      else case fn d of
             (Inl e, _) \<Rightarrow> (Inl e, d)
           | (Inr _, d') \<Rightarrow> if fails env ''Commit'' [] then (Inl Fault, d) else (Inr (), d'))"

text \<open>The statement has six placeholders and gets one argument.\<close>

definition BatchCreateProjects :: "dbenv \<Rightarrow> 'p list \<Rightarrow> database \<Rightarrow> unit db_result \<times> database" where
  "BatchCreateProjects env ps = WithTx env (\<lambda>d. if ps = [] then (Inr (), d) else (Inl Fault, d))"

definition BatchDeleteTracks :: "dbenv \<Rightarrow> string list \<Rightarrow> string \<Rightarrow> database \<Rightarrow> unit db_result \<times> database" where
  "BatchDeleteTracks env trackIDs userID =
     WithTx env (exec_stmt env ''BatchDeleteTracks'' (userID # trackIDs)
       (\<lambda>d. d\<lparr>tracks := update_rows (\<lambda>t. t_id t \<in> set trackIDs \<and>
              list_ex (\<lambda>p. p_id p = t_project t \<and> (p_user p = userID \<or>
                list_ex (\<lambda>ps. ps_project ps = p_id p \<and> ps_with ps = Some userID) (shares d))) (projects d))
            (\<lambda>t. t\<lparr>t_deleted := Some (db_now env)\<rparr>) (tracks d)\<rparr>))"

subsection \<open>The audit trail of compliance\<close>

record audit_env =
  inet_text :: "string \<Rightarrow> bool"
  scan_inet :: "string \<Rightarrow> string option"

text \<open>The identifier comes from the database. A user that does not exist violates the foreign key.\<close>

definition LogAction :: "audit_env \<Rightarrow> dbenv \<Rightarrow> string \<Rightarrow> string \<Rightarrow> string \<Rightarrow> audit_event \<Rightarrow> database \<Rightarrow>
    unit db_result \<times> database" where
  "LogAction aud env userID action resource event d =
     (if fails env ''LogAction'' [userID, action] \<or> \<not> inet_text aud (ae_ip event) then (Inl Fault, d)
      else if \<not> (\<exists>u\<in>set (users d). u_id u = userID) then (Inl Conflict, d)
      else (Inr (), d\<lparr>audit_logs := audit_logs d @ [\<lparr>al_id = gen_uuid env (uuid_count d), al_user = Some userID,
              al_action = action, al_resource = resource, al_details = JNull, al_created = db_now env,
              al_event = Some event\<rparr>], uuid_count := uuid_count d + 1\<rparr>))"

definition user_event :: "string \<Rightarrow> string \<Rightarrow> audit_event" where
  "user_event userID ipAddress = \<lparr>ae_resource_id = userID, ae_changes = JNull, ae_ip = ipAddress, ae_agent = '''',
     ae_status = ''success'', ae_error = ''''\<rparr>"

definition LogUserDataExport :: "audit_env \<Rightarrow> dbenv \<Rightarrow> string \<Rightarrow> string \<Rightarrow> string \<Rightarrow> database \<Rightarrow> unit db_result \<times> database" where
  "LogUserDataExport aud env userID requestedByUserID ipAddress =
     LogAction aud env requestedByUserID ''export'' ''user_data'' (user_event userID ipAddress)"

definition LogUserDataDelete :: "audit_env \<Rightarrow> dbenv \<Rightarrow> string \<Rightarrow> string \<Rightarrow> string \<Rightarrow> database \<Rightarrow> unit db_result \<times> database" where
  "LogUserDataDelete aud env userID requestedByUserID ipAddress =
     LogAction aud env requestedByUserID ''delete'' ''user_account'' (user_event userID ipAddress)"

text \<open>The other events have no caller.\<close>

definition LogProjectCreated :: "audit_env \<Rightarrow> dbenv \<Rightarrow> string \<Rightarrow> string \<Rightarrow> string \<Rightarrow> string \<Rightarrow> database \<Rightarrow>
    unit db_result \<times> database" where
  "LogProjectCreated aud env userID projectID nm ipAddress = LogAction aud env userID ''create'' ''project''
     ((user_event projectID ipAddress)\<lparr>ae_changes := JObj [(''name'', JStr nm)]\<rparr>)"

definition LogProjectDeleted :: "audit_env \<Rightarrow> dbenv \<Rightarrow> string \<Rightarrow> string \<Rightarrow> string \<Rightarrow> database \<Rightarrow> unit db_result \<times> database" where
  "LogProjectDeleted aud env userID projectID ipAddress =
     LogAction aud env userID ''delete'' ''project'' (user_event projectID ipAddress)"

definition LogTrackUploaded :: "audit_env \<Rightarrow> dbenv \<Rightarrow> string \<Rightarrow> string \<Rightarrow> string \<Rightarrow> int \<Rightarrow> string \<Rightarrow> database \<Rightarrow>
    unit db_result \<times> database" where
  "LogTrackUploaded aud env userID trackID trackName fileSizeBytes ipAddress = LogAction aud env userID ''create'' ''track''
     ((user_event trackID ipAddress)\<lparr>ae_changes := JObj [(''file_size'', JNum fileSizeBytes), (''name'', JStr trackName)]\<rparr>)"

definition LogShareCreated :: "audit_env \<Rightarrow> dbenv \<Rightarrow> string \<Rightarrow> string \<Rightarrow> string \<Rightarrow> string \<Rightarrow> database \<Rightarrow>
    unit db_result \<times> database" where
  "LogShareCreated aud env userID projectID sharedWithUserID ipAddress = LogAction aud env userID ''share'' ''project''
     ((user_event projectID ipAddress)\<lparr>ae_changes := JObj [(''shared_with'', JStr sharedWithUserID)]\<rparr>)"

definition LogShareRevoked :: "audit_env \<Rightarrow> dbenv \<Rightarrow> string \<Rightarrow> string \<Rightarrow> string \<Rightarrow> string \<Rightarrow> database \<Rightarrow>
    unit db_result \<times> database" where
  "LogShareRevoked aud env userID projectID sharedWithUserID ipAddress = LogAction aud env userID ''revoke'' ''project_share''
     ((user_event projectID ipAddress)\<lparr>ae_changes := JObj [(''shared_with'', JStr sharedWithUserID)]\<rparr>)"

definition LogDeniedAccess :: "audit_env \<Rightarrow> dbenv \<Rightarrow> string \<Rightarrow> string \<Rightarrow> string \<Rightarrow> string \<Rightarrow> string \<Rightarrow> database \<Rightarrow>
    unit db_result \<times> database" where
  "LogDeniedAccess aud env userID resource resourceID reason ipAddress = LogAction aud env userID ''access_denied'' resource
     ((user_event resourceID ipAddress)\<lparr>ae_status := ''failure'', ae_error := reason\<rparr>)"

text \<open>A row of the older insert has \<open>NULL\<close> where a string is read, so the list fails.\<close>

fun scan_events :: "audit_env \<Rightarrow> audit_row list \<Rightarrow> (audit_row \<times> audit_event) list db_result" where
  "scan_events aud [] = Inr []"
| "scan_events aud (a # as) =
     (case al_event a of
        None \<Rightarrow> Inl Fault
      | Some e \<Rightarrow>
          (case scan_inet aud (ae_ip e) of
             None \<Rightarrow> Inl Fault
           | Some ip \<Rightarrow>
               (case scan_events aud as of Inl x \<Rightarrow> Inl x | Inr es \<Rightarrow> Inr ((a, e\<lparr>ae_ip := ip\<rparr>) # es))))"

definition GetAuditLog :: "audit_env \<Rightarrow> dbenv \<Rightarrow> string \<Rightarrow> int \<Rightarrow> int \<Rightarrow> database \<Rightarrow> (audit_row \<times> audit_event) list db_result" where
  "GetAuditLog aud env userID limit offset d =
     (case query_page env ''GetAuditLog'' [userID] limit offset
             (order_desc al_created (filter (\<lambda>a. al_user a = Some userID) (audit_logs d))) of
        Inl e \<Rightarrow> Inl e | Inr as \<Rightarrow> scan_events aud as)"

text \<open>The older queries read \<open>user_id\<close> and \<open>details\<close> into strings; the rows of \<open>LogAction\<close> have no details, and those of a
  failed clean-up no user.\<close>

definition scan_audit :: "audit_row list \<Rightarrow> audit_row list db_result" where
  "scan_audit as = (if list_ex (\<lambda>a. al_user a = None \<or> al_event a \<noteq> None) as then Inl Fault else Inr as)"

definition GetAuditLogsForUser :: "dbenv \<Rightarrow> string \<Rightarrow> int \<Rightarrow> int \<Rightarrow> database \<Rightarrow> audit_row list db_result" where
  "GetAuditLogsForUser env userID limit offset d =
     (case query_page env ''GetAuditLogsForUser'' [userID] limit offset
             (order_desc al_created (filter (\<lambda>a. al_user a = Some userID) (audit_logs d))) of
        Inl e \<Rightarrow> Inl e | Inr as \<Rightarrow> scan_audit as)"

definition GetAuditLogsForResource :: "dbenv \<Rightarrow> string \<Rightarrow> database \<Rightarrow> audit_row list db_result" where
  "GetAuditLogsForResource env resource d =
     (case query_all env ''GetAuditLogsForResource'' [resource]
             (order_desc al_created (filter (\<lambda>a. al_resource a = resource) (audit_logs d))) of
        Inl e \<Rightarrow> Inl e | Inr as \<Rightarrow> scan_audit as)"

definition event_json :: "audit_row \<times> audit_event \<Rightarrow> json" where
  "event_json = (\<lambda>(a, e). JObj ([(''id'', JStr (al_id a)), (''user_id'', json_opt (al_user a)),
     (''action'', JStr (al_action a)), (''resource'', JStr (al_resource a)), (''resource_id'', JStr (ae_resource_id e)),
     (''changes'', ae_changes e), (''ip_address'', JStr (ae_ip e)), (''user_agent'', JStr (ae_agent e)),
     (''status'', JStr (ae_status e))] @ (if ae_error e = '''' then [] else [(''error'', JStr (ae_error e))]) @
     [(''timestamp'', JNum (al_created a))]))"

subsection \<open>Export\<close>

text \<open>The list has the deleted tracks too; the column is not read.\<close>

definition GetAllUserTracks :: "dbenv \<Rightarrow> string \<Rightarrow> database \<Rightarrow> track_row list db_result" where
  "GetAllUserTracks env userID d =
     query_all env ''GetAllUserTracks'' [userID]
       (map (\<lambda>t. t\<lparr>t_deleted := None\<rparr>) (order_desc t_created (filter (\<lambda>t. t_user t = userID) (tracks d))))"

definition ExportUserData :: "audit_env \<Rightarrow> 'o app_env \<Rightarrow> ('b, 'o app) handler" where
  "ExportUserData aud env r = (\<lambda>(w, s).
     let failed = respond (http_error ''failed to export data'' 500 w) s; d = app_db s in
     (case GetUserID r of
        None \<Rightarrow> respond (WriteUnauthorized w) s
      | Some userID \<Rightarrow>
          (case GetUserByID (dbe env) userID d of
             Inl _ \<Rightarrow> failed
           | Inr user \<Rightarrow>
               (case GetUserProjectsPaginated (dbe env) userID 1000 0 d of
                  Inl _ \<Rightarrow> failed
                | Inr (ps, _) \<Rightarrow>
                    (case GetAllUserTracks (dbe env) userID d of
                       Inl _ \<Rightarrow> failed
                     | Inr ts \<Rightarrow>
                         let audit = (case GetAuditLog aud (dbe env) userID 10000 0 d of
                                        Inl _ \<Rightarrow> JList [] | Inr es \<Rightarrow> json_slice event_json es);
                             exportData = JObj [(''audit_logs'', audit), (''export_date'', JStr ''2026-02-28 UTC''),
                               (''projects'', json_slice project_json ps), (''tracks'', json_slice track_json ts),
                               (''user'', case user of None \<Rightarrow> JNull | Some u \<Rightarrow> user_json u)];
                             d = snd (LogUserDataExport aud (dbe env) userID userID (remote_addr r) d)
                         in respond (write_body (Json exportData)
                              (header_set ''Content-Disposition''
                                (''attachment; filename='' @ [CHR 0x22] @ ''purptape-data-export-'' @ userID @ ''.json'' @ [CHR 0x22])
                                (header_set ''Content-Type'' ''application/json'' w))) (s\<lparr>app_db := d\<rparr>))))))"

subsection \<open>Privacy settings\<close>

text \<open>\<open>json.Unmarshal\<close> into a \<open>map[string]bool\<close>: the object's entries, or \<open>nil\<close> from \<open>null\<close>.\<close>

type_synonym settings = "(string \<times> bool) list option"

fun bool_entries :: "(string \<times> json) list \<Rightarrow> (string \<times> bool) list option" where
  "bool_entries [] = Some []"
| "bool_entries ((k, JBool b) # kvs) = map_option (\<lambda>es. (k, b) # es) (bool_entries kvs)"
| "bool_entries ((k, JNull) # kvs) = map_option (\<lambda>es. (k, False) # es) (bool_entries kvs)"
| "bool_entries (_ # kvs) = None"

definition unmarshal_settings :: "json \<Rightarrow> settings option" where
  "unmarshal_settings j =
     (case j of JObj kvs \<Rightarrow> map_option Some (bool_entries kvs) | JNull \<Rightarrow> Some None | _ \<Rightarrow> None)"

definition settings_json :: "settings \<Rightarrow> json" where
  "settings_json ss = (case ss of None \<Rightarrow> JNull | Some es \<Rightarrow> JObj (map (\<lambda>(k, b). (k, JBool b)) es))"

definition GetUserPrivacySettings :: "dbenv \<Rightarrow> string \<Rightarrow> database \<Rightarrow> settings db_result" where
  "GetUserPrivacySettings env userID d =
     (case query_row env ''GetUserPrivacySettings'' [userID] (filter (\<lambda>u. u_id u = userID) (users d)) of
        Inl e \<Rightarrow> if is_sql_no_rows env e
                 then Inr (Some [(''allow_collaboration_requests'', True), (''share_profile'', True), (''show_in_search'', True)])
                 else Inl e
      | Inr u \<Rightarrow>
          (case unmarshal_settings (case u_privacy u of None \<Rightarrow> default_privacy | Some j \<Rightarrow> j) of
             None \<Rightarrow> Inl Fault | Some ss \<Rightarrow> Inr ss))"

definition UpdateUserPrivacySettings :: "dbenv \<Rightarrow> string \<Rightarrow> settings \<Rightarrow> database \<Rightarrow> unit db_result \<times> database" where
  "UpdateUserPrivacySettings env userID ss =
     exec_stmt env ''UpdateUserPrivacySettings'' [userID]
       (\<lambda>d. d\<lparr>users := update_rows (\<lambda>u. u_id u = userID)
          (\<lambda>u. u\<lparr>u_privacy := Some (settings_json ss), u_updated := db_now env\<rparr>) (users d)\<rparr>)"

definition GetPrivacySettings :: "'o app_env \<Rightarrow> ('b, 'o app) handler" where
  "GetPrivacySettings env r = (\<lambda>(w, s).
     (case GetUserID r of
        None \<Rightarrow> respond (WriteUnauthorized w) s
      | Some userID \<Rightarrow>
          (case GetUserPrivacySettings (dbe env) userID (app_db s) of
             Inl _ \<Rightarrow> respond (http_error ''failed to get privacy settings'' 500 w) s
           | Inr ss \<Rightarrow> respond (write_body (Json (settings_json ss))
                         (header_set ''Content-Type'' ''application/json'' w)) s)))"

definition UpdatePrivacySettings :: "'o app_env \<Rightarrow> (settings, 'o app) handler" where
  "UpdatePrivacySettings env r = (\<lambda>(w, s).
     (case GetUserID r of
        None \<Rightarrow> respond (WriteUnauthorized w) s
      | Some userID \<Rightarrow>
          (case req_body r of
             None \<Rightarrow> respond (http_error ''invalid request'' 400 w) s
           | Some ss \<Rightarrow>
               (case UpdateUserPrivacySettings (dbe env) userID ss (app_db s) of
                  (Inl _, d) \<Rightarrow> respond (http_error ''failed to update settings'' 500 w) (s\<lparr>app_db := d\<rparr>)
                | (Inr _, d) \<Rightarrow> respond (write_header 204 w) (s\<lparr>app_db := d\<rparr>)))))"

subsection \<open>The end of an account\<close>

definition delete_projects_of :: "dbenv \<Rightarrow> string \<Rightarrow> database \<Rightarrow> database" where
  "delete_projects_of env userID d =
     fold (\<lambda>i d. queue_cleanup env (map version_cleanup (project_versions d i)) (delete_project_rows i d))
       (map p_id (filter (\<lambda>p. p_user p = userID) (projects d))) d"

definition delete_tracks_of :: "dbenv \<Rightarrow> string \<Rightarrow> database \<Rightarrow> database" where
  "delete_tracks_of env userID d =
     (let gone = (\<lambda>i. list_ex (\<lambda>t. t_id t = i \<and> t_user t = userID) (tracks d));
          vs = filter (\<lambda>v. gone (v_track v)) (versions d);
          vgone = (\<lambda>i. list_ex (\<lambda>v. v_id v = i) vs)
      in queue_cleanup env (map version_cleanup vs)
           (d\<lparr>tracks := filter (\<lambda>t. t_user t \<noteq> userID) (tracks d),
              versions := filter (\<lambda>v. \<not> gone (v_track v)) (versions d),
              likes := filter (\<lambda>l. \<not> gone (lk_track l)) (likes d),
              comments := filter (\<lambda>c. \<not> vgone (cm_version c)) (comments d),
              offline_downloads := filter (\<lambda>od. \<not> gone (od_track od) \<and> \<not> vgone (od_version od)) (offline_downloads d),
              play_history := filter (\<lambda>h. \<not> gone (pl_track h) \<and> \<not> vgone (pl_version h)) (play_history d),
              notifications := map (\<lambda>n. n\<lparr>n_track := clear_reference gone (n_track n),
                n_comment := clear_reference (\<lambda>i. list_ex (\<lambda>c. cm_id c = i \<and> vgone (cm_version c)) (comments d))
                  (n_comment n)\<rparr>) (notifications d)\<rparr>))"

definition deleted_image :: "image_row \<Rightarrow> json" where
  "deleted_image i = JObj [(''r2_object_key'', JStr (i_key i)), (''file_size'', JNum (i_size i)),
     (''image_id'', JStr (i_id i)), (''user_id'', JStr (i_user i))]"

text \<open>What the foreign keys on \<open>users\<close> remove or clear, apart from projects and tracks, which are gone by then.\<close>

definition delete_user_row :: "dbenv \<Rightarrow> string \<Rightarrow> database \<Rightarrow> database" where
  "delete_user_row env userID d =
     (let is_user = (\<lambda>i. i = userID); own = filter (\<lambda>i. i_user i = userID) (images d)
      in if \<not> (\<exists>u\<in>set (users d). u_id u = userID) then d
         else queue_cleanup env (map deleted_image own)
           (d\<lparr>users := filter (\<lambda>u. u_id u \<noteq> userID) (users d),
              images := filter (\<lambda>i. i_user i \<noteq> userID) (images d),
              projects := map (\<lambda>p. p\<lparr>p_cover := clear_reference (\<lambda>c. list_ex (\<lambda>i. i_id i = c) own) (p_cover p)\<rparr>) (projects d),
              shares := filter (\<lambda>ps. ps_by ps \<noteq> userID \<and> ps_with ps \<noteq> Some userID) (shares d),
              collaborators := filter (\<lambda>c. c_user c \<noteq> userID) (collaborators d),
              likes := filter (\<lambda>l. lk_user l \<noteq> userID) (likes d),
              comments := filter (\<lambda>c. cm_user c \<noteq> userID) (comments d),
              follows := filter (\<lambda>f. fo_follower f \<noteq> userID \<and> fo_following f \<noteq> userID) (follows d),
              notifications := map (\<lambda>n. n\<lparr>n_actor := clear_reference is_user (n_actor n),
                  n_comment := clear_reference (\<lambda>i. list_ex (\<lambda>c. cm_id c = i \<and> cm_user c = userID) (comments d))
                    (n_comment n)\<rparr>) (filter (\<lambda>n. n_user n \<noteq> userID) (notifications d)),
              share_links := filter (\<lambda>l. sl_creator l \<noteq> userID) (share_links d),
              subscriptions := filter (\<lambda>b. sb_user b \<noteq> userID) (subscriptions d),
              offline_downloads := filter (\<lambda>od. od_user od \<noteq> userID) (offline_downloads d),
              device_tokens := filter (\<lambda>dt. dt_user dt \<noteq> userID) (device_tokens d),
              notification_preferences := filter (\<lambda>p. np_user p \<noteq> userID) (notification_preferences d),
              play_history := map (\<lambda>h. h\<lparr>pl_listener := clear_reference is_user (pl_listener h)\<rparr>) (play_history d),
              audit_logs := map (\<lambda>a. a\<lparr>al_user := clear_reference is_user (al_user a)\<rparr>) (audit_logs d)\<rparr>))"

definition delete_account :: "dbenv \<Rightarrow> string \<Rightarrow> database \<Rightarrow> unit db_result \<times> database" where
  "delete_account env userID d =
     (case exec_stmt env ''DELETE FROM projects'' [userID] (delete_projects_of env userID) d of
        (Inl e, d) \<Rightarrow> (Inl e, d)
      | (Inr _, d) \<Rightarrow>
          (case exec_stmt env ''DELETE FROM tracks'' [userID] (delete_tracks_of env userID) d of
             (Inl e, d) \<Rightarrow> (Inl e, d)
           | (Inr _, d) \<Rightarrow> exec_stmt env ''DELETE FROM users'' [userID] (delete_user_row env userID) d))"

text \<open>The entry of the audit trail is written on another connection, from within the transaction. Its foreign
  key waits for the row of the user that the transaction has deleted, and the transaction waits for it: if
  PostgreSQL accepts the remote address as an \<open>inet\<close>, the request never returns (\<open>None\<close>). The address of
  \<open>net/http\<close> has a port, so the insert fails before it waits.\<close>

definition DeleteUserData ::
  "audit_env \<Rightarrow> 'o app_env \<Rightarrow> string request \<Rightarrow> rwriter \<times> 'o app \<Rightarrow> (completion \<times> rwriter \<times> 'o app) option" where
  "DeleteUserData aud env r = (\<lambda>(w, s).
     (case GetUserID r of
        None \<Rightarrow> Some (respond (WriteUnauthorized w) s)
      | Some userID \<Rightarrow>
          (case req_body r of
             None \<Rightarrow> Some (respond (http_error ''invalid request'' 400 w) s)
           | Some confirm_password \<Rightarrow>
               if confirm_password = '''' then Some (respond (http_error ''password confirmation required'' 400 w) s)
               else if \<not> fails (dbe env) ''Begin'' [] \<and> fst (delete_account (dbe env) userID (app_db s)) = Inr () \<and>
                    fst (LogUserDataDelete aud (dbe env) userID userID (remote_addr r) (app_db s)) = Inr () then None
               else case WithTx (dbe env) (delete_account (dbe env) userID) (app_db s) of
                      (Inl _, d) \<Rightarrow> Some (respond (http_error ''failed to delete account'' 500 w) (s\<lparr>app_db := d\<rparr>))
                    | (Inr _, d) \<Rightarrow> Some (respond (write_header 204 w) (s\<lparr>app_db := d\<rparr>)))))"


subsection \<open>Who becomes founder\<close>

lemma SetUserRole_cases:
  "SetUserRole env u role d = (r, d') \<Longrightarrow> (d' = d \<and> r \<noteq> Inr ()) \<or>
   (r = Inr () \<and> d' = d\<lparr>users := update_rows (\<lambda>x. u_id x = u) (\<lambda>x. x\<lparr>u_role := Some role\<rparr>) (users d)\<rparr>)"
  by (auto simp: SetUserRole_def split: if_splits)

lemma founders_update:
  "founders (d\<lparr>users := update_rows (\<lambda>x. u_id x = u) (\<lambda>x. x\<lparr>u_role := Some ''founder''\<rparr>) (users d)\<rparr>) \<subseteq>
   insert u (founders d)"
  by (auto simp: founders_def set_update_rows split: if_splits)

text \<open>A founder passes as an administrator too, and a deleted user as neither.\<close>

lemma founder_is_admin:
  "IsFounder env u d = Inr True \<Longrightarrow> \<not> fails env ''IsAdmin'' [u] \<Longrightarrow> IsAdmin env u d = Inr True"
  by (auto simp: IsFounder_def IsAdmin_def query_row_def scan_string_def
      split: if_splits list.splits option.splits sum.splits)

lemma IsFounder_iff:
  "IsFounder env u d = Inr True \<longleftrightarrow> \<not> fails env ''IsFounder'' [u] \<and>
     (\<exists>rs. role_column u d = Some ''founder'' # rs)"
  by (auto simp: IsFounder_def query_row_def scan_string_def is_sql_no_rows_def
      split: if_splits list.splits option.splits)

text \<open>C32: nobody becomes founder without the set-up token: a set-up request changes nothing, or it comes from a signed-in user,
  carries the token that is set and not empty, changes no column but the roles, and makes only the caller a founder.\<close>

theorem founder_needs_token:
  "snd (snd (SetupFounder tok env r (w, s))) = s \<or>
   (\<exists>u us. GetUserID r = Some u \<and> tok \<noteq> '''' \<and> req_body r = Some tok \<and>
      snd (snd (SetupFounder tok env r (w, s))) = s\<lparr>app_db := (app_db s)\<lparr>users := us\<rparr>\<rparr> \<and>
      map (u_role_update Map.empty) us = map (u_role_update Map.empty) (users (app_db s)) \<and>
      founders ((app_db s)\<lparr>users := us\<rparr>) \<subseteq> insert u (founders (app_db s)))"
proof (cases "GetUserID r")
  case None
  then show ?thesis by (simp add: SetupFounder_def respond_def)
next
  case (Some u)
  show ?thesis
  proof (cases "req_body r = Some tok \<and> tok \<noteq> ''''")
    case False
    with Some show ?thesis by (auto simp: SetupFounder_def respond_def split: option.splits)
  next
    case True
    obtain x d where set: "SetUserRole (dbe env) u ''founder'' (app_db s) = (x, d)" by fastforce
    let ?us = "update_rows (\<lambda>x. u_id x = u) (\<lambda>x. x\<lparr>u_role := Some ''founder''\<rparr>) (users (app_db s))"
    have roles: "map (u_role_update Map.empty) ?us = map (u_role_update Map.empty) (users (app_db s))"
      by (induction "users (app_db s)" arbitrary: s) simp_all
    have "snd (snd (SetupFounder tok env r (w, s))) \<in> {s, s\<lparr>app_db := d\<rparr>}"
      using True Some set by (auto simp: SetupFounder_def respond_def split: sum.splits option.splits)
    moreover have "d = app_db s \<or> d = (app_db s)\<lparr>users := ?us\<rparr>" using SetUserRole_cases [OF set] by auto
    ultimately show ?thesis using Some True roles founders_update [of u "app_db s"] by auto
  qed
qed

subsection \<open>Reading settings back\<close>

lemma bool_entries_settings: "bool_entries (map (\<lambda>(k, b). (k, JBool b)) es) = Some es"
  by (induction es) auto

lemma unmarshal_settings_json [simp]: "unmarshal_settings (settings_json ss) = Some ss"
  by (cases ss) (simp_all add: unmarshal_settings_def settings_json_def bool_entries_settings)

text \<open>C33: after an update of the privacy settings of a user that is answered 204, the user reads back what was sent, and
  every other user what they read before.\<close>

theorem privacy_read_back:
  assumes "GetUserID r = Some u" and "req_body r = Some ss" and "wrote w = None"
    and "wrote (fst (snd (UpdatePrivacySettings env r (w, s)))) = Some 204"
    and "u \<in> u_id ` set (users (app_db s))" and "\<not> fails (dbe env) ''GetUserPrivacySettings'' [u]"
  shows "GetUserPrivacySettings (dbe env) u (app_db (snd (snd (UpdatePrivacySettings env r (w, s))))) = Inr ss \<and>
     (x \<noteq> u \<longrightarrow> GetUserPrivacySettings (dbe env) x (app_db (snd (snd (UpdatePrivacySettings env r (w, s))))) =
        GetUserPrivacySettings (dbe env) x (app_db s))"
proof -
  let ?f = "\<lambda>y. y\<lparr>u_privacy := Some (settings_json ss), u_updated := db_now (dbe env)\<rparr>"
  let ?d = "(app_db s)\<lparr>users := update_rows (\<lambda>y. u_id y = u) ?f (users (app_db s))\<rparr>"
  have d: "app_db (snd (snd (UpdatePrivacySettings env r (w, s)))) = ?d"
    using assms(1-4) by (auto simp: UpdatePrivacySettings_def UpdateUserPrivacySettings_def exec_stmt_def respond_def
        split: if_splits)
  have own: "filter (\<lambda>y. u_id y = u) (update_rows (\<lambda>y. u_id y = u) ?f us) = map ?f (filter (\<lambda>y. u_id y = u) us)" for us
    by (induction us) auto
  have other: "filter (\<lambda>y. u_id y = x) (update_rows (\<lambda>y. u_id y = u) ?f us) = filter (\<lambda>y. u_id y = x) us"
    if "x \<noteq> u" for us
    using that by (induction us) auto
  obtain y ys where "filter (\<lambda>y. u_id y = u) (users (app_db s)) = y # ys"
    using assms(5) by (cases "filter (\<lambda>y. u_id y = u) (users (app_db s))") (auto simp: filter_empty_conv)
  then have "GetUserPrivacySettings (dbe env) u ?d = Inr ss"
    using assms(6) by (simp add: GetUserPrivacySettings_def own query_row_def)
  moreover have "x \<noteq> u \<longrightarrow> GetUserPrivacySettings (dbe env) x ?d = GetUserPrivacySettings (dbe env) x (app_db s)"
    by (simp add: GetUserPrivacySettings_def other)
  ultimately show ?thesis unfolding d by blast
qed

subsection \<open>What the deletion of an account leaves\<close>

definition no_trace :: "string \<Rightarrow> database \<Rightarrow> bool" where
  "no_trace u d \<longleftrightarrow>
     (\<forall>x\<in>set (users d). u_id x \<noteq> u) \<and> (\<forall>p\<in>set (projects d). p_user p \<noteq> u) \<and> (\<forall>t\<in>set (tracks d). t_user t \<noteq> u) \<and>
     (\<forall>i\<in>set (images d). i_user i \<noteq> u) \<and> (\<forall>p\<in>set (shares d). ps_by p \<noteq> u \<and> ps_with p \<noteq> Some u) \<and>
     (\<forall>c\<in>set (collaborators d). c_user c \<noteq> u) \<and> (\<forall>l\<in>set (likes d). lk_user l \<noteq> u) \<and>
     (\<forall>c\<in>set (comments d). cm_user c \<noteq> u) \<and> (\<forall>f\<in>set (follows d). fo_follower f \<noteq> u \<and> fo_following f \<noteq> u) \<and>
     (\<forall>n\<in>set (notifications d). n_user n \<noteq> u \<and> n_actor n \<noteq> Some u) \<and> (\<forall>l\<in>set (share_links d). sl_creator l \<noteq> u) \<and>
     (\<forall>b\<in>set (subscriptions d). sb_user b \<noteq> u) \<and> (\<forall>od\<in>set (offline_downloads d). od_user od \<noteq> u) \<and>
     (\<forall>t\<in>set (device_tokens d). dt_user t \<noteq> u) \<and> (\<forall>p\<in>set (notification_preferences d). np_user p \<noteq> u) \<and>
     (\<forall>h\<in>set (play_history d). pl_listener h \<noteq> Some u) \<and> (\<forall>a\<in>set (audit_logs d). al_user a \<noteq> Some u)"

definition queued :: "database \<Rightarrow> json \<Rightarrow> bool" where
  "queued d f \<longleftrightarrow> (\<exists>j\<in>set (background_jobs d). j_type j = ''cleanup_r2_file'' \<and> j_data j = f)"

text \<open>A step that forgets no stored file: a version or image that it removes is queued for removal.\<close>

definition files_kept :: "database \<Rightarrow> database \<Rightarrow> bool" where
  "files_kept d d' \<longleftrightarrow> set (background_jobs d) \<subseteq> set (background_jobs d') \<and>
     (\<forall>v\<in>set (versions d). v \<in> set (versions d') \<or> queued d' (version_cleanup v)) \<and>
     (\<forall>i\<in>set (images d). i \<in> set (images d') \<or> queued d' (deleted_image i))"

lemma files_kept_refl [simp]: "files_kept d d"
  by (simp add: files_kept_def)

lemma files_kept_trans: "files_kept a b \<Longrightarrow> files_kept b c \<Longrightarrow> files_kept a c"
  unfolding files_kept_def queued_def by blast

lemma queue_cleanup_more [simp]:
  "images (queue_cleanup env fs d) = images d" "likes (queue_cleanup env fs d) = likes d"
  "comments (queue_cleanup env fs d) = comments d" "follows (queue_cleanup env fs d) = follows d"
  "notifications (queue_cleanup env fs d) = notifications d" "share_links (queue_cleanup env fs d) = share_links d"
  "subscriptions (queue_cleanup env fs d) = subscriptions d"
  "offline_downloads (queue_cleanup env fs d) = offline_downloads d"
  "device_tokens (queue_cleanup env fs d) = device_tokens d"
  "notification_preferences (queue_cleanup env fs d) = notification_preferences d"
  "play_history (queue_cleanup env fs d) = play_history d" "audit_logs (queue_cleanup env fs d) = audit_logs d"
  by (induction env fs d rule: queue_cleanup.induct) simp_all

lemma queue_cleanup_queued:
  "f \<in> set fs \<Longrightarrow> queued (queue_cleanup env fs d) f"
  using queue_cleanup_has [of f fs env d] unfolding queued_def by blast

lemma queue_cleanup_jobs: "set (background_jobs d) \<subseteq> set (background_jobs (queue_cleanup env fs d))"
  using queue_cleanup_keeps by blast


abbreviation remove_project :: "dbenv \<Rightarrow> string \<Rightarrow> database \<Rightarrow> database" where
  "remove_project env i d \<equiv> queue_cleanup env (map version_cleanup (project_versions d i)) (delete_project_rows i d)"

lemma files_kept_queue:
  assumes "background_jobs d1 = background_jobs d"
    and "\<And>v. v \<in> set (versions d) \<Longrightarrow> v \<in> set (versions d1) \<or> version_cleanup v \<in> set fs"
    and "\<And>i. i \<in> set (images d) \<Longrightarrow> i \<in> set (images d1) \<or> deleted_image i \<in> set fs"
  shows "files_kept d (queue_cleanup env fs d1)"
  unfolding files_kept_def
proof (intro conjI ballI)
  show "set (background_jobs d) \<subseteq> set (background_jobs (queue_cleanup env fs d1))"
    using queue_cleanup_jobs [of d1 env fs] assms(1) by simp
  show "v \<in> set (versions (queue_cleanup env fs d1)) \<or> queued (queue_cleanup env fs d1) (version_cleanup v)"
    if "v \<in> set (versions d)" for v
    using assms(2) [OF that] queue_cleanup_queued by (auto simp: frame_simps)
  show "i \<in> set (images (queue_cleanup env fs d1)) \<or> queued (queue_cleanup env fs d1) (deleted_image i)"
    if "i \<in> set (images d)" for i
    using assms(3) [OF that] queue_cleanup_queued by auto
qed

lemma remove_project_effect:
  "files_kept d (remove_project env i d)" "users (remove_project env i d) = users d"
  "projects (remove_project env i d) = filter (\<lambda>p. p_id p \<noteq> i) (projects d)"
  by (rule files_kept_queue) (auto simp: delete_project_rows_def Let_def frame_simps)

lemma delete_projects_of_effect:
  "files_kept d (delete_projects_of env u d)" "users (delete_projects_of env u d) = users d"
  "\<forall>p\<in>set (projects (delete_projects_of env u d)). p_user p \<noteq> u"
proof -
  have f: "files_kept d (fold (remove_project env) is d) \<and> users (fold (remove_project env) is d) = users d \<and>
      projects (fold (remove_project env) is d) = filter (\<lambda>p. p_id p \<notin> set is) (projects d)" for "is"
  proof (induction "is" arbitrary: d)
    case Nil
    then show ?case by simp
  next
    case (Cons i "is")
    from Cons.IH [of "remove_project env i d"] show ?case
      using remove_project_effect [where d = d and env = env and i = i] by (auto intro: files_kept_trans)
  qed
  show "files_kept d (delete_projects_of env u d)" "users (delete_projects_of env u d) = users d"
    "\<forall>p\<in>set (projects (delete_projects_of env u d)). p_user p \<noteq> u"
    using f [of "map p_id (filter (\<lambda>p. p_user p = u) (projects d))"] by (auto simp: delete_projects_of_def)
qed

lemma delete_tracks_of_effect:
  "files_kept d (delete_tracks_of env u d)" "users (delete_tracks_of env u d) = users d"
  "projects (delete_tracks_of env u d) = projects d" "\<forall>t\<in>set (tracks (delete_tracks_of env u d)). t_user t \<noteq> u"
proof -
  show "files_kept d (delete_tracks_of env u d)"
    unfolding delete_tracks_of_def Let_def by (rule files_kept_queue) auto
qed (simp_all add: delete_tracks_of_def Let_def frame_simps)

lemma clear_reference_gone: "clear_reference (\<lambda>i. i = u) x \<noteq> Some u"
  by (cases x) (simp_all add: clear_reference_def)

lemma delete_user_row_effect:
  assumes "u \<in> u_id ` set (users d)"
  shows "files_kept d (delete_user_row env u d)"
    and "\<forall>p\<in>set (projects d). p_user p \<noteq> u \<Longrightarrow> \<forall>t\<in>set (tracks d). t_user t \<noteq> u \<Longrightarrow> no_trace u (delete_user_row env u d)"
proof -
  have ex: "\<not> \<not> (\<exists>x\<in>set (users d). u_id x = u)" using assms by auto
  show "files_kept d (delete_user_row env u d)"
    unfolding delete_user_row_def Let_def if_not_P [OF ex] by (rule files_kept_queue) auto
  show "no_trace u (delete_user_row env u d)"
    if "\<forall>p\<in>set (projects d). p_user p \<noteq> u" "\<forall>t\<in>set (tracks d). t_user t \<noteq> u"
    unfolding delete_user_row_def Let_def if_not_P [OF ex] no_trace_def
    using that by (simp add: frame_simps clear_reference_gone)
qed

lemma delete_account_effect:
  assumes "delete_account env u d = (Inr x, d')" and "u \<in> u_id ` set (users d)"
  shows "no_trace u d'" and "files_kept d d'"
proof -
  let ?d1 = "delete_projects_of env u d" let ?d2 = "delete_tracks_of env u ?d1"
  have d': "d' = delete_user_row env u ?d2"
    using assms(1) by (auto simp: delete_account_def exec_stmt_def split: if_splits)
  note e = delete_projects_of_effect [where d = d and env = env and u = u]
    delete_tracks_of_effect [where d = ?d1 and env = env and u = u]
  have u: "u \<in> u_id ` set (users ?d2)" using assms(2) e by simp
  show "no_trace u d'" unfolding d' using e by (intro delete_user_row_effect(2) [OF u]) simp_all
  show "files_kept d d'" unfolding d'
    using delete_user_row_effect(1) [OF u] e files_kept_trans by blast
qed


subsection \<open>Witnesses\<close>

definition sample_user_row :: "string \<Rightarrow> user_row" where
  "sample_user_row i = \<lparr>u_id = i, u_email = i @ ''@x'', u_username = i, u_avatar = Some ''a'', u_role = Some ''user'',
     u_privacy = None, u_created = 0, u_updated = 0, u_deleted = None\<rparr>"

definition sample_account_env :: "unit app_env" where
  "sample_account_env = \<lparr>dbe = \<lparr>fails = \<lambda>_ _. False, db_now = 9, gen_uuid = Itoa \<circ> int, norows_equal = False,
       has_access_table = True\<rparr>, s3e = undefined, sha = id, r2_endpoint = '''', r2_bucket = '''',
     new_uuid = Itoa \<circ> int, uuid_valid = (\<lambda>_. True), now = 9\<rparr>"

definition sample_account_app :: "unit app" where
  "sample_account_app = \<lparr>app_db = empty_db\<lparr>users := [sample_user_row ''a'', sample_user_row ''b'']\<rparr>,
     app_r2 = undefined, app_uuids = 0, app_urls = undefined\<rparr>"

lemma privacy_read_back_witness:
  "GetUserPrivacySettings (dbe sample_account_env) ''a'' (app_db (snd (snd (UpdatePrivacySettings sample_account_env
     ((plain_request :: settings request)\<lparr>ctx := [''user_id'' \<mapsto> CtxStr ''a''], req_body := Some (Some [(''show_in_search'', False)])\<rparr>)
     (new_writer, sample_account_app))))) = Inr (Some [(''show_in_search'', False)])"
proof -
  let ?r = "(plain_request :: settings request)\<lparr>ctx := [''user_id'' \<mapsto> CtxStr ''a''], req_body := Some (Some [(''show_in_search'', False)])\<rparr>"
  have "wrote (fst (snd (UpdatePrivacySettings sample_account_env ?r (new_writer, sample_account_app)))) = Some 204"
    by (simp add: UpdatePrivacySettings_def UpdateUserPrivacySettings_def exec_stmt_def GetUserID_def ctx_string_def
        sample_account_env_def sample_account_app_def respond_def plain_request_def)
  from privacy_read_back [OF _ _ _ this, of "''a''" "Some [(''show_in_search'', False)]"] show ?thesis
    by (simp add: GetUserID_def ctx_string_def plain_request_def sample_account_env_def sample_account_app_def sample_user_row_def)
qed


end
