(* ===== verification/Discovery.thy ===== *)
theory Discovery
  imports Social TrackHandlers
begin

text \<open>
  Search and play statistics: \<open>handlers/search.go\<close>, \<open>handlers/analytics.go\<close> and
  \<open>db/queries_analytics.go\<close>. The full-text search of PostgreSQL (whether a document matches a query, and
  its rank, of which only the order matters) is an argument, and so is what the driver makes of a
  \<open>NUMERIC\<close>. What the statements name and the migrations do not create is an argument too, \<open>schema\<close>:
  the view \<open>project_stats_materialized\<close>, the column \<open>play_history.duration_seconds\<close> and the column
  \<open>comments.project_id\<close>; \<open>migrated\<close> is the schema of the repository, which has none of them.

  Shown: what the public routes depend on, and that with the schema of the migrations no play is ever
  recorded and no project statistics are ever answered.
\<close>

record fulltext =
  ft_match :: "string \<Rightarrow> string \<Rightarrow> bool"
  ft_rank :: "string \<Rightarrow> string \<Rightarrow> int"

subsection \<open>Search queries\<close>

definition project_document :: "project_row \<Rightarrow> string" where
  "project_document p = p_name p @ '' '' @ p_description p"

definition public_project :: "project_row \<Rightarrow> bool" where
  "public_project p \<longleftrightarrow> p_deleted p = None \<and> \<not> p_is_private p"

definition public_projects :: "database \<Rightarrow> project_row list" where
  "public_projects d = filter public_project (projects d)"

definition public_tracks :: "database \<Rightarrow> track_row list" where
  "public_tracks d = filter (\<lambda>t. t_deleted t = None \<and> list_ex (\<lambda>p. p_id p = t_project t) (public_projects d)) (tracks d)"

definition ranked :: "fulltext \<Rightarrow> ('r \<Rightarrow> string) \<Rightarrow> ('r \<Rightarrow> go_time) \<Rightarrow> string \<Rightarrow> 'r list \<Rightarrow> 'r list" where
  "ranked ft doc newest q rows = order_desc (\<lambda>r. ft_rank ft (doc r) q)
     (order_desc newest (filter (\<lambda>r. ft_match ft (doc r) q) rows))"

definition search_rows ::
  "dbenv \<Rightarrow> string \<Rightarrow> fulltext \<Rightarrow> ('r \<Rightarrow> string) \<Rightarrow> ('r \<Rightarrow> go_time) \<Rightarrow> string \<Rightarrow> int \<Rightarrow> int \<Rightarrow> 'r list \<Rightarrow>
    ('r list \<times> int) db_result" where
  "search_rows env call ft doc newest q limit offset rows =
     (if fails env (call @ ''/Count'') [q] then Inl Fault
      else let rs = ranked ft doc newest q rows
        in case query_page env call [q] limit offset rs of
             Inl e \<Rightarrow> Inl e | Inr page \<Rightarrow> Inr (page, int (length rs)))"

definition SearchProjects ::
  "fulltext \<Rightarrow> dbenv \<Rightarrow> string \<Rightarrow> int \<Rightarrow> int \<Rightarrow> database \<Rightarrow> (project_row list \<times> int) db_result" where
  "SearchProjects ft env q limit offset d =
     search_rows env ''SearchProjects'' ft project_document p_updated q limit offset (public_projects d)"

definition SearchTracks ::
  "fulltext \<Rightarrow> dbenv \<Rightarrow> string \<Rightarrow> int \<Rightarrow> int \<Rightarrow> database \<Rightarrow> (track_row list \<times> int) db_result" where
  "SearchTracks ft env q limit offset d =
     search_rows env ''SearchTracks'' ft t_name t_updated q limit offset (public_tracks d)"

definition SearchUsers ::
  "fulltext \<Rightarrow> dbenv \<Rightarrow> string \<Rightarrow> int \<Rightarrow> int \<Rightarrow> database \<Rightarrow> (user_row list \<times> int) db_result" where
  "SearchUsers ft env q limit offset d =
     (case search_rows env ''SearchUsers'' ft u_username u_created q limit offset
             (filter (\<lambda>u. u_deleted u = None) (users d)) of
        Inl e \<Rightarrow> Inl e
      | Inr (us, n) \<Rightarrow> (case scan_users us of Inl e \<Rightarrow> Inl e | Inr us \<Rightarrow> Inr (us, n)))"

text \<open>Every share counts, revoked or not.\<close>

definition SearchUserProjects ::
  "fulltext \<Rightarrow> dbenv \<Rightarrow> string \<Rightarrow> string \<Rightarrow> int \<Rightarrow> database \<Rightarrow> project_row list db_result" where
  "SearchUserProjects ft env userID q limit d =
     query_page env ''SearchUserProjects'' [userID, q] limit 0
       (order_desc p_updated (filter (\<lambda>p. p_deleted p = None \<and> ft_match ft (project_document p) q \<and>
          (p_user p = userID \<or> list_ex (\<lambda>ps. ps_project ps = p_id p \<and> ps_with ps = Some userID) (shares d)))
        (projects d)))"

definition day :: int where
  "day = 24 * hour"

definition play_count :: "go_time \<Rightarrow> project_row \<Rightarrow> database \<Rightarrow> int" where
  "play_count since p d = int (length (filter (\<lambda>h. pl_project h = p_id p \<and> pl_started h > since) (play_history d)))"

definition GetTrendingProjects :: "dbenv \<Rightarrow> string \<Rightarrow> int \<Rightarrow> database \<Rightarrow> (project_row \<times> int) list db_result" where
  "GetTrendingProjects env timeframe limit d =
     (let interval = (if timeframe = ''day'' then day else if timeframe = ''month'' then 30 * day else 7 * day)
      in query_page env ''GetTrendingProjects'' [timeframe] limit 0
           (order_desc snd (map (\<lambda>p. (p, play_count (db_now env - interval) p d))
              (order_desc p_updated (public_projects d)))))"

text \<open>Without a genre the statement has the placeholder \<open>$2\<close> and one argument.\<close>

definition GetPublicProjects :: "dbenv \<Rightarrow> string \<Rightarrow> int \<Rightarrow> database \<Rightarrow> project_row list db_result" where
  "GetPublicProjects env genre limit d =
     (if genre = '''' then Inl Fault
      else query_page env ''GetPublicProjects'' [genre] limit 0
             (order_desc p_updated (filter (\<lambda>p. p_genre p = genre) (public_projects d))))"

subsection \<open>Search handlers\<close>

definition found_project_json :: "project_row \<Rightarrow> json" where
  "found_project_json p = JObj [(''ID'', JStr (p_id p)), (''UserID'', JStr (p_user p)), (''Name'', JStr (p_name p)),
     (''Description'', JStr (p_description p)), (''DescriptionFull'', JStr ''''), (''IsPrivate'', JBool (p_is_private p)),
     (''IsCollaborative'', JBool False), (''CoverImageID'', json_opt (p_cover p)), (''Genre'', JStr ''''),
     (''ReleaseDate'', JNull), (''PlayCount'', JNum 0), (''LikeCount'', JNum 0), (''CreatedAt'', JNum (p_created p)),
     (''UpdatedAt'', JNum (p_updated p)), (''DeletedAt'', json_time (p_deleted p))]"

definition parseIntOr :: "string \<Rightarrow> int \<Rightarrow> int" where
  "parseIntOr s defaultValue = (case Atoi s of None \<Rightarrow> defaultValue | Some n \<Rightarrow> n)"

definition or_none :: "('r list \<times> int) db_result \<Rightarrow> 'r list" where
  "or_none x = (case x of Inl _ \<Rightarrow> [] | Inr (rs, _) \<Rightarrow> rs)"

definition json_answer :: "json \<Rightarrow> rwriter \<Rightarrow> rwriter" where
  "json_answer j w = write_body (Json j) (header_set ''Content-Type'' ''application/json'' w)"

definition SearchAll :: "fulltext \<Rightarrow> 'o app_env \<Rightarrow> ('b, 'o app) handler" where
  "SearchAll ft env r = (\<lambda>(w, s).
     let q = query r ''q'' in
     if q = '''' then respond (http_error ''missing search query'' 400 w) s
     else let limit = (if query r ''limit'' = '''' then 20 else parseIntOr (query r ''limit'') 20);
              limit = (if limit > 100 then 100 else limit);
              ps = or_none (SearchProjects ft (dbe env) q limit 0 (app_db s));
              ts = or_none (SearchTracks ft (dbe env) q limit 0 (app_db s));
              us = or_none (SearchUsers ft (dbe env) q limit 0 (app_db s))
       in respond (json_answer (JObj [(''projects'', JList (map found_project_json ps)), (''query'', JStr q),
            (''tracks'', JList (map track_json ts)), (''users'', JList (map user_json us))]) w) s)"

definition SearchProjectsHandler :: "fulltext \<Rightarrow> 'o app_env \<Rightarrow> ('b, 'o app) handler" where
  "SearchProjectsHandler ft env r = (\<lambda>(w, s).
     (case GetUserID r of
        None \<Rightarrow> respond (http_error ''unauthorized'' 401 w) s
      | Some userID \<Rightarrow>
          if query r ''q'' = '''' then respond (http_error ''missing search query'' 400 w) s
          else case SearchUserProjects ft (dbe env) userID (query r ''q'') 20 (app_db s) of
                 Inl _ \<Rightarrow> respond (http_error ''search failed'' 500 w) s
               | Inr ps \<Rightarrow> respond (json_answer (JList (map found_project_json ps)) w) s))"

definition trending_json :: "project_row \<times> int \<Rightarrow> json" where
  "trending_json = (\<lambda>(p, n). JObj [(''id'', JStr (p_id p)), (''name'', JStr (p_name p)), (''play_count'', JNum n),
     (''user_id'', JStr (p_user p))])"

definition GetTrending :: "'o app_env \<Rightarrow> ('b, 'o app) handler" where
  "GetTrending env r = (\<lambda>(w, s).
     let timeframe = (if query r ''timeframe'' = '''' then ''week'' else query r ''timeframe'')
     in case GetTrendingProjects (dbe env) timeframe 50 (app_db s) of
          Inl _ \<Rightarrow> respond (http_error ''failed to get trending'' 500 w) s
        | Inr ps \<Rightarrow> respond (json_answer (JList (map trending_json ps)) w) s)"

definition GetPublicProjectsHandler :: "'o app_env \<Rightarrow> ('b, 'o app) handler" where
  "GetPublicProjectsHandler env r = (\<lambda>(w, s).
     (case GetPublicProjects (dbe env) (query r ''genre'') 50 (app_db s) of
        Inl _ \<Rightarrow> respond (http_error ''failed to get projects'' 500 w) s
      | Inr ps \<Rightarrow> respond (json_answer (JList (map found_project_json ps)) w) s))"


subsection \<open>What the public routes see\<close>

text \<open>Two databases that agree on public projects, on the tracks and plays of public projects and on the users that are
  not deleted.\<close>

definition public_plays :: "database \<Rightarrow> play_row list" where
  "public_plays d = filter (\<lambda>h. list_ex (\<lambda>p. p_id p = pl_project h) (public_projects d)) (play_history d)"

definition same_public :: "database \<Rightarrow> database \<Rightarrow> bool" where
  "same_public d d' \<longleftrightarrow>
     filter (\<lambda>p. p_deleted p = None \<and> \<not> p_is_private p) (projects d) =
     filter (\<lambda>p. p_deleted p = None \<and> \<not> p_is_private p) (projects d') \<and> public_tracks d = public_tracks d' \<and>
     public_plays d = public_plays d' \<and>
     filter (\<lambda>u. u_deleted u = None) (users d) = filter (\<lambda>u. u_deleted u = None) (users d')"

lemma same_public_projects: "same_public d d' \<Longrightarrow> public_projects d = public_projects d'"
  by (simp add: same_public_def public_projects_def public_project_def [abs_def])

lemma play_count_public:
  assumes "p \<in> set (public_projects d)"
  shows "play_count since p d =
     int (length (filter (\<lambda>h. pl_project h = p_id p \<and> pl_started h > since) (public_plays d)))"
proof -
  have "filter (\<lambda>h. pl_project h = p_id p \<and> pl_started h > since) (public_plays d) =
      filter (\<lambda>h. pl_project h = p_id p \<and> pl_started h > since) (play_history d)"
    unfolding public_plays_def filter_filter using assms by (intro filter_cong) (auto simp: list_ex_iff)
  then show ?thesis by (simp add: play_count_def)
qed

lemma trending_public:
  assumes "public_projects d = public_projects d'" "public_plays d = public_plays d'"
  shows "GetTrendingProjects env timeframe limit d = GetTrendingProjects env timeframe limit d'"
proof -
  have "map (\<lambda>p. (p, play_count since p d)) (order_desc p_updated (public_projects d)) =
      map (\<lambda>p. (p, play_count since p d')) (order_desc p_updated (public_projects d'))" for since
  proof (unfold assms(1), rule map_cong [OF refl])
    fix p assume "p \<in> set (order_desc p_updated (public_projects d'))"
    then have p: "p \<in> set (public_projects d)" "p \<in> set (public_projects d')" by (simp_all add: assms(1))
    show "(p, play_count since p d) = (p, play_count since p d')"
      unfolding play_count_public [OF p(1)] play_count_public [OF p(2)] assms(2) ..
  qed
  then show ?thesis by (simp add: GetTrendingProjects_def Let_def)
qed

lemma search_rows_subset:
  "set (or_none (search_rows env call ft doc newest q limit offset rows)) \<subseteq> set rows"
  by (auto simp: or_none_def search_rows_def ranked_def Let_def dest!: query_page_InrD split: sum.splits if_splits)

definition public_answers :: "fulltext \<Rightarrow> 'o app_env \<Rightarrow> 'b request \<Rightarrow> database \<Rightarrow> 'o app \<Rightarrow> rwriter \<Rightarrow> rwriter list" where
  "public_answers ft env r d s w = map (\<lambda>h. fst (snd (h r (w, s\<lparr>app_db := d\<rparr>))))
     [SearchAll ft env, GetTrending env, GetPublicProjectsHandler env]"


subsection \<open>Statistics\<close>

text \<open>\<open>sql.NullInt64\<close> of a column that is \<open>NULL\<close> is zero. \<open>st_average\<close> and \<open>st_last\<close> are written as they are read.\<close>

record stats_row =
  st_project :: string
  st_plays :: int
  st_listeners :: int
  st_likes :: int
  st_comments :: int
  st_average :: json
  st_last :: "go_time option"
  st_computed :: go_time

record schema =
  stats_view :: "stats_row list option"
  duration_seconds :: "(play_row \<Rightarrow> int option) option"
  comment_project :: "(comment_row \<Rightarrow> string option) option"

definition migrated :: schema where
  "migrated = \<lparr>stats_view = None, duration_seconds = None, comment_project = None\<rparr>"

text \<open>What the driver makes of values with a fraction: the average of a list, and the quotient of a size by 1024 * 1024 as
  an \<open>int64\<close> (an error when it is not whole).\<close>

record numerics =
  avg_json :: "int list \<Rightarrow> json"
  scan_megabytes :: "int \<Rightarrow> int option"

definition GetProjectStats :: "schema \<Rightarrow> dbenv \<Rightarrow> string \<Rightarrow> (string \<times> json) list db_result" where
  "GetProjectStats sch env projectID =
     (case stats_view sch of
        None \<Rightarrow> Inl Fault
      | Some rows \<Rightarrow>
          (case query_row env ''GetProjectStats'' [projectID] (filter (\<lambda>x. st_project x = projectID) rows) of
             Inl e \<Rightarrow>
               if is_sql_no_rows env e then
                 Inr [(''avg_play_duration'', JNum 0), (''comment_count'', JNum 0), (''computed_at'', JNum (db_now env)),
                   (''last_play_at'', JNull), (''total_likes'', JNum 0), (''total_plays'', JNum 0), (''unique_listeners'', JNum 0)]
               else Inl e
           | Inr x \<Rightarrow>
               Inr [(''avg_play_duration'', st_average x), (''comment_count'', JNum (st_comments x)),
                 (''computed_at'', JNum (st_computed x)), (''last_play_at'', json_time (st_last x)),
                 (''total_likes'', JNum (st_likes x)), (''total_plays'', JNum (st_plays x)),
                 (''unique_listeners'', JNum (st_listeners x))]))"

definition RefreshProjectStatsView :: "schema \<Rightarrow> dbenv \<Rightarrow> unit db_result" where
  "RefreshProjectStatsView sch env =
     (if stats_view sch = None \<or> fails env ''RefreshProjectStatsView'' [] then Inl Fault else Inr ())"

definition listeners :: "play_row list \<Rightarrow> int" where
  "listeners hs = int (length (remdups (List.map_filter pl_listener hs)))"

definition day_of :: "go_time \<Rightarrow> int" where
  "day_of t = t div day"

definition GetDailyPlayStats :: "numerics \<Rightarrow> schema \<Rightarrow> dbenv \<Rightarrow> string \<Rightarrow> int \<Rightarrow> database \<Rightarrow> json list db_result" where
  "GetDailyPlayStats num sch env projectID days d =
     (case duration_seconds sch of
        None \<Rightarrow> Inl Fault
      | Some dur \<Rightarrow>
          let hs = filter (\<lambda>h. pl_project h = projectID \<and> pl_started h > db_now env - days * day) (play_history d)
          in query_all env ''GetDailyPlayStats'' [projectID]
               (map (\<lambda>t. let on_day = filter (\<lambda>h. day_of (pl_started h) = t) hs
                         in JObj [(''avg_duration'', avg_json num (List.map_filter dur on_day)), (''date'', JNum t),
                              (''play_count'', JNum (int (length on_day))), (''unique_listeners'', JNum (listeners on_day))])
                  (order_desc id (remdups (map (day_of \<circ> pl_started) hs)))))"

definition GetTopListeners :: "dbenv \<Rightarrow> string \<Rightarrow> int \<Rightarrow> database \<Rightarrow> json list db_result" where
  "GetTopListeners env projectID limit d =
     (let hs = filter (\<lambda>h. pl_project h = projectID) (play_history d);
          plays = (\<lambda>u. int (length (filter (\<lambda>h. pl_listener h = u) hs)))
      in query_page env ''GetTopListeners'' [projectID] limit 0
           (map (\<lambda>u. JObj [(''listener_user_id'', JStr (case u of None \<Rightarrow> ''anonymous'' | Some i \<Rightarrow> i)),
                   (''play_count'', JNum (plays u))])
              (order_desc plays (remdups (map pl_listener hs)))))"

definition GetTrackStats :: "dbenv \<Rightarrow> string \<Rightarrow> database \<Rightarrow> json db_result" where
  "GetTrackStats env trackID d =
     (let hs = filter (\<lambda>h. pl_track h = trackID) (play_history d)
      in query_row env ''GetTrackStats'' [trackID]
           [JObj [(''total_likes'', JNum (int (length (filter (\<lambda>l. lk_track l = trackID) (likes d))))),
              (''total_plays'', JNum (int (length hs))), (''unique_listeners'', JNum (listeners hs))]])"

definition latest :: "go_time list \<Rightarrow> go_time option" where
  "latest ts = (case ts of [] \<Rightarrow> None | t # ts \<Rightarrow> Some (fold max ts t))"

definition GetUserStats :: "numerics \<Rightarrow> dbenv \<Rightarrow> string \<Rightarrow> database \<Rightarrow> json db_result" where
  "GetUserStats num env userID d =
     (let ps = filter (\<lambda>p. p_user p = userID \<and> p_deleted p = None) (projects d);
          ts = filter (\<lambda>t. t_deleted t = None \<and> list_ex (\<lambda>p. p_id p = t_project t) ps) (tracks d);
          vs = filter (\<lambda>v. v_deleted v = None \<and> list_ex (\<lambda>t. t_id t = v_track v) ts) (versions d)
      in if fails env ''GetUserStats'' [userID] then Inl Fault
         else case scan_megabytes num (sum_list (map v_size vs)) of
                None \<Rightarrow> Inl Fault
              | Some mb \<Rightarrow>
                  Inr (JObj [(''last_active_at'', json_time (latest (map p_updated ps @ map t_updated ts @ map v_created vs))),
                    (''storage_used_mb'', JNum mb), (''total_projects'', JNum (int (length ps))),
                    (''total_tracks'', JNum (int (length ts))), (''total_versions'', JNum (int (length vs)))]))"

subsection \<open>Plays\<close>

text \<open>A new row of \<open>play_history\<close>: the columns of the insert, those that it leaves out \<open>None\<close>. The table requires a
  version, a track and a project, and that they and the listener exist.\<close>

record new_play =
  nw_version :: "string option"
  nw_listener :: "string option"
  nw_track :: "string option"
  nw_project :: "string option"
  nw_device :: string

definition insert_play :: "dbenv \<Rightarrow> new_play \<Rightarrow> database \<Rightarrow> string db_result \<times> database" where
  "insert_play env c d =
     (case (nw_version c, nw_track c, nw_project c) of
        (Some v, Some t, Some p) \<Rightarrow>
          if \<not> list_ex (\<lambda>x. v_id x = v) (versions d) \<or> \<not> list_ex (\<lambda>x. t_id x = t) (tracks d) \<or>
             \<not> list_ex (\<lambda>x. p_id x = p) (projects d) \<or>
             (\<exists>u. nw_listener c = Some u \<and> \<not> list_ex (\<lambda>x. u_id x = u) (users d)) then (Inl Conflict, d)
          else let i = gen_uuid env (uuid_count d)
            in (Inr i, d\<lparr>play_history := play_history d @ [\<lparr>pl_id = i, pl_version = v, pl_listener = nw_listener c,
                  pl_track = t, pl_project = p, pl_duration = None, pl_started = db_now env, pl_ended = None,
                  pl_device = nw_device c\<rparr>], uuid_count := uuid_count d + 1\<rparr>)
      | _ \<Rightarrow> (Inl Conflict, d))"

definition RecordPlayStart :: "dbenv \<Rightarrow> string \<Rightarrow> string \<Rightarrow> string \<Rightarrow> database \<Rightarrow> string db_result \<times> database" where
  "RecordPlayStart env trackVersionID listenerUserID device d =
     (if fails env ''RecordPlayStart'' [trackVersionID, listenerUserID] then (Inl Fault, d)
      else insert_play env \<lparr>nw_version = Some trackVersionID,
             nw_listener = (if listenerUserID = '''' then None else Some listenerUserID), nw_track = None,
             nw_project = None, nw_device = device\<rparr> d)"

text \<open>The column is a 32-bit integer.\<close>

definition RecordPlayEnd :: "dbenv \<Rightarrow> string \<Rightarrow> int \<Rightarrow> database \<Rightarrow> unit db_result \<times> database" where
  "RecordPlayEnd env playID durationListened d =
     (if durationListened < - (2 ^ 31) \<or> 2 ^ 31 \<le> durationListened then (Inl Fault, d)
      else exec_stmt env ''RecordPlayEnd'' [playID]
        (\<lambda>d. d\<lparr>play_history := update_rows (\<lambda>h. pl_id h = playID)
           (\<lambda>h. h\<lparr>pl_ended := Some (db_now env), pl_duration := Some durationListened\<rparr>) (play_history d)\<rparr>) d)"

subsection \<open>Statistics handlers\<close>

definition or_empty :: "json list db_result \<Rightarrow> json" where
  "or_empty x = (case x of Inl _ \<Rightarrow> JList [] | Inr js \<Rightarrow> json_slice id js)"

definition entry :: "string \<Rightarrow> (string \<times> json) list \<Rightarrow> json" where
  "entry k m = (case map_of m k of None \<Rightarrow> JNull | Some j \<Rightarrow> j)"

definition GetProjectAnalytics :: "numerics \<Rightarrow> schema \<Rightarrow> 'o app_env \<Rightarrow> ('b, 'o app) handler" where
  "GetProjectAnalytics num sch env r = (\<lambda>(w, s).
     (case GetUserID r of
        None \<Rightarrow> respond (http_error ''unauthorized'' 401 w) s
      | Some userID \<Rightarrow>
          let projectID = path_value r ''project_id''; d = app_db s
          in case GetProjectByID (dbe env) projectID userID d of
               Inl _ \<Rightarrow> respond (http_error ''project not found'' 404 w) s
             | Inr p \<Rightarrow>
                 (case GetProjectStats sch (dbe env) projectID of
                    Inl _ \<Rightarrow> respond (http_error ''failed to get analytics'' 500 w) s
                  | Inr stats \<Rightarrow>
                      let dailyPlays = or_empty (GetDailyPlayStats num sch (dbe env) projectID 30 d);
                          topListeners = (case GetTopListeners (dbe env) projectID 10 d of
                                            Inl _ \<Rightarrow> JList [] | Inr js \<Rightarrow> JList js)
                      in respond (json_answer (JObj [(''average_duration'', entry ''average_duration'' stats),
                           (''daily_plays'', dailyPlays), (''project_id'', JStr (p_id p)), (''top_listeners'', topListeners),
                           (''total_plays'', entry ''total_plays'' stats), (''unique_listeners'', entry ''unique_listeners'' stats)]) w) s)))"

datatype play_body = Device string | Listened int

definition RecordPlay :: "'o app_env \<Rightarrow> (play_body, 'o app) handler" where
  "RecordPlay env r = (\<lambda>(w, s).
     (case GetUserID r of
        None \<Rightarrow> respond (http_error ''unauthorized'' 401 w) s
      | Some userID \<Rightarrow>
          (case req_body r of
             Some (Device device) \<Rightarrow>
               (case RecordPlayStart (dbe env) (path_value r ''track_id'') userID device (app_db s) of
                  (Inl _, d) \<Rightarrow> respond (http_error ''failed to record play'' 500 w) (s\<lparr>app_db := d\<rparr>)
                | (Inr playID, d) \<Rightarrow>
                    respond (write_json 201 (JObj [(''play_id'', JStr playID)]) w) (s\<lparr>app_db := d\<rparr>))
           | _ \<Rightarrow> respond (http_error ''invalid request'' 400 w) s)))"

text \<open>Nobody asks whose play it is.\<close>

definition CompletePlay :: "'o app_env \<Rightarrow> (play_body, 'o app) handler" where
  "CompletePlay env r = (\<lambda>(w, s).
     (case req_body r of
        Some (Listened n) \<Rightarrow>
          (case RecordPlayEnd (dbe env) (path_value r ''play_id'') n (app_db s) of
             (Inl _, d) \<Rightarrow> respond (http_error ''failed to record completion'' 500 w) (s\<lparr>app_db := d\<rparr>)
           | (Inr _, d) \<Rightarrow> respond (write_header 200 w) (s\<lparr>app_db := d\<rparr>))
      | _ \<Rightarrow> respond (http_error ''invalid request'' 400 w) s))"

definition GetTrackStatsHandler :: "'o app_env \<Rightarrow> ('b, 'o app) handler" where
  "GetTrackStatsHandler env r = (\<lambda>(w, s).
     (case GetTrackStats (dbe env) (path_value r ''track_id'') (app_db s) of
        Inl _ \<Rightarrow> respond (http_error ''failed to get stats'' 500 w) s
      | Inr j \<Rightarrow> respond (json_answer j w) s))"

definition GetUserStatsHandler :: "numerics \<Rightarrow> 'o app_env \<Rightarrow> ('b, 'o app) handler" where
  "GetUserStatsHandler num env r = (\<lambda>(w, s).
     (case GetUserID r of
        None \<Rightarrow> respond (http_error ''unauthorized'' 401 w) s
      | Some userID \<Rightarrow>
          (case GetUserStats num (dbe env) userID (app_db s) of
             Inl _ \<Rightarrow> respond (http_error ''failed to get stats'' 500 w) s
           | Inr j \<Rightarrow> respond (json_answer j w) s)))"


subsection \<open>Nothing is recorded\<close>

datatype play_op = StartPlay | EndPlay | ProjectNumbers | TrackNumbers | UserNumbers

fun play_handler :: "numerics \<Rightarrow> 'o app_env \<Rightarrow> play_op \<Rightarrow> (play_body, 'o app) handler" where
  "play_handler num env StartPlay = RecordPlay env"
| "play_handler num env EndPlay = CompletePlay env"
| "play_handler num env ProjectNumbers = GetProjectAnalytics num migrated env"
| "play_handler num env TrackNumbers = GetTrackStatsHandler env"
| "play_handler num env UserNumbers = GetUserStatsHandler num env"

lemma RecordPlayStart_fails: "\<exists>e. RecordPlayStart env v l dev d = (Inl e, d)"
  by (simp add: RecordPlayStart_def insert_play_def)

lemma RecordPlay_refused: "wrote w = None \<Longrightarrow> refused (RecordPlay env r (w, s)) s"
proof -
  assume w: "wrote w = None"
  show ?thesis
  proof (cases "GetUserID r")
    case None
    then show ?thesis using w by (simp add: RecordPlay_def refused_http_error)
  next
    case (Some u)
    show ?thesis
    proof (cases "\<exists>dev. req_body r = Some (Device dev)")
      case True
      then obtain dev where dev: "req_body r = Some (Device dev)" by blast
      obtain e where "RecordPlayStart (dbe env) (path_value r ''track_id'') u dev (app_db s) = (Inl e, app_db s)"
        using RecordPlayStart_fails by blast
      with Some dev w show ?thesis by (simp add: RecordPlay_def refused_http_error)
    next
      case False
      then have "RecordPlay env r (w, s) = respond (http_error ''invalid request'' 400 w) s"
        using Some by (auto simp: RecordPlay_def split: option.splits play_body.splits)
      then show ?thesis using w by (simp add: refused_http_error)
    qed
  qed
qed

lemma GetProjectAnalytics_refused: "wrote w = None \<Longrightarrow> refused (GetProjectAnalytics num migrated env r (w, s)) s"
proof -
  assume w: "wrote w = None"
  have "GetProjectStats migrated e i = Inl Fault" for e i by (simp add: GetProjectStats_def migrated_def)
  with w show ?thesis
    by (auto simp: GetProjectAnalytics_def Let_def refused_http_error split: option.split sum.split)
qed

lemma CompletePlay_history:
  "play_history (app_db s) = [] \<Longrightarrow> play_history (app_db (snd (snd (CompletePlay env r (w, s))))) = []"
  by (auto simp: CompletePlay_def RecordPlayEnd_def exec_stmt_def respond_def
      split: option.split play_body.split)

lemma play_handler_history:
  "wrote w = None \<Longrightarrow> play_history (app_db s) = [] \<Longrightarrow>
   play_history (app_db (snd (snd (play_handler num env op r (w, s))))) = []"
  by (cases op) (use RecordPlay_refused [of w env r s] GetProjectAnalytics_refused [of w num env r s] in
    \<open>auto simp: refused_def CompletePlay_history GetTrackStatsHandler_def GetUserStatsHandler_def respond_def
      split: option.split sum.split\<close>)

text \<open>C35: with the schema of the migrations the statistics stay empty: a request that starts a play, or that asks for the statistics
  of a project, is answered with an error and changes nothing, so no sequence of the requests about plays ever fills the
  play history, and the numbers of every track stay zero.\<close>

theorem no_play_is_recorded:
  assumes "play_history (app_db s) = []"
  shows "play_history (app_db (serve_ops (play_handler num env) rs s)) = [] \<and>
     refused (RecordPlay env r (new_writer, t)) t \<and> refused (GetProjectAnalytics num migrated env r (new_writer, t)) t"
proof -
  have "play_history (app_db (serve_ops (play_handler num env) rs s)) = []"
    using assms
  proof (induction rs arbitrary: s)
    case Nil
    then show ?case by simp
  next
    case (Cons a rs)
    obtain op r where "a = (op, r)" by (cases a)
    with Cons show ?case using play_handler_history [of new_writer s num env op r] by simp
  qed
  then show ?thesis by (simp add: RecordPlay_refused GetProjectAnalytics_refused)
qed

subsection \<open>Queries without a caller\<close>

definition NewPaginationParams :: "int \<Rightarrow> int \<Rightarrow> int \<times> int" where
  "NewPaginationParams limit offset =
     ((if limit < 1 \<or> limit > 100 then 20 else limit), (if offset < 0 then 0 else offset))"

definition count_row :: "dbenv \<Rightarrow> string \<Rightarrow> string list \<Rightarrow> 'r list \<Rightarrow> int db_result" where
  "count_row env call args rows = query_row env call args [int (length rows)]"

definition CountUserProjects :: "dbenv \<Rightarrow> string \<Rightarrow> database \<Rightarrow> int db_result" where
  "CountUserProjects env userID d = count_row env ''CountUserProjects'' [userID]
     (filter (\<lambda>p. p_deleted p = None \<and> (p_user p = userID \<or>
        list_ex (\<lambda>ps. ps_project ps = p_id p \<and> ps_with ps = Some userID) (shares d))) (projects d))"

definition GetProjectTrackCount :: "dbenv \<Rightarrow> string \<Rightarrow> database \<Rightarrow> int db_result" where
  "GetProjectTrackCount env projectID d = count_row env ''GetProjectTrackCount'' [projectID]
     (filter (\<lambda>t. t_project t = projectID \<and> t_deleted t = None) (tracks d))"

definition GetTracksWithLikeCount :: "dbenv \<Rightarrow> string \<Rightarrow> database \<Rightarrow> (track_row \<times> int) list db_result" where
  "GetTracksWithLikeCount env projectID d = query_all env ''GetTracksWithLikeCount'' [projectID]
     (map (\<lambda>t. (t, int (length (filter (\<lambda>l. lk_track l = t_id t) (likes d)))))
        (order_desc t_created (filter (\<lambda>t. t_project t = projectID \<and> t_deleted t = None) (tracks d))))"

record project_stats =
  PlayCount :: int
  LikeCount :: int
  CommentCount :: int
  TrackCount :: int

text \<open>The likes of projects are pairs of a user and a project; no code inserts any.\<close>

definition GetProjectsWithStats :: "schema \<Rightarrow> (string \<times> string) list \<Rightarrow> dbenv \<Rightarrow> string \<Rightarrow> int \<Rightarrow> int \<Rightarrow> database \<Rightarrow>
    (project_row \<times> project_stats) list db_result" where
  "GetProjectsWithStats sch project_likes env userID limit offset d =
     (case comment_project sch of
        None \<Rightarrow> Inl Fault
      | Some project_of \<Rightarrow>
          query_page env ''GetProjectsWithStats'' [userID] limit offset
            (map (\<lambda>p. (p, \<lparr>PlayCount = int (length (filter (\<lambda>h. pl_project h = p_id p) (play_history d))),
                 LikeCount = int (length (filter (\<lambda>(u, i). i = p_id p) project_likes)),
                 CommentCount = int (length (filter (\<lambda>c. project_of c = Some (p_id p)) (comments d))),
                 TrackCount = int (length (filter (\<lambda>t. t_project t = p_id p \<and> t_deleted t = None) (tracks d)))\<rparr>))
               (order_desc p_updated (filter (\<lambda>p. p_user p = userID \<and> p_deleted p = None) (projects d)))))"

subsection \<open>Witnesses\<close>

definition sample_project :: "string \<Rightarrow> bool \<Rightarrow> project_row" where
  "sample_project i private = \<lparr>p_id = i, p_user = ''a'', p_name = i, p_description = '''', p_is_private = private,
     p_cover = None, p_genre = '''', p_release = None, p_created = 0, p_updated = 0, p_deleted = None\<rparr>"

definition sample_search_env :: "unit app_env" where
  "sample_search_env = \<lparr>dbe = \<lparr>fails = \<lambda>_ _. False, db_now = 9, gen_uuid = Itoa \<circ> int, norows_equal = False,
       has_access_table = True\<rparr>, s3e = undefined, sha = id, r2_endpoint = '''', r2_bucket = '''',
     new_uuid = Itoa \<circ> int, uuid_valid = (\<lambda>_. True), now = 9\<rparr>"

definition sample_search_app :: "unit app" where
  "sample_search_app = \<lparr>app_db = empty_db, app_r2 = undefined, app_uuids = 0, app_urls = undefined\<rparr>"


lemma no_play_is_recorded_witness:
  "play_history (app_db (serve_ops (play_handler \<lparr>avg_json = \<lambda>_. JNull, scan_megabytes = Some\<rparr> sample_search_env)
     [(StartPlay, plain_request\<lparr>ctx := [''user_id'' \<mapsto> CtxStr ''a''], req_body := Some (Device ''web'')\<rparr>)]
     sample_search_app)) = []"
  by (rule conjunct1 [OF no_play_is_recorded]) (simp add: sample_search_app_def empty_db_def)

end
