(* ===== verification/Costs.thy ===== *)
theory Costs
  imports Accounts Config "HOL-Library.Multiset"
begin

text \<open>
  What the service costs: the attribution of costs to users and projects (\<open>db/queries_cost_attribution.go\<close>,
  \<open>handlers/cost_analytics.go\<close>, with the views and functions of \<open>migrations/041\<close>), the dashboard of the founder
  (\<open>handlers/founder_dashboard.go\<close>), and the ledger and budget guards of \<open>finops/\<close>, \<open>handlers/finops.go\<close> and
  \<open>db/queries_access.go\<close>.

  Amounts of money in the database are \<open>NUMERIC(12, 4)\<close>: whole numbers of 1/10000 dollar, so sums are exact. Days are
  numbered. The calendar, the formatting of dates and the quotients of \<open>NUMERIC\<close> are arguments (\<open>calendar\<close>), and so is
  the arithmetic of \<open>float64\<close> (\<open>floats\<close>, on a type of their own).
\<close>

subsection \<open>Tables\<close>

record cost_row =
  ca_user :: string
  ca_project :: string
  ca_period :: int
  ca_gb_hours :: int
  ca_storage :: int
  ca_calls :: int
  ca_api :: int
  ca_transfer_gb :: int
  ca_transfer :: int

definition ca_total :: "cost_row \<Rightarrow> int" where
  "ca_total c = ca_storage c + ca_api c + ca_transfer c"

record monthly_row =
  mc_user :: string
  mc_month :: int
  mc_storage :: int
  mc_api :: int
  mc_transfer :: int
  mc_total :: int
  mc_projects :: int
  mc_last :: int

record event_row =
  fe_id :: string
  fe_source :: string
  fe_service :: string
  fe_category :: string
  fe_amount :: int
  fe_occurred :: go_time
  fe_metadata :: json

text \<open>The monthly view has the rows of its last refresh.\<close>

record cost_db =
  cost_attribution :: "cost_row list"
  monthly_costs :: "monthly_row list"
  cost_events :: "event_row list"

record calendar =
  month_start :: "int \<Rightarrow> int"
  today :: "go_time \<Rightarrow> int"
  month_text :: "int \<Rightarrow> string"
  day_text :: "int \<Rightarrow> string"
  parse_month :: "string \<Rightarrow> int option"
  next_month :: "int \<Rightarrow> int"
  percent_of :: "int \<Rightarrow> int \<Rightarrow> int"
  usd_text :: "int \<Rightarrow> string"
  usd_json :: "int \<Rightarrow> json"
  sscanf_int :: "string \<Rightarrow> int option"

subsection \<open>Queries on attributed costs\<close>

definition this_month :: "calendar \<Rightarrow> dbenv \<Rightarrow> cost_row \<Rightarrow> bool" where
  "this_month cal env c \<longleftrightarrow> month_start cal (today cal (db_now env)) \<le> ca_period c"

definition in_month :: "calendar \<Rightarrow> int \<Rightarrow> cost_row \<Rightarrow> bool" where
  "in_month cal m c \<longleftrightarrow> month_start cal (ca_period c) = month_start cal m"

text \<open>\<open>COALESCE(SUM(...), 0)\<close> is one row, so the branch for none is never taken.\<close>

definition one_amount :: "dbenv \<Rightarrow> string \<Rightarrow> string list \<Rightarrow> int \<Rightarrow> int db_result" where
  "one_amount env call args x =
     (case query_row env call args [x] of
        Inl e \<Rightarrow> if is_sql_no_rows env e then Inr 0 else Inl e
      | Inr y \<Rightarrow> Inr y)"

definition GetUserCurrentMonthCost :: "calendar \<Rightarrow> dbenv \<Rightarrow> string \<Rightarrow> cost_db \<Rightarrow> int db_result" where
  "GetUserCurrentMonthCost cal env userID c = one_amount env ''GetUserCurrentMonthCost'' [userID]
     (sum_list (map ca_total (filter (\<lambda>r. ca_user r = userID \<and> this_month cal env r) (cost_attribution c))))"

definition GetProjectCurrentMonthCost :: "calendar \<Rightarrow> dbenv \<Rightarrow> string \<Rightarrow> cost_db \<Rightarrow> int db_result" where
  "GetProjectCurrentMonthCost cal env projectID c = one_amount env ''GetProjectCurrentMonthCost'' [projectID]
     (sum_list (map ca_total (filter (\<lambda>r. ca_project r = projectID \<and> this_month cal env r) (cost_attribution c))))"

definition GetUserMonthlyCosts :: "dbenv \<Rightarrow> string \<Rightarrow> int \<Rightarrow> cost_db \<Rightarrow> monthly_row list db_result" where
  "GetUserMonthlyCosts env userID months c = query_page env ''GetUserMonthlyCosts'' [userID] months 0
     (order_desc mc_month (filter (\<lambda>m. mc_user m = userID) (monthly_costs c)))"

definition GetProjectMonthlyCosts :: "calendar \<Rightarrow> dbenv \<Rightarrow> string \<Rightarrow> int \<Rightarrow> cost_db \<Rightarrow> cost_row list db_result" where
  "GetProjectMonthlyCosts cal env projectID months c =
     query_page env ''GetProjectMonthlyCosts'' [projectID] (months * 30) 0
       (order_desc ca_period (filter (\<lambda>r. ca_project r = projectID \<and> in_month cal (today cal (db_now env)) r)
         (cost_attribution c)))"

record cost_share =
  cs_project :: string
  cs_name :: string
  cs_storage :: int
  cs_api :: int
  cs_transfer :: int
  cs_total :: int
  cs_percent :: int

text \<open>\<open>user_cost_breakdown\<close>: the rows of a user and month, joined with their projects and grouped by them. The percentage is
  in 1/100.\<close>

definition priced_rows :: "calendar \<Rightarrow> string \<Rightarrow> int \<Rightarrow> database \<Rightarrow> cost_db \<Rightarrow> cost_row list" where
  "priced_rows cal userID m d c = filter (\<lambda>r. ca_user r = userID \<and> in_month cal m r \<and>
     list_ex (\<lambda>p. p_id p = ca_project r) (projects d)) (cost_attribution c)"

definition project_share :: "calendar \<Rightarrow> cost_row list \<Rightarrow> database \<Rightarrow> string \<Rightarrow> cost_share" where
  "project_share cal rows d i =
     (let rs = filter (\<lambda>r. ca_project r = i) rows; t = sum_list (map ca_total rs); all_costs = sum_list (map ca_total rows)
      in \<lparr>cs_project = i, cs_name = (case find (\<lambda>p. p_id p = i) (projects d) of None \<Rightarrow> '''' | Some p \<Rightarrow> p_name p),
          cs_storage = sum_list (map ca_storage rs), cs_api = sum_list (map ca_api rs),
          cs_transfer = sum_list (map ca_transfer rs), cs_total = t,
          cs_percent = (if all_costs > 0 then percent_of cal t all_costs else 0)\<rparr>)"

definition user_cost_breakdown :: "calendar \<Rightarrow> string \<Rightarrow> int \<Rightarrow> database \<Rightarrow> cost_db \<Rightarrow> cost_share list" where
  "user_cost_breakdown cal userID m d c =
     (let rows = priced_rows cal userID m d c
      in order_desc cs_total (map (project_share cal rows d) (remdups (map ca_project rows))))"

definition GetUserCostBreakdown ::
  "calendar \<Rightarrow> dbenv \<Rightarrow> string \<Rightarrow> int \<Rightarrow> database \<Rightarrow> cost_db \<Rightarrow> cost_share list db_result" where
  "GetUserCostBreakdown cal env userID m d c =
     query_all env ''GetUserCostBreakdown'' [userID] (user_cost_breakdown cal userID m d c)"

record invoice =
  in_month_text :: string
  in_total :: int
  in_storage :: int
  in_api :: int
  in_transfer :: int
  in_breakdown :: json

definition invoice_of :: "calendar \<Rightarrow> int \<Rightarrow> cost_row list \<Rightarrow> invoice" where
  "invoice_of cal m rows = \<lparr>in_month_text = month_text cal (month_start cal m), in_total = sum_list (map ca_total rows),
     in_storage = sum_list (map ca_storage rows), in_api = sum_list (map ca_api rows),
     in_transfer = sum_list (map ca_transfer rows),
     in_breakdown = JList (map (\<lambda>r. JObj [(''project_id'', JStr (ca_project r)), (''storage_cost'', usd_json cal (ca_storage r)),
       (''api_cost'', usd_json cal (ca_api r)), (''transfer_cost'', usd_json cal (ca_transfer r)),
       (''total'', usd_json cal (ca_total r))]) (order_desc ca_total rows))\<rparr>"

definition GenerateUserInvoice :: "calendar \<Rightarrow> dbenv \<Rightarrow> string \<Rightarrow> int \<Rightarrow> cost_db \<Rightarrow> invoice option db_result" where
  "GenerateUserInvoice cal env userID m c =
     (let rows = filter (\<lambda>r. ca_user r = userID \<and> in_month cal m r) (cost_attribution c)
      in case query_row env ''GenerateUserInvoice'' [userID] (if rows = [] then [] else [invoice_of cal m rows]) of
           Inl e \<Rightarrow> if is_sql_no_rows env e then Inr None else Inl e
         | Inr i \<Rightarrow> Inr (Some i))"

definition GetAllUsersCurrentMonthCosts :: "calendar \<Rightarrow> dbenv \<Rightarrow> cost_db \<Rightarrow> (string \<times> int) list db_result" where
  "GetAllUsersCurrentMonthCosts cal env c =
     (let rows = filter (this_month cal env) (cost_attribution c)
      in query_all env ''GetAllUsersCurrentMonthCosts'' []
           (map (\<lambda>u. (u, sum_list (map ca_total (filter (\<lambda>r. ca_user r = u) rows)))) (remdups (map ca_user rows))))"

text \<open>\<open>breakdown[:limit]\<close> panics when the limit is negative: \<open>None\<close>.\<close>

definition IdentifyHighCostProjects ::
  "calendar \<Rightarrow> dbenv \<Rightarrow> string \<Rightarrow> int \<Rightarrow> database \<Rightarrow> cost_db \<Rightarrow> cost_share list db_result option" where
  "IdentifyHighCostProjects cal env userID limit d c =
     (case GetUserCostBreakdown cal env userID (today cal (db_now env)) d c of
        Inl e \<Rightarrow> Some (Inl e)
      | Inr b \<Rightarrow> if int (length b) > limit then (if limit < 0 then None else Some (Inr (take (nat limit) b)))
                 else Some (Inr b))"

definition RecordCostAttribution :: "dbenv \<Rightarrow> cost_row \<Rightarrow> database \<Rightarrow> cost_db \<Rightarrow> unit db_result \<times> cost_db" where
  "RecordCostAttribution env ca d c =
     (let same = (\<lambda>r. ca_user r = ca_user ca \<and> ca_project r = ca_project ca \<and> ca_period r = ca_period ca)
      in if fails env ''RecordCostAttribution'' [ca_user ca, ca_project ca] then (Inl Fault, c)
         else if \<not> list_ex (\<lambda>u. u_id u = ca_user ca) (users d) \<or> \<not> list_ex (\<lambda>p. p_id p = ca_project ca) (projects d)
         then (Inl Conflict, c)
         else if list_ex same (cost_attribution c)
         then (Inr (), c\<lparr>cost_attribution := update_rows same (\<lambda>_. ca) (cost_attribution c)\<rparr>)
         else (Inr (), c\<lparr>cost_attribution := cost_attribution c @ [ca]\<rparr>))"


subsection \<open>Cost handlers\<close>

type_synonym 'o cost_app = "'o app \<times> cost_db"

text \<open>The routes under \<open>/users/{user_id}\<close>: the path names the caller, or the request is refused.\<close>

definition own_costs ::
  "string \<Rightarrow> (string \<Rightarrow> ('b, 'o cost_app) handler) \<Rightarrow> ('b, 'o cost_app) handler" where
  "own_costs message h r = (\<lambda>(w, s).
     let userID = path_value r ''user_id'' in
     if userID = '''' then respond (WriteBadRequest ''missing user_id'' w) s
     else let authUserID = (case GetUserID r of None \<Rightarrow> '''' | Some u \<Rightarrow> u)
       in if authUserID \<noteq> userID then respond (WriteForbidden message w) s else h userID r (w, s))"

definition GetCurrentMonthCost :: "calendar \<Rightarrow> 'o app_env \<Rightarrow> ('b, 'o cost_app) handler" where
  "GetCurrentMonthCost cal env = own_costs (''cannot view other user'' @ CHR 0x27 # ''s costs'') (\<lambda>userID r (w, s).
     (case GetUserCurrentMonthCost cal (dbe env) userID (snd s) of
        Inl _ \<Rightarrow> respond (WriteInternalError w) s
      | Inr cost \<Rightarrow> respond (write_json 200 (JObj [(''cost_usd'', JStr (usd_text cal cost)),
          (''month'', JStr (month_text cal (today cal (now env)))), (''status'', JStr ''active''), (''user_id'', JStr userID)]) w) s))"

definition month_json :: "calendar \<Rightarrow> monthly_row \<Rightarrow> json" where
  "month_json cal m = JObj [(''month'', JStr (month_text cal (mc_month m))), (''storage_cost_usd'', usd_json cal (mc_storage m)),
     (''api_cost_usd'', usd_json cal (mc_api m)), (''transfer_cost_usd'', usd_json cal (mc_transfer m)),
     (''total_cost_usd'', usd_json cal (mc_total m)), (''projects_count'', JNum (mc_projects m)),
     (''last_activity_date'', JStr (day_text cal (mc_last m)))]"

text \<open>\<open>Sscanf\<close> leaves the default when it reads no number.\<close>

definition scanned :: "calendar \<Rightarrow> string \<Rightarrow> int \<Rightarrow> int" where
  "scanned cal v n = (if v = '''' then n else case sscanf_int cal v of None \<Rightarrow> n | Some k \<Rightarrow> k)"

definition GetCostHistory :: "calendar \<Rightarrow> 'o app_env \<Rightarrow> ('b, 'o cost_app) handler" where
  "GetCostHistory cal env = own_costs (''cannot view other user'' @ CHR 0x27 # ''s costs'') (\<lambda>userID r (w, s).
     let months = scanned cal (query r ''months'') 6; months = (if months < 1 \<or> months > 24 then 6 else months)
     in case GetUserMonthlyCosts (dbe env) userID months (snd s) of
          Inl _ \<Rightarrow> respond (WriteInternalError w) s
        | Inr ms \<Rightarrow> respond (write_json 200 (JObj [(''history'', json_slice (month_json cal) ms), (''user_id'', JStr userID)]) w) s)"

definition share_json :: "calendar \<Rightarrow> cost_share \<Rightarrow> json" where
  "share_json cal b = JObj [(''project_id'', JStr (cs_project b)), (''project_name'', JStr (cs_name b)),
     (''storage_cost_usd'', usd_json cal (cs_storage b)), (''api_cost_usd'', usd_json cal (cs_api b)),
     (''transfer_cost_usd'', usd_json cal (cs_transfer b)), (''total_cost_usd'', usd_json cal (cs_total b)),
     (''cost_percentage'', usd_json cal (cs_percent b * 100))]"

definition GetCostBreakdown :: "calendar \<Rightarrow> 'o app_env \<Rightarrow> ('b, 'o cost_app) handler" where
  "GetCostBreakdown cal env = own_costs (''cannot view other user'' @ CHR 0x27 # ''s costs'') (\<lambda>userID r (w, s).
     (case GetUserCostBreakdown cal (dbe env) userID (today cal (now env)) (app_db (fst s)) (snd s) of
        Inl _ \<Rightarrow> respond (WriteInternalError w) s
      | Inr bs \<Rightarrow> respond (write_json 200 (JObj [(''breakdown'', json_slice (share_json cal) bs),
          (''month'', JStr (month_text cal (today cal (now env)))), (''user_id'', JStr userID)]) w) s))"

definition GetUserInvoice :: "calendar \<Rightarrow> 'o app_env \<Rightarrow> ('b, 'o cost_app) handler" where
  "GetUserInvoice cal env = own_costs (''cannot view other user'' @ CHR 0x27 # ''s invoice'') (\<lambda>userID r (w, s).
     let monthStr = (if query r ''month'' = '''' then month_text cal (today cal (now env)) else query r ''month'')
     in case parse_month cal monthStr of
          None \<Rightarrow> respond (WriteBadRequest ''invalid month format (use YYYY-MM)'' w) s
        | Some month \<Rightarrow>
            (case GenerateUserInvoice cal (dbe env) userID month (snd s) of
               Inl _ \<Rightarrow> respond (WriteInternalError w) s
             | Inr None \<Rightarrow> respond (write_json 200 (JObj [(''message'', JStr ''no charges for this period''),
                 (''month'', JStr monthStr), (''user_id'', JStr userID)]) w) s
             | Inr (Some i) \<Rightarrow> respond (write_json 200 (JObj [(''api_amount_usd'', JStr (usd_text cal (in_api i))),
                 (''breakdown'', in_breakdown i), (''due_date'', JStr (day_text cal (next_month cal month))),
                 (''invoice_month'', JStr (in_month_text i)), (''status'', JStr ''pending''),
                 (''storage_amount_usd'', JStr (usd_text cal (in_storage i))), (''total_amount_usd'', JStr (usd_text cal (in_total i))),
                 (''transfer_amount_usd'', JStr (usd_text cal (in_transfer i))), (''user_id'', JStr userID)]) w) s))"

text \<open>The two routes that do not compare the caller.\<close>

definition GetProjectCost :: "calendar \<Rightarrow> 'o app_env \<Rightarrow> ('b, 'o cost_app) handler" where
  "GetProjectCost cal env r = (\<lambda>(w, s).
     let projectID = path_value r ''project_id'' in
     if projectID = '''' then respond (WriteBadRequest ''missing project_id'' w) s
     else case GetProjectCurrentMonthCost cal (dbe env) projectID (snd s) of
            Inl _ \<Rightarrow> respond (WriteInternalError w) s
          | Inr cost \<Rightarrow> respond (write_json 200 (JObj [(''cost_usd'', JStr (usd_text cal cost)),
              (''month'', JStr (month_text cal (today cal (now env)))), (''project_id'', JStr projectID)]) w) s)"

definition high_cost_tip :: "cost_share \<Rightarrow> string" where
  "high_cost_tip b = (if cs_percent b > 5000
     then ''This project consumes over 50% of your usage - consider optimizing storage or archiving old files'' else '''')"

definition analysis_json :: "calendar \<Rightarrow> cost_share \<Rightarrow> json" where
  "analysis_json cal b = JObj [(''project_id'', JStr (cs_project b)), (''project_name'', JStr (cs_name b)),
     (''total_cost_usd'', usd_json cal (cs_total b)), (''cost_percentage'', usd_json cal (cs_percent b * 100)),
     (''optimization_tip'', JStr (high_cost_tip b))]"

text \<open>The loop stops after the entry with index \<open>limit - 1\<close>, which the query has ensured; with a limit of zero it would
  stop after the first entry, and there is none.\<close>

definition AnalyzeHighCostProjects :: "calendar \<Rightarrow> 'o app_env \<Rightarrow> ('b, 'o cost_app) handler" where
  "AnalyzeHighCostProjects cal env r = (\<lambda>(w, s).
     let userID = query r ''user_id'' in
     if userID = '''' then respond (WriteBadRequest ''missing user_id query parameter'' w) s
     else case IdentifyHighCostProjects cal (dbe env) userID (scanned cal (query r ''limit'') 10) (app_db (fst s)) (snd s) of
            None \<Rightarrow> (Panicked, w, s)
          | Some (Inl _) \<Rightarrow> respond (WriteInternalError w) s
          | Some (Inr bs) \<Rightarrow> respond (write_json 200 (JObj [(''month'', JStr (month_text cal (today cal (now env)))),
              (''projects'', json_slice (analysis_json cal) bs), (''user_id'', JStr userID)]) w) s)"

subsection \<open>The dashboard of the founder\<close>

record pool_stats =
  OpenConnections :: int
  InUse :: int
  Idle :: int
  MaxOpenConnections :: int

definition founder_tip :: "cost_share \<Rightarrow> string" where
  "founder_tip h = (if cs_percent h > 5000
     then ''This project uses >50% of your costs - consider archiving old versions or removing unused files''
     else if cs_percent h > 2500 then ''Monitor this project'' @ CHR 0x27 # ''s storage usage - consider cleanup of old files'' else '''')"

text \<open>Percentages of the budget of 500 dollars are \<open>float64\<close>: an argument. A part that fails is left at its zero values.\<close>

definition cost_metrics :: "(int \<Rightarrow> json) \<Rightarrow> calendar \<Rightarrow> dbenv \<Rightarrow> string \<Rightarrow> cost_db \<Rightarrow> json option" where
  "cost_metrics budget_percent cal env userID c =
     (case GetUserCurrentMonthCost cal env userID c of
        Inl _ \<Rightarrow> None
      | Inr cost \<Rightarrow>
          let (storage, api, transfer, n) =
                (case GetUserMonthlyCosts env userID 1 c of
                   Inr (m # _) \<Rightarrow> (mc_storage m, mc_api m, mc_transfer m, mc_projects m) | _ \<Rightarrow> (0, 0, 0, 0))
          in Some (JObj [(''current_month_usd'', usd_json cal cost), (''budget_usd'', usd_json cal 5000000),
               (''utilization_percent'', budget_percent cost), (''storage_cost_usd'', usd_json cal storage),
               (''api_cost_usd'', usd_json cal api), (''transfer_cost_usd'', usd_json cal transfer),
               (''project_count_tracked'', JNum n)]))"

definition zero_costs :: "calendar \<Rightarrow> json" where
  "zero_costs cal = JObj [(''current_month_usd'', usd_json cal 0), (''budget_usd'', usd_json cal 0),
     (''utilization_percent'', usd_json cal 0), (''storage_cost_usd'', usd_json cal 0), (''api_cost_usd'', usd_json cal 0),
     (''transfer_cost_usd'', usd_json cal 0), (''project_count_tracked'', JNum 0)]"

definition project_metrics :: "calendar \<Rightarrow> dbenv \<Rightarrow> string \<Rightarrow> database \<Rightarrow> cost_db \<Rightarrow> json" where
  "project_metrics cal env userID d c =
     (case IdentifyHighCostProjects cal env userID 10 d c of
        Some (Inr hs) \<Rightarrow>
          JObj [(''total'', JNum (int (length hs))),
            (''high_cost_projects'', JList (map (\<lambda>h. JObj [(''project_id'', JStr (cs_project h)), (''name'', JStr (cs_name h)),
               (''cost_usd'', usd_json cal (cs_total h)), (''cost_percent'', usd_json cal (cs_percent h * 100)),
               (''storage_gb'', usd_json cal 0), (''optimization_tip'', JStr (founder_tip h))]) hs)),
            (''top_engagement'', if hs = [] then JNull else JList [])]
      | _ \<Rightarrow> JObj [(''total'', JNum 0), (''high_cost_projects'', JNull), (''top_engagement'', JNull)])"

text \<open>The metrics of the pool have neither of the two keys that are looked up, so memory and uptime stay zero; the
  maximum shown is the number of open connections.\<close>

definition system_metrics :: "pool_stats \<Rightarrow> json" where
  "system_metrics p = JObj [(''status'', JStr (if InUse p > OpenConnections p * 8 div 10 then ''warning'' else ''healthy'')),
     (''db_connections_used'', JNum (InUse p)), (''db_connections_max'', JNum (OpenConnections p)), (''memory_mb'', JNum 0),
     (''uptime_hours'', JNum 0), (''last_refresh_seconds_ago'', JNum 0)]"

definition engagement_metrics :: "calendar \<Rightarrow> json" where
  "engagement_metrics cal = JObj [(''total_plays_month'', JNum 0), (''unique_listeners_month'', JNum 0),
     (''avg_duration_seconds'', JNum 0), (''growth_percent_vs_last_month'', usd_json cal 0)]"

definition verifyFounderAccess :: "dbenv \<Rightarrow> string \<Rightarrow> database \<Rightarrow> bool" where
  "verifyFounderAccess env userID d \<longleftrightarrow> IsFounder env userID d = Inr True"

definition GetDashboard :: "(int \<Rightarrow> json) \<Rightarrow> calendar \<Rightarrow> pool_stats \<Rightarrow> 'o app_env \<Rightarrow> ('b, 'o cost_app) handler" where
  "GetDashboard budget_percent cal p env r = (\<lambda>(w, s).
     (case GetUserID r of
        None \<Rightarrow> respond (WriteUnauthorized w) s
      | Some userID \<Rightarrow>
          if \<not> verifyFounderAccess (dbe env) userID (app_db (fst s)) then respond (WriteForbidden ''founder access required'' w) s
          else respond (write_json 200 (JObj [
                 (''costs'', case cost_metrics budget_percent cal (dbe env) userID (snd s) of None \<Rightarrow> zero_costs cal | Some j \<Rightarrow> j),
                 (''projects'', project_metrics cal (dbe env) userID (app_db (fst s)) (snd s)),
                 (''engagement'', engagement_metrics cal), (''system'', system_metrics p),
                 (''generated_at'', JNum (now env))]) w) s))"

definition FounderDashboardAccess :: "'o app_env \<Rightarrow> ('b, 'o cost_app) handler \<Rightarrow> ('b, 'o cost_app) handler" where
  "FounderDashboardAccess env h r = (\<lambda>(w, s).
     (case GetUserID r of
        None \<Rightarrow> respond (WriteUnauthorized w) s
      | Some userID \<Rightarrow>
          (case IsFounder (dbe env) userID (app_db (fst s)) of
             Inl _ \<Rightarrow> respond (WriteInternalError w) s
           | Inr isFounder \<Rightarrow>
               if \<not> isFounder then respond (WriteForbidden ''founder access required'' w) s else h r (w, s))))"


subsection \<open>The ledger and the budget guards\<close>

text \<open>\<open>float64\<close>: conversion of an integer and of an amount, product, quotient, comparisons, and the conversion of an
  amount to \<open>NUMERIC(12, 4)\<close> (\<open>None\<close> when it is too large).\<close>

record 'f floats =
  fl_int :: "int \<Rightarrow> 'f"
  fl_usd :: "int \<Rightarrow> 'f"
  fl_mul :: "'f \<Rightarrow> 'f \<Rightarrow> 'f"
  fl_div :: "'f \<Rightarrow> 'f \<Rightarrow> 'f"
  fl_le :: "'f \<Rightarrow> 'f \<Rightarrow> bool"
  fl_less :: "'f \<Rightarrow> 'f \<Rightarrow> bool"
  fl_numeric :: "'f \<Rightarrow> int option"
  fl_json :: "'f \<Rightarrow> json"

record 'f finops_settings =
  fs_cost_per_gb :: 'f
  fs_budget :: 'f
  fs_guard_enabled :: bool
  fs_block_enabled :: bool
  fs_ratio :: 'f

definition LoadSettingsFromEnv :: "(string \<Rightarrow> 'f option) \<Rightarrow> 'f float_defaults \<Rightarrow> environ \<Rightarrow> 'f finops_settings" where
  "LoadSettingsFromEnv parse_float fd os =
     \<lparr>fs_cost_per_gb = getEnvFloat parse_float os ''FINOPS_STORAGE_COST_PER_GB_MONTH'' (storage_cost_default fd),
      fs_budget = getEnvFloat parse_float os ''FINOPS_MONTHLY_BUDGET_USD'' (budget_default fd),
      fs_guard_enabled = getEnvBool os ''FINOPS_BUDGET_GUARD_ENABLED'' False,
      fs_block_enabled = getEnvBool os ''FINOPS_UPLOAD_BLOCK_ENABLED'' False,
      fs_ratio = getEnvFloat parse_float os ''FINOPS_BUDGET_GUARD_RATIO'' (ratio_default fd)\<rparr>"

record 'f finops_snapshot =
  sn_versions :: int
  sn_images :: int
  sn_offline :: int
  sn_active :: int
  sn_pending :: int
  sn_failed :: int
  sn_pending_bytes :: int
  sn_estimated :: 'f
  sn_actual :: 'f
  sn_governing :: 'f

text \<open>\<open>(data->>'file_size')::bigint\<close>, ignored by the sum where it is \<open>NULL\<close>; what is not a number is an error.\<close>

definition cleanup_bytes :: "json \<Rightarrow> int option" where
  "cleanup_bytes j =
     (case j of
        JObj kvs \<Rightarrow> (case map_of kvs ''file_size'' of None \<Rightarrow> Some 0 | Some JNull \<Rightarrow> Some 0 | Some (JNum n) \<Rightarrow> Some n
                    | Some (JStr x) \<Rightarrow> Atoi x | Some _ \<Rightarrow> None)
      | _ \<Rightarrow> Some 0)"

fun sum_bytes :: "json list \<Rightarrow> int option" where
  "sum_bytes [] = Some 0"
| "sum_bytes (j # js) =
     (case (cleanup_bytes j, sum_bytes js) of (Some a, Some b) \<Rightarrow> Some (a + b) | _ \<Rightarrow> None)"

definition spent_since :: "go_time \<Rightarrow> cost_db \<Rightarrow> int" where
  "spent_since t c = sum_list (map fe_amount (filter (\<lambda>e. t \<le> fe_occurred e) (cost_events c)))"

definition gigabyte :: int where
  "gigabyte = 1024 * 1024 * 1024"

definition storage_cost :: "'f floats \<Rightarrow> 'f \<Rightarrow> int \<Rightarrow> 'f" where
  "storage_cost fl price bytes = fl_mul fl (fl_div fl (fl_int fl bytes) (fl_int fl gigabyte)) price"

definition larger :: "'f floats \<Rightarrow> 'f \<Rightarrow> 'f \<Rightarrow> 'f" where
  "larger fl a b = (if fl_less fl b a then a else b)"

definition GetFinOpsSnapshot ::
  "'f floats \<Rightarrow> 'f float_defaults \<Rightarrow> dbenv \<Rightarrow> 'f \<Rightarrow> database \<Rightarrow> cost_db \<Rightarrow> 'f finops_snapshot db_result" where
  "GetFinOpsSnapshot fl fd env price d c =
     (let price = (if fl_le fl price (fl_int fl 0) then storage_cost_default fd else price);
          vs = sum_list (map v_size (filter (\<lambda>v. v_deleted v = None) (versions d)));
          ims = sum_list (map i_size (images d));
          ods = sum_list (map od_size (filter (\<lambda>od. od_status od = ''completed'') (offline_downloads d)));
          jobs = (\<lambda>st. filter (\<lambda>j. j_type j = ''cleanup_r2_file'' \<and> j_status j = st) (background_jobs d))
      in if fails env ''GetFinOpsSnapshot'' [] then Inl Fault
         else case sum_bytes (map j_data (jobs ''pending'')) of
                None \<Rightarrow> Inl Fault
              | Some pending \<Rightarrow>
                  let est = storage_cost fl price (vs + ims + ods); act = fl_usd fl (spent_since (db_now env - 30 * (24 * hour)) c)
                  in Inr \<lparr>sn_versions = vs, sn_images = ims, sn_offline = ods, sn_active = vs + ims + ods,
                       sn_pending = int (length (jobs ''pending'')), sn_failed = int (length (jobs ''failed'')),
                       sn_pending_bytes = pending, sn_estimated = est, sn_actual = act, sn_governing = larger fl act est\<rparr>)"

record 'f budget_decision =
  bd_block :: bool
  bd_reason :: string

definition no_decision :: "'f budget_decision" where
  "no_decision = \<lparr>bd_block = False, bd_reason = ''''\<rparr>"

definition over_budget :: "'f floats \<Rightarrow> 'f finops_settings \<Rightarrow> 'f \<Rightarrow> bool" where
  "over_budget fl fs cost \<longleftrightarrow> fl_le fl (fs_ratio fs) (fl_div fl cost (fs_budget fs))"

definition guard_off :: "'f floats \<Rightarrow> 'f finops_settings \<Rightarrow> bool \<Rightarrow> bool" where
  "guard_off fl fs enabled \<longleftrightarrow> \<not> enabled \<or> fl_le fl (fs_budget fs) (fl_int fl 0) \<or> fl_le fl (fs_ratio fs) (fl_int fl 0)"

text \<open>Of a decision the callers use whether it blocks, and why.\<close>

definition EvaluateUploadGuard :: "'f floats \<Rightarrow> 'f float_defaults \<Rightarrow> 'f finops_settings \<Rightarrow> dbenv \<Rightarrow> int \<Rightarrow> database \<Rightarrow>
    cost_db \<Rightarrow> 'f budget_decision db_result" where
  "EvaluateUploadGuard fl fd fs env incomingBytes d c =
     (if guard_off fl fs (fs_block_enabled fs) then Inr no_decision
      else case GetFinOpsSnapshot fl fd env (fs_cost_per_gb fs) d c of
             Inl e \<Rightarrow> Inl e
           | Inr sn \<Rightarrow>
               let projected = larger fl (sn_actual sn) (storage_cost fl (fs_cost_per_gb fs) (int64 (sn_active sn + incomingBytes)))
               in Inr (if over_budget fl fs projected
                       then \<lparr>bd_block = True, bd_reason = ''projected cost exceeds budget threshold''\<rparr> else no_decision))"

definition EvaluateExpensiveJobGuard :: "'f floats \<Rightarrow> 'f float_defaults \<Rightarrow> 'f finops_settings \<Rightarrow> dbenv \<Rightarrow> database \<Rightarrow>
    cost_db \<Rightarrow> 'f budget_decision db_result" where
  "EvaluateExpensiveJobGuard fl fd fs env d c =
     (if guard_off fl fs (fs_guard_enabled fs) then Inr no_decision
      else case GetFinOpsSnapshot fl fd env (fs_cost_per_gb fs) d c of
             Inl e \<Rightarrow> Inl e
           | Inr sn \<Rightarrow>
               Inr (if over_budget fl fs (sn_governing sn) then \<lparr>bd_block = True, bd_reason = ''budget threshold reached''\<rparr>
                    else if sn_failed sn > 0 \<and> sn_pending_bytes sn > 5 * gigabyte
                    then \<lparr>bd_block = True, bd_reason = ''cleanup backlog too high''\<rparr> else no_decision))"

text \<open>\<open>EnhancedBudgetCheck\<close> has no caller; it does not test whether its guard is enabled.\<close>

definition EnhancedBudgetCheck :: "'f floats \<Rightarrow> calendar \<Rightarrow> dbenv \<Rightarrow> string \<Rightarrow> 'f finops_settings \<Rightarrow> cost_db \<Rightarrow>
    'f budget_decision db_result" where
  "EnhancedBudgetCheck fl cal env userID fs c =
     (case GetUserCurrentMonthCost cal env userID c of
        Inl e \<Rightarrow> Inl e
      | Inr cost \<Rightarrow> Inr (if over_budget fl fs (fl_usd fl cost)
                        then \<lparr>bd_block = True, bd_reason = ''user cost allocation exceeds budget threshold''\<rparr> else no_decision))"

text \<open>Two helpers without a caller; the days that have passed do not enter the estimate.\<close>

definition EstimateMonthlyCost :: "'f floats \<Rightarrow> 'f finops_settings \<Rightarrow> 'f finops_snapshot \<Rightarrow> 'f" where
  "EstimateMonthlyCost fl fs sn = fl_mul fl
     (fl_div fl (storage_cost fl (fs_cost_per_gb fs) (sn_active sn)) (fl_int fl 30)) (fl_int fl 30)"

definition CheckCostThreshold :: "'f floats \<Rightarrow> 'f finops_settings \<Rightarrow> 'f \<Rightarrow> 'f \<times> bool" where
  "CheckCostThreshold fl fs cost =
     (if fl_le fl (fs_budget fs) (fl_int fl 0) then (fl_int fl 0, False)
      else let percentage = fl_mul fl (fl_div fl cost (fs_budget fs)) (fl_int fl 100)
        in (percentage, fl_le fl (fl_int fl 80) percentage))"

record 'f cost_event =
  ce_source :: string
  ce_service :: string
  ce_category :: string
  ce_amount :: 'f
  ce_occurred :: go_time
  ce_metadata :: "json option"

text \<open>The columns hold 64 bytes of source, service and category; the amount must not be negative. The zero time of Go is
  \<open>zero_time\<close>.\<close>

definition or_default :: "string \<Rightarrow> string \<Rightarrow> string" where
  "or_default x y = (if x = '''' then y else x)"

definition CreateFinOpsCostEvent :: "'f floats \<Rightarrow> go_time \<Rightarrow> dbenv \<Rightarrow> 'f cost_event \<Rightarrow> cost_db \<Rightarrow>
    event_row db_result \<times> cost_db" where
  "CreateFinOpsCostEvent fl zero_time env e c =
     (let source = or_default (ce_source e) ''manual''; service = or_default (ce_service e) ''r2'';
          category = or_default (ce_category e) ''storage''
      in if fails env ''CreateFinOpsCostEvent'' [source, service, category] then (Inl Fault, c)
         else case fl_numeric fl (ce_amount e) of
                None \<Rightarrow> (Inl Fault, c)
              | Some amount \<Rightarrow>
                  if amount < 0 \<or> length source > 64 \<or> length service > 64 \<or> length category > 64 then (Inl Conflict, c)
                  else let row = \<lparr>fe_id = gen_uuid env (length (cost_events c)), fe_source = source, fe_service = service,
                             fe_category = category, fe_amount = amount,
                             fe_occurred = (if ce_occurred e = zero_time then db_now env else ce_occurred e),
                             fe_metadata = (case ce_metadata e of None \<Rightarrow> JObj [] | Some j \<Rightarrow> j)\<rparr>
                    in (Inr row, c\<lparr>cost_events := cost_events c @ [row]\<rparr>))"

record 'f ingest_body =
  ib_source :: string
  ib_service :: string
  ib_category :: string
  ib_amount :: 'f
  ib_occurred :: string
  ib_metadata :: "json option"

definition IngestCostEvent :: "'f floats \<Rightarrow> go_time \<Rightarrow> (string \<Rightarrow> go_time option) \<Rightarrow> environ \<Rightarrow> 'o app_env \<Rightarrow>
    ('f ingest_body, 'o cost_app) handler" where
  "IngestCostEvent fl zero_time parse_time os env r = (\<lambda>(w, s).
     let token = TrimSpace (os ''FINOPS_COST_INGEST_TOKEN'') in
     if token = '''' then respond (WriteForbidden ''finops ingestion disabled'' w) s
     else if TrimSpace (req_hdr r ''Authorization'') \<noteq> ''Bearer '' @ token then respond (WriteUnauthorized w) s
     else case req_body r of
            None \<Rightarrow> respond (WriteBadRequest ''invalid request body'' w) s
          | Some b \<Rightarrow>
              if fl_less fl (ib_amount b) (fl_int fl 0) then respond (WriteBadRequest ''amount_usd must be non-negative'' w) s
              else case (if TrimSpace (ib_occurred b) = '''' then Some (now env) else parse_time (ib_occurred b)) of
                     None \<Rightarrow> respond (WriteBadRequest ''occurred_at must be RFC3339'' w) s
                   | Some occurredAt \<Rightarrow>
                       (case CreateFinOpsCostEvent fl zero_time (dbe env) \<lparr>ce_source = TrimSpace (ib_source b),
                               ce_service = TrimSpace (ib_service b), ce_category = TrimSpace (ib_category b),
                               ce_amount = ib_amount b, ce_occurred = occurredAt, ce_metadata = ib_metadata b\<rparr> (snd s) of
                          (Inl _, c) \<Rightarrow> respond (WriteInternalError w) (fst s, c)
                        | (Inr e, c) \<Rightarrow>
                            respond (write_json 201 (JObj [(''amount_usd'', fl_json fl (ib_amount b)), (''category'', JStr (fe_category e)),
                              (''id'', JStr (fe_id e)), (''occurred_at'', JNum (fe_occurred e)), (''service'', JStr (fe_service e)),
                              (''source'', JStr (fe_source e))]) w) (fst s, c)))"

record 'f finops_summary =
  sm_days :: int
  sm_actual :: 'f
  sm_estimated :: 'f
  sm_governing :: 'f
  sm_budget :: 'f
  sm_ratio :: 'f

definition GetFinOpsMonthlySummary :: "'f floats \<Rightarrow> 'f float_defaults \<Rightarrow> dbenv \<Rightarrow> int \<Rightarrow> 'f \<Rightarrow> 'f \<Rightarrow> database \<Rightarrow>
    cost_db \<Rightarrow> 'f finops_summary db_result" where
  "GetFinOpsMonthlySummary fl fd env days price budget d c =
     (let days = (if days \<le> 0 then 30 else days);
          price = (if fl_le fl price (fl_int fl 0) then storage_cost_default fd else price)
      in case GetFinOpsSnapshot fl fd env price d c of
           Inl e \<Rightarrow> Inl e
         | Inr sn \<Rightarrow>
             if fails env ''GetFinOpsMonthlySummary'' [] then Inl Fault
             else let actual = fl_usd fl (spent_since (db_now env - days * (24 * hour)) c);
                      governing = larger fl actual (sn_governing sn)
               in Inr \<lparr>sm_days = days, sm_actual = actual, sm_estimated = sn_estimated sn, sm_governing = governing,
                    sm_budget = budget,
                    sm_ratio = (if fl_less fl (fl_int fl 0) budget then fl_div fl governing budget else fl_int fl 0)\<rparr>)"

definition GetSummary :: "'f floats \<Rightarrow> 'f float_defaults \<Rightarrow> (string \<Rightarrow> 'f option) \<Rightarrow> environ \<Rightarrow> 'o app_env \<Rightarrow>
    ('b, 'o cost_app) handler" where
  "GetSummary fl fd parse_float os env r = (\<lambda>(w, s).
     let fs = LoadSettingsFromEnv parse_float fd os; value = TrimSpace (query r ''days'')
     in case (if value = '''' then Some 30
              else case Atoi value of None \<Rightarrow> None | Some n \<Rightarrow> if n \<le> 0 \<or> n > 365 then None else Some n) of
          None \<Rightarrow> respond (WriteBadRequest ''days must be an integer between 1 and 365'' w) s
        | Some days \<Rightarrow>
            (case GetFinOpsMonthlySummary fl fd (dbe env) days (fs_cost_per_gb fs) (fs_budget fs) (app_db (fst s)) (snd s) of
               Inl _ \<Rightarrow> respond (WriteInternalError w) s
             | Inr sm \<Rightarrow>
                 respond (write_json 200 (JObj [(''actual_cost_usd'', fl_json fl (sm_actual sm)), (''budget_usd'', fl_json fl (sm_budget sm)),
                   (''days'', JNum (sm_days sm)), (''estimated_storage_usd'', fl_json fl (sm_estimated sm)),
                   (''governing_cost_usd'', fl_json fl (sm_governing sm)), (''utilization_ratio'', fl_json fl (sm_ratio sm))]) w) s))"


subsection \<open>Who sees which costs\<close>

datatype cost_route = CurrentCost | CostHistory | CostBreakdown | CostInvoice

definition cost_route_handler :: "calendar \<Rightarrow> 'o app_env \<Rightarrow> cost_route \<Rightarrow> ('b, 'o cost_app) handler" where
  "cost_route_handler cal env op =
     (case op of CurrentCost \<Rightarrow> GetCurrentMonthCost cal env | CostHistory \<Rightarrow> GetCostHistory cal env
      | CostBreakdown \<Rightarrow> GetCostBreakdown cal env | CostInvoice \<Rightarrow> GetUserInvoice cal env)"

text \<open>The rows of a user, in both tables.\<close>

definition same_costs_of :: "string \<Rightarrow> cost_db \<Rightarrow> cost_db \<Rightarrow> bool" where
  "same_costs_of u c c' \<longleftrightarrow>
     filter (\<lambda>r. ca_user r = u) (cost_attribution c) = filter (\<lambda>r. ca_user r = u) (cost_attribution c') \<and>
     filter (\<lambda>m. mc_user m = u) (monthly_costs c) = filter (\<lambda>m. mc_user m = u) (monthly_costs c')"

lemma same_costs_filter:
  "same_costs_of u c c' \<Longrightarrow>
   filter (\<lambda>r. ca_user r = u \<and> P r) (cost_attribution c) = filter (\<lambda>r. ca_user r = u \<and> P r) (cost_attribution c')"
  unfolding same_costs_of_def by (metis filter_filter)

lemma same_costs_queries:
  assumes "same_costs_of u c c'"
  shows "GetUserCurrentMonthCost cal env u c = GetUserCurrentMonthCost cal env u c'"
    and "GetUserMonthlyCosts env u n c = GetUserMonthlyCosts env u n c'"
    and "GetUserCostBreakdown cal env u m d c = GetUserCostBreakdown cal env u m d c'"
    and "GenerateUserInvoice cal env u m c = GenerateUserInvoice cal env u m c'"
  using same_costs_filter [OF assms] assms
  by (simp_all add: GetUserCurrentMonthCost_def GetUserMonthlyCosts_def GetUserCostBreakdown_def user_cost_breakdown_def
      priced_rows_def GenerateUserInvoice_def same_costs_of_def)

lemma own_costs_refuses:
  "GetUserID r \<noteq> Some (path_value r ''user_id'') \<Longrightarrow> wrote w = None \<Longrightarrow> refused (own_costs m h r (w, s)) s"
  by (auto simp: own_costs_def Let_def split: option.splits)

definition own_route :: "'b request \<Rightarrow> 's \<Rightarrow> bool" where
  "own_route r s \<longleftrightarrow> GetUserID r = Some (path_value r ''user_id'')"

interpretation cost_routes: guarded "cost_route_handler cal env op" own_route for cal env op
  by unfold_locales
     (cases op; auto simp: cost_route_handler_def own_route_def GetCurrentMonthCost_def GetCostHistory_def
        GetCostBreakdown_def GetUserInvoice_def intro: own_costs_refuses)

lemma own_costs_cong:
  "(\<And>u. GetUserID r = Some u \<Longrightarrow> fst (snd (h u r (w, s))) = fst (snd (h u r (w, s')))) \<Longrightarrow>
   fst (snd (own_costs m h r (w, s))) = fst (snd (own_costs m h r (w, s')))"
  by (auto simp: own_costs_def Let_def respond_def split: option.splits)

lemma cost_answer_cong:
  assumes "\<And>u. GetUserID r = Some u \<Longrightarrow> same_costs_of u c c'"
  shows "fst (snd (cost_route_handler cal env op r (w, a, c))) = fst (snd (cost_route_handler cal env op r (w, a, c')))"
  unfolding cost_route_handler_def
  by (cases op; simp only: cost_route.case GetCurrentMonthCost_def GetCostHistory_def GetCostBreakdown_def GetUserInvoice_def;
      rule own_costs_cong; drule assms)
     (auto simp: same_costs_queries Let_def respond_def split: sum.splits option.splits)

text \<open>C36: the four routes under \<open>/users/{user_id}/\<close> show nobody the costs of others: what a caller is answered is the same
  whatever costs the other users have, and a caller who is not the user of the path is refused.\<close>

theorem costs_of_others_hidden:
  assumes "GetUserID r = Some u" and "same_costs_of u c c'" and "wrote w = None"
  shows "fst (snd (cost_route_handler cal env op r (w, a, c))) = fst (snd (cost_route_handler cal env op r (w, a, c'))) \<and>
    (path_value r ''user_id'' \<noteq> u \<longrightarrow> refused (cost_route_handler cal env op r (w, a, c)) (a, c))"
  using cost_answer_cong [of r c c' cal env op w a] assms cost_routes.refuses [of w r "(a, c)" cal env op]
  by (auto simp: own_route_def)

text \<open>A calendar of months of thirty days.\<close>

definition sample_calendar :: calendar where
  "sample_calendar = \<lparr>month_start = (\<lambda>d. d div 30 * 30), today = (\<lambda>t. t div (24 * hour)), month_text = (\<lambda>d. Itoa (d div 30)),
     day_text = Itoa, parse_month = Atoi, next_month = (\<lambda>d. d + 30), percent_of = (\<lambda>x y. x * 10000 div y),
     usd_text = (\<lambda>x. Itoa (x div 10000)), usd_json = JNum, sscanf_int = Atoi\<rparr>"

definition sample_row :: "string \<Rightarrow> string \<Rightarrow> int \<Rightarrow> cost_row" where
  "sample_row u i n = \<lparr>ca_user = u, ca_project = i, ca_period = 3, ca_gb_hours = 1, ca_storage = n, ca_calls = 1, ca_api = 1,
     ca_transfer_gb = 0, ca_transfer = 0\<rparr>"

definition sample_costs :: "string \<Rightarrow> cost_db" where
  "sample_costs v = \<lparr>cost_attribution = [sample_row ''u'' ''p'' 5, sample_row v ''q'' 7, sample_row ''u'' ''p'' 2],
     monthly_costs = [], cost_events = []\<rparr>"

lemma sample_costs_same: "v \<noteq> ''u'' \<Longrightarrow> w \<noteq> ''u'' \<Longrightarrow> same_costs_of ''u'' (sample_costs v) (sample_costs w)"
  by (simp add: same_costs_of_def sample_costs_def sample_row_def)

definition other_user_request :: "unit request" where
  "other_user_request = plain_request\<lparr>ctx := [''user_id'' \<mapsto> CtxStr ''u''], path_value := \<lambda>k. ''v''\<rparr>"

theorem costs_of_others_hidden_witness:
  "fst (snd (cost_route_handler sample_calendar sample_account_env CostInvoice other_user_request (new_writer, sample_account_app, sample_costs ''v''))) =
      fst (snd (cost_route_handler sample_calendar sample_account_env CostInvoice other_user_request (new_writer, sample_account_app, sample_costs ''w''))) \<and>
   refused (cost_route_handler sample_calendar sample_account_env CostInvoice other_user_request (new_writer, sample_account_app, sample_costs ''v'')) (sample_account_app, sample_costs ''v'')"
proof -
  have "GetUserID other_user_request = Some ''u''" "path_value other_user_request ''user_id'' \<noteq> ''u''"
    by (simp_all add: other_user_request_def GetUserID_def ctx_string_def)
  moreover have "same_costs_of ''u'' (sample_costs ''v'') (sample_costs ''w'')" by (rule sample_costs_same) simp_all
  ultimately show ?thesis
    using costs_of_others_hidden [of other_user_request "''u''" "sample_costs ''v''" "sample_costs ''w''" new_writer sample_calendar sample_account_env
      CostInvoice sample_account_app]
    by simp
qed

subsection \<open>The sums of an invoice\<close>

lemma order_desc_sum: "sum_list (map f (order_desc k xs)) = (sum_list (map f xs) :: int)"
  by (simp add: order_desc_def flip: sum_mset_sum_list)

lemma sum_groups:
  fixes f :: "'r \<Rightarrow> int" and k :: "'r \<Rightarrow> 'k"
  shows "(\<Sum>i\<leftarrow>remdups (map k rows). \<Sum>r\<leftarrow>filter (\<lambda>r. k r = i) rows. f r) = (\<Sum>r\<leftarrow>rows. f r)"
proof -
  have "(\<Sum>i\<leftarrow>remdups (map k rows). \<Sum>r\<leftarrow>filter (\<lambda>r. k r = i) rows. f r) =
     (\<Sum>i\<in>set (map k rows). \<Sum>r\<leftarrow>rows. if k r = i then f r else 0)"
    by (simp add: sum_list_map_filter' sum_list_distinct_conv_sum_set)
  also have "\<dots> = (\<Sum>r\<leftarrow>rows. f r)"
  proof -
    have "(\<Sum>i\<in>K. \<Sum>r\<leftarrow>rs. if k r = i then f r else 0) = (\<Sum>r\<leftarrow>rs. f r)" if "finite K" "k ` set rs \<subseteq> K" for K and rs :: "'r list"
      using that by (induction rs) (simp_all add: sum.distrib)
    then show ?thesis by simp
  qed
  finally show ?thesis .
qed

lemma breakdown_sum:
  "(\<Sum>b\<leftarrow>user_cost_breakdown cal u m d c. cs_total b) = (\<Sum>r\<leftarrow>priced_rows cal u m d c. ca_total r)"
  using sum_groups [where k = ca_project and rows = "priced_rows cal u m d c" and f = ca_total]
  by (simp add: user_cost_breakdown_def Let_def order_desc_sum project_share_def o_def)


definition billed_projects :: database where
  "billed_projects = empty_db\<lparr>projects := map (\<lambda>i. (hd (projects sample_db))\<lparr>p_id := i\<rparr>) [''p'', ''q'']\<rparr>"


subsection \<open>The ledger\<close>

definition ingest_token_ok :: "environ \<Rightarrow> 'b request \<Rightarrow> 's \<Rightarrow> bool" where
  "ingest_token_ok os r s \<longleftrightarrow> TrimSpace (os ''FINOPS_COST_INGEST_TOKEN'') \<noteq> '''' \<and>
     TrimSpace (req_hdr r ''Authorization'') = ''Bearer '' @ TrimSpace (os ''FINOPS_COST_INGEST_TOKEN'')"

interpretation ingest: guarded "IngestCostEvent fl zero_time parse_time os env" "ingest_token_ok os" for fl zero_time parse_time os env
  by unfold_locales (auto simp: IngestCostEvent_def ingest_token_ok_def Let_def)

interpretation dashboard: guarded "GetDashboard budget_percent cal p env"
    "\<lambda>r s. \<exists>u. GetUserID r = Some u \<and> verifyFounderAccess (dbe env) u (app_db (fst s))" for budget_percent cal p env
  by unfold_locales (auto simp: GetDashboard_def split: option.splits)

interpretation founders_only: guarded "FounderDashboardAccess env h"
    "\<lambda>r s. \<exists>u. GetUserID r = Some u \<and> IsFounder (dbe env) u (app_db (fst s)) = Inr True" for env h
  by unfold_locales (auto simp: FounderDashboardAccess_def split: option.splits sum.splits)

lemma CreateFinOpsCostEvent_appends:
  "CreateFinOpsCostEvent fl zero_time env e c = (x, c') \<Longrightarrow>
   c' = c \<or> (\<exists>row. x = Inr row \<and> c' = c\<lparr>cost_events := cost_events c @ [row]\<rparr> \<and> 0 \<le> fe_amount row \<and>
     fl_numeric fl (ce_amount e) = Some (fe_amount row))"
  by (auto simp: CreateFinOpsCostEvent_def Let_def not_less split: if_splits option.splits)

definition grown :: "cost_db \<Rightarrow> cost_db \<Rightarrow> bool" where
  "grown c c' \<longleftrightarrow> c' = c \<or> (\<exists>row. c' = c\<lparr>cost_events := cost_events c @ [row]\<rparr> \<and> 0 \<le> fe_amount row)"

lemma grown_refl [simp]: "grown c c"
  by (simp add: grown_def)

lemma ingest_answer:
  "fst (snd (snd (case CreateFinOpsCostEvent fl zero_time e ev c of
      (Inl x, c) \<Rightarrow> respond (f x) (a, c) | (Inr y, c) \<Rightarrow> respond (g y) (a, c)))) = a \<and>
   grown c (snd (snd (snd (case CreateFinOpsCostEvent fl zero_time e ev c of
      (Inl x, c) \<Rightarrow> respond (f x) (a, c) | (Inr y, c) \<Rightarrow> respond (g y) (a, c)))))"
  using CreateFinOpsCostEvent_appends [of fl zero_time e ev c]
  by (cases "CreateFinOpsCostEvent fl zero_time e ev c"; cases "fst (CreateFinOpsCostEvent fl zero_time e ev c)")
     (auto simp: respond_def grown_def)

lemma ingest_step:
  "fst (snd (snd (IngestCostEvent fl zero_time parse_time os env r (w, s)))) = fst s \<and>
   grown (snd s) (snd (snd (snd (IngestCostEvent fl zero_time parse_time os env r (w, s)))))"
  by (simp add: IngestCostEvent_def Let_def respond_state ingest_answer split: option.split)

definition ledger_sum :: "cost_db \<Rightarrow> int" where
  "ledger_sum c = sum_list (map fe_amount (cost_events c))"

lemma ingest_run:
  "\<exists>es. snd (serve_all (IngestCostEvent fl zero_time parse_time os env) rs s) = (snd s)\<lparr>cost_events := cost_events (snd s) @ es\<rparr> \<and>
      length es \<le> length (filter (\<lambda>r. ingest_token_ok os r ()) rs) \<and> (\<forall>e\<in>set es. 0 \<le> fe_amount e) \<and>
      fst (serve_all (IngestCostEvent fl zero_time parse_time os env) rs s) = fst s"
proof (induction rs arbitrary: s)
  case Nil
  then show ?case by simp
next
  case (Cons r rs)
  let ?s = "snd (snd (IngestCostEvent fl zero_time parse_time os env r (new_writer, s)))"
  have step: "fst ?s = fst s" "grown (snd s) (snd ?s)"
    using ingest_step [of fl zero_time parse_time os env r new_writer s] by auto
  obtain es where es: "snd (serve_all (IngestCostEvent fl zero_time parse_time os env) rs ?s) = (snd ?s)\<lparr>cost_events := cost_events (snd ?s) @ es\<rparr>"
      "length es \<le> length (filter (\<lambda>r. ingest_token_ok os r ()) rs)" "\<forall>e\<in>set es. 0 \<le> fe_amount e"
      "fst (serve_all (IngestCostEvent fl zero_time parse_time os env) rs ?s) = fst ?s"
    using Cons.IH [of ?s] by blast
  show ?case
  proof (cases "snd ?s = snd s")
    case True
    with es step show ?thesis by (intro exI [of _ es]) auto
  next
    case False
    then have "?s \<noteq> s" by auto
    then have ok: "ingest_token_ok os r ()"
      using ingest.change_needs_permission [of new_writer fl zero_time parse_time os env r s] by (auto simp: ingest_token_ok_def)
    obtain row where "snd ?s = (snd s)\<lparr>cost_events := cost_events (snd s) @ [row]\<rparr>" "0 \<le> fe_amount row"
      using False step by (auto simp: grown_def)
    with es ok step show ?thesis by (intro exI [of _ "row # es"]) auto
  qed
qed

text \<open>C38: the ledger of costs is append-only: after any requests to the ingestion route it is the old ledger followed by at
  most one row per request that carried the token, none of them negative, so the amount spent never falls; nothing else
  changes, and while no token is configured nothing is appended.\<close>

theorem ledger_only_grows:
  "\<exists>es. serve_all (IngestCostEvent fl zero_time parse_time os env) rs s =
        (fst s, (snd s)\<lparr>cost_events := cost_events (snd s) @ es\<rparr>) \<and>
      length es \<le> length (filter (\<lambda>r. ingest_token_ok os r ()) rs) \<and>
      ledger_sum (snd s) \<le> ledger_sum (snd (serve_all (IngestCostEvent fl zero_time parse_time os env) rs s))"
proof -
  obtain es where es: "snd (serve_all (IngestCostEvent fl zero_time parse_time os env) rs s) = (snd s)\<lparr>cost_events := cost_events (snd s) @ es\<rparr>"
      "length es \<le> length (filter (\<lambda>r. ingest_token_ok os r ()) rs)" "\<forall>e\<in>set es. 0 \<le> fe_amount e"
      "fst (serve_all (IngestCostEvent fl zero_time parse_time os env) rs s) = fst s"
    using ingest_run by blast
  moreover have "0 \<le> sum_list (map fe_amount es)" using es(3) by (intro sum_list_nonneg) auto
  ultimately show ?thesis by (intro exI [of _ es]) (auto simp: ledger_sum_def prod_eq_iff)
qed

end
