(* ===== verification/Monitoring.thy ===== *)
theory Monitoring
  imports Costs Discovery Router
begin

text \<open>
  Health, metrics and start-up: \<open>handlers/health.go\<close>, the pool and its figures in \<open>db/db.go\<close>, the read replicas of
  \<open>db/replicas.go\<close>, \<open>observability/observability.go\<close>, the endpoint list of \<open>handlers/ops_console.go\<close>,
  \<open>handlers/payments_catalog.go\<close>, the bucket rules of \<open>storage/r2.go\<close> and the start of \<open>cmd/api/main.go\<close>.

  What the Go runtime reports, how long a check took and the text of an error are arguments (\<open>runtime_env\<close>), and the
  arithmetic of \<open>float64\<close> is that of \<open>Costs\<close>, with its formatting \<open>%.6f\<close>.

  Shown: how the answer to a health check is composed, the bounds of the running average, which figures are
  served, and what keeps the server from starting.
\<close>

subsection \<open>The pool\<close>

definition pool_conns :: "int \<Rightarrow> int \<Rightarrow> int" where
  "pool_conns n n_default = sint (word_of_int (if n \<le> 0 then n_default else n) :: 32 word)"

record pool_config =
  pc_url :: string
  pc_max :: int
  pc_min :: int
  pc_idle :: duration
  pc_lifetime :: duration
  pc_check :: duration

text \<open>\<open>pgxpool.ParseConfig\<close>, \<open>NewWithConfig\<close> and \<open>Ping\<close> are arguments.\<close>

definition New :: "(string \<Rightarrow> bool) \<Rightarrow> (pool_config \<Rightarrow> 'p option) \<Rightarrow> ('p \<Rightarrow> bool) \<Rightarrow> string \<Rightarrow> int \<Rightarrow> int \<Rightarrow> string + 'p" where
  "New parse connect ping databaseURL maxConns minConns =
     (if \<not> parse databaseURL then Inl ''failed to parse database URL''
      else case connect \<lparr>pc_url = databaseURL, pc_max = pool_conns maxConns 20, pc_min = pool_conns minConns 5,
             pc_idle = 20 * second, pc_lifetime = 3 * minute, pc_check = 5 * second\<rparr> of
             None \<Rightarrow> Inl ''failed to create connection pool''
           | Some p \<Rightarrow> if ping p then Inr p else Inl ''failed to ping database'')"

definition Ping :: "dbenv \<Rightarrow> bool" where
  "Ping env \<longleftrightarrow> \<not> fails env ''Ping'' []"

definition getPoolHealthStatus :: "int \<Rightarrow> string" where
  "getPoolHealthStatus utilizationPercent =
     (if utilizationPercent < 50 then ''healthy'' else if utilizationPercent < 80 then ''good''
      else if utilizationPercent < 95 then ''warning'' else ''critical'')"

definition pool_utilization :: "pool_stats \<Rightarrow> int" where
  "pool_utilization p = (if MaxOpenConnections p > 0 then InUse p * 100 div MaxOpenConnections p else 0)"

definition GetPerformanceMetrics :: "pool_stats \<Rightarrow> (string \<times> json) list" where
  "GetPerformanceMetrics p =
     [(''connection_pool'', JObj [(''available_capacity'', JNum (Idle p)), (''idle'', JNum (Idle p)), (''in_use'', JNum (InUse p)),
        (''max_connections'', JNum (MaxOpenConnections p)), (''open_connections'', JNum (OpenConnections p)),
        (''utilization_percent'', JNum (pool_utilization p))]),
      (''performance_status'', JObj [(''health'', JStr (getPoolHealthStatus (pool_utilization p)))])]"

text \<open>The two keys that the dashboard of the founder looks up are not there.\<close>

lemma no_runtime_figures:
  "map_of (GetPerformanceMetrics p) ''heap_alloc_bytes'' = None" "map_of (GetPerformanceMetrics p) ''uptime_seconds'' = None"
  by (simp_all add: GetPerformanceMetrics_def)

subsection \<open>Read replicas\<close>

text \<open>\<open>sql.Open\<close> with its settings is \<open>open_db\<close>. The connections opened before a failure are not closed.\<close>

fun NewReplicas :: "(string \<Rightarrow> 'r option) \<Rightarrow> ('r \<Rightarrow> bool) \<Rightarrow> string list \<Rightarrow> 'r list option" where
  "NewReplicas open_db ping [] = Some []"
| "NewReplicas open_db ping (url # urls) =
     (case open_db url of
        None \<Rightarrow> None
      | Some r \<Rightarrow> if \<not> ping r then None else map_option (\<lambda>rs. r # rs) (NewReplicas open_db ping urls))"

definition NewReplicaPool :: "(string \<Rightarrow> 'r option) \<Rightarrow> ('r \<Rightarrow> bool) \<Rightarrow> string list \<Rightarrow> 'r list option" where
  "NewReplicaPool open_db ping replicaURLs = (if replicaURLs = [] then None else NewReplicas open_db ping replicaURLs)"

text \<open>\<open>rand.Intn\<close> is an argument.\<close>

definition GetReadConnection :: "(nat \<Rightarrow> nat) \<Rightarrow> 'r list \<Rightarrow> 'r option" where
  "GetReadConnection intn replicas = (if replicas = [] then None else Some (replicas ! intn (length replicas)))"

definition QueryReplica :: "(nat \<Rightarrow> nat) \<Rightarrow> ('r \<Rightarrow> string \<Rightarrow> 'a option) \<Rightarrow> string \<Rightarrow> 'r list \<Rightarrow> 'a option" where
  "QueryReplica intn run q replicas =
     (case GetReadConnection intn replicas of None \<Rightarrow> None | Some r \<Rightarrow> run r q)"

definition unhealthy_replicas :: "('r \<Rightarrow> string option) \<Rightarrow> 'r list \<Rightarrow> (nat \<times> string) list" where
  "unhealthy_replicas ping replicas =
     List.map_filter (\<lambda>i. map_option (Pair i) (ping (replicas ! i))) [0..<length replicas]"

definition ReplicasHealthCheck :: "('r \<Rightarrow> string option) \<Rightarrow> 'r \<Rightarrow> 'r list \<Rightarrow> json" where
  "ReplicasHealthCheck ping primary replicas = JObj
     [(''primary'', JStr (case ping primary of None \<Rightarrow> ''healthy'' | Some e \<Rightarrow> e)),
      (''replicas'', JObj (map (\<lambda>(i, e). (''replica_'' @ Itoa (int i), JStr e)) (unhealthy_replicas ping replicas)))]"

definition NewDatabaseWithReplicas :: "(string \<Rightarrow> 'r option) \<Rightarrow> ('r \<Rightarrow> bool) \<Rightarrow> string \<Rightarrow> string list \<Rightarrow> ('r \<times> 'r list) option" where
  "NewDatabaseWithReplicas open_db ping primaryURL replicaURLs =
     (case open_db primaryURL of
        None \<Rightarrow> None
      | Some p \<Rightarrow> if \<not> ping p then None else map_option (Pair p) (NewReplicaPool open_db ping replicaURLs))"

lemma NewReplicas_pings: "NewReplicas open_db ping urls = Some rs \<Longrightarrow> list_all2 (\<lambda>u r. open_db u = Some r \<and> ping r) urls rs"
  by (induction urls arbitrary: rs) (auto split: option.splits if_splits)

lemma read_connection_pinged:
  assumes "NewReplicaPool open_db ping urls = Some rs" and "\<And>n. 0 < n \<Longrightarrow> intn n < n"
  shows "\<exists>r. GetReadConnection intn rs = Some r \<and> ping r"
proof -
  have rs: "list_all2 (\<lambda>u r. open_db u = Some r \<and> ping r) urls rs" "urls \<noteq> []"
    using assms(1) by (auto simp: NewReplicaPool_def NewReplicas_pings split: if_splits)
  then have "rs \<noteq> []" by auto
  with rs assms(2) [of "length rs"] show ?thesis by (auto simp: GetReadConnection_def list_all2_conv_all_nth)
qed


subsection \<open>The state of the service\<close>

text \<open>The metrics of requests are a global of the package; the flag of the bucket rules is a field of the R2 client.\<close>

record request_metrics =
  rq_total :: int
  rq_errors :: int
  rq_average :: int

record 'o service =
  sv_app :: "'o app"
  sv_costs :: cost_db
  sv_requests :: request_metrics
  sv_lifecycle :: int

text \<open>Division of Go truncates.\<close>

definition go_quot :: "int \<Rightarrow> int \<Rightarrow> int" where
  "go_quot a b = sgn a * sgn b * (\<bar>a\<bar> div \<bar>b\<bar>)"

lemma go_quot_nonneg [simp]: "0 \<le> a \<Longrightarrow> 0 < b \<Longrightarrow> go_quot a b = a div b"
  by (cases "a = 0") (simp_all add: go_quot_def)

definition Milliseconds :: "duration \<Rightarrow> int" where
  "Milliseconds d = go_quot d 1000000"

definition RecordRequestMetric :: "duration \<Rightarrow> bool \<Rightarrow> request_metrics \<Rightarrow> request_metrics" where
  "RecordRequestMetric d failed m =
     (let n = int64 (rq_total m + 1); oldTotal = int64 (n - 1)
      in \<lparr>rq_total = n, rq_errors = (if failed then int64 (rq_errors m + 1) else rq_errors m),
          rq_average = (if oldTotal > 0 then go_quot (int64 (int64 (rq_average m * oldTotal) + Milliseconds d)) n
                        else Milliseconds d)\<rparr>)"

definition no_requests :: request_metrics where
  "no_requests = \<lparr>rq_total = 0, rq_errors = 0, rq_average = 0\<rparr>"

record runtime_env =
  re_alloc :: int
  re_total_alloc :: int
  re_sys :: int
  re_num_gc :: int
  re_goroutines :: int
  re_uptime :: int
  re_latency :: "string \<Rightarrow> int"
  re_error :: "string \<Rightarrow> string"

definition getSystemMetrics :: "'f floats \<Rightarrow> runtime_env \<Rightarrow> pool_stats \<Rightarrow> request_metrics \<Rightarrow> json" where
  "getSystemMetrics fl rt p m =
     (let mb = (\<lambda>n. JNum (n div 1024 div 1024));
          errorRate = (if rq_total m > 0 then fl_div fl (fl_int fl (rq_errors m)) (fl_int fl (rq_total m)) else fl_int fl 0)
      in JObj [(''memory'', JObj [(''alloc_mb'', mb (re_alloc rt)), (''total_alloc_mb'', mb (re_total_alloc rt)),
                 (''sys_mb'', mb (re_sys rt)), (''num_gc'', JNum (re_num_gc rt))]),
               (''goroutines'', JNum (re_goroutines rt)),
               (''requests'', JObj [(''total'', JNum (rq_total m)), (''errors'', JNum (rq_errors m)),
                 (''error_rate'', fl_json fl errorRate), (''avg_latency_ms'', JNum (rq_average m))]),
               (''database'', JObj [(''open_connections'', JNum (OpenConnections p)), (''in_use_connections'', JNum (InUse p)),
                 (''idle_connections'', JNum (Idle p)), (''max_connections'', JNum (MaxOpenConnections p)),
                 (''pool_health_percent'', fl_json fl (fl_mul fl (fl_div fl (fl_int fl (OpenConnections p))
                    (fl_int fl (MaxOpenConnections p))) (fl_int fl 100)))])])"

subsection \<open>Health\<close>

definition GetHealth :: "('b, 'o service) handler" where
  "GetHealth r = (\<lambda>(w, s). respond (write_json 200 (JObj [(''status'', JStr ''ok'')]) w) s)"

definition component :: "runtime_env \<Rightarrow> go_time \<Rightarrow> string \<Rightarrow> string \<Rightarrow> string \<Rightarrow> string \<times> json" where
  "component rt t nm status error =
     (nm, JObj ([(''status'', JStr status), (''latency_ms'', JNum (re_latency rt nm))] @
       (if error = '''' then [] else [(''error'', JStr error)]) @ [(''timestamp'', JNum t)]))"

text \<open>A component that is not well turns a healthy service into a degraded one.\<close>

definition degrade :: "string \<Rightarrow> string" where
  "degrade status = (if status = ''healthy'' then ''degraded'' else status)"

definition checkR2 :: "'o app_env \<Rightarrow> 'o app \<Rightarrow> bool" where
  "checkR2 env a \<longleftrightarrow> ListFiles (s3e env) ''health-check'' 1 (app_r2 a) \<noteq> None"

definition budget_utilization :: "'f floats \<Rightarrow> 'f finops_settings \<Rightarrow> 'f finops_snapshot \<Rightarrow> 'f" where
  "budget_utilization fl fs sn =
     (if fl_less fl (fl_int fl 0) (fs_budget fs) then fl_div fl (sn_governing sn) (fs_budget fs) else fl_int fl 0)"

text \<open>The check of the budget: the status of the component, and whether the snapshot could be read.\<close>

definition finops_status :: "'f floats \<Rightarrow> 'f float_defaults \<Rightarrow> 'f finops_settings \<Rightarrow> dbenv \<Rightarrow> database \<Rightarrow> cost_db \<Rightarrow>
    string \<times> bool" where
  "finops_status fl fd fs env d c =
     (case GetFinOpsSnapshot fl fd env (fs_cost_per_gb fs) d c of
        Inl _ \<Rightarrow> (''degraded'', False)
      | Inr sn \<Rightarrow> ((if fl_le fl (fl_int fl 1) (budget_utilization fl fs sn) \<or> sn_failed sn > 0 then ''degraded'' else ''healthy''), True))"

definition GetDeepHealth :: "'f floats \<Rightarrow> 'f float_defaults \<Rightarrow> (string \<Rightarrow> 'f option) \<Rightarrow> environ \<Rightarrow> runtime_env \<Rightarrow> pool_stats \<Rightarrow>
    'o app_env \<Rightarrow> ('b, 'o service) handler" where
  "GetDeepHealth fl fd parse_float os rt p env r = (\<lambda>(w, s).
     let a = sv_app s; t = now env; err = re_error rt; db_ok = Ping (dbe env);
         status = (if db_ok then ''healthy'' else ''unhealthy'');
         dbc = (if db_ok then component rt t ''database'' ''healthy'' '''' else component rt t ''database'' ''unhealthy'' (err ''database''));
         r2_ok = checkR2 env a;
         status = (if r2_ok then status else degrade status);
         r2c = (if r2_ok then component rt t ''storage'' ''healthy'' '''' else component rt t ''storage'' ''degraded'' (err ''storage''));
         (fin_status, fin_ok) = finops_status fl fd (LoadSettingsFromEnv parse_float fd os) (dbe env) (app_db a) (sv_costs s);
         status = (if fin_status = ''degraded'' then degrade status else status);
         fic = component rt t ''finops'' fin_status (if fin_ok then '''' else err ''finops'')
     in respond (write_json (if status = ''unhealthy'' then 503 else 200)
          (JObj [(''status'', JStr status), (''timestamp'', JNum t), (''version'', JStr ''1.0.0''),
             (''uptime_seconds'', JNum (re_uptime rt)), (''components'', JObj [dbc, fic, r2c]),
             (''metrics'', getSystemMetrics fl rt p (sv_requests s))]) w) s)"

text \<open>When the database does not answer, the content type is left to the server.\<close>

definition GetReadiness :: "'o app_env \<Rightarrow> ('b, 'o service) handler" where
  "GetReadiness env r = (\<lambda>(w, s).
     if \<not> Ping (dbe env) then
       respond (write_body (Json (JObj [(''reason'', JStr ''database unavailable''), (''status'', JStr ''not_ready'')])) (write_header 503 w)) s
     else respond (write_json 200 (JObj [(''status'', JStr ''ready'')]) w) s)"


subsection \<open>Metrics\<close>

record r2_figures =
  rf_hits :: "64 word"
  rf_misses :: "64 word"
  rf_uploaded :: "64 word"
  rf_deletes :: "64 word"
  rf_batches :: "64 word"
  rf_deleted :: "64 word"
  rf_lifecycle :: int

definition GetFinOpsMetrics :: "'o service \<Rightarrow> r2_figures" where
  "GetFinOpsMetrics s =
     (let rc = app_r2 (sv_app s)
      in \<lparr>rf_hits = presignCacheHits rc, rf_misses = presignCacheMisses rc, rf_uploaded = uploadedBytes rc,
          rf_deletes = deleteOps rc, rf_batches = batchDeleteOps rc, rf_deleted = deletedObjects rc,
          rf_lifecycle = sv_lifecycle s\<rparr>)"

text \<open>One figure is three calls of \<open>Fprintf\<close>; only the last figure is not followed by an empty line.\<close>

definition figure :: "string \<Rightarrow> string \<Rightarrow> string \<Rightarrow> string \<Rightarrow> payload list" where
  "figure nm help kind val =
     [Text (''# HELP '' @ nm @ '' '' @ help @ [CHR 0x0A]), Text (''# TYPE '' @ nm @ '' '' @ kind @ [CHR 0x0A]),
      Text (nm @ '' '' @ val @ [CHR 0x0A] @ (if nm = ''uptime_seconds'' then [] else [CHR 0x0A]))]"

definition word_text :: "64 word \<Rightarrow> string" where
  "word_text x = Itoa (uint x)"

definition service_figures :: "runtime_env \<Rightarrow> request_metrics \<Rightarrow> r2_figures \<Rightarrow> payload list" where
  "service_figures rt m f =
     figure ''memory_alloc_bytes'' ''Current memory allocation in bytes'' ''gauge'' (Itoa (re_alloc rt)) @
     figure ''goroutines'' ''Current number of goroutines'' ''gauge'' (Itoa (re_goroutines rt)) @
     figure ''http_requests_total'' ''Total HTTP requests'' ''counter'' (Itoa (rq_total m)) @
     figure ''http_errors_total'' ''Total HTTP errors'' ''counter'' (Itoa (rq_errors m)) @
     figure ''r2_presign_cache_hits_total'' ''Total presigned URL cache hits'' ''counter'' (word_text (rf_hits f)) @
     figure ''r2_presign_cache_misses_total'' ''Total presigned URL cache misses'' ''counter'' (word_text (rf_misses f)) @
     figure ''r2_uploaded_bytes_total'' ''Total uploaded bytes to R2'' ''counter'' (word_text (rf_uploaded f)) @
     figure ''r2_deleted_objects_total'' ''Total deleted R2 objects'' ''counter'' (word_text (rf_deleted f)) @
     figure ''r2_delete_operations_total'' ''Total single-object delete operations'' ''counter'' (word_text (rf_deletes f)) @
     figure ''r2_batch_delete_operations_total'' ''Total batch delete operations'' ''counter'' (word_text (rf_batches f)) @
     figure ''r2_lifecycle_policy_applied'' ''Indicates whether lifecycle policy is currently enforced (1=true)'' ''gauge''
       (Itoa (rf_lifecycle f))"

definition cost_figures :: "('f \<Rightarrow> string) \<Rightarrow> 'f floats \<Rightarrow> 'f finops_settings \<Rightarrow> 'f finops_snapshot \<Rightarrow> payload list" where
  "cost_figures six fl fs sn =
     figure ''finops_storage_active_bytes'' ''Total active storage bytes (tracks + images + offline)'' ''gauge'' (Itoa (sn_active sn)) @
     figure ''finops_storage_estimated_monthly_usd'' ''Estimated monthly storage cost in USD'' ''gauge'' (six (sn_estimated sn)) @
     figure ''finops_actual_monthly_usd'' ''Actual monthly cloud spend ingested via cost events'' ''gauge'' (six (sn_actual sn)) @
     figure ''finops_governing_monthly_usd'' ''Governing monthly cost used for budget protection'' ''gauge'' (six (sn_governing sn)) @
     figure ''finops_budget_monthly_usd'' ''Configured monthly FinOps budget in USD'' ''gauge'' (six (fs_budget fs)) @
     figure ''finops_budget_utilization_ratio'' ''Governing monthly cost divided by budget'' ''gauge''
       (six (budget_utilization fl fs sn)) @
     figure ''finops_cleanup_pending_jobs'' ''Number of pending R2 cleanup jobs'' ''gauge'' (Itoa (sn_pending sn)) @
     figure ''finops_cleanup_failed_jobs'' ''Number of failed R2 cleanup jobs'' ''gauge'' (Itoa (sn_failed sn)) @
     figure ''finops_cleanup_pending_bytes'' ''Estimated pending cleanup bytes'' ''gauge'' (Itoa (sn_pending_bytes sn))"

definition GetMetrics :: "('f \<Rightarrow> string) \<Rightarrow> 'f floats \<Rightarrow> 'f float_defaults \<Rightarrow> (string \<Rightarrow> 'f option) \<Rightarrow> environ \<Rightarrow> runtime_env \<Rightarrow>
    'o app_env \<Rightarrow> ('b, 'o service) handler" where
  "GetMetrics six fl fd parse_float os rt env r = (\<lambda>(w, s).
     let fs = LoadSettingsFromEnv parse_float fd os;
         sn = GetFinOpsSnapshot fl fd (dbe env) (fs_cost_per_gb fs) (app_db (sv_app s)) (sv_costs s);
         lines = service_figures rt (sv_requests s) (GetFinOpsMetrics s) @
           (case sn of Inl _ \<Rightarrow> [] | Inr x \<Rightarrow> cost_figures six fl fs x) @
           figure ''uptime_seconds'' ''Service uptime in seconds'' ''gauge'' (Itoa (re_uptime rt))
     in respond (fold write_body lines (header_set ''Content-Type'' ''text/plain; charset=utf-8'' w)) s)"

subsection \<open>Bucket rules\<close>

record lifecycle_rule =
  lr_id :: string
  lr_prefix :: string
  lr_expire_days :: "int option"
  lr_abort_days :: int

definition lifecycle_rules :: "lifecycle_rule list" where
  "lifecycle_rules =
     [\<lparr>lr_id = ''purptape-temp-expire'', lr_prefix = ''temp/'', lr_expire_days = Some 7, lr_abort_days = 2\<rparr>,
      \<lparr>lr_id = ''purptape-covers-multipart-abort'', lr_prefix = ''covers/'', lr_expire_days = None, lr_abort_days = 2\<rparr>,
      \<lparr>lr_id = ''purptape-tracks-multipart-abort'', lr_prefix = ''tracks/'', lr_expire_days = None, lr_abort_days = 2\<rparr>,
      \<lparr>lr_id = ''purptape-processed-retention'', lr_prefix = ''processed/'', lr_expire_days = Some 365, lr_abort_days = 2\<rparr>]"

definition EnsureLifecyclePolicies :: "(lifecycle_rule list \<Rightarrow> bool) \<Rightarrow> 'o service \<Rightarrow> bool \<times> 'o service" where
  "EnsureLifecyclePolicies put s =
     (if put lifecycle_rules then (True, s\<lparr>sv_lifecycle := 1\<rparr>) else (False, s))"

text \<open>No rule expires what users have uploaded.\<close>

lemma uploads_never_expire:
  "list_all (\<lambda>x. lr_expire_days x \<noteq> None \<longrightarrow> lr_prefix x \<notin> {''tracks/'', ''covers/''}) lifecycle_rules"
  by (simp add: lifecycle_rules_def)

subsection \<open>Start-up\<close>

datatype start = Exit string | Listen string "string list"

definition corsOrigins :: "'f config \<Rightarrow> string list" where
  "corsOrigins cfg = FrontendURL cfg #
     (if Env cfg = ''development'' then [''http://localhost:3000'', ''http://localhost:5173''] else [])"

text \<open>Migrations that fail are only logged; an error of the bucket rules stops the server when they are strict.\<close>

definition main_start :: "config_error + 'f config \<Rightarrow> ('f config \<Rightarrow> bool) \<Rightarrow> ('f config \<Rightarrow> bool) \<Rightarrow> (lifecycle_rule list \<Rightarrow> bool) \<Rightarrow>
    'o service \<Rightarrow> start \<times> 'o service" where
  "main_start loaded open_db new_r2 put s =
     (case loaded of
        Inl _ \<Rightarrow> (Exit ''failed to load config'', s)
      | Inr cfg \<Rightarrow>
          if \<not> open_db cfg then (Exit ''failed to initialize database'', s)
          else if \<not> new_r2 cfg then (Exit ''failed to initialize R2 client'', s)
          else let (applied, s) = (if FinOpsEnforceR2Lifecycle cfg then EnsureLifecyclePolicies put s else (True, s))
            in if \<not> applied \<and> FinOpsR2LifecycleStrict cfg then (Exit ''failed to enforce R2 lifecycle policies in strict mode'', s)
               else (Listen (Host cfg @ '':'' @ Itoa (Port cfg)) (corsOrigins cfg), s))"

lemma strict_start_applies_rules:
  "main_start (Inr cfg) open_db new_r2 put s = (Listen addr origins, s') \<Longrightarrow> FinOpsEnforceR2Lifecycle cfg \<Longrightarrow>
   FinOpsR2LifecycleStrict cfg \<Longrightarrow> sv_lifecycle s' = 1"
  by (auto simp: main_start_def EnsureLifecyclePolicies_def split: if_splits)


subsection \<open>Service levels\<close>

text \<open>A key that a map does not have reads as zero. \<open>milli\<close> is the number \<open>0.001\<close>.\<close>

record sla_monitor =
  requestCounts :: "string \<rightharpoonup> int"
  durationTotal :: "string \<rightharpoonup> duration"
  errorCounts :: "string \<rightharpoonup> int"

definition NewSLAMonitor :: sla_monitor where
  "NewSLAMonitor = \<lparr>requestCounts = Map.empty, durationTotal = Map.empty, errorCounts = Map.empty\<rparr>"

definition at_key :: "(string \<rightharpoonup> int) \<Rightarrow> string \<Rightarrow> int" where
  "at_key m k = (case m k of None \<Rightarrow> 0 | Some n \<Rightarrow> n)"

datatype sla_violation = HighLatency | CriticalLatency | HighErrorRate

definition checkSLA :: "'f floats \<Rightarrow> 'f \<Rightarrow> string \<Rightarrow> duration \<Rightarrow> sla_monitor \<Rightarrow> sla_violation list" where
  "checkSLA fl milli ep d sm =
     (if d > second div 2 then [HighLatency] else []) @ (if d > 2 * second then [CriticalLatency] else []) @
     (if at_key (requestCounts sm) ep > 1000 \<and>
         fl_less fl milli (fl_div fl (fl_int fl (at_key (errorCounts sm) ep)) (fl_int fl (at_key (requestCounts sm) ep)))
      then [HighErrorRate] else [])"

definition count_request :: "string \<Rightarrow> duration \<Rightarrow> bool \<Rightarrow> sla_monitor \<Rightarrow> sla_monitor" where
  "count_request ep d failed sm =
     \<lparr>requestCounts = (requestCounts sm)(ep \<mapsto> int64 (at_key (requestCounts sm) ep + 1)),
      durationTotal = (durationTotal sm)(ep \<mapsto> int64 (at_key (durationTotal sm) ep + d)),
      errorCounts = (if failed then (errorCounts sm)(ep \<mapsto> int64 (at_key (errorCounts sm) ep + 1)) else errorCounts sm)\<rparr>"

definition RecordRequest :: "'f floats \<Rightarrow> 'f \<Rightarrow> string \<Rightarrow> duration \<Rightarrow> bool \<Rightarrow> sla_monitor \<Rightarrow> sla_monitor \<times> sla_violation list" where
  "RecordRequest fl milli ep d failed sm =
     (let sm = count_request ep d failed sm in (sm, checkSLA fl milli ep d sm))"

definition GetSLAReport :: "'f floats \<Rightarrow> 'f \<Rightarrow> sla_monitor \<Rightarrow> string \<rightharpoonup> json" where
  "GetSLAReport fl milli sm = (\<lambda>ep.
     (case requestCounts sm ep of
        None \<Rightarrow> None
      | Some n \<Rightarrow>
          let avg = (if n > 0 then fl_div fl (fl_int fl (Milliseconds (at_key (durationTotal sm) ep))) (fl_int fl n)
                     else fl_int fl 0);
              rate = (if n > 0 then fl_div fl (fl_int fl (at_key (errorCounts sm) ep)) (fl_int fl n) else fl_int fl 0)
          in Some (JObj [(''avg_latency_ms'', fl_json fl avg), (''error_count'', JNum (at_key (errorCounts sm) ep)),
               (''error_rate'', fl_json fl rate), (''request_count'', JNum n),
               (''sla_compliant'', JBool (fl_less fl rate milli \<and> fl_less fl avg (fl_int fl 500)))])))"

text \<open>The counts of the report are those of the requests that were recorded.\<close>

definition requests_to :: "string \<Rightarrow> (string \<times> duration \<times> bool) list \<Rightarrow> (string \<times> duration \<times> bool) list" where
  "requests_to e rs = filter (\<lambda>x. fst x = e) rs"

definition record_all :: "(string \<times> duration \<times> bool) list \<Rightarrow> sla_monitor" where
  "record_all rs = fold (\<lambda>(e, d, failed). count_request e d failed) rs NewSLAMonitor"

lemma sla_counts_exact:
  assumes "int (length rs) < 2 ^ 63"
  shows "at_key (requestCounts (record_all rs)) e = int (length (requests_to e rs)) \<and>
    at_key (errorCounts (record_all rs)) e = int (length (filter (\<lambda>x. snd (snd x)) (requests_to e rs)))"
  using assms
proof (induction rs rule: rev_induct)
  case Nil
  then show ?case by (simp add: record_all_def NewSLAMonitor_def at_key_def requests_to_def)
next
  case (snoc x rs)
  obtain f d failed where x: "x = (f, d, failed)" by (cases x)
  have len: "int (length rs) + 1 < 2 ^ 63" using snoc.prems by simp
  have bound: "int (length (filter P rs)) + 1 < 2 ^ 63" for P
    by (rule le_less_trans [OF _ len]) simp
  show ?case using snoc.IH len bound
    by (auto simp: record_all_def x count_request_def at_key_def requests_to_def int64_id filter_filter)
qed

subsection \<open>Alerts\<close>

record 'f alert_thresholds =
  LatencyP95Ms :: int
  LatencyP99Ms :: int
  ErrorRatePercent :: 'f
  AvailabilityPercent :: 'f

text \<open>The two fractions of the defaults are arguments.\<close>

definition DefaultAlertThresholds :: "'f \<Rightarrow> 'f \<Rightarrow> 'f alert_thresholds" where
  "DefaultAlertThresholds rate availability = \<lparr>LatencyP95Ms = 500, LatencyP99Ms = 2000, ErrorRatePercent = rate,
     AvailabilityPercent = availability\<rparr>"

record 'f alert =
  at_severity :: string
  at_title :: string
  at_message :: string
  at_endpoint :: string
  at_time :: go_time
  at_metric :: string
  at_value :: 'f
  at_threshold :: 'f

text \<open>The buffer of the channel; nothing receives from it.\<close>

definition SendAlert :: "'f alert \<Rightarrow> 'f alert list \<Rightarrow> 'f alert list" where
  "SendAlert a ch = (if length ch < 1000 then ch @ [a] else ch)"

definition latency_alert :: "'f floats \<Rightarrow> 'f alert_thresholds \<Rightarrow> go_time \<Rightarrow> string \<Rightarrow> int \<Rightarrow> 'f alert option" where
  "latency_alert fl th t ep latencyMs =
     (if latencyMs > LatencyP99Ms th then
        Some \<lparr>at_severity = ''critical'', at_title = ''Critical Latency SLA Violation'', at_message = ''p99 latency exceeded 2000ms'',
          at_endpoint = ep, at_time = t, at_metric = ''latency_p99'', at_value = fl_int fl latencyMs,
          at_threshold = fl_int fl (LatencyP99Ms th)\<rparr>
      else if latencyMs > LatencyP95Ms th then
        Some \<lparr>at_severity = ''warning'', at_title = ''Latency SLA Violation'', at_message = ''p95 latency exceeded 500ms'',
          at_endpoint = ep, at_time = t, at_metric = ''latency_p95'', at_value = fl_int fl latencyMs,
          at_threshold = fl_int fl (LatencyP95Ms th)\<rparr>
      else None)"

definition AlertIfLatencyViolation :: "'f floats \<Rightarrow> 'f alert_thresholds \<Rightarrow> go_time \<Rightarrow> string \<Rightarrow> int \<Rightarrow> 'f alert list \<Rightarrow> 'f alert list" where
  "AlertIfLatencyViolation fl th t ep latencyMs ch =
     (case latency_alert fl th t ep latencyMs of None \<Rightarrow> ch | Some a \<Rightarrow> SendAlert a ch)"

definition AlertIfErrorRateViolation :: "'f floats \<Rightarrow> 'f alert_thresholds \<Rightarrow> go_time \<Rightarrow> string \<Rightarrow> 'f \<Rightarrow> 'f alert list \<Rightarrow> 'f alert list" where
  "AlertIfErrorRateViolation fl th t ep rate ch =
     (if fl_less fl (ErrorRatePercent th) rate then
        SendAlert \<lparr>at_severity = ''critical'', at_title = ''High Error Rate'', at_message = ''Error rate exceeded 0.1%'',
          at_endpoint = ep, at_time = t, at_metric = ''error_rate'', at_value = rate, at_threshold = ErrorRatePercent th\<rparr> ch
      else ch)"

lemma fold_bounded: "fold (\<lambda>a ch. if length ch < n then ch @ [a] else ch) xs [] = take n xs"
  by (induction xs rule: rev_induct) (auto simp: not_less min_absorb2)

lemma alerts_after_1000_lost: "fold SendAlert xs [] = take 1000 xs"
  unfolding SendAlert_def [abs_def] by (rule fold_bounded)

definition span_client_ip :: "'b request \<Rightarrow> string" where
  "span_client_ip r = (if req_hdr r ''X-Forwarded-For'' \<noteq> '''' then req_hdr r ''X-Forwarded-For''
     else if req_hdr r ''X-Real-IP'' \<noteq> '''' then req_hdr r ''X-Real-IP'' else remote_addr r)"

text \<open>The span of a request: its name and attributes. The tracer only sees them; \<open>with_span\<close> is what it adds to the
  context of the request. A panic of the handler leaves the duration out.\<close>

definition span_of :: "string \<Rightarrow> string \<Rightarrow> 'b request \<Rightarrow> string \<times> (string \<times> string) list" where
  "span_of hostName agent r = (meth r @ '' '' @ path r,
     [(''http.method'', meth r), (''http.target'', path r), (''http.host'', hostName), (''http.client_ip'', span_client_ip r),
      (''user_agent'', agent)])"

definition TracingMiddleware :: "('b request \<Rightarrow> 'b request) \<Rightarrow> ('b, 's) handler \<Rightarrow> ('b, 's) handler" where
  "TracingMiddleware with_span h r = h (with_span r)"

subsection \<open>Lists for clients\<close>

record ops_endpoint =
  oe_method :: string
  oe_path :: string
  oe_scope :: string
  oe_notes :: string

definition catalogued :: "string \<times> string \<times> string \<times> string \<Rightarrow> ops_endpoint" where
  "catalogued = (\<lambda>(m, p, sc, n). \<lparr>oe_method = m, oe_path = p, oe_scope = sc, oe_notes = n\<rparr>)"

definition ops_endpoints :: "ops_endpoint list" where
  "ops_endpoints = map catalogued [
     (''GET'', ''/health'', ''public'', ''Liveness check''),
     (''GET'', ''/health/deep'', ''public'', ''Dependencies + metrics''),
     (''GET'', ''/readiness'', ''public'', ''Readiness probe''),
     (''GET'', ''/metrics'', ''public'', ''Prometheus-style metrics''),
     (''GET'', ''/pricing/tiers'', ''public'', ''Pricing catalog''),
     (''GET'', ''/discover/trending'', ''public'', ''Trending discovery''),
     (''GET'', ''/search?q=...'', ''public'', ''Global search''),
     (''GET'', ''/projects'', ''auth'', ''List user projects''),
     (''POST'', ''/projects'', ''auth'', ''Create project''),
     (''GET'', ''/projects/{id}'', ''auth'', ''Get one project''),
     (''GET'', ''/offline/storage'', ''auth'', ''Offline quota/usage''),
     (''GET'', ''/user/stats'', ''auth'', ''User analytics summary''),
     (''POST'', ''/checkout/session'', ''auth'', ''Create checkout session'')]"

definition OpsEndpointCatalog :: "('b, 's) handler" where
  "OpsEndpointCatalog r = (\<lambda>(w, s). respond (json_answer (JList (map (\<lambda>e. JObj [(''method'', JStr (oe_method e)),
     (''path'', JStr (oe_path e)), (''scope'', JStr (oe_scope e)), (''notes'', JStr (oe_notes e))]) ops_endpoints)) w) s)"

text \<open>Prices are numbers with a fraction: \<open>cents\<close> writes them.\<close>

definition pricing_tier :: "(int \<Rightarrow> json) \<Rightarrow> string \<Rightarrow> string \<Rightarrow> int \<Rightarrow> int \<Rightarrow> string list \<Rightarrow> string \<Rightarrow> json" where
  "pricing_tier cents i nm price gb features stripe = JObj [(''features'', JList (map JStr features)), (''id'', JStr i),
     (''name'', JStr nm), (''price_monthly'', cents price), (''storage_gb'', JNum gb), (''stripe_price_id'', JStr stripe)]"

definition GetPricingTiers :: "(int \<Rightarrow> json) \<Rightarrow> ('b, 's) handler" where
  "GetPricingTiers cents r = (\<lambda>(w, s). respond (json_answer (JObj [(''tiers'', JList
     [pricing_tier cents ''free'' ''Free'' 0 10 [''Upload 10 projects'', ''Basic analytics''] '''',
      pricing_tier cents ''pro'' ''Pro'' 499 100 [''Unlimited projects'', ''Advanced analytics'', ''Collaborate with 5 people'']
        ''price_pro_monthly'',
      pricing_tier cents ''pro_plus'' ''Pro+'' 999 500 [''Unlimited everything'', ''Premium support'', ''Advanced collaboration'']
        ''price_proplus_monthly''])]) w) s)"


subsection \<open>What is shown\<close>

lemma average_step:
  assumes "0 \<le> a" "0 \<le> ms" "0 < n" and "lo \<le> a" "lo \<le> ms" "a \<le> hi" "ms \<le> hi"
  shows "lo \<le> (a * n + ms) div (n + 1) \<and> (a * n + ms) div (n + 1) \<le> hi \<and>
    (a * n + ms) div (n + 1) * (n + 1) \<le> a * n + (ms :: int)"
proof -
  have b: "lo * (n + 1) \<le> a * n + ms" "a * n + ms \<le> hi * (n + 1)" and n: "0 < n + 1"
    using assms by (auto simp: distrib_left intro!: add_mono mult_right_mono)
  have "lo * (n + 1) div (n + 1) \<le> (a * n + ms) div (n + 1)" "(a * n + ms) div (n + 1) \<le> hi * (n + 1) div (n + 1)"
    by (rule zdiv_mono1 [OF b(1) n], rule zdiv_mono1 [OF b(2) n])
  moreover have "k * (n + 1) div (n + 1) = k" for k using assms(3) by (intro nonzero_mult_div_cancel_right) simp
  ultimately have "lo \<le> (a * n + ms) div (n + 1)" "(a * n + ms) div (n + 1) \<le> hi" by simp_all
  moreover have "(a * n + ms) div (n + 1) * (n + 1) \<le> a * n + ms"
    using assms(3) by (metis add_pos_pos mult.commute mult_div_mod_eq pos_mod_sign zero_less_one le_add_same_cancel1)
  ultimately show ?thesis by blast
qed

definition record_requests :: "(duration \<times> bool) list \<Rightarrow> request_metrics" where
  "record_requests rs = fold (\<lambda>(d, failed). RecordRequestMetric d failed) rs no_requests"


lemma int64_nonneg: "0 \<le> x \<Longrightarrow> x < 2 ^ 63 \<Longrightarrow> int64 x = x"
  by (rule int64_id) simp_all

lemma record_requests_snoc:
  "record_requests (rs @ [(d, failed)]) = RecordRequestMetric d failed (record_requests rs)"
  by (simp add: record_requests_def)

text \<open>The running average of the request metrics is sound: as long as it cannot overflow, it lies between the shortest and
  the longest request, is never above the true average, and the counts are exact. (The division of every step truncates, so
  it may be below the true average.)\<close>

theorem request_average_bounds:
  assumes "rs \<noteq> []" and "\<forall>(d, failed)\<in>set rs. lo \<le> Milliseconds d \<and> Milliseconds d \<le> hi" and "0 \<le> lo"
    and "int (length rs) * (hi + 1) < 2 ^ 63"
  shows "lo \<le> rq_average (record_requests rs) \<and> rq_average (record_requests rs) \<le> hi \<and>
    rq_average (record_requests rs) * int (length rs) \<le> (\<Sum>(d, failed)\<leftarrow>rs. Milliseconds d) \<and>
    rq_total (record_requests rs) = int (length rs) \<and> rq_errors (record_requests rs) = int (length (filter snd rs))"
  using assms(1,2,4)
proof (induction rs rule: rev_nonempty_induct)
  case (single x)
  then show ?case using assms(3)
    by (auto simp: record_requests_def RecordRequestMetric_def no_requests_def Let_def int64_id)
next
  case (snoc x rs)
  obtain d failed where x: "x = (d, failed)" by (cases x)
  let ?n = "int (length rs)" and ?a = "rq_average (record_requests rs)" and ?ms = "Milliseconds d"
  have ms: "lo \<le> ?ms" "?ms \<le> hi" and hi: "0 \<le> hi" using snoc.prems(1) assms(3) by (auto simp: x)
  have len: "?n * hi + ?n + hi + 1 < 2 ^ 63" using snoc.prems(2) by (simp add: algebra_simps)
  have n: "0 < ?n" using snoc.hyps by simp
  have nn: "0 \<le> ?n * hi" using hi by simp
  have "?n * (hi + 1) < 2 ^ 63" using len hi by (simp add: algebra_simps)
  then have IH: "lo \<le> ?a" "?a \<le> hi" "?a * ?n \<le> (\<Sum>(d, failed)\<leftarrow>rs. Milliseconds d)"
    "rq_total (record_requests rs) = ?n" "rq_errors (record_requests rs) = int (length (filter snd rs))"
    using snoc.IH snoc.prems(1) by auto
  have an: "0 \<le> ?a * ?n" "?a * ?n \<le> ?n * hi" using IH(1,2) assms(3) n by (auto simp: mult.commute intro: mult_left_mono)
  have small: "int64 (?n + 1) = ?n + 1" "int64 ?n = ?n" "int64 (?a * ?n) = ?a * ?n" "int64 (?a * ?n + ?ms) = ?a * ?n + ?ms"
    by (rule int64_nonneg; use an ms hi len nn n assms(3) in linarith)+
  have errs: "int64 (int (length (filter snd rs)) + 1) = int (length (filter snd rs)) + 1"
    using length_filter_le [of snd rs] len hi nn by (intro int64_nonneg) linarith+
  have avg: "rq_average (record_requests (rs @ [x])) = (?a * ?n + ?ms) div (?n + 1)"
    using n an ms assms(3) by (simp add: x record_requests_snoc RecordRequestMetric_def Let_def IH(4) small)
  have "lo \<le> (?a * ?n + ?ms) div (?n + 1) \<and> (?a * ?n + ?ms) div (?n + 1) \<le> hi \<and>
      (?a * ?n + ?ms) div (?n + 1) * (?n + 1) \<le> ?a * ?n + ?ms"
    using IH(1,2) ms n assms(3) by (intro average_step) auto
  moreover have "rq_total (record_requests (rs @ [x])) = ?n + 1"
    "rq_errors (record_requests (rs @ [x])) = int (length (filter snd (rs @ [x])))"
    by (simp_all add: x record_requests_snoc RecordRequestMetric_def Let_def IH(4,5) small errs)
  moreover have eqs: "(\<Sum>(d, failed)\<leftarrow>rs @ [x]. Milliseconds d) = (\<Sum>(d, failed)\<leftarrow>rs. Milliseconds d) + ?ms" "int (length (rs @ [x])) = ?n + 1"
    by (simp_all add: x)
  ultimately show ?case using IH(3) unfolding avg eqs by (intro conjI) linarith+
qed


theorem request_average_bounds_witness:
  "rq_average (record_requests [(3000000, False), (8000000, True)]) \<le> 8 \<and> 3 \<le> rq_average (record_requests [(3000000, False), (8000000, True)])"
  using request_average_bounds [of "[(3000000, False), (8000000, True)]" 3 8] by (simp add: Milliseconds_def)

text \<open>C39: the deep health check answers with its worst component: the service is unhealthy, with status 503, exactly when the
  database does not answer, degraded when only the store, the snapshot or the budget is not well, and healthy otherwise; the
  readiness probe fails exactly then too, and neither changes anything.\<close>

theorem health_is_worst_component:
  assumes "wrote w = None" and "gz w = None"
  shows "\<exists>w' fields.
     GetDeepHealth fl fd parse_float os rt p env r (w, s) = (Returned, w', s) \<and>
     wrote w' = Some (if Ping (dbe env) then 200 else 503) \<and>
     out w' = out w @ [Json (JObj ((''status'', JStr (if \<not> Ping (dbe env) then ''unhealthy''
       else if \<not> checkR2 env (sv_app s) \<or>
         fst (finops_status fl fd (LoadSettingsFromEnv parse_float fd os) (dbe env) (app_db (sv_app s)) (sv_costs s)) = ''degraded''
       then ''degraded'' else ''healthy'')) # fields))] \<and>
     wrote (fst (snd (GetReadiness env q (w, s)))) = wrote w' \<and> snd (snd (GetReadiness env q (w, s))) = s"
proof -
  obtain st good where st: "finops_status fl fd (LoadSettingsFromEnv parse_float fd os) (dbe env) (app_db (sv_app s)) (sv_costs s) = (st, good)"
    by fastforce
  have body: "out (write_json c j w) = out w @ [Json j]" if "c \<noteq> 204" "c \<noteq> 304" for c j
    using that assms by (simp add: write_json_def)
  have ready: "wrote (fst (snd (GetReadiness env q (w, s)))) = Some (if Ping (dbe env) then 200 else 503)"
    "snd (snd (GetReadiness env q (w, s))) = s"
    using assms(1) by (simp_all add: GetReadiness_def respond_def)
  show ?thesis
    unfolding ready GetDeepHealth_def Let_def st case_prod_conv fst_conv respond_def
    by (cases "Ping (dbe env)"; cases "checkR2 env (sv_app s)"; cases "st = ''degraded''")
       (simp_all add: degrade_def body assms)
qed

definition sample_runtime :: runtime_env where
  "sample_runtime = \<lparr>re_alloc = 0, re_total_alloc = 0, re_sys = 0, re_num_gc = 0, re_goroutines = 1, re_uptime = 5,
     re_latency = (\<lambda>_. 1), re_error = (\<lambda>n. n @ '' failed'')\<rparr>"

definition int_floats :: "int floats" where
  "int_floats = \<lparr>fl_int = id, fl_usd = (\<lambda>x. x div 10000), fl_mul = (*), fl_div = (div), fl_le = (\<le>), fl_less = (<),
     fl_numeric = (\<lambda>x. Some (x * 10000)), fl_json = JNum\<rparr>"

definition sample_service :: "unit service" where
  "sample_service = \<lparr>sv_app = sample_account_app, sv_costs = sample_costs ''v'', sv_requests = no_requests, sv_lifecycle = 0\<rparr>"

theorem health_is_worst_component_witness:
  "\<exists>w'. GetDeepHealth int_floats \<lparr>storage_cost_default = 1, budget_default = 25, ratio_default = 1\<rparr> Atoi (\<lambda>_. '''') sample_runtime
     \<lparr>OpenConnections = 1, InUse = 0, Idle = 1, MaxOpenConnections = 10\<rparr> sample_account_env (plain_request :: unit request)
     (new_writer, sample_service) = (Returned, w', sample_service) \<and> wrote w' = Some 200"
proof -
  have "Ping (dbe sample_account_env)" by (simp add: Ping_def sample_account_env_def)
  with health_is_worst_component [of new_writer int_floats "\<lparr>storage_cost_default = 1, budget_default = 25, ratio_default = 1\<rparr>" Atoi
      "\<lambda>_. ''''" sample_runtime "\<lparr>OpenConnections = 1, InUse = 0, Idle = 1, MaxOpenConnections = 10\<rparr>" sample_account_env
      "plain_request :: unit request" sample_service "plain_request :: unit request"]
  show ?thesis by auto
qed

end
