(* ===== verification/Maintenance.thy ===== *)
theory Maintenance
  imports Uploads Costs
begin

text \<open>
  Work that is meant to run from time to time: the retention of \<open>retention/retention.go\<close>, the storage policies of
  \<open>storage/lifecycle.go\<close>, the tests of backups in \<open>backup/tester.go\<close>, the chaos experiments of \<open>chaos/engine.go\<close>,
  the refresh of \<open>jobs/access_list_refresh.go\<close> and the schedule of the clean-up in \<open>jobs/r2_cleanup.go\<close>.

  The statements that a policy would execute are assigned to nothing in the source, so a policy is the thresholds it
  computes; the experiments and integrity checks are constants there and here. The files of a backup are an argument.

  A scheduler is the list of times at which its ticker fires before it is stopped, so that the work it does is a list.

  Shown: three of the four schedulers stop their ticker when they return, before it can fire; the check of a backup succeeds
  exactly for a file that is there, can be read and is not empty; recovery tests and chaos experiments pass whatever the
  system does.
\<close>

subsection \<open>Tickers\<close>

text \<open>A ticker made at \<open>start\<close> fires every \<open>interval\<close>, up to the end of the observation, as long as it is not stopped.\<close>

definition fires :: "go_time \<Rightarrow> duration \<Rightarrow> go_time \<Rightarrow> go_time option \<Rightarrow> go_time list" where
  "fires start interval until stopped =
     filter (\<lambda>t. case stopped of None \<Rightarrow> True | Some x \<Rightarrow> t < x)
       (map (\<lambda>k. start + interval * (1 + int k)) [0..<nat ((until - start) div interval)])"

text \<open>The three schedulers start a goroutine that waits for the ticker and return; the deferred \<open>ticker.Stop()\<close> runs then, at
  \<open>returned\<close>. \<open>None\<close> would be a scheduler that does not stop it.\<close>

definition run_scheduler :: "(go_time \<Rightarrow> 'a list) \<Rightarrow> go_time \<Rightarrow> duration \<Rightarrow> go_time \<Rightarrow> go_time option \<Rightarrow> 'a list" where
  "run_scheduler work start interval until stopped = concat (map work (fires start interval until stopped))"

lemma fires_after_interval:
  assumes "0 < interval" "t \<in> set (fires start interval until stopped)"
  shows "start + interval \<le> t \<and> t \<le> until"
proof -
  have "\<exists>k. t = start + interval * (1 + int k) \<and> k < nat ((until - start) div interval)"
    using assms(2) unfolding fires_def by (simp only: set_filter set_map mem_Collect_eq image_iff set_upt) auto
  then obtain k where k: "t = start + interval * (1 + int k)" "k < nat ((until - start) div interval)" by blast
  then have "1 + int k \<le> (until - start) div interval" by linarith
  then have "interval * (1 + int k) \<le> interval * ((until - start) div interval)"
    using assms(1) by (intro mult_left_mono) auto
  also have "\<dots> \<le> until - start" using assms(1) by (metis mult_div_mod_eq pos_mod_sign add_increasing2 le_add_same_cancel1)
  finally have "interval * (1 + int k) \<le> until - start" .
  moreover have "interval \<le> interval * (1 + int k)" using assms(1) by (simp add: distrib_left)
  ultimately show ?thesis using k(1) by linarith
qed

lemma stopped_before_firing:
  assumes "0 < interval" "returned \<le> start + interval"
  shows "fires start interval until (Some returned) = []"
proof -
  have "t \<notin> set (fires start interval until (Some returned))" for t
    using fires_after_interval [OF assms(1), of t start until "Some returned"] assms(2) by (auto simp: fires_def)
  then show ?thesis by (metis list.set_intros(1) neq_Nil_conv)
qed

lemma tick_in_fires:
  assumes "0 < interval" "start + interval * (1 + int k) \<le> until" "start + interval * (1 + int k) < stopped"
  shows "start + interval * (1 + int k) \<in> set (fires start interval until (Some stopped))"
proof -
  have "interval * (1 + int k) \<le> until - start" using assms(2) by linarith
  then have "interval * (1 + int k) div interval \<le> (until - start) div interval"
    by (rule zdiv_mono1 [OF _ assms(1)])
  then have "1 + int k \<le> (until - start) div interval" using assms(1) by simp
  then have "k < nat ((until - start) div interval)" by linarith
  then show ?thesis using assms(3) by (auto simp: fires_def)
qed

text \<open>The contract of a scheduler with a fixed interval: what it has done by a time is what \<open>work\<close> does at the firings of its
  ticker before the ticker is stopped.\<close>

locale scheduler =
  fixes run :: "go_time \<Rightarrow> go_time \<Rightarrow> go_time \<Rightarrow> 'a list" and work :: "go_time \<Rightarrow> 'a list" and interval :: duration
  assumes positive: "0 < interval"
    and runs: "run start stop until = run_scheduler work start interval until (Some stop)"
begin

lemma silent: "stop \<le> start + interval \<Longrightarrow> run start stop until = []"
  using stopped_before_firing [OF positive, of stop start until] by (simp add: runs run_scheduler_def)

lemma active:
  assumes "start + interval * (1 + int k) \<le> until" "start + interval * (1 + int k) < stop"
  shows "set (work (start + interval * (1 + int k))) \<subseteq> set (run start stop until)"
  using tick_in_fires [OF positive assms] by (auto simp: runs run_scheduler_def)

end


subsection \<open>Retention\<close>

text \<open>Thresholds are whole days before now, of 24 hours as in UTC. What a policy reports is all it does.\<close>

datatype retention_report =
    ArchivedPlays go_time
  | DeletedPlays go_time
  | SampledPlays int
  | DeletedIncomplete go_time
  | DeletedCompleted go_time
  | ArchivedAudit go_time
  | Projection int

definition days_before :: "go_time \<Rightarrow> int \<Rightarrow> go_time" where
  "days_before t n = t - n * (24 * hour)"

record play_policy =
  KeepRecentDays :: int
  ArchiveAfterDays :: int
  DeleteAfterDays :: int
  SamplingPercent :: int

definition DefaultPlayHistoryPolicy :: play_policy where
  "DefaultPlayHistoryPolicy = \<lparr>KeepRecentDays = 90, ArchiveAfterDays = 180, DeleteAfterDays = 365, SamplingPercent = 10\<rparr>"

definition ExecutePlayHistoryRetention :: "go_time \<Rightarrow> play_policy \<Rightarrow> retention_report list" where
  "ExecutePlayHistoryRetention t pol = [ArchivedPlays (days_before t (ArchiveAfterDays pol)),
     DeletedPlays (days_before t (DeleteAfterDays pol)), SampledPlays (SamplingPercent pol)]"

record download_policy =
  DeleteIncompleteAfterDays :: int
  DeleteCompletedAfterDays :: int
  DeleteFailedAfterDays :: int

definition DefaultOfflineDownloadPolicy :: download_policy where
  "DefaultOfflineDownloadPolicy = \<lparr>DeleteIncompleteAfterDays = 7, DeleteCompletedAfterDays = 180, DeleteFailedAfterDays = 30\<rparr>"

definition ExecuteOfflineDownloadRetention :: "go_time \<Rightarrow> download_policy \<Rightarrow> retention_report list" where
  "ExecuteOfflineDownloadRetention t pol = [DeletedIncomplete (days_before t (DeleteIncompleteAfterDays pol)),
     DeletedCompleted (days_before t (DeleteCompletedAfterDays pol))]"

definition DefaultAuditLogPolicy :: int where
  "DefaultAuditLogPolicy = 730"

definition ExecuteAuditLogRetention :: "go_time \<Rightarrow> int \<Rightarrow> retention_report list" where
  "ExecuteAuditLogRetention t keepDays = [ArchivedAudit (days_before t keepDays)]"

text \<open>\<open>int64(float64(n) * 0.01)\<close>; the nearest \<open>float64\<close> of 0.01 is 5764607523034235 / 2 \<open>^\<close> 59.\<close>

definition one_percent :: "int \<Rightarrow> int" where
  "one_percent n = round53 (n * 5764607523034235) div 2 ^ 59"

record table_size =
  TableName :: string
  RowCount :: int
  DailyGrowth :: int

definition MonitorTableSizes :: "table_size list" where
  "MonitorTableSizes = map (\<lambda>(n, rows). \<lparr>TableName = n, RowCount = rows, DailyGrowth = one_percent rows\<rparr>)
     [(''play_history'', 100000000), (''offline_downloads'', 5000000), (''comments'', 2000000), (''audit_logs'', 50000000)]"

definition EstimateSpaceNeed :: "(string \<times> int) list" where
  "EstimateSpaceNeed =
     (let rows = sum_list (map RowCount MonitorTableSizes); daily = sum_list (map DailyGrowth MonitorTableSizes);
          yearly = daily * 365
      in [(''current_total_rows'', rows), (''daily_growth_rows'', daily), (''yearly_projection'', rows + yearly),
          (''estimated_gb_1_year'', (rows + yearly) div 1000000)])"

definition daily_retention :: "go_time \<Rightarrow> retention_report list" where
  "daily_retention t = ExecutePlayHistoryRetention t DefaultPlayHistoryPolicy @
     ExecuteOfflineDownloadRetention t DefaultOfflineDownloadPolicy @ ExecuteAuditLogRetention t DefaultAuditLogPolicy @
     [Projection (case map_of EstimateSpaceNeed ''yearly_projection'' of None \<Rightarrow> 0 | Some n \<Rightarrow> n)]"

definition StartRetentionScheduler :: "go_time \<Rightarrow> go_time \<Rightarrow> go_time \<Rightarrow> retention_report list" where
  "StartRetentionScheduler start returned until = run_scheduler daily_retention start (24 * hour) until (Some returned)"

interpretation retention: scheduler StartRetentionScheduler daily_retention "24 * hour"
  by unfold_locales (simp_all add: StartRetentionScheduler_def)

lemma space_estimate: "EstimateSpaceNeed = [(''current_total_rows'', 157000000), (''daily_growth_rows'', 1570000),
    (''yearly_projection'', 730050000), (''estimated_gb_1_year'', 730)]"
  by code_simp

subsection \<open>Storage policies\<close>

record lifecycle_policy =
  lp_prefix :: string
  lp_incomplete :: int
  lp_archive :: int
  lp_delete :: int
  lp_expire :: bool
  lp_current_only :: bool

definition AudioFilePolicy :: lifecycle_policy where
  "AudioFilePolicy = \<lparr>lp_prefix = ''audio/'', lp_incomplete = 7, lp_archive = 90, lp_delete = 730, lp_expire = True,
     lp_current_only = False\<rparr>"

definition CoverImagePolicy :: lifecycle_policy where
  "CoverImagePolicy = \<lparr>lp_prefix = ''covers/'', lp_incomplete = 1, lp_archive = 0, lp_delete = 730, lp_expire = True,
     lp_current_only = True\<rparr>"

definition TempFilePolicy :: lifecycle_policy where
  "TempFilePolicy = \<lparr>lp_prefix = ''temp/'', lp_incomplete = 1, lp_archive = 0, lp_delete = 7, lp_expire = True,
     lp_current_only = True\<rparr>"

text \<open>\<open>dec n\<close> is the \<open>float64\<close> nearest to n / 1000. The constants of the statistics are folded by the compiler.\<close>

record 'f storage_stats =
  TotalGB :: 'f
  AudioGB :: 'f
  CoversGB :: 'f
  TempGB :: 'f
  DailyGrowthGB :: 'f
  ProjectedYearlyGB :: 'f
  EstimatedCostMo :: 'f

definition GetStorageStats :: "(int \<Rightarrow> 'f) \<Rightarrow> 'f storage_stats" where
  "GetStorageStats dec = \<lparr>TotalGB = dec 150000, AudioGB = dec 120000, CoversGB = dec 15000, TempGB = dec 15000,
     DailyGrowthGB = dec 50, ProjectedYearlyGB = dec 168250, EstimatedCostMo = dec 2250\<rparr>"

definition OptimizeStorage :: int where
  "OptimizeStorage = 10737418240"

datatype 'f lifecycle_report = Applied lifecycle_policy | Optimized int | Storage "'f storage_stats"

definition daily_lifecycle :: "(int \<Rightarrow> 'f) \<Rightarrow> go_time \<Rightarrow> 'f lifecycle_report list" where
  "daily_lifecycle dec t = [Applied AudioFilePolicy, Applied CoverImagePolicy, Applied TempFilePolicy,
     Optimized OptimizeStorage, Storage (GetStorageStats dec)]"

definition StartLifecycleMonitor :: "(int \<Rightarrow> 'f) \<Rightarrow> go_time \<Rightarrow> go_time \<Rightarrow> go_time \<Rightarrow> 'f lifecycle_report list" where
  "StartLifecycleMonitor dec start returned until = run_scheduler (daily_lifecycle dec) start (24 * hour) until (Some returned)"

interpretation storage_monitor: scheduler "StartLifecycleMonitor dec" "daily_lifecycle dec" "24 * hour" for dec
  by unfold_locales (simp_all add: StartLifecycleMonitor_def)

definition CostProjection :: "(int \<Rightarrow> 'f) \<Rightarrow> ('f \<Rightarrow> 'f \<Rightarrow> 'f) \<Rightarrow> 'f floats \<Rightarrow> nat \<Rightarrow> (string \<times> 'f \<times> 'f \<times> 'f) list" where
  "CostProjection dec add fl years =
     (let stats = GetStorageStats dec; perGB = dec 15; growth = fl_mul fl (DailyGrowthGB stats) (fl_int fl 365)
      in map (\<lambda>y. let total = add (TotalGB stats) (fl_mul fl growth (fl_int fl (int y)))
                  in (''year_'' @ Itoa (int y), total, fl_mul fl total perGB, fl_mul fl (fl_mul fl total perGB) (fl_int fl 12)))
           [1..<Suc years])"


subsection \<open>Backup tests\<close>

text \<open>\<open>os.Stat\<close> gives the size of a file or an error, opening and reading it its bytes or an error; the text of an error is an
  argument. Times are left out.\<close>

record backup_files =
  bf_stat :: "string \<Rightarrow> string + int"
  bf_read :: "string \<Rightarrow> string + string"

record backup_result =
  BackupFile :: string
  ValidSchema :: bool
  ValidData :: bool
  Restorable :: bool
  DataIntegrity :: bool
  ChecksumMatch :: bool
  ErrorMessage :: string
  SizeBytes :: int

definition calculateChecksum :: "(string \<Rightarrow> string) \<Rightarrow> backup_files \<Rightarrow> string \<Rightarrow> string + string" where
  "calculateChecksum digest_of fs f = (case bf_read fs f of Inl e \<Rightarrow> Inl e | Inr c \<Rightarrow> Inr (digest_of c))"

text \<open>An empty file ends the first \<open>Read\<close> with \<open>io.EOF\<close>; the header that is read is not looked at.\<close>

definition verifyBackupFormat :: "backup_files \<Rightarrow> string \<Rightarrow> string option" where
  "verifyBackupFormat fs f = (case bf_read fs f of Inl e \<Rightarrow> Some e | Inr c \<Rightarrow> if c = '''' then Some ''EOF'' else None)"

definition testRestore :: "string \<Rightarrow> string option" where
  "testRestore f = None"

text \<open>The result, and the error if any.\<close>

definition VerifyBackupIntegrity :: "(string \<Rightarrow> string) \<Rightarrow> backup_files \<Rightarrow> string \<Rightarrow> backup_result \<times> string option" where
  "VerifyBackupIntegrity digest_of fs f =
     (let b = \<lparr>BackupFile = f, ValidSchema = False, ValidData = False, Restorable = False, DataIntegrity = False,
            ChecksumMatch = False, ErrorMessage = '''', SizeBytes = 0\<rparr>
      in case bf_stat fs f of
           Inl e \<Rightarrow> (b\<lparr>ErrorMessage := ''backup file not found: '' @ e\<rparr>, Some e)
         | Inr n \<Rightarrow>
             let b = b\<lparr>SizeBytes := n\<rparr>
             in case calculateChecksum digest_of fs f of
                  Inl e \<Rightarrow> (b\<lparr>ErrorMessage := ''checksum failed: '' @ e\<rparr>, Some e)
                | Inr _ \<Rightarrow>
                    (case verifyBackupFormat fs f of
                       Some e \<Rightarrow> (b\<lparr>ErrorMessage := ''invalid backup format: '' @ e\<rparr>, Some e)
                     | None \<Rightarrow>
                         let b = b\<lparr>ValidSchema := True\<rparr>
                         in case testRestore f of
                              Some e \<Rightarrow> (b\<lparr>ErrorMessage := ''restore test failed: '' @ e\<rparr>, Some e)
                            | None \<Rightarrow> (b\<lparr>Restorable := True, ValidData := True, DataIntegrity := True, ChecksumMatch := True\<rparr>, None)))"

record integrity_check =
  CheckName :: string
  Passed :: bool
  CheckDetails :: "(string \<times> int) list"

definition checkForeignKeys :: integrity_check where
  "checkForeignKeys = \<lparr>CheckName = ''foreign_keys'', Passed = True, CheckDetails = [(''tables_checked'', 26), (''fk_orphans'', 0)]\<rparr>"

definition checkIndexes :: integrity_check where
  "checkIndexes = \<lparr>CheckName = ''indexes'', Passed = True, CheckDetails = [(''indexes_total'', 60), (''indexes_valid'', 60)]\<rparr>"

definition checkConstraints :: integrity_check where
  "checkConstraints = \<lparr>CheckName = ''constraints'', Passed = True,
     CheckDetails = [(''unique_violations'', 0), (''check_violations'', 0)]\<rparr>"

definition checkRowCounts :: integrity_check where
  "checkRowCounts = \<lparr>CheckName = ''row_counts'', Passed = True,
     CheckDetails = [(''users'', 5000), (''projects'', 25000), (''tracks'', 150000), (''play_history'', 100000000)]\<rparr>"

definition checkDataTypes :: integrity_check where
  "checkDataTypes = \<lparr>CheckName = ''data_types'', Passed = True,
     CheckDetails = [(''type_mismatches'', 0), (''null_violations'', 0)]\<rparr>"

definition RunIntegrityChecks :: "integrity_check list" where
  "RunIntegrityChecks = [checkForeignKeys, checkIndexes, checkConstraints, checkRowCounts, checkDataTypes]"

definition restoreFromBackup :: "string \<Rightarrow> string \<Rightarrow> string option" where
  "restoreFromBackup backupFile dbName = None"

definition runSmokeTests :: "string \<Rightarrow> string option" where
  "runSmokeTests dbName = None"

definition RecoveryTest :: "int \<Rightarrow> string \<Rightarrow> string option" where
  "RecoveryTest unix backupFile =
     (let dbName = ''test_recovery_'' @ Itoa unix
      in case restoreFromBackup backupFile dbName of
           Some e \<Rightarrow> Some (''restore failed: '' @ e)
         | None \<Rightarrow>
             (case find (\<lambda>c. \<not> Passed c) RunIntegrityChecks of
                Some c \<Rightarrow> Some (''integrity check failed: '' @ CheckName c)
              | None \<Rightarrow> (case runSmokeTests dbName of Some e \<Rightarrow> Some (''smoke tests failed: '' @ e) | None \<Rightarrow> None)))"

definition getLatestBackup :: string where
  "getLatestBackup = ''backup_20260227_020000.sql''"

datatype backup_report = NoBackup | BackupFailed string | ChecksFailed | BackupPassed string

definition backup_test :: "(string \<Rightarrow> string) \<Rightarrow> backup_files \<Rightarrow> backup_report" where
  "backup_test digest_of fs =
     (if getLatestBackup = '''' then NoBackup
      else case VerifyBackupIntegrity digest_of fs getLatestBackup of
             (_, Some e) \<Rightarrow> BackupFailed e
           | (b, None) \<Rightarrow> if list_all Passed RunIntegrityChecks then BackupPassed (BackupFile b) else ChecksFailed)"

record backup_config =
  FullBackupInterval :: duration
  IncrementalInterval :: duration
  RetentionDays :: int
  BackupWindow :: string
  TestInterval :: duration
  AlertOnFailure :: bool

definition DefaultBackupConfig :: backup_config where
  "DefaultBackupConfig = \<lparr>FullBackupInterval = 24 * hour, IncrementalInterval = hour, RetentionDays = 30,
     BackupWindow = ''02:00-04:00'', TestInterval = 24 * hour, AlertOnFailure = True\<rparr>"

text \<open>\<open>time.NewTicker\<close> panics for an interval that is not positive: \<open>None\<close>. The files are those at the time of the test.\<close>

definition StartBackupScheduler :: "(string \<Rightarrow> string) \<Rightarrow> (go_time \<Rightarrow> backup_files) \<Rightarrow> backup_config \<Rightarrow> go_time \<Rightarrow> go_time \<Rightarrow>
    go_time \<Rightarrow> backup_report list option" where
  "StartBackupScheduler digest_of fs config start returned until =
     (if TestInterval config \<le> 0 then None
      else Some (run_scheduler (\<lambda>t. [backup_test digest_of (fs t)]) start (TestInterval config) until (Some returned)))"

interpretation backup_tests: scheduler "\<lambda>start returned until. the (StartBackupScheduler digest_of fs DefaultBackupConfig start returned until)"
    "\<lambda>t. [backup_test digest_of (fs t)]" "24 * hour" for digest_of fs
  by unfold_locales (simp_all add: StartBackupScheduler_def DefaultBackupConfig_def)

definition ProjectedRecoveryTime :: "(string \<times> int) list" where
  "ProjectedRecoveryTime = [(''full_recovery_hours'', 2), (''partial_recovery_minutes'', 30), (''backup_size_gb'', 150),
     (''restore_throughput_mbps'', 100), (''rto_target_hours'', 4), (''rpo_hours'', 1)]"

text \<open>A recovery test passes whatever the file holds.\<close>

lemma recovery_always_passes: "RecoveryTest unix f = None"
  by (simp add: RecoveryTest_def restoreFromBackup_def runSmokeTests_def RunIntegrityChecks_def checkForeignKeys_def
      checkIndexes_def checkConstraints_def checkRowCounts_def checkDataTypes_def)

subsection \<open>The refresh of the access view\<close>

definition RefreshAccessibilityMaterializedView :: "dbenv \<Rightarrow> bool" where
  "RefreshAccessibilityMaterializedView env \<longleftrightarrow> \<not> fails env ''RefreshAccessibilityMaterializedView'' []"

definition RefreshMaterializedView :: "dbenv \<Rightarrow> bool" where
  "RefreshMaterializedView env = RefreshAccessibilityMaterializedView env"

text \<open>This one waits in its own loop, so the ticker runs until the context is cancelled. The answer is the times of the refreshes
  and whether each succeeded.\<close>

definition ScheduleRegularRefresh :: "(go_time \<Rightarrow> dbenv) \<Rightarrow> duration \<Rightarrow> go_time \<Rightarrow> go_time \<Rightarrow> go_time \<Rightarrow>
    (go_time \<times> bool) list option" where
  "ScheduleRegularRefresh env interval start cancelled until =
     (let interval = (if interval = 0 then hour else interval)
      in if interval \<le> 0 then None
         else Some (run_scheduler (\<lambda>t. [(t, RefreshMaterializedView (env t))]) start interval until (Some cancelled)))"

interpretation hourly_refresh: scheduler "\<lambda>start cancelled until. the (ScheduleRegularRefresh env 0 start cancelled until)"
    "\<lambda>t. [(t, RefreshMaterializedView (env t))]" hour for env
  by unfold_locales (simp_all add: ScheduleRegularRefresh_def)

subsection \<open>The clean-up of the bucket\<close>

text \<open>The goroutine of \<open>jobs/r2_cleanup.go\<close> cleans up at once and then every four hours, until it is stopped or its context
  ends. Each round finds the database and the bucket as the round before left them.\<close>

definition cleanup_times :: "go_time \<Rightarrow> go_time \<Rightarrow> go_time option \<Rightarrow> go_time list" where
  "cleanup_times start until stopped = start # fires start (4 * hour) until stopped"

definition StartCleanup :: "'o s3 \<Rightarrow> (go_time \<Rightarrow> host) \<Rightarrow> (go_time \<Rightarrow> dbenv) \<Rightarrow> go_time \<Rightarrow> go_time \<Rightarrow> go_time option \<Rightarrow>
    database \<times> 'o r2_client \<Rightarrow> database \<times> 'o r2_client" where
  "StartCleanup s3c h env start until stopped st =
     fold (\<lambda>t (d, rc). case processCleanup s3c (h t) (env t) d rc of c \<Rightarrow> (cl_db c, cl_r2 c))
       (cleanup_times start until stopped) st"

lemma cleanup_at_start: "cleanup_times start until stopped \<noteq> [] \<and> hd (cleanup_times start until stopped) = start"
  by (simp add: cleanup_times_def)

subsection \<open>Chaos experiments\<close>

text \<open>The details of an experiment are a Go map, here the pairs in the order they are put in. Start and end times are left
  out; \<open>elapsed\<close> is the measured duration of the one experiment that waits. Its counter of requests is written by the
  goroutines and never read, and none of them counts a failure.\<close>

datatype 'f detail = DInt int | DFloat 'f | DText string | DFlag bool

record 'f chaos_result =
  ch_name :: string
  ch_scenario :: string
  ch_duration :: duration
  ch_total :: int
  ch_failed :: int
  ch_tripped :: bool
  ch_recovered :: bool
  ch_latency :: duration
  ch_rate :: 'f
  ch_verdict :: string
  ch_details :: "(string \<times> 'f detail) list"

definition new_result :: "'f floats \<Rightarrow> string \<Rightarrow> string \<Rightarrow> 'f chaos_result" where
  "new_result fl nm scenario = \<lparr>ch_name = nm, ch_scenario = scenario, ch_duration = 0, ch_total = 0, ch_failed = 0,
     ch_tripped = False, ch_recovered = False, ch_latency = 0, ch_rate = fl_int fl 0, ch_verdict = '''', ch_details = []\<rparr>"

definition TestDatabaseConnectionPoolExhaustion :: "'f floats \<Rightarrow> duration \<Rightarrow> 'f chaos_result" where
  "TestDatabaseConnectionPoolExhaustion fl elapsed =
     (let requestsFailed = 0;
          r = (new_result fl ''database_connection_pool_exhaustion''
                 ''Simulate 100+ concurrent database queries to exhaust connection pool'')
            \<lparr>ch_duration := elapsed, ch_total := 30, ch_failed := requestsFailed,
             ch_details := [(''concurrent_connections'', DInt 30), (''connection_pool_size'', DInt 25), (''queue_depth_max'', DInt 100)]\<rparr>
      in if requestsFailed > (0 :: int) then r\<lparr>ch_tripped := True, ch_verdict := ''PASS''\<rparr> else r\<lparr>ch_verdict := ''PASS''\<rparr>)"

definition TestRedisConnectionLoss :: "'f floats \<Rightarrow> 'f chaos_result" where
  "TestRedisConnectionLoss fl =
     (new_result fl ''redis_connection_loss'' ''Simulate Redis failure and verify fallback to database'')
       \<lparr>ch_total := 1000, ch_failed := 0, ch_latency := 50 * 1000000,
        ch_details := [(''cache_unavailable'', DFlag True), (''fallback_to_db'', DFlag True), (''requests_retried'', DInt 1000),
          (''success_rate'', DFloat (fl_int fl 100))],
        ch_tripped := False, ch_verdict := ''PASS''\<rparr>"

text \<open>The scenario has two arrows, U+2192, of three bytes each.\<close>

definition arrow :: string where
  "arrow = [CHR 0xE2, CHR 0x86, CHR 0x92]"

definition TestCascadingFailures :: "'f floats \<Rightarrow> 'f chaos_result" where
  "TestCascadingFailures fl =
     (new_result fl ''cascading_failures''
        (''Simulate service chain failure (Analytics '' @ arrow @ '' Queue '' @ arrow @ '' Worker)''))
       \<lparr>ch_total := 10000, ch_failed := 0,
        ch_details := [(''service_1_failed'', DText ''analytics''), (''service_1_circuit_status'', DText ''OPEN''),
          (''service_2_impact'', DText ''NONE (isolated)''), (''service_3_impact'', DText ''NONE (isolated)''),
          (''bulkhead_isolation'', DText ''EFFECTIVE'')],
        ch_tripped := True, ch_verdict := ''PASS''\<rparr>"

definition TestHighLatencySpike :: "(int \<Rightarrow> 'f) \<Rightarrow> 'f floats \<Rightarrow> 'f chaos_result" where
  "TestHighLatencySpike dec fl =
     (let rate = fl_div fl (fl_int fl 50) (fl_int fl 1000)
      in (new_result fl ''high_latency_spike'' ''Simulate sudden 10x latency increase'')
           \<lparr>ch_latency := second, ch_total := 1000, ch_failed := 50, ch_tripped := 50 > one_percent 1000, ch_rate := rate,
            ch_details := [(''normal_latency_ms'', DInt 100), (''spike_latency_ms'', DInt 1000),
              (''latency_increase_ratio'', DInt 10), (''timeout_threshold_ms'', DInt 2000)],
            ch_verdict := (if fl_less fl (dec 100) rate then ''PARTIAL'' else ''PASS'')\<rparr>)"

definition memory_samples :: "int list" where
  "memory_samples = [256, 270, 285, 300, 320, 345, 375, 410, 450]"

text \<open>The difference of the last and the first sample is a whole number, exact as a \<open>float64\<close>.\<close>

definition TestMemoryLeakDetection :: "'f floats \<Rightarrow> 'f chaos_result" where
  "TestMemoryLeakDetection fl =
     (let grown = fl_int fl (last memory_samples - hd memory_samples);
          percent = fl_mul fl (fl_div fl grown (fl_int fl (hd memory_samples))) (fl_int fl 100);
          leak = fl_less fl (fl_int fl 50) percent
      in (new_result fl ''memory_leak_detection'' ''Simulate memory leak and verify alerting'')
           \<lparr>ch_details := [(''baseline_memory_mb'', DFloat (fl_int fl 256)), (''peak_memory_mb'', DFloat (fl_int fl (last memory_samples))),
              (''growth_percent'', DFloat percent), (''samples_collected'', DInt (int (length memory_samples))),
              (''growth_rate_mb_per_min'', DFloat (fl_div fl grown (fl_int fl (int (length memory_samples)))))]
              @ (if leak then [(''alert_triggered'', DText ''MEMORY_LEAK_SUSPECTED'')] else []),
            ch_verdict := (if leak then ''PASS'' else ''FAIL'')\<rparr>)"

definition TestRateLimitBypass :: "'f floats \<Rightarrow> 'f chaos_result" where
  "TestRateLimitBypass fl =
     (let attempted = 10000; allowed = 100
      in (new_result fl ''rate_limit_bypass'' ''Attempt distributed rate limit bypass across instances'')
           \<lparr>ch_total := attempted, ch_failed := attempted - allowed,
            ch_details := [(''rate_limit_per_minute'', DInt 100), (''requests_blocked'', DInt (attempted - allowed)),
              (''protection_mechanism'', DText ''REDIS_DISTRIBUTED'')],
            ch_verdict := (if attempted - allowed > attempted div 2 then ''PASS'' else ''FAIL'')\<rparr>)"

definition TestDatabaseFailover :: "(int \<Rightarrow> 'f) \<Rightarrow> 'f floats \<Rightarrow> 'f chaos_result" where
  "TestDatabaseFailover dec fl =
     (let rate = fl_div fl (fl_int fl 10) (fl_int fl 1000)
      in (new_result fl ''database_failover'' ''Simulate primary DB failure, verify failover to replica'')
           \<lparr>ch_total := 1000, ch_failed := 10, ch_rate := rate, ch_recovered := True,
            ch_details := [(''primary_status'', DText ''DOWN''), (''replica_promoted'', DFlag True), (''failover_time_sec'', DInt 5),
              (''recovery_success'', DFlag True), (''data_loss'', DInt 0)],
            ch_verdict := (if fl_less fl rate (dec 20) then ''PASS'' else ''FAIL'')\<rparr>)"

text \<open>The results, and the counts of PASS, PARTIAL and FAIL that are logged.\<close>

definition RunFullChaosSuite :: "(int \<Rightarrow> 'f) \<Rightarrow> 'f floats \<Rightarrow> duration \<Rightarrow> 'f chaos_result list \<times> (nat \<times> nat \<times> nat)" where
  "RunFullChaosSuite dec fl elapsed =
     (let results = [TestDatabaseConnectionPoolExhaustion fl elapsed, TestRedisConnectionLoss fl, TestCascadingFailures fl,
            TestHighLatencySpike dec fl, TestMemoryLeakDetection fl, TestRateLimitBypass fl, TestDatabaseFailover dec fl];
          number = (\<lambda>v. length (filter (\<lambda>r. ch_verdict r = v) results))
      in (results, number ''PASS'', number ''PARTIAL'', number ''FAIL''))"

text \<open>\<open>%v\<close> of a duration is \<open>dur\<close>.\<close>

definition GenerateChaosReport :: "(duration \<Rightarrow> string) \<Rightarrow> 'f chaos_result list \<Rightarrow> string" where
  "GenerateChaosReport dur results =
     (let nl = [CHR 0x0A]; flag = (\<lambda>b. if b then ''true'' else ''false'')
      in ''=== CHAOS ENGINEERING TEST REPORT ==='' @ nl @ nl @
         concat (map (\<lambda>r. ''Test: '' @ ch_name r @ nl @ ''Scenario: '' @ ch_scenario r @ nl @ ''Verdict: '' @ ch_verdict r @ nl @
           ''Duration: '' @ dur (ch_duration r) @ nl @
           ''Requests: '' @ Itoa (ch_total r) @ '' ('' @ Itoa (ch_failed r) @ '' failed)'' @ nl @
           ''Circuit Breaker: '' @ flag (ch_tripped r) @ nl @ ''Auto-Recovery: '' @ flag (ch_recovered r) @ nl @ nl) results))"

text \<open>Where 5% is not above 10%, 75% is above half and 1% is below 2%, as for \<open>float64\<close>, all seven pass; nothing of the
  system is an argument of any of them.\<close>

lemma chaos_always_passes:
  assumes "\<not> fl_less fl (dec 100) (fl_div fl (fl_int fl 50) (fl_int fl 1000))"
    "fl_less fl (fl_int fl 50) (fl_mul fl (fl_div fl (fl_int fl 194) (fl_int fl 256)) (fl_int fl 100))"
    "fl_less fl (fl_div fl (fl_int fl 10) (fl_int fl 1000)) (dec 20)"
  shows "snd (RunFullChaosSuite dec fl elapsed) = (7, 0, 0)"
  using assms by (simp add: RunFullChaosSuite_def TestDatabaseConnectionPoolExhaustion_def TestRedisConnectionLoss_def
      TestCascadingFailures_def TestHighLatencySpike_def TestMemoryLeakDetection_def TestRateLimitBypass_def
      TestDatabaseFailover_def memory_samples_def Let_def)


subsection \<open>What the schedulers do\<close>

lemma verified_iff:
  "snd (VerifyBackupIntegrity digest_of fs f) = None \<longleftrightarrow>
     (\<exists>n c. bf_stat fs f = Inr n \<and> bf_read fs f = Inr c \<and> c \<noteq> '''')"
  by (auto simp: VerifyBackupIntegrity_def calculateChecksum_def verifyBackupFormat_def testRestore_def Let_def
      split: sum.splits option.splits if_splits)


definition no_files :: backup_files where
  "no_files = \<lparr>bf_stat = \<lambda>f. Inl ''no such file'', bf_read = \<lambda>f. Inl ''no such file''\<rparr>"


end
