(* ===== verification/Support.thy ===== *)
theory Support
  imports Monitoring "HOL-Library.Sublist" "HOL-Library.AList"
begin

text \<open>
  The general helpers of the repository: \<open>utils/utils.go\<close>, the errors of \<open>errors/\<close>, the response types of
  \<open>models/responses.go\<close>, the readers of \<open>helpers/type_safe.go\<close>, the dereferencing helpers of \<open>helpers/handlers.go\<close> and
  the log lines of \<open>logging/structured.go\<close>, and the named events of \<open>audit/logger.go\<close>.

  An \<open>*AppError\<close> is a reference to a cell of a heap, because \<open>Wrap\<close> writes through the reference it is given; a
  wrapped error (\<open>%w\<close>) is a chain. The functions on slices, characters and numbers are the code's loops as recursions or list
  functions.

  Shown: the unit of \<open>FormatBytes\<close> is right for every \<open>int64\<close> and its index never leaves the table; what \<open>Unique\<close> keeps;
  that \<open>Min\<close> and \<open>Max\<close> are neither; the number of pages; that the client never sees an internal error and that wrapping
  changes the error every other holder sees.
\<close>

subsection \<open>Strings\<close>

text \<open>A slice out of range panics.\<close>

definition TruncateString :: "string \<Rightarrow> int \<Rightarrow> string outcome" where
  "TruncateString s maxLen =
     (if int (length s) \<le> maxLen then Ret s else if maxLen < 0 then Panic else Ret (take (nat maxLen) s))"

definition NormalizeEmail :: "string \<Rightarrow> string" where
  "NormalizeEmail email = ToLower (TrimSpace email)"

definition NormalizeUsername :: "string \<Rightarrow> string" where
  "NormalizeUsername username = ToLower (TrimSpace username)"

text \<open>A character below 32 or in an ASCII range is one byte, and no byte of a longer character is below 128, so these loops over the
  characters are loops over the bytes.\<close>

definition IsSafeString :: "string \<Rightarrow> bool" where
  "IsSafeString s \<longleftrightarrow> list_all (\<lambda>c. \<not> of_char c < (32 :: nat)) s"

definition ContainsAny :: "string \<Rightarrow> string list \<Rightarrow> bool" where
  "ContainsAny s substrings \<longleftrightarrow> list_ex (Contains s) substrings"

definition IsValidEmail :: "string \<Rightarrow> bool" where
  "IsValidEmail email =
     (case Split CHR ''@'' email of
        [a, b] \<Rightarrow> if a = '''' \<or> b = '''' then False else Contains b ''.''
      | _ \<Rightarrow> False)"

definition IsValidUUID :: "string \<Rightarrow> bool" where
  "IsValidUUID s \<longleftrightarrow> length s = 36 \<and> s ! 8 = CHR ''-'' \<and> s ! 13 = CHR ''-'' \<and> s ! 18 = CHR ''-'' \<and> s ! 23 = CHR ''-''"

definition IsValidUsername :: "string \<Rightarrow> bool" where
  "IsValidUsername username \<longleftrightarrow> \<not> (length username < 3 \<or> length username > 50) \<and>
     list_all (\<lambda>c. (CHR ''a'' \<le> c \<and> c \<le> CHR ''z'') \<or> (CHR ''0'' \<le> c \<and> c \<le> CHR ''9'') \<or> c = CHR ''-'' \<or> c = CHR ''_'') username"

text \<open>The generic validator of \<open>helpers/validation.go\<close>; its pattern is not looked at.\<close>

record input_validator =
  iv_field :: string
  iv_value :: string
  iv_min :: int
  iv_max :: int

definition Validate_input :: "input_validator \<Rightarrow> (string \<times> string) option" where
  "Validate_input iv =
     (let v = TrimSpace (iv_value iv)
      in if int (length v) < iv_min iv then Some (iv_field iv, ''too short'')
         else if int (length v) > iv_max iv then Some (iv_field iv, ''too long'') else None)"

definition SafePathComponent :: "'o app_env \<Rightarrow> string \<Rightarrow> bool" where
  "SafePathComponent env part \<longleftrightarrow> ValidateUUID env part"

subsection \<open>Slices and comparison\<close>

fun Contains_item :: "'a list \<Rightarrow> 'a \<Rightarrow> bool" where
  "Contains_item [] v = False"
| "Contains_item (x # xs) v = (if x = v then True else Contains_item xs v)"

definition Filter_items :: "'a list \<Rightarrow> ('a \<Rightarrow> bool) \<Rightarrow> 'a list" where
  "Filter_items arr predicate = foldl (\<lambda>result x. if predicate x then result @ [x] else result) [] arr"

fun Map_items :: "'a list \<Rightarrow> ('a \<Rightarrow> 'b) \<Rightarrow> 'b list" where
  "Map_items [] f = []"
| "Map_items (x # xs) f = f x # Map_items xs f"

fun unique_from :: "'a set \<Rightarrow> 'a list \<Rightarrow> 'a list" where
  "unique_from seen [] = []"
| "unique_from seen (x # xs) = (if x \<notin> seen then x # unique_from (insert x seen) xs else unique_from seen xs)"

definition Unique :: "'a list \<Rightarrow> 'a list" where
  "Unique arr = unique_from {} arr"

text \<open>The zero value of the type is an argument.\<close>

definition Min_value :: "'a \<Rightarrow> 'a \<Rightarrow> 'a \<Rightarrow> 'a" where
  "Min_value zero a b = (if a = zero then b else if b = zero then a else a)"

definition Max_value :: "'a \<Rightarrow> 'a \<Rightarrow> 'a \<Rightarrow> 'a" where
  "Max_value zero a b = (if a = zero then b else if b = zero then a else a)"

definition Clamp :: "'a::linorder \<Rightarrow> 'a \<Rightarrow> 'a \<Rightarrow> 'a" where
  "Clamp v mn mx = (if v < mn then mn else if v > mx then mx else v)"

lemma Contains_item_iff: "Contains_item xs v \<longleftrightarrow> v \<in> set xs"
  by (induction xs) auto

lemma Filter_items_is_filter: "Filter_items xs P = filter P xs"
proof -
  have "foldl (\<lambda>result x. if P x then result @ [x] else result) acc xs = acc @ filter P xs" for acc
    by (induction xs arbitrary: acc) auto
  then show ?thesis by (simp add: Filter_items_def)
qed

lemma Map_items_is_map: "Map_items xs f = map f xs"
  by (induction xs) auto

lemma unique_from_props:
  "set (unique_from seen xs) = set xs - seen \<and> distinct (unique_from seen xs)"
  by (induction seen xs rule: unique_from.induct) auto

lemma unique_from_sub: "subseq (unique_from seen xs) xs"
  by (induction seen xs rule: unique_from.induct) auto

text \<open>\<open>Min\<close> and \<open>Max\<close> are the same function, so one of them is wrong for any two numbers other than zero.\<close>

lemma Min_is_Max: "Min_value zero a b = Max_value zero a b"
  by (simp add: Min_value_def Max_value_def)

lemma Min_value_wrong: "Min_value 0 (5 :: int) 3 = 5 \<and> Max_value 0 (3 :: int) 5 = 3 \<and> Min_value 0 (0 :: int) 5 = 5"
  by (simp add: Min_value_def Max_value_def)

lemma Clamp_bounds: "mn \<le> mx \<Longrightarrow> mn \<le> Clamp v mn mx \<and> Clamp v mn mx \<le> mx"
  by (auto simp: Clamp_def)

subsection \<open>Sizes and durations\<close>

text \<open>The loop that finds the unit: \<open>n\<close> is what is left of the size, \<open>d\<close> the divisor, which would wrap around at 64 bits, and
  \<open>k\<close> the index of the unit.\<close>

function find_unit :: "int \<Rightarrow> int \<Rightarrow> nat \<Rightarrow> int \<times> nat" where
  "find_unit n d k = (if n \<ge> 1024 then find_unit (n div 1024) (int64 (d * 1024)) (k + 1) else (d, k))"
  by auto
termination
  by (relation "measure (\<lambda>(n, d, k). nat n)") (auto simp: nat_less_iff)

declare find_unit.simps [simp del]

text \<open>\<open>one_decimal\<close> is \<open>%.1f\<close>; an index out of the table panics.\<close>

definition FormatBytes :: "'f floats \<Rightarrow> ('f \<Rightarrow> string) \<Rightarrow> int \<Rightarrow> string outcome" where
  "FormatBytes fl one_decimal bytes =
     (if bytes < 1024 then Ret (Itoa bytes @ '' B'')
      else case find_unit (bytes div 1024) 1024 0 of
             (d, k) \<Rightarrow>
               if k < length ''KMGTPE''
               then Ret (one_decimal (fl_div fl (fl_int fl bytes) (fl_int fl d)) @ '' '' @ [''KMGTPE'' ! k] @ ''B'')
               else Panic)"

definition FormatDuration :: "'f floats \<Rightarrow> ('f \<Rightarrow> string) \<Rightarrow> int \<Rightarrow> string" where
  "FormatDuration fl one_decimal milliseconds =
     (let duration = fl_div fl (fl_int fl milliseconds) (fl_int fl 1000)
      in if fl_less fl duration (fl_int fl 1) then Itoa milliseconds @ ''ms''
         else if fl_less fl duration (fl_int fl 60) then one_decimal duration @ ''s''
         else let minutes = fl_div fl duration (fl_int fl 60)
           in if fl_less fl minutes (fl_int fl 60) then one_decimal minutes @ ''m''
              else one_decimal (fl_div fl minutes (fl_int fl 60)) @ ''h'')"

text \<open>From a divisor that is a power of 1024, the loop ends with the largest power not above the size.\<close>

lemma find_unit_power:
  assumes "0 < bytes" "bytes < 2 ^ 63" "n = bytes div 1024 ^ (k + 1)" "0 < n" "d = 1024 ^ (k + 1)"
  shows "\<exists>j. find_unit n d k = (1024 ^ (j + 1), j) \<and> 1024 ^ (j + 1) \<le> bytes \<and> bytes < 1024 ^ (j + 2)"
  using assms(3-)
proof (induction n d k rule: find_unit.induct)
  case (1 n d k)
  have pos: "(0::int) < 1024 ^ (k + 1)" by simp
  have le: "1024 ^ (k + 1) \<le> bytes"
    using 1(2,3) assms(1) pos by (metis div_pos_pos_trivial less_imp_le linorder_not_le order_less_irrefl)
  show ?case
  proof (cases "1024 \<le> n")
    case True
    have dd: "bytes div 1024 ^ (k + 2) = n div 1024"
      using 1(2) by (simp add: zdiv_zmult2_eq [symmetric] mult.commute)
    have "(1024::int) ^ (k + 2) = 1024 ^ (k + 1) * 1024" by simp
    also have "\<dots> \<le> 1024 ^ (k + 1) * n" using True by (intro mult_left_mono) auto
    also have "\<dots> \<le> bytes"
      using 1(2) pos by (metis minus_mod_eq_mult_div pos_mod_sign diff_le_eq add_increasing2 order_refl)
    finally have fits: "(1024::int) ^ (k + 2) \<le> bytes" .
    then have "int64 (d * 1024) = 1024 ^ (k + 2)"
      using 1(4) assms(2) by (subst int64_id) (auto intro: order_trans [of _ 0] le_less_trans)
    moreover have "0 < n div 1024" using True by (simp add: pos_imp_zdiv_pos_iff)
    ultimately show ?thesis
      using 1(1) [OF True] dd True by (subst find_unit.simps) (simp add: add.commute)
  next
    case False
    then have "n * 1024 ^ (k + 1) + bytes mod 1024 ^ (k + 1) < 1024 * 1024 ^ (k + 1)"
      using pos_mod_bound [OF pos, of bytes] mult_right_mono [of n 1023 "1024 ^ (k + 1) :: int"] pos by linarith
    then have "bytes < 1024 ^ (k + 2)" using 1(2) div_mult_mod_eq [of bytes "1024 ^ (k + 1)"] by simp
    then show ?thesis using False le 1(4) by (subst find_unit.simps) simp
  qed
qed

lemma FormatBytes_unit:
  assumes "1024 \<le> bytes" "bytes < 2 ^ 63"
  shows "\<exists>j. j < 6 \<and> 1024 ^ (j + 1) \<le> bytes \<and> bytes < 1024 ^ (j + 2) \<and>
    FormatBytes fl one_decimal bytes =
      Ret (one_decimal (fl_div fl (fl_int fl bytes) (fl_int fl (1024 ^ (j + 1)))) @ '' '' @ [''KMGTPE'' ! j] @ ''B'')"
proof -
  have "\<exists>j. find_unit (bytes div 1024) 1024 0 = (1024 ^ (j + 1), j) \<and> 1024 ^ (j + 1) \<le> bytes \<and> bytes < 1024 ^ (j + 2)"
    using assms by (intro find_unit_power) (auto simp: pos_imp_zdiv_pos_iff)
  then obtain j where j: "find_unit (bytes div 1024) 1024 0 = (1024 ^ (j + 1), j)" "1024 ^ (j + 1) \<le> bytes"
    "bytes < 1024 ^ (j + 2)" by blast
  have "j < 6"
  proof (rule ccontr)
    assume "\<not> j < 6"
    then have "(1024::int) ^ 7 \<le> 1024 ^ (j + 1)" by (intro power_increasing) auto
    with j(2) assms(2) show False by simp
  qed
  with j assms(1) show ?thesis by (auto simp: FormatBytes_def)
qed

subsection \<open>Errors\<close>

text \<open>What an \<open>error\<close> holds: a text, a text wrapped around another error, or a reference to an \<open>AppError\<close>.\<close>

datatype go_error = Plain string | Wraps string go_error | AppRef nat

text \<open>The details are a Go map; here its members are a list, and their order is not the code's.\<close>

record app_error =
  er_code :: string
  er_message :: string
  er_status :: nat
  er_internal :: "go_error option"
  er_details :: "(string \<times> json) list"

type_synonym error_heap = "app_error list"

definition AppError_Error :: "error_heap \<Rightarrow> nat \<Rightarrow> string" where
  "AppError_Error h p = er_message (h ! p)"

definition Unwrap :: "error_heap \<Rightarrow> nat \<Rightarrow> go_error option" where
  "Unwrap h p = er_internal (h ! p)"

definition plain_app_error :: "string \<Rightarrow> string \<Rightarrow> nat \<Rightarrow> app_error" where
  "plain_app_error code message status = \<lparr>er_code = code, er_message = message, er_status = status, er_internal = None,
     er_details = []\<rparr>"

definition NewInvalidRequestError :: "string \<Rightarrow> (string \<times> json) list \<Rightarrow> app_error" where
  "NewInvalidRequestError message details = (plain_app_error ''INVALID_REQUEST'' message 400)\<lparr>er_details := details\<rparr>"

definition NewNotFoundError :: "string \<Rightarrow> app_error" where
  "NewNotFoundError resource = plain_app_error ''NOT_FOUND'' (resource @ '' not found'') 404"

definition NewUnauthorizedError :: app_error where
  "NewUnauthorizedError = plain_app_error ''UNAUTHORIZED'' ''unauthorized'' 401"

definition NewForbiddenError :: "string \<Rightarrow> app_error" where
  "NewForbiddenError message = plain_app_error ''FORBIDDEN'' message 403"

definition NewConflictError :: "string \<Rightarrow> app_error" where
  "NewConflictError message = plain_app_error ''CONFLICT'' message 409"

definition NewInternalError :: "go_error \<Rightarrow> app_error" where
  "NewInternalError internal =
     (plain_app_error ''INTERNAL_SERVER_ERROR'' ''internal server error'' 500)\<lparr>er_internal := Some internal\<rparr>"

definition NewServiceUnavailableError :: app_error where
  "NewServiceUnavailableError = plain_app_error ''SERVICE_UNAVAILABLE'' ''service unavailable'' 503"

definition NewQuotaExceededError :: "string \<Rightarrow> app_error" where
  "NewQuotaExceededError resource = plain_app_error ''QUOTA_EXCEEDED'' (resource @ '' quota exceeded'') 402"

definition NewValidationError :: "string \<Rightarrow> string \<Rightarrow> app_error" where
  "NewValidationError field message = (plain_app_error ''UNPROCESSABLE_ENTITY'' (''validation failed: '' @ field) 422)
     \<lparr>er_details := [(''field'', JStr field), (''message'', JStr message)]\<rparr>"

definition NewValidationErrors :: "(string \<times> string) list \<Rightarrow> app_error" where
  "NewValidationErrors es = (plain_app_error ''UNPROCESSABLE_ENTITY'' ''validation failed'' 422)
     \<lparr>er_details := [(''errors'', JList (map (\<lambda>(f, m). JObj [(''field'', JStr f), (''message'', JStr m)]) es))]\<rparr>"

text \<open>\<open>errors.As\<close> walks the chain of wrapped errors to the first \<open>*AppError\<close>.\<close>

fun find_app :: "go_error \<Rightarrow> nat option" where
  "find_app (Plain m) = None"
| "find_app (Wraps m e) = find_app e"
| "find_app (AppRef p) = Some p"

text \<open>The reference, \<open>nil\<close> for no error, and the heap with the new error, if one was made.\<close>

definition ToAppError :: "go_error option \<Rightarrow> error_heap \<Rightarrow> nat option \<times> error_heap" where
  "ToAppError err h =
     (case err of
        None \<Rightarrow> (None, h)
      | Some e \<Rightarrow>
          (case find_app e of
             Some p \<Rightarrow> (Some p, h)
           | None \<Rightarrow> (Some (length h), h @ [NewInternalError e])))"

definition app_error_json :: "app_error \<Rightarrow> json" where
  "app_error_json e = JObj ([(''code'', JStr (er_code e)), (''message'', JStr (er_message e))] @
     (if er_details e = [] then [] else [(''details'', JObj (er_details e))]))"

text \<open>Both read through the reference, so that no error is a panic.\<close>

definition WriteErrorResponse :: "go_error option \<Rightarrow> rwriter \<times> error_heap \<Rightarrow> (rwriter \<times> error_heap) outcome" where
  "WriteErrorResponse err wh =
     (case ToAppError err (snd wh) of
        (None, h) \<Rightarrow> Panic
      | (Some p, h) \<Rightarrow> Ret (write_json (er_status (h ! p)) (app_error_json (h ! p)) (fst wh), h))"

definition Wrap :: "go_error option \<Rightarrow> string \<Rightarrow> error_heap \<Rightarrow> (nat \<times> error_heap) outcome" where
  "Wrap err message h =
     (case ToAppError err h of
        (None, h) \<Rightarrow> Panic
      | (Some p, h) \<Rightarrow> Ret (p, h[p := (h ! p)\<lparr>er_message := message @ '': '' @ er_message (h ! p)\<rparr>]))"

text \<open>An error that no \<open>AppError\<close> is part of is answered the same whatever it says.\<close>

lemma unknown_errors_hidden:
  assumes "find_app e = None"
  shows "WriteErrorResponse (Some e) (w, h) = Ret (write_json 500 (JObj [(''code'', JStr ''INTERNAL_SERVER_ERROR''),
    (''message'', JStr ''internal server error'')]) w, h @ [NewInternalError e])"
  using assms by (simp add: WriteErrorResponse_def ToAppError_def NewInternalError_def plain_app_error_def app_error_json_def)

text \<open>Wrapping an error that already is one changes it in place: the holder of the first reference sees the new text, and
  wrapping it again puts the second text in front of the first.\<close>

lemma Wrap_in_place:
  assumes "p < length h"
  shows "Wrap (Some (AppRef p)) m h = Ret (p, h[p := (h ! p)\<lparr>er_message := m @ '': '' @ er_message (h ! p)\<rparr>])"
    "Wrap (Some (Wraps x (AppRef p))) m h = Wrap (Some (AppRef p)) m h"
    "case Wrap (Some (AppRef p)) m h of Panic \<Rightarrow> False
      | Ret (q, h') \<Rightarrow> AppError_Error h' p = m @ '': '' @ AppError_Error h p"
  using assms by (simp_all add: Wrap_def ToAppError_def AppError_Error_def)

lemma Wrap_nil_panics: "Wrap None m h = Panic \<and> WriteErrorResponse None (w, h) = Panic"
  by (simp add: Wrap_def WriteErrorResponse_def ToAppError_def)

subsection \<open>API errors\<close>

record api_error =
  api_code :: string
  api_message :: string
  api_status :: nat
  api_details :: "(string \<times> json) list"

definition NewAPIError :: "string \<Rightarrow> string \<Rightarrow> nat \<Rightarrow> api_error" where
  "NewAPIError code message status = \<lparr>api_code = code, api_message = message, api_status = status, api_details = []\<rparr>"

definition WithDetails :: "string \<Rightarrow> json \<Rightarrow> api_error \<Rightarrow> api_error" where
  "WithDetails key v e = e\<lparr>api_details := AList.update key v (api_details e)\<rparr>"

definition APIValidationError :: "string \<Rightarrow> string \<Rightarrow> api_error" where
  "APIValidationError field reason = \<lparr>api_code = ''VALIDATION_FAILED'',
     api_message = ''validation failed for field '' @ [CHR 0x27] @ field @ [CHR 0x27] @ '': '' @ reason, api_status = 400,
     api_details = [(''field'', JStr field), (''reason'', JStr reason)]\<rparr>"

definition NotFoundError :: "string \<Rightarrow> api_error" where
  "NotFoundError resource = \<lparr>api_code = ''NOT_FOUND'', api_message = resource @ '' not found'', api_status = 404,
     api_details = [(''resource'', JStr resource)]\<rparr>"

definition ConflictError :: "string \<Rightarrow> string \<Rightarrow> api_error" where
  "ConflictError resource reason = \<lparr>api_code = ''CONFLICT'', api_message = ''conflict: '' @ reason, api_status = 409,
     api_details = [(''resource'', JStr resource), (''reason'', JStr reason)]\<rparr>"

definition QuotaExceededError :: "string \<Rightarrow> int \<Rightarrow> int \<Rightarrow> api_error" where
  "QuotaExceededError quotaType used limit = \<lparr>api_code = ''QUOTA_EXCEEDED'',
     api_message = quotaType @ '' quota exceeded: '' @ Itoa used @ ''/'' @ Itoa limit, api_status = 402,
     api_details = [(''quota_type'', JStr quotaType), (''used'', JNum used), (''limit'', JNum limit)]\<rparr>"

subsection \<open>Responses\<close>

record 'a response =
  rs_data :: "'a option"
  rs_error :: "(string \<times> string \<times> (string \<times> json) list) option"
  rs_status :: string

definition SuccessResponse :: "'a \<Rightarrow> 'a response" where
  "SuccessResponse d = \<lparr>rs_data = Some d, rs_error = None, rs_status = ''success''\<rparr>"

definition ErrorResponseData :: "string \<Rightarrow> string \<Rightarrow> (string \<times> json) list \<Rightarrow> 'a response" where
  "ErrorResponseData code message details = \<lparr>rs_data = None, rs_error = Some (code, message, details), rs_status = ''error''\<rparr>"

record 'a paginated =
  pg_data :: "'a list"
  pg_limit :: int
  pg_offset :: int
  pg_total :: int
  pg_pages :: int
  pg_status :: string

definition BuildPaginatedResponse :: "'a list \<Rightarrow> int \<Rightarrow> int \<Rightarrow> int \<Rightarrow> 'a paginated" where
  "BuildPaginatedResponse d limit offset t =
     \<lparr>pg_data = d, pg_limit = limit, pg_offset = offset, pg_total = t,
      pg_pages = (if t > 0 \<and> limit > 0 then go_quot (int64 (int64 (t + limit) - 1)) limit else 1), pg_status = ''success''\<rparr>"

text \<open>The time is an \<open>interface{}\<close>, of which only a string can be read: anything else panics.\<close>

definition BuildCreatedResponse :: "string \<Rightarrow> ctx_value option \<Rightarrow> (string \<times> string) outcome" where
  "BuildCreatedResponse i createdAt =
     (case createdAt of None \<Rightarrow> Ret (i, '''') | Some (CtxStr t) \<Rightarrow> Ret (i, t) | Some _ \<Rightarrow> Panic)"

definition BuildDeletedResponse :: "string \<Rightarrow> string \<times> string" where
  "BuildDeletedResponse i = (i, '''')"

definition BuildCountResponse :: "int \<Rightarrow> int" where
  "BuildCountResponse n = n"

record health_response =
  hr_status :: string
  hr_time :: string
  hr_uptime :: int

definition BuildHealthResponse :: "string \<Rightarrow> int \<Rightarrow> health_response" where
  "BuildHealthResponse status uptime = \<lparr>hr_status = status, hr_time = '''', hr_uptime = uptime\<rparr>"

definition BuildListResponse :: "'a list \<Rightarrow> 'a list \<times> string \<times> int" where
  "BuildListResponse items = (items, ''success'', int (length items))"

definition BuildMessageResponse :: "string \<Rightarrow> string \<times> string" where
  "BuildMessageResponse message = (message, ''success'')"

text \<open>The pages cover the rows and the last is not empty, as long as the sum fits 64 bits.\<close>

lemma pages_exact:
  assumes "0 < t" "0 < limit" "t + limit < 2 ^ 63"
  shows "(pg_pages (BuildPaginatedResponse d limit offset t) - 1) * limit < t \<and>
    t \<le> pg_pages (BuildPaginatedResponse d limit offset t) * limit"
proof -
  have pages: "pg_pages (BuildPaginatedResponse d limit offset t) = (t + limit - 1) div limit"
    using assms by (simp add: BuildPaginatedResponse_def int64_id)
  have "(t + limit - 1) div limit * limit + (t + limit - 1) mod limit = t + limit - 1" by simp
  moreover have "0 \<le> (t + limit - 1) mod limit" "(t + limit - 1) mod limit < limit" using assms(2) by simp_all
  ultimately have "(t + limit - 1) div limit * limit - 1 * limit < t \<and> t \<le> (t + limit - 1) div limit * limit" by linarith
  then show ?thesis using pages unfolding left_diff_distrib by (simp only:)
qed

lemma pages_overflow: "pg_pages (BuildPaginatedResponse d 2 0 (2 ^ 63 - 1)) < 0"
  by (simp add: BuildPaginatedResponse_def int64_def go_quot_def)

subsection \<open>Readers\<close>

text \<open>An \<open>interface{}\<close> value is \<open>nil\<close> or a value, and a value may be a pointer that is \<open>nil\<close>.\<close>

datatype 'a iface = NilInterface | Holds "'a option"

definition SafeTypeAssertion :: "('v \<Rightarrow> 'a option) \<Rightarrow> 'a \<Rightarrow> 'v option \<Rightarrow> 'a \<times> bool" where
  "SafeTypeAssertion as zero v = (case Option.bind v as of None \<Rightarrow> (zero, False) | Some x \<Rightarrow> (x, True))"

definition GetUserIDSafe :: "'b request \<Rightarrow> string \<times> bool" where
  "GetUserIDSafe r = (case ctx_string ''user_id'' r of None \<Rightarrow> ('''', False) | Some u \<Rightarrow> (u, u \<noteq> ''''))"

definition GetContextValue :: "(ctx_value \<Rightarrow> 'a option) \<Rightarrow> 'a \<Rightarrow> 'b request \<Rightarrow> string \<Rightarrow> 'a \<times> bool" where
  "GetContextValue as zero r key = (case Option.bind (ctx r key) as of None \<Rightarrow> (zero, False) | Some x \<Rightarrow> (x, True))"

definition GetPathValue :: "'b request \<Rightarrow> string \<Rightarrow> string \<times> bool" where
  "GetPathValue r key = (path_value r key, path_value r key \<noteq> '''')"

definition GetQueryParam :: "'b request \<Rightarrow> string \<Rightarrow> string \<times> bool" where
  "GetQueryParam r key = (query r key, query r key \<noteq> '''')"

definition GetQueryParams :: "'b request \<Rightarrow> string list \<Rightarrow> string \<rightharpoonup> string" where
  "GetQueryParams r keys = foldl (\<lambda>params key. params(key \<mapsto> query r key)) Map.empty keys"

definition NilIfEmpty :: "string \<Rightarrow> string option" where
  "NilIfEmpty s = (if s = '''' then None else Some s)"

definition NilIfZero :: "int \<Rightarrow> int option" where
  "NilIfZero i = (if i = 0 then None else Some i)"

fun FirstNonEmpty :: "string list \<Rightarrow> string" where
  "FirstNonEmpty [] = ''''"
| "FirstNonEmpty (s # strs) = (if s \<noteq> '''' then s else FirstNonEmpty strs)"

definition Must :: "'a \<Rightarrow> 'e option \<Rightarrow> 'a outcome" where
  "Must v err = (case err of None \<Rightarrow> Ret v | Some _ \<Rightarrow> Panic)"

definition SafeString :: "string option \<Rightarrow> string" where
  "SafeString s = (case s of None \<Rightarrow> '''' | Some x \<Rightarrow> x)"

definition SafeInt64 :: "int option \<Rightarrow> int" where
  "SafeInt64 i = (case i of None \<Rightarrow> 0 | Some x \<Rightarrow> x)"

definition SafeInt :: "int option \<Rightarrow> int" where
  "SafeInt i = (case i of None \<Rightarrow> 0 | Some x \<Rightarrow> x)"

definition SafeFloat64 :: "'f floats \<Rightarrow> 'f option \<Rightarrow> 'f" where
  "SafeFloat64 fl f = (case f of None \<Rightarrow> fl_int fl 0 | Some x \<Rightarrow> x)"

definition SafeBool :: "bool option \<Rightarrow> bool" where
  "SafeBool b = (case b of None \<Rightarrow> False | Some x \<Rightarrow> x)"

definition CheckNilAfterError :: "'a iface \<Rightarrow> bool" where
  "CheckNilAfterError v = (case v of NilInterface \<Rightarrow> True | Holds _ \<Rightarrow> False)"

definition IsCacheExpired :: "go_time \<Rightarrow> go_time \<Rightarrow> bool" where
  "IsCacheExpired t expiresAt \<longleftrightarrow> expiresAt < t"

lemma GetUserIDSafe_agrees: "GetUserID r = (if snd (GetUserIDSafe r) then Some (fst (GetUserIDSafe r)) else None)"
  by (simp add: GetUserID_def GetUserIDSafe_def split: option.splits)

lemma FirstNonEmpty_in: "FirstNonEmpty strs \<noteq> '''' \<Longrightarrow> FirstNonEmpty strs \<in> set strs"
  by (induction strs) (auto split: if_splits)

lemma NilIfEmpty_SafeString: "SafeString (NilIfEmpty s) = s"
  by (simp add: SafeString_def NilIfEmpty_def)

lemma GetQueryParams_lookup: "GetQueryParams r keys k = (if k \<in> set keys then Some (query r k) else None)"
proof -
  have "foldl (\<lambda>params key. params(key \<mapsto> query r key)) m keys k = (if k \<in> set keys then Some (query r k) else m k)" for m
    by (induction keys arbitrary: m) auto
  then show ?thesis by (simp add: GetQueryParams_def)
qed

text \<open>A pointer that is \<open>nil\<close>, passed as the helper's comment shows, is not noticed.\<close>

lemma nil_pointer_not_noticed: "\<not> CheckNilAfterError (Holds None)"
  by (simp add: CheckNilAfterError_def)

subsection \<open>Audit events\<close>

text \<open>The named events of \<open>audit/logger.go\<close>, over \<open>LogEvent\<close>; the names here end in \<open>Event\<close>, since
  \<open>audit/audit_logger.go\<close> has some of them too.\<close>

definition LogProjectCreatedEvent :: "'o app_env \<Rightarrow> string \<Rightarrow> string \<Rightarrow> string \<Rightarrow> 'o app \<Rightarrow> 'o app" where
  "LogProjectCreatedEvent env userID projectID projectName = LogEvent env ''project_created'' userID projectID
     (JObj [(''project_name'', JStr projectName)])"

definition LogProjectDeletedEvent :: "'o app_env \<Rightarrow> string \<Rightarrow> string \<Rightarrow> string \<Rightarrow> 'o app \<Rightarrow> 'o app" where
  "LogProjectDeletedEvent env userID projectID projectName = LogEvent env ''project_deleted'' userID projectID
     (JObj [(''project_name'', JStr projectName)])"

definition LogTrackCreatedEvent :: "'o app_env \<Rightarrow> string \<Rightarrow> string \<Rightarrow> string \<Rightarrow> string \<Rightarrow> 'o app \<Rightarrow> 'o app" where
  "LogTrackCreatedEvent env userID trackID trackName projectID = LogEvent env ''track_created'' userID trackID
     (JObj [(''project_id'', JStr projectID), (''track_name'', JStr trackName)])"

definition LogTrackDeletedEvent :: "'o app_env \<Rightarrow> string \<Rightarrow> string \<Rightarrow> string \<Rightarrow> string \<Rightarrow> 'o app \<Rightarrow> 'o app" where
  "LogTrackDeletedEvent env userID trackID trackName projectID = LogEvent env ''track_deleted'' userID trackID
     (JObj [(''project_id'', JStr projectID), (''track_name'', JStr trackName)])"

definition LogTrackVersionAddedEvent :: "'o app_env \<Rightarrow> string \<Rightarrow> string \<Rightarrow> string \<Rightarrow> int \<Rightarrow> 'o app \<Rightarrow> 'o app" where
  "LogTrackVersionAddedEvent env userID versionID trackID fileSize = LogEvent env ''track_version_added'' userID versionID
     (JObj [(''file_size'', JNum fileSize), (''track_id'', JStr trackID)])"

definition LogShareLinkCreatedEvent :: "'o app_env \<Rightarrow> string \<Rightarrow> string \<Rightarrow> string \<Rightarrow> string \<Rightarrow> 'o app \<Rightarrow> 'o app" where
  "LogShareLinkCreatedEvent env userID shareHash projectID accessLevel = LogEvent env ''share_link_created'' userID shareHash
     (JObj [(''access_level'', JStr accessLevel), (''project_id'', JStr projectID)])"

definition LogShareLinkRevokedEvent :: "'o app_env \<Rightarrow> string \<Rightarrow> string \<Rightarrow> string \<Rightarrow> 'o app \<Rightarrow> 'o app" where
  "LogShareLinkRevokedEvent env userID shareHash projectID = LogEvent env ''share_link_revoked'' userID shareHash
     (JObj [(''project_id'', JStr projectID)])"

definition LogSubscriptionUpdatedEvent :: "'o app_env \<Rightarrow> string \<Rightarrow> string \<Rightarrow> string \<Rightarrow> string \<Rightarrow> 'o app \<Rightarrow> 'o app" where
  "LogSubscriptionUpdatedEvent env userID subscriptionID oldTier newTier = LogEvent env ''subscription_updated'' userID subscriptionID
     (JObj [(''new_tier'', JStr newTier), (''old_tier'', JStr oldTier)])"

definition LogUnauthorizedAccessEvent :: "'o app_env \<Rightarrow> string \<Rightarrow> string \<Rightarrow> string \<Rightarrow> 'o app \<Rightarrow> 'o app" where
  "LogUnauthorizedAccessEvent env userID resourceID reason = LogEvent env ''unauthorized_access'' userID resourceID
     (JObj [(''reason'', JStr reason)])"

definition LogOfflineDownloadStartedEvent :: "'o app_env \<Rightarrow> string \<Rightarrow> string \<Rightarrow> string \<Rightarrow> 'o app \<Rightarrow> 'o app" where
  "LogOfflineDownloadStartedEvent env userID downloadID trackID = LogEvent env ''offline_download_started'' userID downloadID
     (JObj [(''track_id'', JStr trackID)])"

definition LogOfflineDownloadCompletedEvent :: "'o app_env \<Rightarrow> string \<Rightarrow> string \<Rightarrow> int \<Rightarrow> 'o app \<Rightarrow> 'o app" where
  "LogOfflineDownloadCompletedEvent env userID downloadID fileSizeBytes = LogEvent env ''offline_download_completed'' userID downloadID
     (JObj [(''file_size_bytes'', JNum fileSizeBytes)])"

definition LogPasswordVerifiedEvent :: "'o app_env \<Rightarrow> string \<Rightarrow> string \<Rightarrow> 'o app \<Rightarrow> 'o app" where
  "LogPasswordVerifiedEvent env userID shareHash = LogEvent env ''password_verified'' userID shareHash
     (JObj [(''action'', JStr ''share_password_verified'')])"

subsection \<open>Log lines\<close>

datatype level = Debug | Info | Warn | Error

type_synonym log_line = "level \<times> string \<times> (string \<times> json) list"

definition request_attrs :: "'b request \<Rightarrow> string \<Rightarrow> (string \<times> json) list" where
  "request_attrs r userID = [(''method'', JStr (meth r)), (''path'', JStr (path r)), (''user_id'', JStr userID)]"

definition LogRequest :: "'b request \<Rightarrow> string \<Rightarrow> log_line" where
  "LogRequest r userID = (Info, ''incoming request'', request_attrs r userID @
     [(''remote_addr'', JStr (remote_addr r)), (''user_agent'', JStr (req_hdr r ''User-Agent''))])"

definition LogRequestError :: "'b request \<Rightarrow> string \<Rightarrow> int \<Rightarrow> duration \<Rightarrow> string \<Rightarrow> log_line" where
  "LogRequestError r userID statusCode d err = (Error, ''request failed'', request_attrs r userID @
     [(''status'', JNum statusCode), (''duration_ms'', JNum (Milliseconds d)), (''error'', JStr err)])"

definition LogRequestSuccess :: "'b request \<Rightarrow> string \<Rightarrow> int \<Rightarrow> duration \<Rightarrow> log_line" where
  "LogRequestSuccess r userID statusCode d =
     (if d > 5 * second then (Warn, ''slow request completed'', request_attrs r userID @
        [(''status'', JNum statusCode), (''duration_ms'', JNum (Milliseconds d))])
      else (Debug, ''request completed'', request_attrs r userID @
        [(''status'', JNum statusCode), (''duration_ms'', JNum (Milliseconds d))]))"

definition LogQuery :: "duration \<Rightarrow> string option \<Rightarrow> log_line list" where
  "LogQuery d err =
     (case err of
        Some e \<Rightarrow> [(Error, ''database query failed'', [(''duration_ms'', JNum (Milliseconds d)), (''error'', JStr e)])]
      | None \<Rightarrow> if d > second then [(Warn, ''slow database query'', [(''duration_ms'', JNum (Milliseconds d))])] else [])"

definition LogServiceStart :: "string \<Rightarrow> string \<Rightarrow> log_line" where
  "LogServiceStart serviceName version = (Info, serviceName @ '' starting'', [(''version'', JStr version)])"

definition LogServiceError :: "string \<Rightarrow> string \<Rightarrow> string \<Rightarrow> log_line" where
  "LogServiceError serviceName operation err =
     (Error, serviceName @ '' operation failed'', [(''operation'', JStr operation), (''error'', JStr err)])"

definition LogServiceEvent :: "string \<Rightarrow> string \<Rightarrow> (string \<times> json) list \<Rightarrow> log_line" where
  "LogServiceEvent serviceName event details = (Info, serviceName @ '' event'', (''event'', JStr event) # details)"

record context_logger =
  cl_request :: string
  cl_user :: string

definition ContextLog :: "level \<Rightarrow> context_logger \<Rightarrow> string \<Rightarrow> (string \<times> json) list \<Rightarrow> log_line" where
  "ContextLog lv cl msg args =
     (lv, msg, [(''request_id'', JStr (cl_request cl)), (''user_id'', JStr (cl_user cl))] @ args)"

end
