(* ===== verification/Spec2Isabelle.thy ===== *)
theory Spec2Isabelle
  imports Jobs Events Payments Offline GraphQL Migrations Accounts Discovery Costs Monitoring Maintenance Support
begin

text \<open>
  A model of the backend of PurpTape (\<open>src/backend\<close>, Go): a service on which musicians keep projects of audio tracks, share
  them and play them. HTTP handlers sit on a PostgreSQL database and an S3 bucket (Cloudflare R2); workers in the same
  process work off a queue of jobs that the handlers fill. This theory holds the server as \<open>main.go\<close> assembles it; the
  parts are in the other theories. Paths without a directory are under \<open>src/backend/internal\<close>.

  \<^bold>\<open>How the program is modelled.\<close> A handler is a function from a request and a pair of response writer and state to
  the way it ended (returned or panicked) and the new pair, with every early return and error answer of the source a branch;
  a middleware is a function on handlers. The database is a record of tables, a table the list of its rows; every statement
  of the source is a function on it, with the constraints, cascades and triggers of the migrations that it sets off. A call
  that may fail asks the oracle \<open>fails\<close> of its environment, so that each theorem covers every pattern of failures it does not
  exclude. Clock readings and generated identifiers are fields of the environment. Integers are \<open>int\<close> with \<open>int64\<close> written out
  where a sum or product may wrap, and \<open>64 word\<close> for the counters of the R2 client. A section under a mutex is one step; where
  goroutines or transactions interleave there is a step relation (the job queue, the pool of workers, the publication of events).

  \<^bold>\<open>Layers.\<close>
  \<^item> \<open>Prelude\<close>, \<open>GoStrings\<close>, \<open>Base64\<close>, \<open>Http\<close>: time, outcomes, the parts of \<open>strings\<close>, \<open>strconv\<close>, \<open>encoding/base64\<close> and
    \<open>net/http\<close> that the source uses.
  \<^item> \<open>Database\<close>, \<open>Projects\<close>, \<open>JobQueue\<close>, \<open>Storage\<close>: the tables with the statements of \<open>db/queries.go\<close> and
    \<open>db/queries_phase2.go\<close>, the table \<open>background_jobs\<close>, and the client of \<open>storage/r2.go\<close> with its cache of signed addresses.
  \<^item> \<open>Config\<close>, \<open>Auth\<close>, \<open>RateLimit\<close>, \<open>Middleware\<close>, \<open>Router\<close>: \<open>config/\<close>, \<open>auth/\<close>, \<open>encryption/\<close>, \<open>middleware/\<close> and the table of
    routes of \<open>cmd/api/router.go\<close>.
  \<^item> \<open>Helpers\<close> and the handlers with their statements: \<open>TrackHandlers\<close> (tracks, versions, uploads, rollback), \<open>Uploads\<close> (direct
    uploads, streaming), \<open>ShareLinks\<close>, \<open>Social\<close> (collaborators, likes, follows, comments), \<open>AccessCache\<close> (access table, Redis
    caches, invalidation), \<open>ProjectHandlers\<close> (projects, images, downloads), \<open>Offline\<close>, \<open>Notifications\<close>, \<open>Payments\<close>, \<open>Accounts\<close>
    (roles, transactions, compliance, audit), \<open>Discovery\<close> (search, statistics), \<open>Costs\<close> (attribution, budget guards, the
    dashboard of the founder), \<open>GraphQL\<close>.
  \<^item> Work beside the requests: \<open>Jobs\<close> (the processor, its pool, the removal of deleted files), \<open>Events\<close> (event store, commands
    and queries), \<open>Migrations\<close> (the runner at start-up), \<open>Monitoring\<close> (health, metrics, pool, start-up), \<open>Maintenance\<close> (retention,
    storage policies, backup tests, chaos experiments, refresh of the access view).
  \<^item> \<open>Support\<close>: \<open>utils/\<close>, \<open>errors/\<close>, response types, readers and log lines.

  \<^bold>\<open>Interfaces.\<close> The locales state what one part relies on in another and are interpreted on the model's own definitions:
  \<open>limiter\<close> (both rate limiters), \<open>guarded\<close> (a handler refuses and changes nothing without permission: tracks, share links,
  collaborators, payments, cost routes), \<open>own_rows\<close> (requests of others leave the rows of a user alone: offline downloads,
  notifications), \<open>pair_table\<close> (likes and follows), \<open>ttl_cache\<close> (the Redis keys and the signed addresses),
  \<open>scheduler\<close> (the work that waits for a ticker).

  \<^bold>\<open>What is shown.\<close>
  \<^item> Who may do what: tokens are accepted only when signed, current and meant for this service; protected routes need one
    (here, for the server as a whole, and in \<open>Router\<close>); role checks, share gates, webhook signatures, ownership of
    tracks, downloads, notices, costs and accounts.
  \<^item> What an operation does on every branch: uploads, deletion of projects and accounts, listings, batches of jobs, invoices,
    privacy settings, the health of the service.
  \<^item> Invariants over all runs: the job queue and its retry bound, the circuit breaker, the rate limit per minute, the access table
    against the rights it caches, the tables of subscriptions, the quota of offline downloads, the ledger.
  \<^item> Refinement and equivalence: likes and follows are relations, the pool of workers is the sequential batch, a replayed
    event stream is the projection, redelivered webhooks and repeated migrations are harmless.
  \<^item> What the code does not do: plays that are never recorded, schedulers that never fire, GraphQL fields that change nothing.

  \<^bold>\<open>Termination.\<close> Every function is total. Loops that are not structural (\<open>rune_starts\<close>, \<open>strip_left\<close>, \<open>delete_all\<close>,
  \<open>fields_from\<close>, \<open>chunks\<close>, \<open>bit_length\<close>, \<open>find_unit\<close>) have a measure, so no fuel stands for a loop of the source. Loops that run until the
  process stops (the polling of the jobs, the schedulers, the clean-up of the limiters) are given as one round, or as the
  rounds up to a time. Runs are lists of requests of any length.

  \<^bold>\<open>Parameters.\<close> Code that is not under \<open>src\<close> is an argument: the JWT library (\<open>jwt_lib\<close>), SHA-256, HMAC, AES-GCM and bcrypt, the
  S3 service (\<open>s3\<close>), Redis (a map with expiry whose calls may fail), FCM, Stripe, \<open>ffmpeg\<close>, PostgreSQL's full-text search and
  reading of \<open>inet\<close>, the arithmetic of \<open>float64\<close> (\<open>floats\<close>) and the calendar (\<open>calendar\<close>). Where a property needs a law of one
  of them, it is a hypothesis, and the witness of the property instantiates it.

  \<^bold>\<open>Not modelled.\<close> Log output (except the lines of \<open>logging/\<close> themselves); the HTML page of the operations console, a constant
  text; the set-up of OpenTelemetry; the shutdown of \<open>main.go\<close>, which is signals and goroutines of the operating system; the
  constants of \<open>consts/\<close>, which nothing reads, the types of \<open>interfaces/\<close>, which nothing implements, and the comment files \<open>doc.go\<close>
  and \<open>style/\<close>; wrappers that only forward to a driver; two queries of \<open>db/queries_access.go\<close> without a caller
  (\<open>GetPendingJobs\<close>, \<open>GetOfflineDownloadInfo\<close>). The SQL of the migrations
  appears through the constraints, triggers, views and functions that the statements meet. Concurrent requests are not
  interleaved inside a handler: a request is one step of a run, except in the step relations named above.
\<close>

subsection \<open>The assembled server\<close>

text \<open>The state of the middleware is put beside that of the handlers: the counters of the rate limiter, the key cache of the
  validator, and what the handlers work on.\<close>

definition over_counts :: "('b, 's) handler \<Rightarrow> ('b, counts \<times> 's) handler" where
  "over_counts h r = (\<lambda>(w, m, s). case h r (w, s) of (c, w', s') \<Rightarrow> (c, w', m, s'))"

definition server :: "'f config \<Rightarrow> jwt_lib \<Rightarrow> auth_env \<Rightarrow> (string \<Rightarrow> ('b, validator \<times> 's) handler) \<Rightarrow> go_time \<Rightarrow>
    ('b, counts \<times> validator \<times> 's) handler" where
  "server cfg lib env impl t = server_handler cfg t (over_counts (api lib env impl))"

text \<open>A run serves requests one after another, each with the clock, the answer of the key endpoint and a writer of its own; the
  result is what was written and the state that is left.\<close>

fun server_run :: "'f config \<Rightarrow> jwt_lib \<Rightarrow> (string \<Rightarrow> ('b, validator \<times> 's) handler) \<Rightarrow> (go_time \<times> auth_env \<times> 'b request) list \<Rightarrow>
    counts \<times> validator \<times> 's \<Rightarrow> rwriter list \<times> counts \<times> validator \<times> 's" where
  "server_run cfg lib impl [] st = ([], st)"
| "server_run cfg lib impl ((t, env, r) # rs) st =
     (case server cfg lib env impl t r (new_writer, st) of
        (c, w, st') \<Rightarrow> (case server_run cfg lib impl rs st' of (ws, st'') \<Rightarrow> (w # ws, st'')))"

text \<open>Every middleware of the chain hands on the request it was given, so only what is behind it for that request matters.\<close>

lemma server_handler_cong:
  assumes "mux r = mux' r"
  shows "server_handler cfg t mux r = server_handler cfg t mux' r"
proof -
  have "LoggingMiddleware mux r = LoggingMiddleware mux' r" using assms by (simp add: LoggingMiddleware_def fun_eq_iff)
  then have "CORSMiddleware os (LoggingMiddleware mux) r = CORSMiddleware os (LoggingMiddleware mux') r" for os
    by (simp add: CORSMiddleware_def Let_def fun_eq_iff)
  then have "ConfigurableRateLimitMiddleware cfg t (CORSMiddleware os (LoggingMiddleware mux)) r =
      ConfigurableRateLimitMiddleware cfg t (CORSMiddleware os (LoggingMiddleware mux')) r" for os
    by (auto simp: ConfigurableRateLimitMiddleware_def fun_eq_iff split: prod.split)
  then have "GzipMiddleware (ConfigurableRateLimitMiddleware cfg t (CORSMiddleware os (LoggingMiddleware mux))) r =
      GzipMiddleware (ConfigurableRateLimitMiddleware cfg t (CORSMiddleware os (LoggingMiddleware mux'))) r" for os
    by (auto simp: GzipMiddleware_def fun_eq_iff split: prod.split)
  then show ?thesis
    by (simp add: server_handler_def Chain_foldr Let_def RecoveryMiddleware_def RequestMetricsMiddleware_def fun_eq_iff)
qed

text \<open>C2: whatever is behind the protected routes, a run of requests without a valid token is answered the same and leaves the
  same state: through the whole chain (recovery, compression, rate limit, cross-origin headers, routing, authentication) an
  outsider sees and changes what the public handlers see and change, and nothing else.\<close>

theorem outsiders_meet_public_handlers_only:
  assumes "\<forall>e\<in>snd ` set registerPublicRoutes. impl e = impl' e"
    and "\<forall>(t, env, r)\<in>set rs. \<forall>v. fst (ValidateToken lib env (req_hdr r ''Authorization'') v) = None"
  shows "server_run cfg lib impl rs st = server_run cfg lib impl' rs st"
  using assms(2)
proof (induction rs arbitrary: st)
  case Nil
  then show ?case by simp
next
  case (Cons a rs)
  obtain t env r where a: "a = (t, env, r)" by (cases a)
  have "api lib env impl r (w, v, s) = api lib env impl' r (w, v, s)" for w v s
    using Cons.prems a assms(1) by (intro api_public_only) auto
  then have "over_counts (api lib env impl) r = over_counts (api lib env impl') r"
    by (auto simp: over_counts_def fun_eq_iff)
  then have "server cfg lib env impl t r = server cfg lib env impl' t r"
    unfolding server_def by (rule server_handler_cong)
  moreover have "server_run cfg lib impl rs st' = server_run cfg lib impl' rs st'" for st'
    using Cons.prems by (intro Cons.IH) auto
  ultimately show ?case by (simp add: a)
qed


definition log_endpoint :: "string \<Rightarrow> ('b, validator \<times> string list) handler" where
  "log_endpoint e r = (\<lambda>(w, v, s). respond (write_header 200 w) (v, e # s))"

theorem outsiders_meet_public_handlers_only_witness:
  "server_run zero_config sample_lib log_endpoint [(0, sample_auth, delete_project)] (Map.empty, sample_validator, []) =
   server_run zero_config sample_lib
     (\<lambda>e. if e = ''project.DeleteProject'' then (\<lambda>r ws. (Panicked, ws)) else log_endpoint e)
     [(0, sample_auth, delete_project)] (Map.empty, sample_validator, [])"
proof (rule outsiders_meet_public_handlers_only)
  have "''project.DeleteProject'' \<notin> snd ` set registerPublicRoutes" by code_simp
  then show "\<forall>e\<in>snd ` set registerPublicRoutes. log_endpoint e =
      (if e = ''project.DeleteProject'' then (\<lambda>r ws. (Panicked, ws)) else log_endpoint e)" by (intro ballI) (metis (full_types))
qed (simp add: delete_project_def plain_request_def ValidateToken_def)

definition signed_delete :: "unit request" where
  "signed_delete = delete_project\<lparr>req_hdr := (\<lambda>k. if k = ''Authorization'' then ''Bearer t'' else '''')\<rparr>"


end
